(* ===== verification/VM_Prelude.thy ===== *)
theory VM_Prelude
  imports Main "HOL-Library.Word"
begin

text \<open>
  Shared material of the development: the machine integer types, the result type that
  separates a defined outcome of the C code from undefined behaviour, its sequencing
  combinator, and the generic word lemmas the component theories rely on.
\<close>

unbundle bit_operations_syntax

type_synonym u8 = "8 word"
type_synonym u16 = "16 word"
type_synonym u32 = "32 word"
type_synonym u64 = "64 word"

named_theorems res_simps \<open>sequencing of fallible computations\<close>
named_theorems frame_simps \<open>what an operation leaves alone\<close>

section \<open>Outcomes of C code\<close>

text \<open>
  A fault stands for C code that the language gives no meaning to: an access outside
  the allocated memory or outside a table, a dereferenced null pointer, a read of an
  object or pointer that was never initialised, a shift by a negative amount or by the
  width or more, an overflow of a signed counter, an integer division that traps, and a call through a null function
  pointer. The values the code itself returns to report an error (\<open>-1\<close>, \<open>-5\<close>,
  \<open>-1000\<close>, \<open>1\<close>) are ordinary results.
\<close>

datatype fault = OutOfBounds | NullDeref | Uninit | BadShift | IntOverflow | DivTrap | NullCall

type_synonym 'a res = "fault + 'a"

definition bnd :: "'a res \<Rightarrow> ('a \<Rightarrow> 'b res) \<Rightarrow> 'b res" where
  "bnd m f = (case m of Inl e \<Rightarrow> Inl e | Inr x \<Rightarrow> f x)"

lemma bnd_Inl [simp, res_simps]: "bnd (Inl e) f = Inl e"
  by (simp add: bnd_def)

lemma bnd_Inr [simp, res_simps]: "bnd (Inr x) f = f x"
  by (simp add: bnd_def)

lemma bnd_assoc: "bnd (bnd m f) g = bnd m (\<lambda>x. bnd (f x) g)"
  by (cases m) simp_all

lemma bnd_eq_Inr [res_simps]: "bnd m f = Inr y \<longleftrightarrow> (\<exists>x. m = Inr x \<and> f x = Inr y)"
  by (cases m) simp_all

lemma bnd_eq_Inl: "bnd m f = Inl e \<longleftrightarrow> m = Inl e \<or> (\<exists>x. m = Inr x \<and> f x = Inl e)"
  by (cases m) auto

lemma bnd_InrE [elim]:
  assumes "bnd m f = Inr y"
  obtains x where "m = Inr x" "f x = Inr y"
  using assms by (auto simp: bnd_eq_Inr)

lemma bnd_cong [cong]: "m = m' \<Longrightarrow> (\<And>x. m' = Inr x \<Longrightarrow> f x = f' x) \<Longrightarrow> bnd m f = bnd m' f'"
  by (cases m') auto

text \<open>Two results with the same fault, or with related values.\<close>

abbreviation rel_res :: "('a \<Rightarrow> 'b \<Rightarrow> bool) \<Rightarrow> 'a res \<Rightarrow> 'b res \<Rightarrow> bool" where
  "rel_res \<equiv> rel_sum (=)"

lemma rel_res_bnd: "rel_res R a b \<Longrightarrow> (\<And>x y. a = Inr x \<Longrightarrow> b = Inr y \<Longrightarrow> R x y \<Longrightarrow> rel_res S (f x) (g y)) \<Longrightarrow> rel_res S (bnd a f) (bnd b g)"
  by (cases a; cases b) auto

lemma rel_res_iff: "rel_res R a b \<longleftrightarrow> (case a of Inl f \<Rightarrow> b = Inl f | Inr x \<Rightarrow> (\<exists>y. b = Inr y \<and> R x y))"
  by (cases a; cases b) auto

lemma if_Inl_eq_Inr [res_simps]: "(if b then m else Inl e) = Inr y \<longleftrightarrow> b \<and> m = Inr y"
  by simp

section \<open>Words\<close>

lemma u32_add_neq [simp]:
  "(a::u32) + 1 \<noteq> a + 2" "a + 1 \<noteq> a + 3" "a + 2 \<noteq> a + 3"
  "a + 2 \<noteq> a + 1" "a + 3 \<noteq> a + 1" "a + 3 \<noteq> a + 2"
  by simp_all

lemma and_or_absorb: "((w::'a::len word) OR f) AND f = f"
  by (rule bit_word_eqI) (auto simp: bit_simps)

lemma and_not_absorb: "((w::'a::len word) AND NOT f) AND f = 0"
  by (rule bit_word_eqI) (auto simp: bit_simps)

lemma or_and_disjoint:
  fixes w f g :: "'a::len word"
  assumes "f AND g = 0"
  shows "(w OR g) AND f = w AND f"
proof (rule bit_word_eqI)
  fix n assume "n < LENGTH('a)"
  have "\<not> (bit f n \<and> bit g n)"
    using assms by (metis bit_0_eq bit_and_iff bot_apply bot_bool_def)
  then show "bit ((w OR g) AND f) n = bit (w AND f) n"
    by (auto simp: bit_simps)
qed

lemma not_and_disjoint:
  fixes w f g :: "'a::len word"
  assumes "f AND g = 0"
  shows "(w AND NOT g) AND f = w AND f"
proof (rule bit_word_eqI)
  fix n assume n: "n < LENGTH('a)"
  have "\<not> (bit f n \<and> bit g n)"
    using assms by (metis bit_0_eq bit_and_iff bot_apply bot_bool_def)
  with n show "bit ((w AND NOT g) AND f) n = bit (w AND f) n"
    by (auto simp: bit_simps)
qed

text \<open>The bits of the mask constants of the source.\<close>

lemma mask_consts:
  "(0xFF::int) = mask 8" "(0xFFFF::int) = mask 16" "(0xFFFFFFFF::int) = mask 32"
  "(0xFF00::int) = push_bit 8 (mask 8)" "(0xFFFFFF00::int) = push_bit 8 (mask 24)"
  "(0xFFFF0000::int) = push_bit 16 (mask 16)" "(0xFFFFFFFF00000000::int) = push_bit 32 (mask 32)"
  "(0xFFFF00FF::int) = mask 8 OR push_bit 16 (mask 16)"
  "(0xFFFF00::int) = push_bit 8 (mask 16)" "(0xFFFFFF::int) = mask 24"
  by (simp_all add: mask_eq_exp_minus_1 push_bit_eq_mult)

lemma bit_mask_consts [bit_simps]:
  "bit (0xFF::int) n \<longleftrightarrow> n < 8" "bit (0xFFFF::int) n \<longleftrightarrow> n < 16"
  "bit (0xFFFFFFFF::int) n \<longleftrightarrow> n < 32"
  "bit (0xFF00::int) n \<longleftrightarrow> 8 \<le> n \<and> n < 16" "bit (0xFFFFFF00::int) n \<longleftrightarrow> 8 \<le> n \<and> n < 32"
  "bit (0xFFFF0000::int) n \<longleftrightarrow> 16 \<le> n \<and> n < 32"
  "bit (0xFFFFFFFF00000000::int) n \<longleftrightarrow> 32 \<le> n \<and> n < 64"
  "bit (0xFFFF00FF::int) n \<longleftrightarrow> n < 32 \<and> \<not> (8 \<le> n \<and> n < 16)"
  "bit (0xFFFF00::int) n \<longleftrightarrow> 8 \<le> n \<and> n < 24" "bit (0xFFFFFF::int) n \<longleftrightarrow> n < 24"
  unfolding mask_consts by (auto simp: bit_simps)

lemma and_exp_neq_0: "(w::'a::len word) AND 2 ^ n \<noteq> 0 \<longleftrightarrow> bit w n"
proof
  assume "w AND 2 ^ n \<noteq> 0"
  then obtain k where "bit (w AND 2 ^ n) k"
    using bit_eq_iff [of "w AND 2 ^ n" 0] by auto
  then show "bit w n" by (auto simp: bit_simps)
next
  assume "bit w n"
  then have "bit (w AND 2 ^ n) n"
    by (auto simp: bit_simps dest: bit_imp_le_length)
  then show "w AND 2 ^ n \<noteq> 0" by auto
qed

lemma msb_tests:
  "(v8::u8) AND 0x80 \<noteq> 0 \<longleftrightarrow> bit v8 7"
  "(v16::u16) AND 0x8000 \<noteq> 0 \<longleftrightarrow> bit v16 15"
  "(v32::u32) AND 0x80000000 \<noteq> 0 \<longleftrightarrow> bit v32 31"
  using and_exp_neq_0 [of v8 7] and_exp_neq_0 [of v16 15] and_exp_neq_0 [of v32 31] by simp_all

lemma bit_u8_high [simp]: "8 \<le> n \<Longrightarrow> \<not> bit (b::u8) n"
  using bit_imp_le_length [of b n] by auto

lemma bit_u16_high [simp]: "16 \<le> n \<Longrightarrow> \<not> bit (b::u16) n"
  using bit_imp_le_length [of b n] by auto

lemma bit_u32_high [simp]: "32 \<le> n \<Longrightarrow> \<not> bit (b::u32) n"
  using bit_imp_le_length [of b n] by auto

section \<open>Signed and unsigned overflow\<close>

lemma drop_bit_ucast_top:
  fixes r :: "'a::len word"
  assumes "LENGTH('a) \<le> LENGTH('b::len)"
  shows "drop_bit (LENGTH('a) - 1) (ucast r :: 'b word) \<noteq> 0 \<longleftrightarrow> bit r (LENGTH('a) - 1)"
proof -
  have "bit (drop_bit (LENGTH('a) - 1) (ucast r :: 'b word)) n \<longleftrightarrow> n = 0 \<and> bit r (LENGTH('a) - 1)" for n
    using bit_imp_le_length [of r "LENGTH('a) - 1 + n"] assms by (cases n) (auto simp: bit_simps)
  then show ?thesis by (metis bit_0_eq bit_eqI bot_apply bot_bool_def)
qed

lemma drop_bit_and_1: "(drop_bit n (w::'a::len word) AND 1 \<noteq> 0) = bit w n"
  by (simp add: bit_iff_odd_drop_bit and_one_eq odd_iff_mod_2_eq_one)

lemma sint_bounds:
  "- (2 ^ (LENGTH('a) - 1)) \<le> sint (x::'a::len word)" "sint x < 2 ^ (LENGTH('a) - 1)"
  using sint_greater_eq [of x] sint_less [of x] by simp_all

lemma sint_wrap:
  fixes x y :: "'a::len word"
  assumes M: "M = 2 ^ (LENGTH('a) - 1)"
  shows "sint (x + y) = (sint x + sint y + M) mod (2 * M) - M"
    and "sint (x - y) = (sint x - sint y + M) mod (2 * M) - M"
proof -
  have M2: "2 * M = 2 ^ LENGTH('a)" by (simp add: M flip: power_Suc)
  show "sint (x + y) = (sint x + sint y + M) mod (2 * M) - M"
    unfolding M2 by (simp add: M sint_word_ariths signed_take_bit_eq_take_bit_shift take_bit_eq_mod)
  show "sint (x - y) = (sint x - sint y + M) mod (2 * M) - M"
    unfolding M2 by (simp add: M sint_word_ariths signed_take_bit_eq_take_bit_shift take_bit_eq_mod)
qed

lemma wrap_cases:
  fixes S M :: int
  assumes "0 < M" "- (2 * M) \<le> S" "S < 2 * M"
  shows "(S + M) mod (2 * M) - M = (if S < - M then S + 2 * M else if S < M then S else S - 2 * M)"
proof -
  have up: "(S + M) mod (2 * M) = (S + M + 2 * M) mod (2 * M)"
    by (rule mod_add_self2 [symmetric])
  have down: "(S + M) mod (2 * M) = (S + M - 2 * M) mod (2 * M)"
    by (rule minus_mod_self2 [symmetric])
  consider "S < - M" | "- M \<le> S" "S < M" | "M \<le> S" by linarith
  then show ?thesis
  proof cases
    case 1
    then show ?thesis using assms by (simp only: up) (simp add: mod_pos_pos_trivial)
  next
    case 2
    then show ?thesis using assms by (simp add: mod_pos_pos_trivial)
  next
    case 3
    then show ?thesis using assms by (simp only: down) (simp add: mod_pos_pos_trivial)
  qed
qed

lemma bit_top_sint: "bit (w::'a::len word) (LENGTH('a) - 1) \<longleftrightarrow> sint w < 0"
  using bit_last_iff [of w] by simp

lemma add_ovf_bit:
  fixes x y :: "'a::len word"
  shows "bit ((x XOR (x + y)) AND (y XOR (x + y))) (LENGTH('a) - 1) \<longleftrightarrow> sint x + sint y \<noteq> sint (x + y)"
proof -
  define M where "M = (2::int) ^ (LENGTH('a) - 1)"
  have b: "- M \<le> sint x" "sint x < M" "- M \<le> sint y" "sint y < M" "0 < M"
    using sint_bounds [of x] sint_bounds [of y] by (simp_all add: M_def)
  have "sint (x + y) = (let S = sint x + sint y in
      if S < - M then S + 2 * M else if S < M then S else S - 2 * M)"
    using wrap_cases [of M "sint x + sint y"] b by (simp only: sint_wrap [OF M_def] Let_def)
  then show ?thesis using b
    unfolding bit_and_iff bit_xor_iff Let_def unfolding bit_top_sint by (auto split: if_splits)
qed

lemma carry_add:
  fixes x y :: "'a::len word"
  shows "x > x + y \<longleftrightarrow> unat x + unat y \<ge> 2 ^ LENGTH('a)"
proof -
  have "(uint x + uint y < 2 ^ LENGTH('a)) = (unat x + unat y < 2 ^ LENGTH('a))"
    using of_nat_less_iff [of "unat x + unat y" "2 ^ LENGTH('a)", where 'a = int] by simp
  then show ?thesis using no_olen_add [of x y] by (simp add: not_le [symmetric])
qed

lemma sint_sub_same_sign:
  fixes x y :: "'a::len word"
  assumes "sint x < 0 \<longleftrightarrow> sint y < 0"
  shows "sint (x - y) = sint x - sint y"
proof -
  define M where "M = (2::int) ^ (LENGTH('a) - 1)"
  have b: "- M \<le> sint x" "sint x < M" "- M \<le> sint y" "sint y < M" "0 < M"
    using sint_bounds [of x] sint_bounds [of y] by (simp_all add: M_def)
  have "- M \<le> sint x - sint y" "sint x - sint y < M"
    using b assms by linarith+
  then show ?thesis
    using wrap_cases [of M "sint x - sint y"] b by (simp add: sint_wrap(2) [OF M_def])
qed

text \<open>
  The formula \<open>(op1 ^ res) & (op2 ^ res)\<close> is the overflow bit of an addition. Applied
  to a difference it is the sign bit of that difference for operands of equal sign.
\<close>

lemma sub_ovf_bit:
  fixes x y :: "'a::len word"
  shows "bit ((x XOR (x - y)) AND (y XOR (x - y))) (LENGTH('a) - 1) \<longleftrightarrow>
    (sint x < 0 \<longleftrightarrow> sint y < 0) \<and> (sint x < 0 \<longleftrightarrow> sint y \<le> sint x)"
  unfolding bit_and_iff bit_xor_iff unfolding bit_top_sint
  using sint_sub_same_sign [of x y] by auto

text \<open>The carry out of the low four bits of a sum.\<close>

lemma bit4_adc_int:
  assumes "c = 0 \<or> c = 1"
  shows "bit (x + y + c :: int) 4 \<longleftrightarrow> (bit x 4 \<noteq> bit y 4) \<noteq> (x mod 16 + y mod 16 + c \<ge> 16)"
proof -
  have "(x + y + c) div 16 = x div 16 + y div 16 + (x mod 16 + y mod 16 + c) div 16"
  proof -
    have e: "x + y + c = (x mod 16 + y mod 16 + c) + (x div 16 + y div 16) * 16"
    proof -
      have "x = a + p * 16 \<Longrightarrow> y = b + q * 16 \<Longrightarrow> x + y + c = (a + b + c) + (p + q) * 16" for a b p q
        by simp
      from this [of "x mod 16" "x div 16" "y mod 16" "y div 16"] show ?thesis by simp
    qed
    show ?thesis
      using div_mult_self1 [of 16 "x mod 16 + y mod 16 + c" "x div 16 + y div 16"] unfolding e [symmetric] by simp
  qed
  moreover have "(x mod 16 + y mod 16 + c) div 16 = (if x mod 16 + y mod 16 + c \<ge> 16 then 1 else 0)"
    using assms pos_mod_bound [of 16 x] pos_mod_bound [of 16 y] pos_mod_sign [of 16 x] pos_mod_sign [of 16 y]
    by (auto simp: div_pos_geq)
  ultimately have "(x + y + c) div 16 = x div 16 + y div 16 + (if x mod 16 + y mod 16 + c \<ge> 16 then 1 else 0)"
    by simp
  moreover have "bit z 4 \<longleftrightarrow> odd (z div 16)" for z :: int
    by (simp add: bit_iff_odd)
  ultimately show ?thesis by (simp split: if_splits)
qed

lemma bit4_add_int: "bit (x + y :: int) 4 \<longleftrightarrow> (bit x 4 \<noteq> bit y 4) \<noteq> (x mod 16 + y mod 16 \<ge> 16)"
  using bit4_adc_int [of 0 x y] by simp

lemma half_carry:
  fixes x y :: "'a::len word"
  assumes "4 < LENGTH('a)"
  shows "bit (x XOR y XOR (x + y)) 4 \<longleftrightarrow> unat x mod 16 + unat y mod 16 \<ge> 16"
proof -
  have b: "bit w 4 = bit (uint w) 4" for w :: "'a word"
    using assms by (auto simp: bit_uint_iff)
  have "bit (uint (x + y)) 4 = bit (uint x + uint y) 4"
    unfolding uint_word_ariths(1) using assms by (subst take_bit_eq_mod [symmetric]) (simp only: bit_take_bit_iff simp_thms)
  moreover have "uint w mod 16 = int (unat w mod 16)" for w :: "'a word"
    by (simp add: zmod_int)
  moreover have "int m + int n \<ge> 16 \<longleftrightarrow> m + n \<ge> 16" for m n :: nat
    by linarith
  ultimately have "bit (uint (x + y)) 4 \<longleftrightarrow> (bit (uint x) 4 \<noteq> bit (uint y) 4) \<noteq> (unat x mod 16 + unat y mod 16 \<ge> 16)"
    using bit4_add_int [of "uint x" "uint y"] by simp
  then show ?thesis unfolding bit_xor_iff unfolding b by blast
qed

text \<open>The borrow of the low four bits of a difference.\<close>

lemma half_borrow:
  fixes x y :: "'a::len word"
  assumes "4 < LENGTH('a)"
  shows "bit (x XOR y XOR (x - y)) 4 \<longleftrightarrow> unat x mod 16 < unat y mod 16"
proof -
  define z where "z = x - y"
  have x: "x = z + y" by (simp add: z_def)
  have "bit (x XOR y XOR (x - y)) 4 = bit (z XOR y XOR (z + y)) 4"
    unfolding bit_xor_iff by (auto simp: z_def)
  also have "\<dots> \<longleftrightarrow> unat z mod 16 + unat y mod 16 \<ge> 16"
    by (rule half_carry [OF assms])
  also have "\<dots> \<longleftrightarrow> unat x mod 16 < unat y mod 16"
  proof -
    have "(16::nat) dvd 2 ^ LENGTH('a)"
      using assms le_imp_power_dvd [of 4 "LENGTH('a)" "2::nat"] by simp
    then have "unat x mod 16 = (unat z + unat y) mod 16"
      by (simp add: x unat_word_ariths mod_mod_cancel)
    also have "\<dots> = (unat z mod 16 + unat y mod 16) mod 16"
      by (simp add: mod_add_eq)
    finally have x16: "unat x mod 16 = (unat z mod 16 + unat y mod 16) mod 16" .
    have b: "unat z mod 16 < 16" "unat y mod 16 < 16" by simp_all
    show ?thesis
    proof (cases "unat z mod 16 + unat y mod 16 < 16")
      case True
      with x16 show ?thesis by simp
    next
      case False
      then have "(unat z mod 16 + unat y mod 16) mod 16 = unat z mod 16 + unat y mod 16 - 16"
        using b by (subst mod_if) (simp add: mod_less)
      with x16 b False show ?thesis by linarith
    qed
  qed
  finally show ?thesis .
qed

section \<open>Widening\<close>

lemma unat_ucast_u32 [simp]:
  "unat (ucast (x8::u8) :: u32) = unat x8" "unat (ucast (x16::u16) :: u32) = unat x16"
  using unsigned_less [of x8, where 'a = nat] unsigned_less [of x16, where 'a = nat]
  by (simp_all add: unsigned_ucast_eq take_bit_nat_eq_self)

lemma ucast_less:
  "(ucast (x8::u8) :: u32) < ucast y8 \<longleftrightarrow> x8 < y8" "(ucast (x16::u16) :: u32) < ucast y16 \<longleftrightarrow> x16 < y16"
  by (simp_all add: word_less_nat_alt)

section \<open>Sums with a carry in\<close>

lemma half_carry_adc:
  fixes x y :: u32
  shows "bit (x XOR y XOR (x + (y + of_bool c))) 4 \<longleftrightarrow> unat x mod 16 + unat y mod 16 + of_bool c \<ge> 16"
proof -
  have b: "bit w 4 = bit (uint w) 4" for w :: u32
    by (auto simp: bit_uint_iff)
  have "uint (x + (y + of_bool c)) = take_bit 32 (uint x + uint y + of_bool c)"
    by (cases c) (simp_all add: uint_word_ariths take_bit_eq_mod mod_simps add.assoc)
  then have "bit (uint (x + (y + of_bool c))) 4 = bit (uint x + uint y + of_bool c) 4"
    by (simp add: bit_take_bit_iff)
  moreover have "uint w mod 16 = int (unat w mod 16)" for w :: u32
    by (simp add: zmod_int)
  moreover have "int m + int n + of_bool c \<ge> 16 \<longleftrightarrow> m + n + of_bool c \<ge> 16" for m n :: nat
    by (cases c) (simp_all, linarith+)
  ultimately have "bit (uint (x + (y + of_bool c))) 4 \<longleftrightarrow> (bit (uint x) 4 \<noteq> bit (uint y) 4) \<noteq>
      (unat x mod 16 + unat y mod 16 + of_bool c \<ge> 16)"
    using bit4_adc_int [of "of_bool c" "uint x" "uint y"] by simp
  then show ?thesis unfolding bit_xor_iff unfolding b by blast
qed

lemma sint_adc:
  fixes x y :: u32
  assumes M: "M = 2 ^ 31"
  shows "sint (x + (y + of_bool c)) = (sint x + sint y + of_bool c + M) mod (2 * M) - M"
proof -
  have M': "M = 2 ^ (LENGTH(32) - 1)" by (simp add: M)
  show ?thesis
  proof (cases c)
    case True
    have "sint (x + (y + 1)) = (sint x + sint (y + 1) + M) mod (2 * M) - M"
      "sint (y + 1) = (sint y + 1 + M) mod (2 * M) - M"
      by (simp_all add: sint_wrap(1) [OF M'])
    then have "sint (x + (y + 1)) = (sint x + (sint y + 1 + M) mod (2 * M)) mod (2 * M) - M"
      by simp
    then show ?thesis using True by (simp add: mod_simps add.assoc)
  next
    case False
    then show ?thesis by (simp add: sint_wrap(1) [OF M'])
  qed
qed

lemma adc_ovf_bit:
  fixes x y :: u32
  shows "bit ((x XOR (x + (y + of_bool c))) AND (y XOR (x + (y + of_bool c)))) 31 \<longleftrightarrow>
    sint x + sint y + of_bool c \<noteq> sint (x + (y + of_bool c))"
proof -
  define M where "M = (2::int) ^ 31"
  have b: "- M \<le> sint x" "sint x < M" "- M \<le> sint y" "sint y < M" "0 < M"
    using sint_bounds [of x] sint_bounds [of y] by (simp_all add: M_def)
  have s: "sint (x + (y + of_bool c)) = (let S = sint x + sint y + of_bool c in
      if S < - M then S + 2 * M else if S < M then S else S - 2 * M)"
    using wrap_cases [of M "sint x + sint y + of_bool c"] b by (simp only: sint_adc [OF M_def] Let_def) (cases c; simp)
  have t: "bit w 31 \<longleftrightarrow> sint w < 0" for w :: u32 using bit_top_sint [of w] by simp
  show ?thesis
    unfolding bit_and_iff bit_xor_iff unfolding t using s b by (cases c) (auto simp: Let_def split: if_splits)
qed

lemma carry_adc:
  fixes x y :: u32
  shows "x > x + (y + of_bool c) \<longleftrightarrow> unat x + unat y + of_bool c \<ge> 2 ^ 32 \<and> \<not> (c \<and> y = - 1)"
proof -
  have "unat (y + 1) = (if y = - 1 then 0 else unat y + 1)"
    using unatSuc [of y] by (auto simp: add.commute eq_neg_iff_add_eq_0) 
  then show ?thesis
    using carry_add [of x "y + of_bool c"] unsigned_less [of x, where 'a = nat] by (cases c) auto
qed
section \<open>Differences of narrow operands\<close>

lemma unat_drop_bit: "unat (drop_bit n (w::'a::len word)) = unat w div 2 ^ n"
  using unsigned_less [of w, where 'a = nat]
  by (subst unsigned_drop_bit_eq) (simp add: drop_bit_eq_div take_bit_nat_eq_self)

lemma drop_bit_neq_0: "drop_bit n (w::'a::len word) \<noteq> 0 \<longleftrightarrow> unat w \<ge> 2 ^ n"
  using unat_drop_bit [of n w]
  by (metis div_less div_greater_zero_iff not_less unat_eq_0 less_numeral_extra(3) zero_less_numeral zero_less_power)

lemma ucast_diff_u8:
  "(ucast (a::u8) :: u32) - ucast b = (if b \<le> a then ucast (a - b) else - ucast (b - a))"
proof -
  have "(ucast (x - y :: u8) :: u32) = ucast x - ucast y" if "y \<le> x" for x y
    using that by (simp add: word_unat_eq_iff unat_sub word_le_nat_alt)
  from this [of b a] this [of a b] show ?thesis by auto
qed

section \<open>Rotations\<close>

lemma rotr_word:
  assumes "0 < n" "n < LENGTH('a)"
  shows "drop_bit n v OR push_bit (LENGTH('a) - n) v = word_rotr n (v::'a::len word)"
proof (rule bit_word_eqI)
  fix m assume m: "m < LENGTH('a)"
  show "bit (drop_bit n v OR push_bit (LENGTH('a) - n) v) m = bit (word_rotr n v) m"
  proof (cases "m + n < LENGTH('a)")
    case True
    then have "\<not> LENGTH('a) - n \<le> m" by simp
    with True m assms show ?thesis by (simp add: bit_simps add.commute)
  next
    case False
    with m assms have "(m + n) mod LENGTH('a) = m + n - LENGTH('a)"
      by (simp add: mod_if)
    with False m assms show ?thesis
      by (auto simp: bit_simps add.commute dest: bit_imp_le_length)
  qed
qed

lemma rotl_word:
  assumes "0 < n" "n < LENGTH('a)"
  shows "push_bit n v OR drop_bit (LENGTH('a) - n) v = word_rotl n (v::'a::len word)"
  using rotr_word [of "LENGTH('a) - n" v] assms by (simp add: word_rotl_eq_word_rotr or.commute)

section \<open>Addresses as numbers\<close>

lemma of_nat_u32_eq: "m < 2 ^ 32 \<Longrightarrow> n < 2 ^ 32 \<Longrightarrow> (of_nat m :: u32) = of_nat n \<longleftrightarrow> m = n"
  by (simp add: word_unat_eq_iff unat_of_nat take_bit_nat_eq_self)

end
