(* ===== verification/VM_Machine.thy ===== *)
theory VM_Machine
  imports VM_Prelude
begin

text \<open>
  The state of the simulator (the global variables of \<open>src/src/instr.c\<close> and
  \<open>src/src/flags.c\<close>), the C pointers the code forms into it, the decoded instruction
  that the Capstone library hands to a handler, and the auxiliary functions at the end of
  \<open>instr.c\<close> (memory access, register access, effective addresses, extensions).
\<close>

section \<open>State\<close>

text \<open>
  The registers are global \<open>uint32_t\<close> variables whose addresses are stored in the table
  \<open>regs[]\<close>; the store \<open>var\<close> is indexed by the variable, so aliasing through the
  table is explicit. Of the control, debug and test registers only \<open>cr0\<close> is ever used.
  The memory is a block of \<open>UINT32_MAX\<close> bytes: the byte at index \<open>0xFFFFFFFF\<close> is
  not part of it. The field \<open>outp\<close> is no variable of the program: it records, latest last, what
  the output instructions hand to the host's \<open>/dev/port\<close>.
\<close>

datatype gvar = EAX | EDX | ESP | ESI | EIP | CS | DS | FS | ECX | EBX | EBP | EDI
  | SS | ES | GS | EFLAGS | CR0

record GDTR =
  dtr_limit :: u16
  dtr_base :: u32

record cpu =
  var :: "gvar \<Rightarrow> u32"
  mem :: "u32 \<Rightarrow> u8"
  ldtr :: u16
  gdtr :: GDTR
  idtr :: GDTR
  outp :: "(u16 \<times> u8 list) list"

abbreviation wr :: "gvar \<Rightarrow> u32 \<Rightarrow> cpu \<Rightarrow> cpu" where
  "wr v x \<equiv> var_update (\<lambda>f. f(v := x))"

definition MEM_BYTES :: nat where
  "MEM_BYTES = 2 ^ 32 - 1"

section \<open>Memory access functions\<close>

definition idx_ok :: "u32 \<Rightarrow> bool" where
  "idx_ok a = (a \<noteq> 0xFFFFFFFF)"

definition le16 :: "(u32 \<Rightarrow> u8) \<Rightarrow> u32 \<Rightarrow> u16" where
  "le16 m a = ucast (m a) OR push_bit 8 (ucast (m (a + 1)))"

definition le32 :: "(u32 \<Rightarrow> u8) \<Rightarrow> u32 \<Rightarrow> u32" where
  "le32 m a = ucast (m a) OR push_bit 8 (ucast (m (a + 1)))
     OR push_bit 16 (ucast (m (a + 2))) OR push_bit 24 (ucast (m (a + 3)))"

definition put16 :: "u32 \<Rightarrow> u16 \<Rightarrow> (u32 \<Rightarrow> u8) \<Rightarrow> (u32 \<Rightarrow> u8)" where
  "put16 a v m = m(a := ucast (v AND 0xFF), a + 1 := ucast (drop_bit 8 v AND 0xFF))"

definition put32 :: "u32 \<Rightarrow> u32 \<Rightarrow> (u32 \<Rightarrow> u8) \<Rightarrow> (u32 \<Rightarrow> u8)" where
  "put32 a v m = m(a := ucast (v AND 0xFF), a + 1 := ucast (drop_bit 8 v AND 0xFF),
     a + 2 := ucast (drop_bit 16 v AND 0xFF), a + 3 := ucast (drop_bit 24 v AND 0xFF))"

definition write16 :: "u32 \<Rightarrow> u16 \<Rightarrow> cpu \<Rightarrow> cpu res" where
  "write16 addr value s =
     (if idx_ok addr \<and> idx_ok (addr + 1) then Inr (mem_update (put16 addr value) s)
      else Inl OutOfBounds)"

definition write32 :: "u32 \<Rightarrow> u32 \<Rightarrow> cpu \<Rightarrow> cpu res" where
  "write32 addr value s =
     (if idx_ok addr \<and> idx_ok (addr + 1) \<and> idx_ok (addr + 2) \<and> idx_ok (addr + 3)
      then Inr (mem_update (put32 addr value) s)
      else Inl OutOfBounds)"

definition read16 :: "u32 \<Rightarrow> cpu \<Rightarrow> u16 res" where
  "read16 addr s =
     (if idx_ok addr \<and> idx_ok (addr + 1) then Inr (le16 (mem s) addr) else Inl OutOfBounds)"

definition read32 :: "u32 \<Rightarrow> cpu \<Rightarrow> u32 res" where
  "read32 addr s =
     (if idx_ok addr \<and> idx_ok (addr + 1) \<and> idx_ok (addr + 2) \<and> idx_ok (addr + 3)
      then Inr (le32 (mem s) addr)
      else Inl OutOfBounds)"

section \<open>C pointers\<close>

text \<open>
  \<open>PVar v\<close> is \<open>&v\<close>, \<open>PMem k\<close> is \<open>mem + k\<close> (64-bit pointer arithmetic, so it
  does not wrap at \<open>2 ^ 32\<close>). The host is little-endian: an 8- or 16-bit access through
  \<open>&v\<close> touches the low bytes of the variable.
\<close>

datatype ptr = Null | PVar gvar | PMem nat

fun load8 :: "ptr \<Rightarrow> cpu \<Rightarrow> u8 res" where
  "load8 Null s = Inl NullDeref"
| "load8 (PVar v) s = Inr (ucast (var s v))"
| "load8 (PMem k) s = (if k + 1 \<le> MEM_BYTES then Inr (mem s (of_nat k)) else Inl OutOfBounds)"

fun load16 :: "ptr \<Rightarrow> cpu \<Rightarrow> u16 res" where
  "load16 Null s = Inl NullDeref"
| "load16 (PVar v) s = Inr (ucast (var s v))"
| "load16 (PMem k) s =
     (if k + 2 \<le> MEM_BYTES then Inr (le16 (mem s) (of_nat k)) else Inl OutOfBounds)"

fun load32 :: "ptr \<Rightarrow> cpu \<Rightarrow> u32 res" where
  "load32 Null s = Inl NullDeref"
| "load32 (PVar v) s = Inr (var s v)"
| "load32 (PMem k) s =
     (if k + 4 \<le> MEM_BYTES then Inr (le32 (mem s) (of_nat k)) else Inl OutOfBounds)"

fun store8 :: "ptr \<Rightarrow> u8 \<Rightarrow> cpu \<Rightarrow> cpu res" where
  "store8 Null x s = Inl NullDeref"
| "store8 (PVar v) x s = Inr (wr v ((var s v AND 0xFFFFFF00) OR ucast x) s)"
| "store8 (PMem k) x s =
     (if k + 1 \<le> MEM_BYTES then Inr (mem_update (\<lambda>m. m(of_nat k := x)) s) else Inl OutOfBounds)"

fun store16 :: "ptr \<Rightarrow> u16 \<Rightarrow> cpu \<Rightarrow> cpu res" where
  "store16 Null x s = Inl NullDeref"
| "store16 (PVar v) x s = Inr (wr v ((var s v AND 0xFFFF0000) OR ucast x) s)"
| "store16 (PMem k) x s =
     (if k + 2 \<le> MEM_BYTES then Inr (mem_update (put16 (of_nat k) x) s) else Inl OutOfBounds)"

fun store32 :: "ptr \<Rightarrow> u32 \<Rightarrow> cpu \<Rightarrow> cpu res" where
  "store32 Null x s = Inl NullDeref"
| "store32 (PVar v) x s = Inr (wr v x s)"
| "store32 (PMem k) x s =
     (if k + 4 \<le> MEM_BYTES then Inr (mem_update (put32 (of_nat k) x) s) else Inl OutOfBounds)"

text \<open>\<open>AL\<close> and \<open>AH\<close> as the code reaches them: \<open>(uint8_t *)&eax\<close> and the byte after it.\<close>

definition get_al :: "cpu \<Rightarrow> u8" where
  "get_al s = ucast (var s EAX)"

definition get_ah :: "cpu \<Rightarrow> u8" where
  "get_ah s = ucast (drop_bit 8 (var s EAX))"

definition set_al :: "u8 \<Rightarrow> cpu \<Rightarrow> cpu" where
  "set_al x s = wr EAX ((var s EAX AND 0xFFFFFF00) OR ucast x) s"

definition set_ah :: "u8 \<Rightarrow> cpu \<Rightarrow> cpu" where
  "set_ah x s = wr EAX ((var s EAX AND 0xFFFF00FF) OR push_bit 8 (ucast x)) s"

definition lo16 :: "gvar \<Rightarrow> cpu \<Rightarrow> u16" where
  "lo16 v s = ucast (var s v)"

definition set_lo16 :: "gvar \<Rightarrow> u16 \<Rightarrow> cpu \<Rightarrow> cpu" where
  "set_lo16 v x s = wr v ((var s v AND 0xFFFF0000) OR ucast x) s"

section \<open>Decoded instructions\<close>

text \<open>
  What the handlers read of Capstone's \<open>cs_insn\<close>. The three members of the operand's
  union (\<open>reg\<close>, \<open>imm\<close>, \<open>mem\<close>) are separate fields, so a handler that reads a
  member the operand's type does not select gets an arbitrary value, as it does in C.
\<close>

datatype x86_op_type = X86_OP_INVALID | X86_OP_REG | X86_OP_IMM | X86_OP_MEM

record x86_op_mem =
  m_segment :: nat
  m_base :: nat
  m_index :: nat
  m_scale :: u32
  m_disp :: u64

record cs_x86_op =
  op_type :: x86_op_type
  op_reg :: nat
  op_imm :: u64
  op_mem :: x86_op_mem
  op_size :: u8

record cs_insn =
  insn_size :: u16
  insn_bytes :: "nat \<Rightarrow> u8"
  mnemonic :: string
  prefix :: "nat \<Rightarrow> u8"
  op_count :: u8
  operands :: "nat \<Rightarrow> cs_x86_op"

abbreviation op1 :: "cs_insn \<Rightarrow> cs_x86_op" where
  "op1 i \<equiv> operands i 0"

abbreviation op2 :: "cs_insn \<Rightarrow> cs_x86_op" where
  "op2 i \<equiv> operands i 1"

abbreviation op3 :: "cs_insn \<Rightarrow> cs_x86_op" where
  "op3 i \<equiv> operands i 2"

text \<open>The statement \<open>eip += insn->size;\<close> that opens almost every handler.\<close>

definition adv :: "cs_insn \<Rightarrow> cpu \<Rightarrow> cpu" where
  "adv i s = wr EIP (var s EIP + ucast (insn_size i)) s"

section \<open>Register tables\<close>

definition regs :: "ptr list" where
  "regs = [Null, PVar EAX, PVar EAX, PVar EAX, PVar EBX, PVar EBX, PVar EBP, Null, PVar EBX,
     PVar ECX, PVar ECX, PVar CS, PVar ECX, PVar EDX, PVar EDI, Null, PVar EDX, PVar DS,
     PVar EDX, PVar EAX, PVar EBP, PVar EBX, PVar ECX, PVar EDI, PVar EDX, PVar EFLAGS,
     PVar EIP, Null, PVar ES, PVar ESI, PVar ESP, Null, PVar FS, PVar GS, PVar EIP,
     Null, Null, Null, Null, Null, Null, Null, Null, Null, Null,
     PVar ESI, Null, PVar ESP, Null, PVar SS]"

definition regs_size :: "u8 list" where
  "regs_size = [0, 0x08, 0x08, 0x10, 0x08, 0x08, 0x10, 0, 0x10, 0x08, 0x08, 0x10, 0x10, 0x08,
     0x10, 0, 0x08, 0x10, 0x10, 0x20, 0x20, 0x20, 0x20, 0x20, 0x20, 0x20, 0x20, 0, 0x10,
     0x20, 0x20, 0, 0x10, 0x10, 0x10, 0, 0, 0, 0, 0, 0, 0, 0, 0, 0, 0x10, 0, 0x10, 0, 0x10]"

text \<open>Indexing \<open>regs[id]\<close> and \<open>regs_size[id]\<close>: both tables have 50 entries.\<close>

definition regs_at :: "nat \<Rightarrow> ptr res" where
  "regs_at r = (if r < 50 then Inr (regs ! r) else Inl OutOfBounds)"

definition regs_size_at :: "nat \<Rightarrow> u8 res" where
  "regs_size_at r = (if r < 50 then Inr (regs_size ! r) else Inl OutOfBounds)"

text \<open>
  \<open>reg_val\<close>: the branch for a null entry has its \<open>return\<close> commented out, so the
  function ends without a value.
\<close>

definition reg_val :: "int \<Rightarrow> cpu \<Rightarrow> u32 res" where
  "reg_val reg_id s =
     (if reg_id < 0 \<or> reg_id > 49 then Inr (- 1)
      else
        (let p = regs ! nat reg_id; base = regs_size ! nat reg_id in
         if p \<noteq> Null \<and> base \<noteq> 0 then
           (if base = 0x8 then bnd (load8 p s) (\<lambda>x. Inr (ucast x))
            else if base = 0x10 then bnd (load16 p s) (\<lambda>x. Inr (ucast x))
            else load32 p s)
         else Inl Uninit))"

section \<open>Extensions and powers\<close>

definition sign_extend8_32 :: "u8 \<Rightarrow> u32" where
  "sign_extend8_32 v = (if v AND 0x80 \<noteq> 0 then ucast v OR 0xFFFFFF00 else ucast v)"

definition sign_extend16_32 :: "u16 \<Rightarrow> u32" where
  "sign_extend16_32 v = (if v AND 0x8000 \<noteq> 0 then ucast v OR 0xFFFF0000 else ucast v)"

definition sign_extend8_16 :: "u8 \<Rightarrow> u16" where
  "sign_extend8_16 v = (if v AND 0x80 \<noteq> 0 then ucast v OR 0xFF00 else ucast v)"

definition sign_extend32_64 :: "u32 \<Rightarrow> u64" where
  "sign_extend32_64 v =
     (if v AND 0x80000000 \<noteq> 0 then ucast v OR 0xFFFFFFFF00000000 else ucast v)"

definition zero_extend8_32 :: "u8 \<Rightarrow> u32" where
  "zero_extend8_32 v = ucast v AND 0x000000FF"

definition zero_extend16_32 :: "u16 \<Rightarrow> u32" where
  "zero_extend16_32 v = ucast v AND 0x0000FFFF"

definition zero_extend8_16 :: "u8 \<Rightarrow> u16" where
  "zero_extend8_16 v = ucast v AND 0x00FF"

text \<open>The loop of \<open>pow_i\<close>: \<open>while (exp > 0) { result *= b; exp--; }\<close>.\<close>

function pow_loop :: "u32 \<Rightarrow> u32 \<Rightarrow> u32 \<Rightarrow> u32" where
  "pow_loop b exp result = (if exp > 0 then pow_loop b (exp - 1) (result * b) else result)"
  by pat_completeness auto
termination
  by (relation "measure (\<lambda>(b, exp, result). unat exp)") (auto simp: word_gt_0 measure_unat)

declare pow_loop.simps [simp del]

definition pow_i :: "u32 \<Rightarrow> u32 \<Rightarrow> u32" where
  "pow_i b exp = pow_loop b exp 1"


section \<open>Byte order\<close>

lemma ucast_mask8 [simp]:
  "(ucast (w AND 0xFF :: u32) :: u8) = ucast w" "(ucast (v AND 0xFF :: u16) :: u8) = ucast v"
  by (rule bit_word_eqI, simp add: bit_simps)+

lemma le16_put16 [simp]: "le16 (put16 a v m) a = v"
  unfolding le16_def put16_def
  by (rule bit_word_eqI) (auto simp: bit_simps)

lemma le32_put32 [simp]: "le32 (put32 a v m) a = v"
proof (rule bit_word_eqI)
  fix n assume "n < LENGTH(32)"
  then consider "n < 8" | "8 \<le> n" "n < 16" | "16 \<le> n" "n < 24" | "24 \<le> n" "n < 32"
    by fastforce
  then show "bit (le32 (put32 a v m) a) n = bit v n"
    by cases (auto simp: le32_def put32_def bit_simps)
qed

lemma ucast_le16 [simp]:
  "(ucast (le16 m a) :: u8) = m a" "(ucast (drop_bit 8 (le16 m a)) :: u8) = m (a + 1)"
  unfolding le16_def by (rule bit_word_eqI, auto simp: bit_simps)+

lemma ucast_le32 [simp]:
  "(ucast (le32 m a) :: u8) = m a"
  "(ucast (drop_bit 8 (le32 m a)) :: u8) = m (a + 1)"
  "(ucast (drop_bit 16 (le32 m a)) :: u8) = m (a + 2)"
  "(ucast (drop_bit 24 (le32 m a)) :: u8) = m (a + 3)"
  unfolding le32_def by (rule bit_word_eqI, auto simp: bit_simps)+

lemma put16_le16 [simp]: "put16 a (le16 m a) m = m"
  by (simp add: put16_def)

lemma put32_le32 [simp]: "put32 a (le32 m a) m = m"
  by (simp add: put32_def)

lemma put16_put16 [simp]: "put16 a v (put16 a w m) = put16 a v m"
  by (auto simp: put16_def fun_eq_iff)

lemma put32_put32 [simp]: "put32 a v (put32 a w m) = put32 a v m"
  by (auto simp: put32_def fun_eq_iff)

lemma put32_other: "b \<notin> {a, a + 1, a + 2, a + 3} \<Longrightarrow> put32 a v m b = m b"
  by (simp add: put32_def)

lemma put16_other: "b \<notin> {a, a + 1} \<Longrightarrow> put16 a v m b = m b"
  by (simp add: put16_def)

end
