(* ===== verification/VM_Cells.thy ===== *)
theory VM_Cells
  imports VM_Machine
begin

text \<open>
  The contract of a C lvalue. A handler that reads, modifies and writes an operand works
  through a pointer that may lead to a register variable or into the guest memory; the
  locale \<open>cell\<close> states what every such lvalue promises, and it is interpreted for the
  8-, 16- and 32-bit accesses of \<open>VM_Machine\<close>. Also here: the round trips of the byte-wise
  access functions, what the extension helpers compute, and \<open>pow_i\<close>.
\<close>

section \<open>Read-modify-write\<close>

text \<open>\<open>old = *p; *p = f(old); res = *p;\<close> as the arithmetic handlers do it.\<close>

definition rmw :: "(cpu \<Rightarrow> 'v res) \<Rightarrow> ('v \<Rightarrow> cpu \<Rightarrow> cpu res) \<Rightarrow> ('v \<Rightarrow> 'v) \<Rightarrow> cpu
    \<Rightarrow> ('v \<times> 'v \<times> cpu) res" where
  "rmw ld st f s =
     bnd (ld s) (\<lambda>v. bnd (st (f v) s) (\<lambda>s'. bnd (ld s') (\<lambda>r. Inr (v, r, s'))))"

section \<open>The lvalue interface\<close>

locale cell =
  fixes ld :: "cpu \<Rightarrow> 'v res"
    and st :: "'v \<Rightarrow> cpu \<Rightarrow> cpu res"
  assumes ld_st: "st v s = Inr s' \<Longrightarrow> ld s' = Inr v"
    and st_ld: "ld s = Inr v \<Longrightarrow> st v s = Inr s"
    and st_st: "st v s = Inr s' \<Longrightarrow> st w s' = st w s"
    and st_total: "ld s = Inr v \<Longrightarrow> \<exists>s'. st w s = Inr s'"
    and st_fault: "ld s = Inl e \<Longrightarrow> st w s = Inl e"
begin

lemma rmw_iff: "rmw ld st f s = Inr (v, r, s') \<longleftrightarrow> ld s = Inr v \<and> r = f v \<and> st (f v) s = Inr s'"
  by (auto simp: rmw_def bnd_eq_Inr ld_st)

lemma rmw_defined: "ld s = Inr v \<Longrightarrow> \<exists>s'. rmw ld st f s = Inr (v, f v, s') \<and> ld s' = Inr (f v)"
  using st_total [of s v "f v"] by (auto simp: rmw_iff ld_st)

lemma rmw_fault: "ld s = Inl e \<Longrightarrow> rmw ld st f s = Inl e"
  by (simp add: rmw_def)

lemma rmw_id: "ld s = Inr v \<Longrightarrow> rmw ld st (\<lambda>x. x) s = Inr (v, v, s)"
  by (simp add: rmw_iff st_ld)

lemma rmw_rmw:
  assumes "rmw ld st f s = Inr (v, r, s')"
  shows "rmw ld st g s' = bnd (st (g (f v)) s) (\<lambda>t. Inr (f v, g (f v), t))"
proof -
  from assms have v: "ld s = Inr v" and s': "st (f v) s = Inr s'"
    by (simp_all add: rmw_iff)
  from v obtain t where t: "st (g (f v)) s = Inr t"
    using st_total by blast
  have "rmw ld st g s' = Inr (f v, g (f v), t)"
    using s' t by (simp add: rmw_iff ld_st st_st)
  then show ?thesis by (simp add: t)
qed

lemma rmw_undo:
  assumes "rmw ld st f s = Inr (v, r, s')" and "g (f v) = v"
  shows "rmw ld st g s' = Inr (f v, v, s)"
  using assms st_ld [of s v] by (simp add: rmw_rmw [OF assms(1)] rmw_iff)

text \<open>An update undone after a step \<open>k\<close> that does not interfere with the cell.\<close>

lemma rmw_undo_through:
  assumes comm: "\<And>x s t. st x s = Inr t \<Longrightarrow> st x (k s) = Inr (k t)"
    and "rmw ld st f s = Inr (v, r, t)" and "f (f v) = v"
  shows "rmw ld st f (k t) = Inr (f v, v, k s)"
proof -
  from assms(2) have v: "ld s = Inr v" "st (f v) s = Inr t" by (simp_all add: rmw_iff)
  then have "ld (k t) = Inr (f v)" using ld_st [OF comm] by blast
  moreover have "st v (k t) = Inr (k s)" using comm [of v t s] v st_st [OF v(2)] st_ld [OF v(1)] by simp
  ultimately show ?thesis using assms(3) by (simp add: rmw_iff)
qed

end

section \<open>The accesses of the model satisfy the interface\<close>

lemma lo8_merge [simp]: "(ucast ((w AND 0xFFFFFF00) OR ucast (x::u8) :: u32) :: u8) = x"
  by (rule bit_word_eqI) (auto simp: bit_simps)

lemma lo16_merge [simp]: "(ucast ((w AND 0xFFFF0000) OR ucast (x::u16) :: u32) :: u16) = x"
  by (rule bit_word_eqI) (auto simp: bit_simps)

lemma lo8_keep [simp]: "((w::u32) AND 0xFFFFFF00) OR ucast (ucast w :: u8) = w"
  by (rule bit_word_eqI) (auto simp: bit_simps)

lemma lo16_keep [simp]: "((w::u32) AND 0xFFFF0000) OR ucast (ucast w :: u16) = w"
  by (rule bit_word_eqI) (auto simp: bit_simps)

lemma lo8_overwrite [simp]:
  "((((w::u32) AND 0xFFFFFF00) OR ucast (x::u8)) AND 0xFFFFFF00) = w AND 0xFFFFFF00"
  by (rule bit_word_eqI) (auto simp: bit_simps)

lemma lo16_overwrite [simp]:
  "((((w::u32) AND 0xFFFF0000) OR ucast (x::u16)) AND 0xFFFF0000) = w AND 0xFFFF0000"
  by (rule bit_word_eqI) (auto simp: bit_simps)

interpretation c8: cell "load8 p" "store8 p" for p
proof
  fix v w :: u8 and s s' :: cpu and e
  show "store8 p v s = Inr s' \<Longrightarrow> load8 p s' = Inr v"
    by (cases p) (auto split: if_splits)
  show "load8 p s = Inr v \<Longrightarrow> store8 p v s = Inr s"
    by (cases p) (auto split: if_splits)
  show "store8 p v s = Inr s' \<Longrightarrow> store8 p w s' = store8 p w s"
    by (cases p) (auto split: if_splits)
  show "load8 p s = Inr v \<Longrightarrow> \<exists>s'. store8 p w s = Inr s'"
    by (cases p) (auto split: if_splits)
  show "load8 p s = Inl e \<Longrightarrow> store8 p w s = Inl e"
    by (cases p) (auto split: if_splits)
qed

interpretation c16: cell "load16 p" "store16 p" for p
proof
  fix v w :: u16 and s s' :: cpu and e
  show "store16 p v s = Inr s' \<Longrightarrow> load16 p s' = Inr v"
    by (cases p) (auto split: if_splits)
  show "load16 p s = Inr v \<Longrightarrow> store16 p v s = Inr s"
    by (cases p) (auto split: if_splits)
  show "store16 p v s = Inr s' \<Longrightarrow> store16 p w s' = store16 p w s"
    by (cases p) (auto split: if_splits simp: comp_def)
  show "load16 p s = Inr v \<Longrightarrow> \<exists>s'. store16 p w s = Inr s'"
    by (cases p) (auto split: if_splits)
  show "load16 p s = Inl e \<Longrightarrow> store16 p w s = Inl e"
    by (cases p) (auto split: if_splits)
qed

interpretation c32: cell "load32 p" "store32 p" for p
proof
  fix v w :: u32 and s s' :: cpu and e
  show "store32 p v s = Inr s' \<Longrightarrow> load32 p s' = Inr v"
    by (cases p) (auto split: if_splits)
  show "load32 p s = Inr v \<Longrightarrow> store32 p v s = Inr s"
    by (cases p) (auto split: if_splits)
  show "store32 p v s = Inr s' \<Longrightarrow> store32 p w s' = store32 p w s"
    by (cases p) (auto split: if_splits simp: comp_def)
  show "load32 p s = Inr v \<Longrightarrow> \<exists>s'. store32 p w s = Inr s'"
    by (cases p) (auto split: if_splits)
  show "load32 p s = Inl e \<Longrightarrow> store32 p w s = Inl e"
    by (cases p) (auto split: if_splits)
qed

text \<open>The byte-wise access functions are a cell too, at every address that avoids the last byte.\<close>

interpretation b32: cell "read32 a" "write32 a" for a
proof
  fix v w :: u32 and s s' :: cpu and e
  show "write32 a v s = Inr s' \<Longrightarrow> read32 a s' = Inr v"
    by (auto simp: write32_def read32_def split: if_splits)
  show "read32 a s = Inr v \<Longrightarrow> write32 a v s = Inr s"
    by (auto simp: write32_def read32_def split: if_splits)
  show "write32 a v s = Inr s' \<Longrightarrow> write32 a w s' = write32 a w s"
    by (auto simp: write32_def read32_def comp_def split: if_splits)
  show "read32 a s = Inr v \<Longrightarrow> \<exists>s'. write32 a w s = Inr s'"
    by (auto simp: write32_def read32_def split: if_splits)
  show "read32 a s = Inl e \<Longrightarrow> write32 a w s = Inl e"
    by (auto simp: write32_def read32_def split: if_splits)
qed

interpretation b16: cell "read16 a" "write16 a" for a
proof
  fix v w :: u16 and s s' :: cpu and e
  show "write16 a v s = Inr s' \<Longrightarrow> read16 a s' = Inr v"
    by (auto simp: write16_def read16_def split: if_splits)
  show "read16 a s = Inr v \<Longrightarrow> write16 a v s = Inr s"
    by (auto simp: write16_def read16_def split: if_splits)
  show "write16 a v s = Inr s' \<Longrightarrow> write16 a w s' = write16 a w s"
    by (auto simp: write16_def read16_def comp_def split: if_splits)
  show "read16 a s = Inr v \<Longrightarrow> \<exists>s'. write16 a w s = Inr s'"
    by (auto simp: write16_def read16_def split: if_splits)
  show "read16 a s = Inl e \<Longrightarrow> write16 a w s = Inl e"
    by (auto simp: write16_def read16_def split: if_splits)
qed

section \<open>Extensions\<close>

lemma sign_extend_scast:
  "sign_extend8_32 v8 = scast v8" "sign_extend8_16 v8 = scast v8"
  "sign_extend16_32 v16 = scast v16" "sign_extend32_64 v32 = scast v32"
  unfolding sign_extend8_32_def sign_extend8_16_def sign_extend16_32_def sign_extend32_64_def msb_tests
  by (rule bit_word_eqI, (auto simp: bit_simps min_def le_less dest: bit_imp_le_length)[1])+

lemma zero_extend_ucast:
  "zero_extend8_32 v8 = ucast v8" "zero_extend8_16 v8 = ucast v8" "zero_extend16_32 v16 = ucast v16"
  unfolding zero_extend8_32_def zero_extend8_16_def zero_extend16_32_def
  by (rule bit_word_eqI, (auto simp: bit_simps dest: bit_imp_le_length)[1])+

section \<open>pow\_i\<close>

lemma pow_loop_eq: "pow_loop b exp result = result * b ^ unat exp"
proof (induction b exp result rule: pow_loop.induct)
  case (1 b exp result)
  show ?case
  proof (cases "exp > 0")
    case True
    then have "unat exp = Suc (unat (exp - 1))"
      by (simp add: unat_minus_one word_gt_0 unat_gt_0)
    with 1 True show ?thesis
      by (simp add: pow_loop.simps [of b exp] mult.assoc)
  next
    case False
    then show ?thesis by (subst pow_loop.simps) (simp add: word_gt_0)
  qed
qed

lemma pow_i_eq: "pow_i b exp = b ^ unat exp"
  by (simp add: pow_i_def pow_loop_eq)

end
