(* ===== verification/VM_Flags.thy ===== *)
theory VM_Flags
  imports VM_Cells
begin

text \<open>
  The EFLAGS register: \<open>src/src/flags.c\<close> with the bit masks of \<open>src/lib/flags.h\<close>, and
  the two flag-update sequences that the arithmetic and the logical handlers end with.
\<close>

section \<open>Masks\<close>

definition CF :: u32 where "CF = 0x1"
definition PF :: u32 where "PF = 0x4"
definition AF :: u32 where "AF = 0x10"
definition ZF :: u32 where "ZF = 0x40"
definition SF :: u32 where "SF = 0x80"
definition IF :: u32 where "IF = 0x200"
definition DF :: u32 where "DF = 0x400"
definition OF :: u32 where "OF = 0x800"

lemmas flag_masks = CF_def PF_def AF_def ZF_def SF_def IF_def DF_def OF_def

section \<open>Operations on EFLAGS\<close>

definition set_Flag :: "u32 \<Rightarrow> cpu \<Rightarrow> cpu" where
  "set_Flag f s = wr EFLAGS (var s EFLAGS OR f) s"

definition clear_Flag :: "u32 \<Rightarrow> cpu \<Rightarrow> cpu" where
  "clear_Flag f s = wr EFLAGS (var s EFLAGS AND NOT f) s"

definition complement_Flag :: "u32 \<Rightarrow> cpu \<Rightarrow> cpu" where
  "complement_Flag f s = wr EFLAGS (var s EFLAGS XOR f) s"

definition test_Flag :: "u32 \<Rightarrow> cpu \<Rightarrow> bool" where
  "test_Flag f s = (var s EFLAGS AND f \<noteq> 0)"

text \<open>The idiom \<open>c ? set_Flag(f) : clear_Flag(f)\<close>.\<close>

definition put_Flag :: "u32 \<Rightarrow> bool \<Rightarrow> cpu \<Rightarrow> cpu" where
  "put_Flag f c s = (if c then set_Flag f s else clear_Flag f s)"

section \<open>Flag values\<close>

definition zero_v :: "u32 \<Rightarrow> bool" where
  "zero_v v = (v = 0)"

text \<open>The shift by \<open>base-1\<close> is defined in C for bases 1 to 32.\<close>

definition sign :: "u32 \<Rightarrow> u8 \<Rightarrow> bool res" where
  "sign v base =
     (if 1 \<le> unat base \<and> unat base \<le> 32 then Inr (drop_bit (unat base - 1) v \<noteq> 0)
      else Inl BadShift)"

definition overflow :: "u32 \<Rightarrow> u32 \<Rightarrow> u32 \<Rightarrow> u8 \<Rightarrow> bool res" where
  "overflow o1 o2 r base =
     (if 1 \<le> unat base \<and> unat base \<le> 32
      then Inr (drop_bit (unat base - 1) ((o1 XOR r) AND (o2 XOR r)) AND 1 \<noteq> 0)
      else Inl BadShift)"

definition parity :: "u32 \<Rightarrow> bool" where
  "parity vv =
     (let v = ucast (vv AND 0xFF) :: u8;
          c = foldl (\<lambda>c i. if drop_bit i v AND 0x1 \<noteq> 0 then c + 1 else c) (0::nat) [0..<8]
      in c mod 2 = 0)"

definition adjust :: "u32 \<Rightarrow> u32 \<Rightarrow> u32 \<Rightarrow> bool" where
  "adjust o1 o2 r = ((o1 XOR o2 XOR r) AND 0x10 \<noteq> 0)"

section \<open>Flag updates shared by the handlers\<close>

text \<open>
  \<open>arith_flags\<close> is the six-line tail of the arithmetic handlers, with the condition for
  \<open>CF\<close> as an argument; \<open>logic_flags\<close> is the five-line tail of the logical ones.
\<close>

definition arith_flags :: "bool \<Rightarrow> u32 \<Rightarrow> u32 \<Rightarrow> u32 \<Rightarrow> u8 \<Rightarrow> cpu \<Rightarrow> cpu res" where
  "arith_flags cf val1 val2 r base s =
     (let s = put_Flag CF cf s in
      bnd (overflow val1 val2 r base) (\<lambda>ov. let s = put_Flag OF ov s in
      bnd (sign r base) (\<lambda>sg. let s = put_Flag SF sg s;
          s = put_Flag ZF (r = 0) s;
          s = put_Flag AF (adjust val1 val2 r) s;
          s = put_Flag PF (parity r) s
      in Inr s)))"

definition logic_flags :: "u32 \<Rightarrow> u8 \<Rightarrow> cpu \<Rightarrow> cpu res" where
  "logic_flags r base s =
     bnd (sign r base) (\<lambda>sg. let s = put_Flag SF sg s;
         s = put_Flag ZF (zero_v r) s;
         s = put_Flag PF (parity r) s;
         s = clear_Flag CF s;
         s = clear_Flag OF s
     in Inr s)"

section \<open>Contract of the status flags\<close>

text \<open>
  The six status flags as a function of the result: the abstract contract of the arithmetic
  handlers, at any width. \<open>CF\<close>, \<open>OF\<close> and \<open>AF\<close> depend on the operation and are arguments.
\<close>

definition flags_are :: "bool \<Rightarrow> bool \<Rightarrow> bool \<Rightarrow> 'a::len word \<Rightarrow> cpu \<Rightarrow> bool" where
  "flags_are cf ov af r s \<longleftrightarrow>
     test_Flag CF s = cf \<and> test_Flag OF s = ov \<and> test_Flag AF s = af \<and>
     test_Flag SF s = (sint r < 0) \<and> test_Flag ZF s = (r = 0) \<and>
     test_Flag PF s = even (card {n. n < 8 \<and> bit r n})"

text \<open>A state that differs from another in \<open>eflags\<close> only.\<close>

definition only_flags :: "cpu \<Rightarrow> cpu \<Rightarrow> bool" where
  "only_flags s t \<longleftrightarrow> (\<exists>x. t = wr EFLAGS x s)"

section \<open>Laws of the flag register\<close>

lemma test_put_same: "f \<noteq> 0 \<Longrightarrow> test_Flag f (put_Flag f c s) = c"
  by (simp add: test_Flag_def put_Flag_def set_Flag_def clear_Flag_def and_or_absorb and_not_absorb)

lemma test_put_other: "f AND g = 0 \<Longrightarrow> test_Flag f (put_Flag g c s) = test_Flag f s"
  by (simp add: test_Flag_def put_Flag_def set_Flag_def clear_Flag_def or_and_disjoint
      not_and_disjoint)

lemma set_Flag_put: "set_Flag f = put_Flag f True"
  by (simp add: put_Flag_def fun_eq_iff)

lemma clear_Flag_put: "clear_Flag f = put_Flag f False"
  by (simp add: put_Flag_def fun_eq_iff)

text \<open>Every flag of the program read after every flag written by it.\<close>

lemma test_put [simp]:
  "test_Flag CF (put_Flag CF c s) = c" "test_Flag CF (put_Flag PF c s) = test_Flag CF s"
  "test_Flag CF (put_Flag AF c s) = test_Flag CF s" "test_Flag CF (put_Flag ZF c s) = test_Flag CF s"
  "test_Flag CF (put_Flag SF c s) = test_Flag CF s" "test_Flag CF (put_Flag OF c s) = test_Flag CF s"
  "test_Flag PF (put_Flag CF c s) = test_Flag PF s" "test_Flag PF (put_Flag PF c s) = c"
  "test_Flag PF (put_Flag AF c s) = test_Flag PF s" "test_Flag PF (put_Flag ZF c s) = test_Flag PF s"
  "test_Flag PF (put_Flag SF c s) = test_Flag PF s" "test_Flag PF (put_Flag OF c s) = test_Flag PF s"
  "test_Flag AF (put_Flag CF c s) = test_Flag AF s" "test_Flag AF (put_Flag PF c s) = test_Flag AF s"
  "test_Flag AF (put_Flag AF c s) = c" "test_Flag AF (put_Flag ZF c s) = test_Flag AF s"
  "test_Flag AF (put_Flag SF c s) = test_Flag AF s" "test_Flag AF (put_Flag OF c s) = test_Flag AF s"
  "test_Flag ZF (put_Flag CF c s) = test_Flag ZF s" "test_Flag ZF (put_Flag PF c s) = test_Flag ZF s"
  "test_Flag ZF (put_Flag AF c s) = test_Flag ZF s" "test_Flag ZF (put_Flag ZF c s) = c"
  "test_Flag ZF (put_Flag SF c s) = test_Flag ZF s" "test_Flag ZF (put_Flag OF c s) = test_Flag ZF s"
  "test_Flag SF (put_Flag CF c s) = test_Flag SF s" "test_Flag SF (put_Flag PF c s) = test_Flag SF s"
  "test_Flag SF (put_Flag AF c s) = test_Flag SF s" "test_Flag SF (put_Flag ZF c s) = test_Flag SF s"
  "test_Flag SF (put_Flag SF c s) = c" "test_Flag SF (put_Flag OF c s) = test_Flag SF s"
  "test_Flag OF (put_Flag CF c s) = test_Flag OF s" "test_Flag OF (put_Flag PF c s) = test_Flag OF s"
  "test_Flag OF (put_Flag AF c s) = test_Flag OF s" "test_Flag OF (put_Flag ZF c s) = test_Flag OF s"
  "test_Flag OF (put_Flag SF c s) = test_Flag OF s" "test_Flag OF (put_Flag OF c s) = c"
  "test_Flag DF (put_Flag CF c s) = test_Flag DF s" "test_Flag DF (put_Flag PF c s) = test_Flag DF s"
  "test_Flag DF (put_Flag AF c s) = test_Flag DF s" "test_Flag DF (put_Flag ZF c s) = test_Flag DF s"
  "test_Flag DF (put_Flag SF c s) = test_Flag DF s" "test_Flag DF (put_Flag OF c s) = test_Flag DF s"
  by (simp_all add: test_put_same test_put_other flag_masks)

lemma put_Flag_frame [simp]:
  "v \<noteq> EFLAGS \<Longrightarrow> var (put_Flag f c s) v = var s v"
  "mem (put_Flag f c s) = mem s" "ldtr (put_Flag f c s) = ldtr s"
  "gdtr (put_Flag f c s) = gdtr s" "idtr (put_Flag f c s) = idtr s"
  "outp (put_Flag f c s) = outp s"
  by (simp_all add: put_Flag_def set_Flag_def clear_Flag_def)

lemma test_Flag_wr [simp]: "v \<noteq> EFLAGS \<Longrightarrow> test_Flag f (wr v x s) = test_Flag f s"
  by (simp add: test_Flag_def)

lemma test_Flag_mem [simp]: "test_Flag f (mem_update g s) = test_Flag f s"
  by (simp add: test_Flag_def)

text \<open>The flags outside the mask \<open>f\<close> are left alone.\<close>

lemma put_Flag_rest: "var (put_Flag f c s) EFLAGS AND NOT f = var s EFLAGS AND NOT f"
  by (rule bit_word_eqI)
    (auto simp: put_Flag_def set_Flag_def clear_Flag_def bit_simps)

section \<open>What the flag values mean\<close>

lemma parity_count:
  "foldl (\<lambda>c i. if drop_bit i v AND 0x1 \<noteq> 0 then c + 1 else c) c [0..<n] =
     c + card {i. i < n \<and> bit (v::u8) i}"
proof (induction n)
  case 0
  then show ?case by simp
next
  case (Suc n)
  have b: "(drop_bit n v AND 1 \<noteq> 0) = bit v n"
    by (simp add: bit_iff_odd_drop_bit and_one_eq odd_iff_mod_2_eq_one)
  have "{i. i < Suc n \<and> bit v i} = (if bit v n then insert n {i. i < n \<and> bit v i}
      else {i. i < n \<and> bit v i})"
    by (auto simp: less_Suc_eq)
  then show ?case using Suc by (simp add: b)
qed

lemma parity_iff: "parity v \<longleftrightarrow> even (card {i. i < 8 \<and> bit v i})"
proof -
  have "{i. i < 8 \<and> bit (ucast (v AND 0xFF) :: u8) i} = {i. i < 8 \<and> bit v i}"
    by (auto simp: bit_simps)
  then show ?thesis
    by (simp add: parity_def parity_count even_iff_mod_2_eq_zero del: upt_rec_numeral)
qed

lemma sign_bases [simp]:
  "sign r 8 = Inr (drop_bit 7 r \<noteq> 0)" "sign r 16 = Inr (drop_bit 15 r \<noteq> 0)"
  "sign r 32 = Inr (drop_bit 31 r \<noteq> 0)" "sign r 4 = Inr (drop_bit 3 r \<noteq> 0)"
  by (simp_all add: sign_def)

lemma sign_meaning:
  "sign (ucast (b::u8)) 8 = Inr (sint b < 0)" "sign (ucast (h::u16)) 16 = Inr (sint h < 0)"
  "sign w 32 = Inr (sint w < 0)"
  using drop_bit_ucast_top [of b, where 'b = 32] drop_bit_ucast_top [of h, where 'b = 32]
    drop_bit_ucast_top [of w, where 'b = 32] bit_last_iff [of b] bit_last_iff [of h] bit_last_iff [of w]
  by simp_all

lemma overflow_bases:
  "overflow o1 o2 r 8 = Inr (bit ((o1 XOR r) AND (o2 XOR r)) 7)"
  "overflow o1 o2 r 16 = Inr (bit ((o1 XOR r) AND (o2 XOR r)) 15)"
  "overflow o1 o2 r 32 = Inr (bit ((o1 XOR r) AND (o2 XOR r)) 31)"
  unfolding overflow_def drop_bit_and_1 by simp_all

lemma overflow_add:
  "overflow (ucast (a8::u8)) b (ucast (a8 + ucast b)) 8 =
     Inr (sint a8 + sint (ucast b :: u8) \<noteq> sint (a8 + ucast b))"
  "overflow (ucast (a16::u16)) b (ucast (a16 + ucast b)) 16 =
     Inr (sint a16 + sint (ucast b :: u16) \<noteq> sint (a16 + ucast b))"
  "overflow a b (a + b) 32 = Inr (sint a + sint b \<noteq> sint (a + b))"
  using add_ovf_bit [of a8 "ucast b"] add_ovf_bit [of a16 "ucast b"] add_ovf_bit [of a b]
  by (simp_all add: overflow_bases bit_simps)

text \<open>The same formula on a difference, as the subtracting handlers use it.\<close>

lemma overflow_sub:
  "overflow (ucast (a8::u8)) b (ucast (a8 - ucast b)) 8 =
     Inr ((sint a8 < 0 \<longleftrightarrow> sint (ucast b :: u8) < 0) \<and>
          (sint a8 < 0 \<longleftrightarrow> sint (ucast b :: u8) \<le> sint a8))"
  "overflow (ucast (a16::u16)) b (ucast (a16 - ucast b)) 16 =
     Inr ((sint a16 < 0 \<longleftrightarrow> sint (ucast b :: u16) < 0) \<and>
          (sint a16 < 0 \<longleftrightarrow> sint (ucast b :: u16) \<le> sint a16))"
  "overflow a b (a - b) 32 =
     Inr ((sint a < 0 \<longleftrightarrow> sint b < 0) \<and> (sint a < 0 \<longleftrightarrow> sint b \<le> sint a))"
  using sub_ovf_bit [of a8 "ucast b"] sub_ovf_bit [of a16 "ucast b"] sub_ovf_bit [of a b]
  by (simp_all add: overflow_bases bit_simps)

text \<open>\<open>adjust\<close> on a sum is the carry out of the low nibble.\<close>

lemma adjust_bit: "adjust o1 o2 r = bit (o1 XOR o2 XOR r) 4"
  using and_exp_neq_0 [of "o1 XOR o2 XOR r" 4] by (simp add: adjust_def)

lemma adjust_add:
  "adjust (ucast (a8::u8)) b (ucast (a8 + ucast b)) = (unat a8 mod 16 + unat (ucast b :: u8) mod 16 \<ge> 16)"
  "adjust (ucast (a16::u16)) b (ucast (a16 + ucast b)) = (unat a16 mod 16 + unat (ucast b :: u16) mod 16 \<ge> 16)"
  "adjust a b (a + b) = (unat a mod 16 + unat b mod 16 \<ge> 16)"
  using half_carry [of a8 "ucast b"] half_carry [of a16 "ucast b"] half_carry [of a b]
  by (simp_all add: adjust_bit bit_simps)
lemma adjust_sub:
  "adjust a b (a - b) = (unat a mod 16 < unat b mod 16)"
  using half_borrow [of a b] by (simp add: adjust_bit)

lemma ucast_parity:
  "parity (ucast (b::u8)) = even (card {n. n < 8 \<and> bit b n})"
  "parity (ucast (h::u16)) = even (card {n. n < 8 \<and> bit h n})"
  "parity w = even (card {n. n < 8 \<and> bit w n})"
proof -
  have "{n. n < 8 \<and> bit (ucast b :: u32) n} = {n. n < 8 \<and> bit b n}"
    "{n. n < 8 \<and> bit (ucast h :: u32) n} = {n. n < 8 \<and> bit h n}"
    by (auto simp: bit_simps)
  then show "parity (ucast b) = even (card {n. n < 8 \<and> bit b n})"
    "parity (ucast h) = even (card {n. n < 8 \<and> bit h n})"
    "parity w = even (card {n. n < 8 \<and> bit w n})"
    by (simp_all add: parity_iff)
qed

lemma ucast_eq_0: "(ucast (b::u8) :: u32) = 0 \<longleftrightarrow> b = 0" "(ucast (h::u16) :: u32) = 0 \<longleftrightarrow> h = 0"
  by (auto simp: bit_eq_iff bit_simps) (metis bit_u8_high bit_u16_high not_less)+

section \<open>What the flag updates do\<close>

lemma put_Flag_eq: "put_Flag f c s = wr EFLAGS (var (put_Flag f c s) EFLAGS) s"
  by (simp add: put_Flag_def set_Flag_def clear_Flag_def)

lemma only_flags_refl [simp]: "only_flags s s"
  unfolding only_flags_def by (rule exI [of _ "var s EFLAGS"]) simp

lemma only_flags_put [simp, intro]: "only_flags s t \<Longrightarrow> only_flags s (put_Flag f c t)"
proof -
  assume "only_flags s t"
  then obtain x where "t = wr EFLAGS x s" by (auto simp: only_flags_def)
  then have "put_Flag f c t = wr EFLAGS (var (put_Flag f c t) EFLAGS) s"
    by (subst put_Flag_eq) (simp add: comp_def)
  then show ?thesis by (auto simp: only_flags_def)
qed

lemma only_flagsD:
  assumes "only_flags s t"
  shows "v \<noteq> EFLAGS \<Longrightarrow> var t v = var s v" "mem t = mem s" "gdtr t = gdtr s" "idtr t = idtr s"
    "ldtr t = ldtr s" "outp t = outp s"
    "p \<noteq> PVar EFLAGS \<Longrightarrow> load8 p t = load8 p s" "p \<noteq> PVar EFLAGS \<Longrightarrow> load16 p t = load16 p s"
    "p \<noteq> PVar EFLAGS \<Longrightarrow> load32 p t = load32 p s"
  using assms by (auto simp: only_flags_def) (cases p; auto)+

lemma arith_flags_out:
  "overflow v1 v2 (ucast (r8::u8)) 8 = Inr ov \<Longrightarrow>
    \<exists>t. arith_flags cf v1 v2 (ucast r8) 8 s = Inr t \<and> flags_are cf ov (adjust v1 v2 (ucast r8)) r8 t \<and>
      only_flags s t"
  "overflow v1 v2 (ucast (r16::u16)) 16 = Inr ov \<Longrightarrow>
    \<exists>t. arith_flags cf v1 v2 (ucast r16) 16 s = Inr t \<and>
      flags_are cf ov (adjust v1 v2 (ucast r16)) r16 t \<and> only_flags s t"
  "overflow v1 v2 r 32 = Inr ov \<Longrightarrow>
    \<exists>t. arith_flags cf v1 v2 r 32 s = Inr t \<and> flags_are cf ov (adjust v1 v2 r) r t \<and> only_flags s t"
  by (simp_all add: arith_flags_def flags_are_def sign_meaning ucast_parity(1,2) ucast_parity(3) [of r]
      ucast_eq_0 del: sign_bases)

lemma logic_flags_out:
  "\<exists>t. logic_flags (ucast (r8::u8)) 8 s = Inr t \<and> flags_are False False (test_Flag AF s) r8 t \<and>
    only_flags s t"
  "\<exists>t. logic_flags (ucast (r16::u16)) 16 s = Inr t \<and> flags_are False False (test_Flag AF s) r16 t \<and>
    only_flags s t"
  "\<exists>t. logic_flags r 32 s = Inr t \<and> flags_are False False (test_Flag AF s) r t \<and> only_flags s t"
  by (simp_all add: logic_flags_def clear_Flag_put flags_are_def sign_meaning ucast_parity(1,2)
      ucast_parity(3) [of r] ucast_eq_0 zero_v_def del: sign_bases)

text \<open>Bit 7 and above of a byte difference computed on 32 bits.\<close>

lemma sign8_diff:
  "drop_bit 7 ((ucast (a::u8) :: u32) - ucast b) \<noteq> 0 \<longleftrightarrow> a < b \<or> sint (a - b) < 0"
proof (cases "b \<le> a")
  case True
  then show ?thesis
    using drop_bit_ucast_top [of "a - b", where 'b = 32] by (auto simp: ucast_diff_u8 bit_last_iff [symmetric])
next
  case False
  then have "a \<noteq> b" by auto
  have "unat (ucast (b - a) :: u32) < 2 ^ 8" "ucast (b - a) \<noteq> (0::u32)"
    using unsigned_less [of "b - a", where 'a = nat] \<open>a \<noteq> b\<close> by (simp_all add: ucast_eq_0)
  then have "unat (- ucast (b - a) :: u32) \<ge> 2 ^ 7"
    using unat_sub_if' [of 0 "ucast (b - a) :: u32"] \<open>a \<noteq> b\<close> by (auto simp: unat_gt_0)
  with False show ?thesis by (auto simp: ucast_diff_u8 drop_bit_neq_0)
qed

end
