(* ===== verification/VM_Gdt.thy ===== *)
theory VM_Gdt
  imports VM_Flags
begin

text \<open>
  The global descriptor table and the start-up of the machine: \<open>initialize\<close>,
  \<open>init_gdt\<close>, \<open>get_gdt_base\<close> and \<open>get_gdt_limit\<close> of \<open>src/src/instr.c\<close>, with the
  constants of \<open>src/lib/instr.h\<close>. The table lives in guest memory; a \<open>GDT_Descriptor\<close>
  occupies ten bytes there (nine bytes of fields, padded to the alignment of its 16-bit
  members).
\<close>

section \<open>Constants and layout\<close>

definition STACK_BOTTOM :: u32 where "STACK_BOTTOM = 0xFFF00000"
definition GDT_ENTRIES :: nat where "GDT_ENTRIES = 9"
definition GDT_ADDR :: u32 where "GDT_ADDR = 0xC0FFF000"

definition sizeof_GDT_Descriptor :: nat where "sizeof_GDT_Descriptor = 10"

text \<open>The offsets of the fields of \<open>GDT_Descriptor\<close>.\<close>

definition off_limit_low :: nat where "off_limit_low = 0"
definition off_base_low :: nat where "off_base_low = 2"
definition off_base_mid :: nat where "off_base_mid = 4"
definition off_access :: nat where "off_access = 5"
definition off_granularity :: nat where "off_granularity = 6"
definition off_base_high :: nat where "off_base_high = 7"
definition off_used :: nat where "off_used = 8"

lemmas gdt_layout = STACK_BOTTOM_def GDT_ENTRIES_def GDT_ADDR_def sizeof_GDT_Descriptor_def
  off_limit_low_def off_base_low_def off_base_mid_def off_access_def off_granularity_def
  off_base_high_def off_used_def

section \<open>Operations\<close>

text \<open>One iteration of the loop of \<open>init_gdt\<close>: \<open>d\<close> is the address of \<open>table[i]\<close>.\<close>

definition init_gdt_entry :: "nat \<Rightarrow> nat \<Rightarrow> cpu \<Rightarrow> cpu res" where
  "init_gdt_entry d i s =
     bnd (store16 (PMem (d + off_limit_low)) 0xFFFF s) (\<lambda>s.
     bnd (store16 (PMem (d + off_base_low)) 0x0000 s) (\<lambda>s.
     bnd (store8 (PMem (d + off_base_mid)) 0x00 s) (\<lambda>s.
     bnd (store8 (PMem (d + off_base_high)) 0x00 s) (\<lambda>s.
       if i = 0 then
         bnd (store8 (PMem (d + off_access)) 0x00 s) (\<lambda>s.
         bnd (store8 (PMem (d + off_granularity)) 0x00 s) (\<lambda>s.
         store16 (PMem (d + off_limit_low)) 0x0000 s))
       else if i = 1 then
         bnd (store8 (PMem (d + off_access)) 0x9A s) (\<lambda>s.
         store8 (PMem (d + off_granularity)) 0xCF s)
       else if i = 2 then
         bnd (store8 (PMem (d + off_access)) 0x92 s) (\<lambda>s.
         store8 (PMem (d + off_granularity)) 0xCF s)
       else if i = 3 then
         bnd (store8 (PMem (d + off_access)) 0x89 s) (\<lambda>s.
         store8 (PMem (d + off_granularity)) 0x0 s)
       else if i = 4 then
         bnd (store8 (PMem (d + off_access)) 0xFA s) (\<lambda>s.
         store8 (PMem (d + off_granularity)) 0xCF s)
       else if i = 5 then
         bnd (store8 (PMem (d + off_access)) 0xF2 s) (\<lambda>s.
         store8 (PMem (d + off_granularity)) 0xCF s)
       else
         bnd (store8 (PMem (d + off_access)) 0x89 s) (\<lambda>s.
         bnd (store8 (PMem (d + off_granularity)) 0x0 s) (\<lambda>s.
         store8 (PMem (d + off_used)) 0 s))))))"

fun init_gdt_loop :: "nat \<Rightarrow> nat list \<Rightarrow> cpu \<Rightarrow> cpu res" where
  "init_gdt_loop table [] s = Inr s"
| "init_gdt_loop table (i # is) s =
     bnd (init_gdt_entry (table + i * sizeof_GDT_Descriptor) i s) (init_gdt_loop table is)"

definition init_gdt :: "nat \<Rightarrow> cpu \<Rightarrow> cpu res" where
  "init_gdt table s = init_gdt_loop table [0..<GDT_ENTRIES] s"

text \<open>The static initialisers of the global variables.\<close>

definition static_init :: cpu where
  "static_init = \<lparr>var = (\<lambda>_. 0)(EFLAGS := 0x202), mem = (\<lambda>_. 0), ldtr = 0,
     gdtr = \<lparr>dtr_limit = 0, dtr_base = 0\<rparr>, idtr = \<lparr>dtr_limit = 0, dtr_base = 0\<rparr>,
     outp = []\<rparr>"

text \<open>
  \<open>initialize\<close>: the argument \<open>alloc_ok\<close> says whether the \<open>calloc\<close> of the guest
  memory succeeds; the memory it returns is zeroed.
\<close>

definition initialize :: "bool \<Rightarrow> cpu \<Rightarrow> (int \<times> cpu) res" where
  "initialize alloc_ok s =
     (let s = wr ESP STACK_BOTTOM s;
          s = wr CS 0x23 s; s = wr DS 0x2b s; s = wr SS 0x2b s; s = wr ES 0x2b s;
          s = wr FS 0x00 s; s = wr GS 0x00 s
      in if \<not> alloc_ok then Inr (0, s)
         else
           (let s = s\<lparr>mem := (\<lambda>_. 0)\<rparr> in
            bnd (init_gdt (unat GDT_ADDR) s) (\<lambda>s.
              Inr (1, s\<lparr>gdtr := \<lparr>dtr_limit = of_nat (GDT_ENTRIES * sizeof_GDT_Descriptor),
                                 dtr_base = GDT_ADDR\<rparr>\<rparr>))))"

text \<open>The descriptor a selector names: bits 15-3, modulo the number of entries.\<close>

definition gdt_index :: "u16 \<Rightarrow> nat" where
  "gdt_index selector = unat (drop_bit 3 selector AND 0x1FFF) mod GDT_ENTRIES"

text \<open>The byte \<open>base_high\<close> is promoted to \<open>int\<close> and shifted into its sign bit, which the compiler does on the bits.\<close>

definition get_gdt_base :: "u16 \<Rightarrow> cpu \<Rightarrow> u32 res" where
  "get_gdt_base selector s =
     (let d = unat (dtr_base (gdtr s)) + gdt_index selector * sizeof_GDT_Descriptor in
      bnd (load16 (PMem (d + off_base_low)) s) (\<lambda>base_low.
      bnd (load8 (PMem (d + off_base_mid)) s) (\<lambda>base_mid.
      bnd (load8 (PMem (d + off_base_high)) s) (\<lambda>base_high.
        Inr (ucast base_low OR push_bit 16 (ucast base_mid) OR push_bit 24 (ucast base_high))))))"

definition get_gdt_limit :: "u16 \<Rightarrow> cpu \<Rightarrow> u32 res" where
  "get_gdt_limit selector s =
     (let d = unat (dtr_base (gdtr s)) + gdt_index selector * sizeof_GDT_Descriptor in
      bnd (load16 (PMem (d + off_limit_low)) s) (\<lambda>limit_low. Inr (ucast limit_low)))"

section \<open>Registers play no role\<close>

lemma get_gdt_wr [simp]:
  "get_gdt_base sel (wr v x s) = get_gdt_base sel s" "get_gdt_limit sel (wr v x s) = get_gdt_limit sel s"
  by (simp_all add: get_gdt_base_def get_gdt_limit_def Let_def)

lemma get_gdt_var_update [simp]:
  "get_gdt_base sel (var_update f s) = get_gdt_base sel s" "get_gdt_limit sel (var_update f s) = get_gdt_limit sel s"
  by (simp_all add: get_gdt_base_def get_gdt_limit_def Let_def)

section \<open>The table after start-up\<close>

text \<open>Byte \<open>k\<close> of descriptor \<open>i\<close> after \<open>init_gdt\<close>, and the write of one byte of memory.\<close>

definition gdt_byte :: "nat \<Rightarrow> nat \<Rightarrow> u8" where
  "gdt_byte i k =
     (if k < 2 then (if i = 0 then 0 else 0xFF)
      else if k = 5 then [0x00, 0x9A, 0x92, 0x89, 0xFA, 0xF2, 0x89, 0x89, 0x89] ! i
      else if k = 6 then (if i \<in> {1, 2, 4, 5} then 0xCF else 0)
      else 0)"

definition poke :: "nat \<Rightarrow> u8 \<Rightarrow> cpu \<Rightarrow> cpu" where
  "poke k x s = mem_update (\<lambda>m. m(of_nat k := x)) s"

lemma store_poke:
  "k < 2 ^ 32 - 1 \<Longrightarrow> store8 (PMem k) x s = Inr (poke k x s)"
  "k + 1 < 2 ^ 32 - 1 \<Longrightarrow> store16 (PMem k) y s = Inr (poke (k + 1) (ucast (drop_bit 8 y)) (poke k (ucast y) s))"
  by (simp_all add: poke_def MEM_BYTES_def put16_def comp_def add.commute)

lemma peek_poke [simp]:
  "j < 2 ^ 32 \<Longrightarrow> k < 2 ^ 32 \<Longrightarrow> mem (poke k x s) (of_nat j) = (if j = k then x else mem s (of_nat j))"
  "var (poke k x s) = var s" "gdtr (poke k x s) = gdtr s"
  by (simp_all add: poke_def of_nat_u32_eq)

lemma entry_mem:
  assumes "d + 10 < 2 ^ 32" "i < 9"
  shows "\<exists>s'. init_gdt_entry d i s = Inr s' \<and> var s' = var s \<and>
    (\<forall>k<8. mem s' (of_nat (d + k)) = gdt_byte i k) \<and>
    (\<forall>j<2 ^ 32. j < d \<or> d + 10 \<le> j \<longrightarrow> mem s' (of_nat j) = mem s (of_nat j))"
proof -
  from assms(2) have "i \<in> {0, 1, 2, 3, 4, 5, 6, 7, 8}" by auto
  then show ?thesis using assms(1)
    by (elim insertE emptyE; simp add: init_gdt_entry_def store_poke gdt_layout gdt_byte_def
      del: of_nat_add store8.simps store16.simps)
qed


lemma gdt_loop_mem:
  assumes "table + 90 < 2 ^ 32" "distinct is" "set is \<subseteq> {..<9}"
  shows "\<exists>s'. init_gdt_loop table is s = Inr s' \<and> var s' = var s \<and>
    (\<forall>i\<in>set is. \<forall>k<8. mem s' (of_nat (table + i * 10 + k)) = gdt_byte i k) \<and>
    (\<forall>j<2 ^ 32. (\<forall>i\<in>set is. j < table + i * 10 \<or> table + i * 10 + 10 \<le> j) \<longrightarrow>
      mem s' (of_nat j) = mem s (of_nat j))"
  using assms(2,3)
proof (induction "is" arbitrary: s)
  case Nil
  then show ?case by simp
next
  case (Cons i "is")
  have i: "i < 9" "i \<notin> set is" "distinct is" "set is \<subseteq> {..<9}" using Cons.prems by auto
  obtain t where t: "init_gdt_entry (table + i * 10) i s = Inr t" "var t = var s"
    "\<forall>k<8. mem t (of_nat (table + i * 10 + k)) = gdt_byte i k"
    "\<forall>j<2 ^ 32. j < table + i * 10 \<or> table + i * 10 + 10 \<le> j \<longrightarrow> mem t (of_nat j) = mem s (of_nat j)"
    using entry_mem [of "table + i * 10" i s] i(1) assms(1) by auto
  obtain u where u: "init_gdt_loop table is t = Inr u" "var u = var t"
    "\<forall>i\<in>set is. \<forall>k<8. mem u (of_nat (table + i * 10 + k)) = gdt_byte i k"
    "\<forall>j<2 ^ 32. (\<forall>i\<in>set is. j < table + i * 10 \<or> table + i * 10 + 10 \<le> j) \<longrightarrow>
      mem u (of_nat j) = mem t (of_nat j)"
    using Cons.IH [OF i(3,4), of t] by blast
  have "mem u (of_nat (table + i * 10 + k)) = gdt_byte i k" if "k < 8" for k
  proof -
    have "\<forall>i'\<in>set is. table + i * 10 + k < table + i' * 10 \<or> table + i' * 10 + 10 \<le> table + i * 10 + k"
    proof
      fix i' assume "i' \<in> set is"
      then have "i' \<noteq> i" using i(2) by auto
      then show "table + i * 10 + k < table + i' * 10 \<or> table + i' * 10 + 10 \<le> table + i * 10 + k"
        using that by linarith
    qed
    moreover have "table + i * 10 + k < 2 ^ 32" using assms(1) i(1) that by simp
    ultimately have "mem u (of_nat (table + i * 10 + k)) = mem t (of_nat (table + i * 10 + k))"
      using u(4) by blast
    then show ?thesis using t(3) that by simp
  qed
  then show ?case using t u by (auto simp: sizeof_GDT_Descriptor_def simp del: of_nat_add)
qed

lemma gdt_after_init:
  "\<exists>s'. initialize True s = Inr (1, s') \<and> var s' ESP = STACK_BOTTOM \<and> dtr_base (gdtr s') = GDT_ADDR \<and>
    (\<forall>i<9. \<forall>k<8. mem s' (of_nat (unat GDT_ADDR + i * 10 + k)) = gdt_byte i k)"
proof -
  let ?s = "(wr GS 0 (wr FS 0 (wr ES 0x2b (wr SS 0x2b (wr DS 0x2b (wr CS 0x23 (wr ESP STACK_BOTTOM s)))))))\<lparr>mem := \<lambda>_. 0\<rparr>"
  have "unat GDT_ADDR + 90 < 2 ^ 32" by (simp add: GDT_ADDR_def)
  moreover have "distinct [0..<9]" "set [0..<9] \<subseteq> {..<9::nat}" by auto
  ultimately obtain t where "init_gdt (unat GDT_ADDR) ?s = Inr t" "var t = var ?s"
    "\<forall>i\<in>set [0..<9]. \<forall>k<8. mem t (of_nat (unat GDT_ADDR + i * 10 + k)) = gdt_byte i k"
    using gdt_loop_mem [of "unat GDT_ADDR" "[0..<9]" ?s] unfolding init_gdt_def GDT_ENTRIES_def by blast
  then show ?thesis by (simp add: initialize_def Let_def comp_def)
qed

lemma init_flat:
  "\<exists>s'. initialize True s = Inr (1, s') \<and> var s' ESP = STACK_BOTTOM \<and>
    (\<forall>sel. get_gdt_base sel s' = Inr 0 \<and>
      get_gdt_limit sel s' = Inr (if gdt_index sel = 0 then 0 else 0xFFFF))"
proof -
  obtain s' where s': "initialize True s = Inr (1, s')" "var s' ESP = STACK_BOTTOM" "dtr_base (gdtr s') = GDT_ADDR"
    and b: "\<And>i k. i < 9 \<Longrightarrow> k < 8 \<Longrightarrow> mem s' (of_nat (unat GDT_ADDR + i * 10 + k)) = gdt_byte i k"
    using gdt_after_init by blast
  have "get_gdt_base sel s' = Inr 0 \<and> get_gdt_limit sel s' = Inr (if gdt_index sel = 0 then 0 else 0xFFFF)" for sel
  proof -
    have i: "gdt_index sel < 9" by (simp add: gdt_index_def GDT_ENTRIES_def)
    let ?d = "unat GDT_ADDR + gdt_index sel * 10"
    have m: "?d + 10 \<le> MEM_BYTES" using i by (simp add: GDT_ADDR_def MEM_BYTES_def)
    have l16: "load16 (PMem (?d + k)) s' = Inr (ucast (gdt_byte (gdt_index sel) k) OR
        push_bit 8 (ucast (gdt_byte (gdt_index sel) (k + 1))))" if "k + 1 < 8" for k
    proof -
      have e: "(of_nat (?d + k) :: u32) + 1 = of_nat (?d + (k + 1))" by simp
      show ?thesis
        using m that b [OF i, of k] b [OF i, of "k + 1"] unfolding load16.simps le16_def e by (simp del: of_nat_add)
    qed
    have l8: "load8 (PMem (?d + k)) s' = Inr (gdt_byte (gdt_index sel) k)" if "k < 8" for k
      using m that b [OF i, of k] by simp
    show ?thesis
      using l16 [of 0] l16 [of 2] l8 [of 4] l8 [of 7]
      by (simp add: get_gdt_base_def get_gdt_limit_def s'(3) gdt_layout gdt_byte_def Let_def del: load8.simps load16.simps)
  qed
  with s' show ?thesis by blast
qed
text \<open>
  C17 (start-up). When the memory can be allocated, \<open>initialize\<close> returns 1 with the stack pointer
  at \<open>STACK_BOTTOM\<close> and a descriptor table in which every selector, whatever its bits, has base
  0; its limit is \<open>0xFFFF\<close>, or 0 for the selectors of the null descriptor.
\<close>

theorem flat_segments:
  "\<exists>s'. initialize True s = Inr (1, s') \<and> var s' ESP = STACK_BOTTOM \<and>
    (\<forall>sel. get_gdt_base sel s' = Inr 0 \<and>
      get_gdt_limit sel s' = Inr (if gdt_index sel = 0 then 0 else 0xFFFF))"
  by (rule init_flat)

end
