(* ===== verification/VM_Operands.thy ===== *)
theory VM_Operands
  imports VM_Gdt
begin

text \<open>
  Access to the operands of a decoded instruction: \<open>eff_addr\<close> of \<open>src/src/instr.c\<close> and
  the statement sequences that the handlers repeat to fetch a source value, to form a
  pointer to a register or memory operand, to update a destination in place and to fetch
  a jump target.
\<close>

section \<open>Effective addresses\<close>

text \<open>
  Register number 0 is \<open>X86_REG_INVALID\<close>. The sum is computed on \<open>int32_t\<close> and cast
  back; it wraps around as the unoptimised build of the program does.
\<close>

definition eff_addr :: "x86_op_mem \<Rightarrow> cpu \<Rightarrow> u32 res" where
  "eff_addr m s =
     bnd (if m_base m \<noteq> 0 then reg_val (int (m_base m)) s else Inr 0) (\<lambda>base.
     bnd (if m_index m \<noteq> 0 then reg_val (int (m_index m)) s else Inr 0) (\<lambda>index.
     let scale = (if m_scale m \<noteq> 0 then m_scale m else 1);
         disp = ucast (m_disp m) :: u32 in
     bnd (if m_segment m \<noteq> 0 then
            bnd (reg_val (int (m_segment m)) s) (\<lambda>segment. get_gdt_base (ucast segment) s)
          else Inr 0) (\<lambda>segment.
     Inr (segment + base + index * scale + disp))))"

text \<open>\<open>mem + eff_addr(op.mem)\<close>.\<close>

definition mem_ptr :: "cs_x86_op \<Rightarrow> cpu \<Rightarrow> ptr res" where
  "mem_ptr oper s = bnd (eff_addr (op_mem oper) s) (\<lambda>a. Inr (PMem (unat a)))"

text \<open>\<open>op.type == X86_OP_REG ? regs[op.reg] : mem + eff_addr(op.mem)\<close>.\<close>

definition rm_ptr :: "cs_x86_op \<Rightarrow> cpu \<Rightarrow> ptr res" where
  "rm_ptr oper s = (if op_type oper = X86_OP_REG then regs_at (op_reg oper) else mem_ptr oper s)"

section \<open>Source values\<close>

text \<open>A value read through a pointer at the operand's size: 4, 2 or (otherwise) 1 bytes.\<close>

definition load_sz :: "u8 \<Rightarrow> ptr \<Rightarrow> cpu \<Rightarrow> u32 res" where
  "load_sz sz p s =
     (if sz = 4 then load32 p s
      else if sz = 2 then bnd (load16 p s) (\<lambda>x. Inr (ucast x))
      else bnd (load8 p s) (\<lambda>x. Inr (ucast x)))"

text \<open>
  The second operand of adc, add, and, arpl, bsf, bsr, or and xor. An operand of none of
  the three types leaves the local variable uninitialised.
\<close>

definition src_val :: "cs_x86_op \<Rightarrow> cpu \<Rightarrow> u32 res" where
  "src_val oper s =
     (case op_type oper of
        X86_OP_REG \<Rightarrow> reg_val (int (op_reg oper)) s
      | X86_OP_IMM \<Rightarrow> Inr (ucast (op_imm oper))
      | X86_OP_MEM \<Rightarrow> bnd (mem_ptr oper s) (\<lambda>t. load_sz (op_size oper) t s)
      | X86_OP_INVALID \<Rightarrow> Inl Uninit)"

text \<open>The source operand of mov, movsx, movzx, push and test: memory is read as 32 bits.\<close>

definition src_val32 :: "cs_x86_op \<Rightarrow> cpu \<Rightarrow> u32 res" where
  "src_val32 oper s =
     (case op_type oper of
        X86_OP_REG \<Rightarrow> reg_val (int (op_reg oper)) s
      | X86_OP_IMM \<Rightarrow> Inr (ucast (op_imm oper))
      | X86_OP_MEM \<Rightarrow> bnd (mem_ptr oper s) (\<lambda>t. load32 t s)
      | X86_OP_INVALID \<Rightarrow> Inl Uninit)"

text \<open>The operand of call, jmp and the conditional jumps: anything else than a register or
  an immediate is read from memory.\<close>

definition target_val :: "cs_x86_op \<Rightarrow> cpu \<Rightarrow> u32 res" where
  "target_val oper s =
     (if op_type oper = X86_OP_REG then reg_val (int (op_reg oper)) s
      else if op_type oper = X86_OP_IMM then Inr (ucast (op_imm oper))
      else bnd (mem_ptr oper s) (\<lambda>t. load32 t s))"

section \<open>Destinations updated in place\<close>

definition rmw8 :: "ptr \<Rightarrow> (u8 \<Rightarrow> u8) \<Rightarrow> cpu \<Rightarrow> (u32 \<times> u32 \<times> cpu) res" where
  "rmw8 p f s = bnd (rmw (load8 p) (store8 p) f s) (\<lambda>(v, r, s). Inr (ucast v, ucast r, s))"

definition rmw16 :: "ptr \<Rightarrow> (u16 \<Rightarrow> u16) \<Rightarrow> cpu \<Rightarrow> (u32 \<times> u32 \<times> cpu) res" where
  "rmw16 p f s = bnd (rmw (load16 p) (store16 p) f s) (\<lambda>(v, r, s). Inr (ucast v, ucast r, s))"

definition rmw32 :: "ptr \<Rightarrow> (u32 \<Rightarrow> u32) \<Rightarrow> cpu \<Rightarrow> (u32 \<times> u32 \<times> cpu) res" where
  "rmw32 p f s = rmw (load32 p) (store32 p) f s"

text \<open>
  The register branch \<open>switch (regs_size[op1.reg])\<close>, whose default case is the 32-bit
  one, and the memory branch \<open>if (s1 == 4) ... else if (s1 == 2) ... else ...\<close>.
\<close>

definition rmw_reg :: "nat \<Rightarrow> (u8 \<Rightarrow> u8) \<Rightarrow> (u16 \<Rightarrow> u16) \<Rightarrow> (u32 \<Rightarrow> u32) \<Rightarrow> cpu
    \<Rightarrow> (u32 \<times> u32 \<times> cpu) res" where
  "rmw_reg r f8 f16 f32 s =
     bnd (regs_at r) (\<lambda>p. bnd (regs_size_at r) (\<lambda>base.
       if base = 0x8 then rmw8 p f8 s
       else if base = 0x10 then rmw16 p f16 s
       else rmw32 p f32 s))"

definition rmw_mem :: "cs_x86_op \<Rightarrow> (u8 \<Rightarrow> u8) \<Rightarrow> (u16 \<Rightarrow> u16) \<Rightarrow> (u32 \<Rightarrow> u32) \<Rightarrow> cpu
    \<Rightarrow> (u32 \<times> u32 \<times> cpu) res" where
  "rmw_mem oper f8 f16 f32 s =
     bnd (mem_ptr oper s) (\<lambda>t.
       if op_size oper = 4 then rmw32 t f32 s
       else if op_size oper = 2 then rmw16 t f16 s
       else rmw8 t f8 s)"

definition rmw_op :: "cs_x86_op \<Rightarrow> (u8 \<Rightarrow> u8) \<Rightarrow> (u16 \<Rightarrow> u16) \<Rightarrow> (u32 \<Rightarrow> u32) \<Rightarrow> cpu
    \<Rightarrow> (u32 \<times> u32 \<times> cpu) res" where
  "rmw_op oper f8 f16 f32 s =
     (if op_type oper = X86_OP_REG then rmw_reg (op_reg oper) f8 f16 f32 s
      else if op_type oper = X86_OP_MEM then rmw_mem oper f8 f16 f32 s
      else Inl Uninit)"

section \<open>Well-formed operands\<close>

text \<open>
  What Capstone guarantees of a register or memory operand in 32-bit mode: the register is one
  of the table and its size in bytes is the table's size, and a memory operand of these
  instructions is 1, 2 or 4 bytes wide.
\<close>

definition opd_wf :: "cs_x86_op \<Rightarrow> bool" where
  "opd_wf oper =
     (case op_type oper of
        X86_OP_REG \<Rightarrow> op_reg oper < 50 \<and> regs_size ! op_reg oper = op_size oper * 8
          \<and> op_size oper \<in> {1, 2, 4}
      | X86_OP_MEM \<Rightarrow> op_size oper \<in> {1, 2, 4}
      | _ \<Rightarrow> False)"

section \<open>Sample operands\<close>

text \<open>Constructors of decoded operands and instructions, for the concrete instances below.\<close>

definition no_mem :: x86_op_mem where
  "no_mem = \<lparr>m_segment = 0, m_base = 0, m_index = 0, m_scale = 0, m_disp = 0\<rparr>"

definition reg_opd :: "nat \<Rightarrow> u8 \<Rightarrow> cs_x86_op" where
  "reg_opd r sz = \<lparr>op_type = X86_OP_REG, op_reg = r, op_imm = 0, op_mem = no_mem, op_size = sz\<rparr>"

definition imm_opd :: "u64 \<Rightarrow> u8 \<Rightarrow> cs_x86_op" where
  "imm_opd x sz = \<lparr>op_type = X86_OP_IMM, op_reg = 0, op_imm = x, op_mem = no_mem, op_size = sz\<rparr>"

definition mem_opd :: "u64 \<Rightarrow> u8 \<Rightarrow> cs_x86_op" where
  "mem_opd d sz = \<lparr>op_type = X86_OP_MEM, op_reg = 0, op_imm = 0, op_mem = no_mem\<lparr>m_disp := d\<rparr>, op_size = sz\<rparr>"

definition insn2 :: "cs_x86_op \<Rightarrow> cs_x86_op \<Rightarrow> cs_insn" where
  "insn2 a b = \<lparr>insn_size = 2, insn_bytes = (\<lambda>_. 0), mnemonic = [], prefix = (\<lambda>_. 0), op_count = 2,
     operands = (\<lambda>n. if n = 0 then a else b)\<rparr>"

lemmas sample_defs = no_mem_def reg_opd_def imm_opd_def mem_opd_def insn2_def

section \<open>Laws\<close>

lemma regs_cases: "r < 50 \<Longrightarrow> regs ! r = Null \<longleftrightarrow> regs_size ! r = 0"
proof -
  assume "r < 50"
  then have "r \<in> set [0..<50]" by simp
  moreover have "\<forall>r \<in> set [0..<50]. regs ! r = Null \<longleftrightarrow> regs_size ! r = 0"
    by (simp add: regs_def regs_size_def upt_conv_Cons)
  ultimately show ?thesis by blast
qed

text \<open>On a well-formed operand the update in place works through one pointer, at the operand's width.\<close>

lemma rmw_op_wf:
  assumes "opd_wf oper" "rm_ptr oper s = Inr p"
  shows "rmw_op oper f8 f16 f32 s =
    (if op_size oper = 1 then rmw8 p f8 s else if op_size oper = 2 then rmw16 p f16 s
     else rmw32 p f32 s)"
proof (cases "op_type oper = X86_OP_REG")
  case True
  with assms have "op_reg oper < 50" "p = regs ! op_reg oper"
    "regs_size ! op_reg oper = op_size oper * 8" "op_size oper \<in> {1, 2, 4}"
    by (auto simp: opd_wf_def rm_ptr_def regs_at_def split: if_splits)
  then show ?thesis
    using True by (auto simp: rmw_op_def rmw_reg_def regs_at_def regs_size_at_def)
next
  case False
  with assms have m: "op_type oper = X86_OP_MEM" "op_size oper \<in> {1, 2, 4}"
    by (auto simp: opd_wf_def split: x86_op_type.splits)
  with False assms(2) have "mem_ptr oper s = Inr p"
    by (simp add: rm_ptr_def)
  with m show ?thesis by (auto simp: rmw_op_def rmw_mem_def)
qed

text \<open>Reading through a pointer that does not lead to \<open>eflags\<close> after a flag was written.\<close>

lemma load_put_Flag [simp]:
  "p \<noteq> PVar EFLAGS \<Longrightarrow> load8 p (put_Flag f c s) = load8 p s"
  "p \<noteq> PVar EFLAGS \<Longrightarrow> load16 p (put_Flag f c s) = load16 p s"
  "p \<noteq> PVar EFLAGS \<Longrightarrow> load32 p (put_Flag f c s) = load32 p s"
  by (cases p; simp)+

text \<open>What a store through a pointer leaves alone.\<close>

lemma store_frame:
  "store8 p x s = Inr s' \<Longrightarrow> PVar v \<noteq> p \<Longrightarrow> var s' v = var s v"
  "store16 p y s = Inr s' \<Longrightarrow> PVar v \<noteq> p \<Longrightarrow> var s' v = var s v"
  "store32 p z s = Inr s' \<Longrightarrow> PVar v \<noteq> p \<Longrightarrow> var s' v = var s v"
  by (cases p; auto split: if_splits)+

lemma store_flags:
  "store8 p x s = Inr s' \<Longrightarrow> p \<noteq> PVar EFLAGS \<Longrightarrow> test_Flag f s' = test_Flag f s"
  "store16 p y s = Inr s' \<Longrightarrow> p \<noteq> PVar EFLAGS \<Longrightarrow> test_Flag f s' = test_Flag f s"
  "store32 p z s = Inr s' \<Longrightarrow> p \<noteq> PVar EFLAGS \<Longrightarrow> test_Flag f s' = test_Flag f s"
  by (auto simp: test_Flag_def dest: store_frame [where v = EFLAGS])

lemma adv_simps [simp]:
  "v \<noteq> EIP \<Longrightarrow> var (adv i s) v = var s v" "var (adv i s) EIP = var s EIP + ucast (insn_size i)"
  "mem (adv i s) = mem s" "gdtr (adv i s) = gdtr s" "ldtr (adv i s) = ldtr s"
  "idtr (adv i s) = idtr s" "outp (adv i s) = outp s" "test_Flag f (adv i s) = test_Flag f s"
  by (simp_all add: adv_def)

text \<open>The memory a state holds decides every access through the memory.\<close>

lemma mem_access_cong:
  "mem s = mem t \<Longrightarrow> read16 a s = read16 a t" "mem s = mem t \<Longrightarrow> read32 a s = read32 a t"
  "mem s = mem t \<Longrightarrow> load8 (PMem k) s = load8 (PMem k) t"
  "mem s = mem t \<Longrightarrow> load16 (PMem k) s = load16 (PMem k) t"
  "mem s = mem t \<Longrightarrow> load32 (PMem k) s = load32 (PMem k) t"
  by (simp_all add: read16_def read32_def)

lemma rm_ptr_reg: "op_type oper = X86_OP_REG \<Longrightarrow> op_reg oper < 50 \<Longrightarrow> rm_ptr oper s = Inr (regs ! op_reg oper)"
  by (simp add: rm_ptr_def regs_at_def)

section \<open>Effective addresses in a flat machine\<close>

text \<open>
  C28 (effective address). With a flat descriptor table \<^emph>\<open>every\<close> memory operand, with or without a
  segment override, addresses base + index * scale + displacement modulo \<open>2 ^ 32\<close>, where an absent
  register counts 0 and a scale of 0 counts 1.
\<close>

theorem eff_addr_flat:
  assumes flat: "\<And>sel. get_gdt_base sel s = Inr 0"
    and seg: "m_segment m = 0 \<or> (\<exists>g. reg_val (int (m_segment m)) s = Inr g)"
    and base: "(if m_base m = 0 then Inr 0 else reg_val (int (m_base m)) s) = Inr b"
    and index: "(if m_index m = 0 then Inr 0 else reg_val (int (m_index m)) s) = Inr x"
  shows "eff_addr m s = Inr (b + x * (if m_scale m = 0 then 1 else m_scale m) + ucast (m_disp m))"
  using seg base index flat by (auto simp: eff_addr_def Let_def split: if_splits)

theorem eff_addr_flat_witness:
  "\<exists>s. eff_addr \<lparr>m_segment = 17, m_base = 21, m_index = 29, m_scale = 4, m_disp = 8\<rparr> (wr ESI 3 (wr EBX 0x100 s)) = Inr 0x114"
proof -
  obtain s where s: "\<And>sel. get_gdt_base sel s = Inr 0" using init_flat by blast
  have f: "get_gdt_base sel (wr ESI 3 (wr EBX 0x100 s)) = Inr 0" for sel
    unfolding get_gdt_wr by (rule s)
  have "eff_addr \<lparr>m_segment = 17, m_base = 21, m_index = 29, m_scale = 4, m_disp = 8\<rparr> (wr ESI 3 (wr EBX 0x100 s)) =
      Inr (0x100 + 3 * (if 4 = (0::u32) then 1 else 4) + ucast (8 :: u64))"
    using eff_addr_flat [of "wr ESI 3 (wr EBX 0x100 s)"
        "\<lparr>m_segment = 17, m_base = 21, m_index = 29, m_scale = 4, m_disp = 8\<rparr>" "0x100" 3] f
    by (simp add: reg_val_def regs_def regs_size_def)
  then show ?thesis by auto
qed

end
