(* ===== verification/VM_Arith.thy ===== *)
theory VM_Arith
  imports VM_Operands
begin

text \<open>
  The addition and subtraction handlers of \<open>src/src/instr.c\<close>: ADC, ADD, CMP, DEC, INC,
  NEG, SBB and SUB. Each definition is the whole handler: the advance of \<open>eip\<close>, the
  operand fetch, the update in place and the flags.
\<close>

type_synonym handler = "cs_insn \<Rightarrow> cpu \<Rightarrow> (int \<times> cpu) res"

text \<open>\<open>return 0;\<close>\<close>

definition ret0 :: "cpu \<Rightarrow> (int \<times> cpu) res" where
  "ret0 s = Inr (0, s)"

section \<open>Handlers\<close>

definition adc_i :: handler where
  "adc_i i s =
     (let s = adv i s; s1 = op_size (op1 i) in
      bnd (src_val (op2 i) s) (\<lambda>val2. let c = test_Flag CF s in
      bnd (rmw_op (op1 i) (\<lambda>v. v + (ucast val2 + of_bool c)) (\<lambda>v. v + (ucast val2 + of_bool c))
             (\<lambda>v. v + (val2 + of_bool c)) s) (\<lambda>(val1, r, s).
      bnd (arith_flags (val1 > r) val1 val2 r (s1 * 8) s) ret0)))"

definition add_i :: handler where
  "add_i i s =
     (let s = adv i s; s1 = op_size (op1 i) in
      bnd (src_val (op2 i) s) (\<lambda>val2.
      bnd (rmw_op (op1 i) (\<lambda>v. v + ucast val2) (\<lambda>v. v + ucast val2) (\<lambda>v. v + val2) s)
        (\<lambda>(val1, r, s).
      bnd (arith_flags (val1 > r) val1 val2 r (s1 * 8) s) ret0)))"

text \<open>The immediate of cmp, sub and sbb: a one-byte immediate is sign-extended.\<close>

definition imm_ext :: "cs_x86_op \<Rightarrow> u8 \<Rightarrow> u32" where
  "imm_ext oper s1 =
     (if op_size oper = 1 then
        (if s1 = 2 then ucast (sign_extend8_16 (ucast (op_imm oper)))
         else if s1 = 4 then sign_extend8_32 (ucast (op_imm oper))
         else ucast (op_imm oper))
      else ucast (op_imm oper))"

text \<open>A value read at size 1, 2 or (otherwise) 4, as cmp tests the sizes.\<close>

definition load_124 :: "u8 \<Rightarrow> ptr \<Rightarrow> cpu \<Rightarrow> u32 res" where
  "load_124 sz p s =
     (if sz = 1 then bnd (load8 p s) (\<lambda>x. Inr (ucast x))
      else if sz = 2 then bnd (load16 p s) (\<lambda>x. Inr (ucast x))
      else load32 p s)"

definition cmp_src :: "cs_x86_op \<Rightarrow> u8 \<Rightarrow> cpu \<Rightarrow> u32 res" where
  "cmp_src oper s1 s =
     (case op_type oper of
        X86_OP_REG \<Rightarrow> bnd (regs_at (op_reg oper)) (\<lambda>p. load_124 (op_size oper) p s)
      | X86_OP_IMM \<Rightarrow> Inr (imm_ext oper s1)
      | X86_OP_MEM \<Rightarrow> bnd (mem_ptr oper s) (\<lambda>p. load_124 (op_size oper) p s)
      | X86_OP_INVALID \<Rightarrow> Inl Uninit)"

definition cmp_i :: handler where
  "cmp_i i s =
     (let s = adv i s; s1 = op_size (op1 i) in
      bnd (cmp_src (op2 i) s1 s) (\<lambda>val2.
      bnd (case op_type (op1 i) of
             X86_OP_REG \<Rightarrow>
               bnd (regs_at (op_reg (op1 i))) (\<lambda>p.
               bnd (load_124 s1 p s) (\<lambda>val1.
                 Inr (val1, if s1 = 1 then val1 - (val2 AND 0xFF)
                            else if s1 = 2 then val1 - (val2 AND 0xFFFF)
                            else val1 - val2)))
           | X86_OP_MEM \<Rightarrow>
               bnd (mem_ptr (op1 i) s) (\<lambda>p.
               bnd (load_124 s1 p s) (\<lambda>val1. Inr (val1, val1 - val2)))
           | _ \<Rightarrow> Inl Uninit) (\<lambda>(val1, r).
      bnd (arith_flags (val1 < val2) val1 val2 r (s1 * 8) s) ret0)))"

text \<open>
  In dec and inc the locals \<open>res\<close> and \<open>oper1\<close> are initialised to 0, and the register
  switch has no default case; dec writes memory operands as 32 bits whatever their size.
\<close>

definition incdec_reg :: "nat \<Rightarrow> (u8 \<Rightarrow> u8) \<Rightarrow> (u16 \<Rightarrow> u16) \<Rightarrow> (u32 \<Rightarrow> u32) \<Rightarrow> cpu
    \<Rightarrow> (u32 \<times> u32 \<times> cpu) res" where
  "incdec_reg r f8 f16 f32 s =
     bnd (regs_at r) (\<lambda>p. bnd (regs_size_at r) (\<lambda>base.
       if base = 0x08 then rmw8 p f8 s
       else if base = 0x10 then rmw16 p f16 s
       else if base = 0x20 then rmw32 p f32 s
       else Inr (0, 0, s)))"

definition dec_i :: handler where
  "dec_i i s =
     (let s = adv i s; s1 = op_size (op1 i) in
      bnd (if op_type (op1 i) = X86_OP_REG then
             incdec_reg (op_reg (op1 i)) (\<lambda>v. v - 1) (\<lambda>v. v - 1) (\<lambda>v. v - 1) s
           else if op_type (op1 i) = X86_OP_MEM then
             bnd (mem_ptr (op1 i) s) (\<lambda>p. rmw32 p (\<lambda>v. v - 1) s)
           else Inr (0, 0, s)) (\<lambda>(oper1, r, s).
      bnd (arith_flags (oper1 < 1) oper1 1 r (s1 * 8) s) ret0))"

definition inc_i :: handler where
  "inc_i i s =
     (let s = adv i s; s1 = op_size (op1 i) in
      bnd (if op_type (op1 i) = X86_OP_REG then
             incdec_reg (op_reg (op1 i)) (\<lambda>v. v + 1) (\<lambda>v. v + 1) (\<lambda>v. v + 1) s
           else if op_type (op1 i) = X86_OP_MEM then
             rmw_mem (op1 i) (\<lambda>v. v + 1) (\<lambda>v. v + 1) (\<lambda>v. v + 1) s
           else Inr (0, 0, s)) (\<lambda>(oper1, r, s).
      bnd (arith_flags (oper1 > r) oper1 1 r (s1 * 8) s) ret0))"

text \<open>
  The guard of neg is the assignment \<open>op1.type = X86_OP_REG\<close>, so the register branch is
  taken for every operand.
\<close>

definition neg_i :: handler where
  "neg_i i s =
     (let s = adv i s; s1 = op_size (op1 i) in
      bnd (regs_at (op_reg (op1 i))) (\<lambda>p.
      bnd (load_124 s1 p s) (\<lambda>v. let s = (if zero_v v then clear_Flag CF s else set_Flag CF s) in
      bnd (if s1 = 1 then rmw8 p (\<lambda>v. 0 - v) s
           else if s1 = 2 then rmw16 p (\<lambda>v. 0 - v) s
           else rmw32 p (\<lambda>v. 0 - v) s) (\<lambda>(oper1, r, s).
      bnd (overflow 0x0 oper1 r (s1 * 8)) (\<lambda>ov. let s = put_Flag OF ov s in
      bnd (sign r (s1 * 8)) (\<lambda>sg. let s = put_Flag SF sg s;
          s = put_Flag PF (parity r) s;
          s = put_Flag ZF (zero_v r) s
      in ret0 s))))))"

text \<open>
  The flag tail of sbb: \<open>OF\<close> and \<open>AF\<close> are computed with the carry flag that the
  preceding line has just written.
\<close>

definition sbb_flags :: "u32 \<Rightarrow> u32 \<Rightarrow> u32 \<Rightarrow> u8 \<Rightarrow> cpu \<Rightarrow> cpu res" where
  "sbb_flags ini val r base s =
     (let s = put_Flag CF (ini < val + of_bool (test_Flag CF s)) s in
      bnd (overflow ini (val + of_bool (test_Flag CF s)) r base) (\<lambda>ov. let s = put_Flag OF ov s in
      bnd (sign r base) (\<lambda>sg. let s = put_Flag SF sg s;
          s = put_Flag ZF (r = 0) s;
          s = put_Flag AF (adjust ini (val + of_bool (test_Flag CF s)) r) s;
          s = put_Flag PF (parity r) s
      in Inr s)))"

definition sbb_i :: handler where
  "sbb_i i s =
     (let s = adv i s; s1 = op_size (op1 i); s2 = op_size (op2 i) in
      bnd (rm_ptr (op1 i) s) (\<lambda>oper1.
      bnd (if op_type (op2 i) = X86_OP_IMM then Inr (imm_ext (op2 i) s1)
           else
             bnd (rm_ptr (op2 i) s) (\<lambda>oper2.
               if s2 = 2 then bnd (load16 oper2 s) (\<lambda>x. Inr (ucast x))
               else if s2 = 4 then load32 oper2 s
               else if s1 = 1 \<and> s2 = 1 then bnd (load8 oper2 s) (\<lambda>x. Inr (ucast x))
               else Inl Uninit)) (\<lambda>val. let c = test_Flag CF s in
      bnd (if s1 = 1 then rmw8 oper1 (\<lambda>ini. ini - ucast val - of_bool c) s
           else if s1 = 2 then rmw16 oper1 (\<lambda>ini. ini - ucast val - of_bool c) s
           else rmw32 oper1 (\<lambda>ini. ini - val - of_bool c) s) (\<lambda>(ini, r, s).
      bnd (sbb_flags ini val r (s1 * 8) s) ret0))))"

definition sub_src :: "cs_x86_op \<Rightarrow> u8 \<Rightarrow> cpu \<Rightarrow> u32 res" where
  "sub_src oper s1 s =
     (case op_type oper of
        X86_OP_REG \<Rightarrow> reg_val (int (op_reg oper)) s
      | X86_OP_IMM \<Rightarrow> Inr (imm_ext oper s1)
      | X86_OP_MEM \<Rightarrow> bnd (mem_ptr oper s) (\<lambda>t. load32 t s)
      | X86_OP_INVALID \<Rightarrow> Inl Uninit)"

definition sub_i :: handler where
  "sub_i i s =
     (let s = adv i s; s1 = op_size (op1 i) in
      bnd (sub_src (op2 i) s1 s) (\<lambda>val2.
      bnd (if op_type (op1 i) = X86_OP_REG then
             rmw_reg (op_reg (op1 i)) (\<lambda>v. v - ucast val2) (\<lambda>v. v - ucast val2) (\<lambda>v. v - val2) s
           else if op_type (op1 i) = X86_OP_MEM then
             bnd (mem_ptr (op1 i) s) (\<lambda>p. rmw32 p (\<lambda>v. v - val2) s)
           else Inl Uninit) (\<lambda>(val1, r, s).
      bnd (arith_flags (val1 < val2) val1 val2 r (s1 * 8) s) ret0)))"

section \<open>Correctness\<close>

lemma rmw_outcome:
  "load8 p s = Inr a8 \<Longrightarrow> \<exists>t. rmw8 p f s = Inr (ucast a8, ucast (f a8), t) \<and> store8 p (f a8) s = Inr t"
  "load16 p s = Inr a16 \<Longrightarrow> \<exists>t. rmw16 p g s = Inr (ucast a16, ucast (g a16), t) \<and> store16 p (g a16) s = Inr t"
  "load32 p s = Inr a \<Longrightarrow> \<exists>t. rmw32 p h s = Inr (a, h a, t) \<and> store32 p (h a) s = Inr t"
  using c8.st_total [of p s a8 "f a8"] c16.st_total [of p s a16 "g a16"] c32.st_total [of p s a "h a"]
  by (auto simp: rmw8_def rmw16_def rmw32_def bnd_eq_Inr c8.rmw_iff c16.rmw_iff c32.rmw_iff)

text \<open>An update of a destination followed by a flag update: the destination holds the result,
  and nothing but it and \<open>eflags\<close> changes.\<close>

lemma update_then_flags:
  assumes "p \<noteq> PVar EFLAGS" "only_flags t u"
  shows "store8 p x s = Inr t \<Longrightarrow> load8 p u = Inr x \<and> (\<forall>v. PVar v \<noteq> p \<and> v \<noteq> EFLAGS \<longrightarrow> var u v = var s v)"
    "store16 p y s = Inr t \<Longrightarrow> load16 p u = Inr y \<and> (\<forall>v. PVar v \<noteq> p \<and> v \<noteq> EFLAGS \<longrightarrow> var u v = var s v)"
    "store32 p z s = Inr t \<Longrightarrow> load32 p u = Inr z \<and> (\<forall>v. PVar v \<noteq> p \<and> v \<noteq> EFLAGS \<longrightarrow> var u v = var s v)"
  using assms
  by (simp_all add: only_flagsD [OF assms(2)] c8.ld_st c16.ld_st c32.ld_st store_frame)

text \<open>
  C11 (ADD, 32 bits). On a well-formed doubleword destination \<open>p\<close> other than \<open>eflags\<close>, \<open>add_i\<close>
  returns 0, stores the wrapped sum in \<open>p\<close>, sets \<open>CF\<close> exactly on unsigned overflow, \<open>OF\<close>
  exactly on signed overflow, \<open>AF\<close> on the carry out of the low nibble, \<open>SF\<close>, \<open>ZF\<close> and \<open>PF\<close>
  from the result, and changes no variable but the destination and \<open>eflags\<close> after advancing.
\<close>

theorem add_i_32:
  assumes wf: "opd_wf (op1 i)" "op_size (op1 i) = 4"
    and p: "rm_ptr (op1 i) (adv i s) = Inr p" "p \<noteq> PVar EFLAGS"
    and b: "src_val (op2 i) (adv i s) = Inr b" and a: "load32 p (adv i s) = Inr a"
  shows "\<exists>s'. add_i i s = Inr (0, s') \<and> load32 p s' = Inr (a + b) \<and>
    flags_are (unat a + unat b \<ge> 2 ^ 32) (sint a + sint b \<noteq> sint (a + b))
      (unat a mod 16 + unat b mod 16 \<ge> 16) (a + b) s' \<and>
    (\<forall>v. PVar v \<noteq> p \<and> v \<noteq> EFLAGS \<longrightarrow> var s' v = var (adv i s) v)"
proof -
  obtain t where t: "rmw32 p (\<lambda>v. v + b) (adv i s) = Inr (a, a + b, t)" "store32 p (a + b) (adv i s) = Inr t"
    using rmw_outcome(3) [OF a] by blast
  obtain u where u: "arith_flags (a > a + b) a b (a + b) 32 t = Inr u" "only_flags t u"
    "flags_are (a > a + b) (sint a + sint b \<noteq> sint (a + b)) (adjust a b (a + b)) (a + b) u"
    using arith_flags_out(3) [OF overflow_add(3)] by blast
  have "add_i i s = Inr (0, u)"
    using wf b t u by (simp add: add_i_def rmw_op_wf [OF wf(1) p(1)] ret0_def)
  with u(3) update_then_flags(3) [OF p(2) u(2) t(2)] show ?thesis
    using carry_add [of a b] by (simp add: adjust_add)
qed

theorem add_i_32_witness:
  "\<exists>s'. add_i (insn2 (reg_opd 19 4) (imm_opd 0x7FFFFFFF 4)) (wr EAX 1 static_init) = Inr (0, s') \<and>
    var s' EAX = 0x80000000 \<and> test_Flag OF s' \<and> \<not> test_Flag CF s' \<and> test_Flag SF s'"
  using add_i_32 [of "insn2 (reg_opd 19 4) (imm_opd 0x7FFFFFFF 4)" "wr EAX 1 static_init" "PVar EAX" "0x7FFFFFFF" 1]
  by (auto simp: sample_defs opd_wf_def rm_ptr_def regs_at_def regs_def regs_size_def src_val_def
      flags_are_def static_init_def)

lemma add_i_16:
  assumes wf: "opd_wf (op1 i)" "op_size (op1 i) = 2"
    and p: "rm_ptr (op1 i) (adv i s) = Inr p" "p \<noteq> PVar EFLAGS"
    and b: "src_val (op2 i) (adv i s) = Inr b" and a: "load16 p (adv i s) = Inr a"
  shows "\<exists>s'. add_i i s = Inr (0, s') \<and> load16 p s' = Inr (a + ucast b) \<and>
    flags_are (unat a + unat (ucast b :: u16) \<ge> 2 ^ 16) (sint a + sint (ucast b :: u16) \<noteq> sint (a + ucast b))
      (unat a mod 16 + unat (ucast b :: u16) mod 16 \<ge> 16) (a + ucast b) s' \<and>
    (\<forall>v. PVar v \<noteq> p \<and> v \<noteq> EFLAGS \<longrightarrow> var s' v = var (adv i s) v)"
proof -
  obtain t where t: "rmw16 p (\<lambda>v. v + ucast b) (adv i s) = Inr (ucast a, ucast (a + ucast b), t)"
    "store16 p (a + ucast b) (adv i s) = Inr t"
    using rmw_outcome(2) [OF a] by blast
  obtain u where u: "arith_flags ((ucast a :: u32) > ucast (a + ucast b)) (ucast a) b (ucast (a + ucast b)) 16 t
      = Inr u" "only_flags t u"
    "flags_are ((ucast a :: u32) > ucast (a + ucast b)) (sint a + sint (ucast b :: u16) \<noteq> sint (a + ucast b))
      (adjust (ucast a) b (ucast (a + ucast b))) (a + ucast b) u"
    using arith_flags_out(2) [OF overflow_add(2)] by blast
  have "add_i i s = Inr (0, u)"
    using wf b t u by (simp add: add_i_def rmw_op_wf [OF wf(1) p(1)] ret0_def)
  with u(3) update_then_flags(2) [OF p(2) u(2) t(2)] show ?thesis
    using carry_add [of a "ucast b"] by (simp add: adjust_add ucast_less)
qed

lemma add_i_8:
  assumes wf: "opd_wf (op1 i)" "op_size (op1 i) = 1"
    and p: "rm_ptr (op1 i) (adv i s) = Inr p" "p \<noteq> PVar EFLAGS"
    and b: "src_val (op2 i) (adv i s) = Inr b" and a: "load8 p (adv i s) = Inr a"
  shows "\<exists>s'. add_i i s = Inr (0, s') \<and> load8 p s' = Inr (a + ucast b) \<and>
    flags_are (unat a + unat (ucast b :: u8) \<ge> 2 ^ 8) (sint a + sint (ucast b :: u8) \<noteq> sint (a + ucast b))
      (unat a mod 16 + unat (ucast b :: u8) mod 16 \<ge> 16) (a + ucast b) s' \<and>
    (\<forall>v. PVar v \<noteq> p \<and> v \<noteq> EFLAGS \<longrightarrow> var s' v = var (adv i s) v)"
proof -
  obtain t where t: "rmw8 p (\<lambda>v. v + ucast b) (adv i s) = Inr (ucast a, ucast (a + ucast b), t)"
    "store8 p (a + ucast b) (adv i s) = Inr t"
    using rmw_outcome(1) [OF a] by blast
  obtain u where u: "arith_flags ((ucast a :: u32) > ucast (a + ucast b)) (ucast a) b (ucast (a + ucast b)) 8 t
      = Inr u" "only_flags t u"
    "flags_are ((ucast a :: u32) > ucast (a + ucast b)) (sint a + sint (ucast b :: u8) \<noteq> sint (a + ucast b))
      (adjust (ucast a) b (ucast (a + ucast b))) (a + ucast b) u"
    using arith_flags_out(1) [OF overflow_add(1)] by blast
  have "add_i i s = Inr (0, u)"
    using wf b t u by (simp add: add_i_def rmw_op_wf [OF wf(1) p(1)] ret0_def)
  with u(3) update_then_flags(1) [OF p(2) u(2) t(2)] show ?thesis
    using carry_add [of a "ucast b"] by (simp add: adjust_add ucast_less)
qed

text \<open>
  ADD, 8 and 16 bits. The same contract at the two narrow widths: the source operand is
  truncated to the width of the destination, and every flag is that of the narrow sum.
\<close>

lemma add_i_narrow:
  assumes "opd_wf (op1 i)" "rm_ptr (op1 i) (adv i s) = Inr p" "p \<noteq> PVar EFLAGS"
    and "src_val (op2 i) (adv i s) = Inr b"
  shows "(op_size (op1 i) = 1 \<and> load8 p (adv i s) = Inr a8 \<longrightarrow>
      (\<exists>s'. add_i i s = Inr (0, s') \<and> load8 p s' = Inr (a8 + ucast b) \<and>
        flags_are (unat a8 + unat (ucast b :: u8) \<ge> 2 ^ 8) (sint a8 + sint (ucast b :: u8) \<noteq> sint (a8 + ucast b))
          (unat a8 mod 16 + unat (ucast b :: u8) mod 16 \<ge> 16) (a8 + ucast b) s')) \<and>
    (op_size (op1 i) = 2 \<and> load16 p (adv i s) = Inr a16 \<longrightarrow>
      (\<exists>s'. add_i i s = Inr (0, s') \<and> load16 p s' = Inr (a16 + ucast b) \<and>
        flags_are (unat a16 + unat (ucast b :: u16) \<ge> 2 ^ 16)
          (sint a16 + sint (ucast b :: u16) \<noteq> sint (a16 + ucast b))
          (unat a16 mod 16 + unat (ucast b :: u16) mod 16 \<ge> 16) (a16 + ucast b) s'))"
  using add_i_8 [OF assms(1) _ assms(2,3,4)] add_i_16 [OF assms(1) _ assms(2,3,4)] by blast

text \<open>
  C29 (ADC, 32 bits). The destination receives \<open>a + b + CF\<close>, and \<open>OF\<close> and \<open>AF\<close> are those of the
  three-term sum. \<open>CF\<close> is the carry of the sum except when the source is \<open>0xFFFFFFFF\<close> and the
  carry flag is set: that carry is lost, because the code compares the old destination with
  the result.
\<close>

theorem adc_i_32:
  assumes wf: "opd_wf (op1 i)" "op_size (op1 i) = 4"
    and p: "rm_ptr (op1 i) (adv i s) = Inr p" "p \<noteq> PVar EFLAGS"
    and b: "src_val (op2 i) (adv i s) = Inr b" and a: "load32 p (adv i s) = Inr a"
    and c: "test_Flag CF s = c"
  shows "\<exists>s'. adc_i i s = Inr (0, s') \<and> load32 p s' = Inr (a + (b + of_bool c)) \<and>
    flags_are (unat a + unat b + of_bool c \<ge> 2 ^ 32 \<and> \<not> (c \<and> b = - 1))
      (sint a + sint b + of_bool c \<noteq> sint (a + (b + of_bool c)))
      (unat a mod 16 + unat b mod 16 + of_bool c \<ge> 16) (a + (b + of_bool c)) s'"
proof -
  let ?r = "a + (b + of_bool c)"
  obtain t where t: "rmw32 p (\<lambda>v. v + (b + of_bool c)) (adv i s) = Inr (a, ?r, t)" "store32 p ?r (adv i s) = Inr t"
    using rmw_outcome(3) [OF a] by blast
  have "overflow a b ?r 32 = Inr (sint a + sint b + of_bool c \<noteq> sint ?r)"
    using adc_ovf_bit [of a b c] by (simp add: overflow_bases)
  from arith_flags_out(3) [OF this]
  obtain u where u: "arith_flags (a > ?r) a b ?r 32 t = Inr u" "only_flags t u"
    "flags_are (a > ?r) (sint a + sint b + of_bool c \<noteq> sint ?r) (adjust a b ?r) ?r u"
    by blast
  have "adc_i i s = Inr (0, u)"
    using wf b c t u by (simp add: adc_i_def rmw_op_wf [OF wf(1) p(1)] ret0_def)
  with u(3) update_then_flags(3) [OF p(2) u(2) t(2)] show ?thesis
    by (simp add: carry_adc adjust_bit half_carry_adc)
qed

theorem adc_i_32_witness:
  "\<exists>s'. adc_i (insn2 (reg_opd 19 4) (imm_opd 0xFFFFFFFF 4)) (set_Flag CF (wr EAX 7 static_init)) = Inr (0, s') \<and>
    var s' EAX = 7 \<and> \<not> test_Flag CF s'"
  using adc_i_32 [of "insn2 (reg_opd 19 4) (imm_opd 0xFFFFFFFF 4)" "set_Flag CF (wr EAX 7 static_init)" "PVar EAX"
      "0xFFFFFFFF" 7 True]
  by (auto simp: sample_defs opd_wf_def rm_ptr_def regs_at_def regs_def regs_size_def src_val_def
      flags_are_def static_init_def set_Flag_put)

text \<open>
  The destination receives the wrapped difference; \<open>CF\<close> is the unsigned
  borrow, \<open>AF\<close> the borrow of the low nibble, \<open>SF\<close>, \<open>ZF\<close> and \<open>PF\<close> those of the difference.
  \<open>OF\<close> is not the signed overflow of the difference: the code applies the formula of the
  addition, which for a difference is true exactly when the operands have the same sign and
  the difference has the other one.
\<close>

lemma sub_i_32:
  assumes wf: "opd_wf (op1 i)" "op_size (op1 i) = 4"
    and p: "rm_ptr (op1 i) (adv i s) = Inr p" "p \<noteq> PVar EFLAGS"
    and b: "sub_src (op2 i) 4 (adv i s) = Inr b" and a: "load32 p (adv i s) = Inr a"
  shows "\<exists>s'. sub_i i s = Inr (0, s') \<and> load32 p s' = Inr (a - b) \<and>
    flags_are (unat a < unat b)
      ((sint a < 0 \<longleftrightarrow> sint b < 0) \<and> (sint a < 0 \<longleftrightarrow> sint b \<le> sint a))
      (unat a mod 16 < unat b mod 16) (a - b) s' \<and>
    (\<forall>v. PVar v \<noteq> p \<and> v \<noteq> EFLAGS \<longrightarrow> var s' v = var (adv i s) v)"
proof -
  obtain t where t: "rmw32 p (\<lambda>v. v - b) (adv i s) = Inr (a, a - b, t)" "store32 p (a - b) (adv i s) = Inr t"
    using rmw_outcome(3) [OF a] by blast
  obtain u where u: "arith_flags (a < b) a b (a - b) 32 t = Inr u" "only_flags t u"
    "flags_are (a < b) ((sint a < 0 \<longleftrightarrow> sint b < 0) \<and> (sint a < 0 \<longleftrightarrow> sint b \<le> sint a)) (adjust a b (a - b)) (a - b) u"
    using arith_flags_out(3) [OF overflow_sub(3)] by blast
  have "sub_i i s = bnd (rmw_op (op1 i) (\<lambda>v. v - ucast b) (\<lambda>v. v - ucast b) (\<lambda>v. v - b) (adv i s))
      (\<lambda>(val1, r, s). bnd (arith_flags (val1 < b) val1 b r 32 s) ret0)"
    using wf b by (auto simp: sub_i_def rmw_op_def rmw_mem_def bnd_assoc opd_wf_def Let_def split: x86_op_type.splits)
  then have "sub_i i s = Inr (0, u)"
    using t u wf by (simp add: rmw_op_wf [OF wf(1) p(1)] ret0_def)
  with u(3) update_then_flags(3) [OF p(2) u(2) t(2)] show ?thesis
    by (simp add: adjust_sub word_less_nat_alt)
qed

lemma cmp_i_32:
  assumes wf: "opd_wf (op1 i)" "op_size (op1 i) = 4"
    and p: "rm_ptr (op1 i) (adv i s) = Inr p"
    and b: "cmp_src (op2 i) 4 (adv i s) = Inr b" and a: "load32 p (adv i s) = Inr a"
  shows "\<exists>s'. cmp_i i s = Inr (0, s') \<and> only_flags (adv i s) s' \<and>
    flags_are (unat a < unat b)
      ((sint a < 0 \<longleftrightarrow> sint b < 0) \<and> (sint a < 0 \<longleftrightarrow> sint b \<le> sint a))
      (unat a mod 16 < unat b mod 16) (a - b) s'"
proof -
  obtain u where u: "arith_flags (a < b) a b (a - b) 32 (adv i s) = Inr u" "only_flags (adv i s) u"
    "flags_are (a < b) ((sint a < 0 \<longleftrightarrow> sint b < 0) \<and> (sint a < 0 \<longleftrightarrow> sint b \<le> sint a)) (adjust a b (a - b)) (a - b) u"
    using arith_flags_out(3) [OF overflow_sub(3)] by blast
  have "cmp_i i s = Inr (0, u)"
    using wf a b p u(1)
    by (auto simp: cmp_i_def opd_wf_def rm_ptr_def load_124_def ret0_def split: x86_op_type.splits)
  with u show ?thesis by (simp add: adjust_sub word_less_nat_alt)
qed

text \<open>
  CMP, 8-bit register. \<open>CF\<close> and \<open>ZF\<close> are the unsigned comparison and equality of the
  bytes. \<open>SF\<close> is the sign of the byte difference only when there is no borrow: the
  difference is kept on 32 bits, so every borrow sets \<open>SF\<close>.
\<close>

lemma cmp_i_8:
  assumes wf: "opd_wf (op1 i)" "op_size (op1 i) = 1" "op_type (op1 i) = X86_OP_REG"
    and p: "rm_ptr (op1 i) (adv i s) = Inr p"
    and b: "cmp_src (op2 i) 1 (adv i s) = Inr (ucast b)" and a: "load8 p (adv i s) = Inr (a::u8)"
  shows "\<exists>s'. cmp_i i s = Inr (0, s') \<and> only_flags (adv i s) s' \<and>
    test_Flag CF s' = (a < b) \<and> test_Flag ZF s' = (a = b) \<and>
    test_Flag SF s' = (a < b \<or> sint (a - b) < 0)"
proof -
  have m: "(ucast b AND 0xFF :: u32) = ucast b"
    by (rule bit_word_eqI) (auto simp: bit_simps dest: bit_imp_le_length)
  have z: "(ucast a = (ucast b :: u32)) = (a = b)"
    by (simp only: word_unat_eq_iff unat_ucast_u32)
  show ?thesis
    using wf a b p
    by (simp add: cmp_i_def opd_wf_def rm_ptr_def load_124_def ret0_def m arith_flags_def overflow_bases
        ucast_less z sign8_diff)
qed

end
