(* ===== verification/VM_Logic.thy ===== *)
theory VM_Logic
  imports VM_Arith
begin

text \<open>
  The logical handlers of \<open>src/src/instr.c\<close>: AND, OR, XOR, NOT and TEST.
\<close>

section \<open>Handlers\<close>

definition and_i :: handler where
  "and_i i s =
     (let s = adv i s; s1 = op_size (op1 i) in
      bnd (src_val (op2 i) s) (\<lambda>val.
      bnd (rmw_op (op1 i) (\<lambda>v. v AND ucast (val AND 0xFF)) (\<lambda>v. v AND ucast (val AND 0xFFFF))
             (\<lambda>v. v AND val) s) (\<lambda>(_, r, s).
      bnd (if op_type (op1 i) = X86_OP_REG then regs_size_at (op_reg (op1 i)) else Inr (s1 * 8))
        (\<lambda>base.
      bnd (logic_flags r base s) ret0))))"

text \<open>
  OR and XOR are written alike: for a memory destination they use the address and the size
  of the second operand, and the base passed to \<open>sign\<close> is four times the size.
\<close>

definition orxor :: "(u8 \<Rightarrow> u8 \<Rightarrow> u8) \<Rightarrow> (u16 \<Rightarrow> u16 \<Rightarrow> u16) \<Rightarrow> (u32 \<Rightarrow> u32 \<Rightarrow> u32) \<Rightarrow> handler" where
  "orxor g8 g16 g32 i s =
     (let s = adv i s; s1 = op_size (op1 i) in
      bnd (src_val (op2 i) s) (\<lambda>val.
      bnd (if op_type (op1 i) = X86_OP_REG then
             bnd (rmw_reg (op_reg (op1 i)) (\<lambda>v. g8 v (ucast (val AND 0xFF)))
                    (\<lambda>v. g16 v (ucast (val AND 0xFFFF))) (\<lambda>v. g32 v val) s) (\<lambda>(_, r, s).
             bnd (regs_size_at (op_reg (op1 i))) (\<lambda>base. Inr (r, base, s)))
           else if op_type (op1 i) = X86_OP_MEM then
             bnd (rmw_mem (op2 i) (\<lambda>v. g8 v (ucast val)) (\<lambda>v. g16 v (ucast val))
                    (\<lambda>v. g32 v val) s) (\<lambda>(_, r, s). Inr (r, s1 * 4, s))
           else Inl Uninit) (\<lambda>(r, base, s).
      bnd (logic_flags r base s) ret0)))"

definition or_i :: handler where
  "or_i = orxor (OR) (OR) (OR)"

definition xor_i :: handler where
  "xor_i = orxor (XOR) (XOR) (XOR)"

text \<open>The guard of not is the assignment \<open>op1.type = X86_OP_REG\<close>, as in neg.\<close>

definition not_i :: handler where
  "not_i i s =
     (let s = adv i s; s1 = op_size (op1 i) in
      bnd (regs_at (op_reg (op1 i))) (\<lambda>p.
      bnd (if s1 = 1 then rmw8 p NOT s
           else if s1 = 2 then rmw16 p NOT s
           else rmw32 p NOT s) (\<lambda>(_, _, s).
      ret0 s)))"

definition test_i :: handler where
  "test_i i s =
     (let s = adv i s in
      bnd (src_val32 (op2 i) s) (\<lambda>val.
      bnd (if op_type (op1 i) = X86_OP_REG then
             bnd (regs_at (op_reg (op1 i))) (\<lambda>p.
             bnd (regs_size_at (op_reg (op1 i))) (\<lambda>base.
             bnd (if base = 0x8 then bnd (load8 p s) (\<lambda>x. Inr (ucast x AND (val AND 0xFF)))
                  else if base = 0x10 then bnd (load16 p s) (\<lambda>x. Inr (ucast x AND (val AND 0xFFFF)))
                  else bnd (load32 p s) (\<lambda>x. Inr (x AND val))) (\<lambda>r.
             Inr (r, base))))
           else if op_type (op1 i) = X86_OP_MEM then
             bnd (mem_ptr (op1 i) s) (\<lambda>p. bnd (load32 p s) (\<lambda>x. Inr (x AND val, 0x20)))
           else Inl Uninit) (\<lambda>(r, base).
      bnd (logic_flags r base s) ret0)))"

section \<open>Correctness\<close>

text \<open>
  The destination receives the bitwise conjunction, \<open>CF\<close> and \<open>OF\<close> are
  cleared, \<open>SF\<close>, \<open>ZF\<close> and \<open>PF\<close> are those of the result, \<open>AF\<close> keeps its value, and no other
  variable changes.
\<close>

lemma and_i_32:
  assumes wf: "opd_wf (op1 i)" "op_size (op1 i) = 4"
    and p: "rm_ptr (op1 i) (adv i s) = Inr p" "p \<noteq> PVar EFLAGS"
    and b: "src_val (op2 i) (adv i s) = Inr b" and a: "load32 p (adv i s) = Inr a"
  shows "\<exists>s'. and_i i s = Inr (0, s') \<and> load32 p s' = Inr (a AND b) \<and>
    flags_are False False (test_Flag AF s) (a AND b) s' \<and>
    (\<forall>v. PVar v \<noteq> p \<and> v \<noteq> EFLAGS \<longrightarrow> var s' v = var (adv i s) v)"
proof -
  obtain t where t: "rmw32 p (\<lambda>v. v AND b) (adv i s) = Inr (a, a AND b, t)" "store32 p (a AND b) (adv i s) = Inr t"
    using rmw_outcome(3) [OF a] by blast
  obtain u where u: "logic_flags (a AND b) 32 t = Inr u" "only_flags t u"
    "flags_are False False (test_Flag AF t) (a AND b) u"
    using logic_flags_out(3) by blast
  have "and_i i s = Inr (0, u)"
    using wf b t u
    by (auto simp: and_i_def rmw_op_wf [OF wf(1) p(1)] ret0_def regs_size_at_def opd_wf_def Let_def
        split: x86_op_type.splits)
  moreover have "test_Flag AF t = test_Flag AF s"
    using store_flags(3) [OF t(2) p(2)] by simp
  ultimately show ?thesis
    using u(3) update_then_flags(3) [OF p(2) u(2) t(2)] by auto
qed

text \<open>
  XOR of a register with itself. The idiom that clears a 32-bit register: the register is
  0 afterwards, \<open>ZF\<close> and \<open>PF\<close> are set, \<open>CF\<close>, \<open>OF\<close> and \<open>SF\<close> cleared.
\<close>

lemma xor_i_self:
  assumes r: "op_type (op1 i) = X86_OP_REG" "op_reg (op1 i) < 50" "regs ! op_reg (op1 i) = PVar v"
      "regs_size ! op_reg (op1 i) = 32" "v \<noteq> EFLAGS"
    and same: "op2 i = op1 i"
  shows "\<exists>s'. xor_i i s = Inr (0, s') \<and> var s' v = 0 \<and> flags_are False False (test_Flag AF s) (0::u32) s' \<and>
    (\<forall>w. w \<notin> {v, EFLAGS} \<longrightarrow> var s' w = var (adv i s) w)"
proof -
  let ?t = "wr v 0 (adv i s)"
  obtain u where u: "logic_flags 0 32 ?t = Inr u" "only_flags ?t u" "flags_are False False (test_Flag AF ?t) (0::u32) u"
    using logic_flags_out(3) [of 0 ?t] by blast
  have "xor_i i s = Inr (0, u)"
    using r same u(1)
    by (simp add: xor_i_def orxor_def src_val_def reg_val_def rmw_reg_def regs_at_def regs_size_at_def rmw32_def
        rmw_def ret0_def Let_def)
  then show ?thesis
    using u r by (auto simp: only_flagsD [OF u(2)])
qed

text \<open>
  OR and XOR with a memory destination. The address of the destination plays no role:
  changing the memory operand of the first operand changes nothing, because both handlers
  compute the destination from the second operand.
\<close>

lemma orxor_ignores_dst:
  assumes "op_type (op1 i) = X86_OP_MEM"
  shows "or_i (i\<lparr>operands := (operands i)(0 := op1 i\<lparr>op_mem := m\<rparr>)\<rparr>) s = or_i i s \<and>
    xor_i (i\<lparr>operands := (operands i)(0 := op1 i\<lparr>op_mem := m\<rparr>)\<rparr>) s = xor_i i s"
  using assms by (simp add: or_i_def xor_i_def orxor_def adv_def Let_def)

lemma store_adv:
  "p \<noteq> PVar EIP \<Longrightarrow> store8 p x s = Inr t \<Longrightarrow> store8 p x (adv i s) = Inr (adv i t)"
  "p \<noteq> PVar EIP \<Longrightarrow> store16 p y s = Inr t \<Longrightarrow> store16 p y (adv i s) = Inr (adv i t)"
  "p \<noteq> PVar EIP \<Longrightarrow> store32 p z s = Inr t \<Longrightarrow> store32 p z (adv i s) = Inr (adv i t)"
  by (cases p; auto simp: adv_def fun_upd_twist comp_def split: if_splits)+

text \<open>
  NOT. Executed twice on a register other than \<open>eip\<close>, \<open>not_i\<close> gives back the state it
  started from, advanced by two instructions, at every operand size.
\<close>

lemma not_i_involution:
  assumes "not_i i s = Inr (0, s1)" "regs ! op_reg (op1 i) \<noteq> PVar EIP"
  shows "not_i i s1 = Inr (0, adv i (adv i s))"
proof -
  let ?p = "regs ! op_reg (op1 i)"
  note undo = c8.rmw_undo_through [of ?p "adv i" NOT "adv i s"] c16.rmw_undo_through [of ?p "adv i" NOT "adv i s"]
    c32.rmw_undo_through [of ?p "adv i" NOT "adv i s"]
  show ?thesis
    using assms(1) undo store_adv [OF assms(2)]
    by (auto simp: not_i_def rmw8_def rmw16_def rmw32_def regs_at_def bnd_eq_Inr ret0_def Let_def split: if_splits)
qed

end
