(* ===== verification/VM_MulDiv.thy ===== *)
theory VM_MulDiv
  imports VM_Logic "HOL-Library.Signed_Division"
begin

text \<open>
  The multiplication and division handlers of \<open>src/src/instr.c\<close>: DIV, IDIV, IMUL and MUL.
  An integer division by zero, or of the most negative value by \<open>-1\<close>, traps
  (\<open>DivTrap\<close>); a quotient that does not fit makes the handler return \<open>-1000\<close>.
\<close>

section \<open>Unsigned operations\<close>

text \<open>DIV, IDIV and MUL take the size of the first operand but the value of the second.\<close>

definition src8 :: "cs_x86_op \<Rightarrow> cpu \<Rightarrow> u8 res" where
  "src8 oper s = bnd (rm_ptr oper s) (\<lambda>p. load8 p s)"

definition src16 :: "cs_x86_op \<Rightarrow> cpu \<Rightarrow> u16 res" where
  "src16 oper s = bnd (rm_ptr oper s) (\<lambda>p. load16 p s)"

definition src32 :: "cs_x86_op \<Rightarrow> cpu \<Rightarrow> u32 res" where
  "src32 oper s = bnd (rm_ptr oper s) (\<lambda>p. load32 p s)"

definition div_i :: handler where
  "div_i i s =
     (let s = adv i s; s1 = op_size (op1 i) in
      if s1 = 1 then
        bnd (src8 (op2 i) s) (\<lambda>val. let ax = lo16 EAX s in
          if val = 0 then Inl DivTrap
          else
            (let q = ax div ucast val; r = ax mod ucast val in
             if q > 0xFF then Inr (- 1000, s)
             else ret0 (set_ah (ucast r) (set_al (ucast q) s))))
      else if s1 = 2 then
        bnd (src16 (op2 i) s) (\<lambda>val.
          let dividend = push_bit 16 (ucast (lo16 EDX s)) OR ucast (lo16 EAX s) :: u32 in
          if val = 0 then Inl DivTrap
          else
            (let q = dividend div ucast val; r = dividend mod ucast val in
             if q > 0xFFFF then Inr (- 1000, s)
             else ret0 (set_lo16 EDX (ucast r) (set_lo16 EAX (ucast q) s))))
      else
        bnd (src32 (op2 i) s) (\<lambda>val.
          let dividend = push_bit 32 (ucast (var s EDX)) OR ucast (var s EAX) :: u64 in
          if val = 0 then Inl DivTrap
          else
            (let q = dividend div ucast val; r = dividend mod ucast val in
             if q > 0xFFFFFFFF then Inr (- 1000, s)
             else ret0 (wr EDX (ucast r) (wr EAX (ucast q) s)))))"

text \<open>The two branches that end the multiplications.\<close>

definition cf_of :: "bool \<Rightarrow> cpu \<Rightarrow> cpu" where
  "cf_of c s = (if c then set_Flag CF (set_Flag OF s) else clear_Flag OF (clear_Flag CF s))"

text \<open>In the 32-bit branch the product \<open>eax * val\<close> is computed on 32 bits before it is
  converted to \<open>uint64_t\<close>.\<close>

definition mul_i :: handler where
  "mul_i i s =
     (let s = adv i s; s1 = op_size (op1 i) in
      if s1 = 1 then
        bnd (src8 (op2 i) s) (\<lambda>val.
          let s = set_lo16 EAX (ucast (get_al s) * ucast val) s in
          ret0 (cf_of (\<not> zero_v (ucast (get_ah s))) s))
      else if s1 = 2 then
        bnd (src16 (op2 i) s) (\<lambda>val.
          let r = ucast (lo16 EAX s) * ucast val :: u32;
              s = set_lo16 EAX (ucast (r AND 0xFFFF)) s;
              s = set_lo16 EDX (ucast (drop_bit 16 r AND 0xFFFF)) s in
          ret0 (cf_of (\<not> zero_v (ucast (lo16 EDX s))) s))
      else
        bnd (src32 (op2 i) s) (\<lambda>val.
          let r = ucast (var s EAX * val) :: u64;
              s = wr EAX (ucast (r AND 0xFFFFFFFF)) s;
              s = wr EDX (ucast (drop_bit 32 r AND 0xFFFFFFFF)) s in
          ret0 (cf_of (\<not> zero_v (var s EDX)) s)))"

section \<open>Signed operations\<close>

text \<open>Division and remainder of C truncate towards zero: \<open>sdiv\<close> and \<open>smod\<close> on \<open>int\<close>.
  In the 16-bit branch the sign-extended \<open>AX\<close> is combined by OR with the shifted \<open>DX\<close>.\<close>

definition idiv_i :: handler where
  "idiv_i i s =
     (let s = adv i s; s1 = op_size (op1 i) in
      if s1 = 1 then
        bnd (src8 (op2 i) s) (\<lambda>val.
          if val = 0 then Inl DivTrap
          else
            (let q = word_of_int (sint (lo16 EAX s) sdiv sint val) :: u16;
                 r = word_of_int (sint (lo16 EAX s) smod sint val) :: u16 in
             if sint q > 127 \<or> sint q < - 128 then Inr (- 1000, s)
             else ret0 (set_ah (ucast r) (set_al (ucast q) s))))
      else if s1 = 2 then
        bnd (src16 (op2 i) s) (\<lambda>val.
          let dividend = push_bit 16 (scast (lo16 EDX s)) OR scast (lo16 EAX s) :: u32 in
          if val = 0 \<or> (sint dividend = - (2 ^ 31) \<and> sint val = - 1) then Inl DivTrap
          else
            (let q = sint dividend sdiv sint val; r = sint dividend smod sint val in
             if q > 32767 \<or> q < - 32768 then Inr (- 1000, s)
             else ret0 (set_lo16 EDX (word_of_int r) (set_lo16 EAX (word_of_int q) s))))
      else
        bnd (src32 (op2 i) s) (\<lambda>val.
          let dividend = push_bit 32 (ucast (var s EDX)) OR ucast (var s EAX) :: u64 in
          if val = 0 \<or> (sint dividend = - (2 ^ 63) \<and> sint val = - 1) then Inl DivTrap
          else
            (let q = sint dividend sdiv sint val; r = sint dividend smod sint val in
             if q > 2147483647 \<or> q < - 2147483648 then Inr (- 1000, s)
             else ret0 (wr EDX (word_of_int r) (wr EAX (word_of_int q) s)))))"

text \<open>The range tests \<open>res >= INT16_MIN && res <= INT16_MAX\<close> (on \<open>int32_t\<close>) and
  \<open>res >= INT32_MIN && res <= INT32_MAX\<close> (on \<open>int64_t\<close>).\<close>

definition range16 :: "u32 \<Rightarrow> cpu \<Rightarrow> cpu" where
  "range16 r s = cf_of (\<not> (sint r \<ge> - 32768 \<and> sint r \<le> 32767)) s"

definition range32 :: "u64 \<Rightarrow> cpu \<Rightarrow> cpu" where
  "range32 r s = cf_of (\<not> (sint r \<ge> - 2147483648 \<and> sint r \<le> 2147483647)) s"

text \<open>Opcodes F6 and F7: \<open>AX\<close>, \<open>DX:AX\<close> or \<open>EDX:EAX\<close> is the destination.\<close>

definition imul_F6 :: handler where
  "imul_F6 i s =
     bnd (src8 (op1 i) s) (\<lambda>val.
       let s = set_lo16 EAX (scast (get_al s) * scast val) s in
       ret0 (cf_of (lo16 EAX s \<noteq> sign_extend8_16 (get_al s)) s))"

definition imul_F7 :: handler where
  "imul_F7 i s =
     (if op_size (op1 i) = 2 then
        bnd (src16 (op1 i) s) (\<lambda>val.
          let r = scast (lo16 EAX s) * scast val :: u32;
              s = set_lo16 EDX (ucast (signed_drop_bit 16 r AND 0xFFFF)) s;
              s = set_lo16 EAX (ucast (r AND 0xFFFF)) s in
          ret0 (cf_of (r \<noteq> sign_extend16_32 (lo16 EAX s)) s))
      else
        bnd (src32 (op1 i) s) (\<lambda>val.
          let r = ucast (var s EAX * val) :: u64;
              s = wr EDX (ucast (signed_drop_bit 32 r AND 0xFFFFFFFF)) s;
              s = wr EAX (ucast (r AND 0xFFFFFFFF)) s in
          ret0 (cf_of (r \<noteq> sign_extend32_64 (var s EAX)) s)))"

text \<open>Opcode 0F AF: the 32-bit product is computed on \<open>int\<close>.\<close>

definition imul_0F :: handler where
  "imul_0F i s =
     bnd (rm_ptr (op2 i) s) (\<lambda>rm. bnd (regs_at (op_reg (op1 i))) (\<lambda>r.
       if op_size (op1 i) = 2 then
         bnd (load16 r s) (\<lambda>x. bnd (load16 rm s) (\<lambda>y.
         bnd (store16 r (x * y) s) (\<lambda>s. ret0 (range16 (scast x * scast y) s))))
       else
         bnd (load32 r s) (\<lambda>x. bnd (load32 rm s) (\<lambda>y.
         bnd (store32 r (x * y) s) (\<lambda>s. ret0 (range32 (scast (x * y)) s))))))"

text \<open>
  The forms with an immediate store first and compute the tested product afterwards, from
  the operand as it then is. The two-operand form of opcode 69 stores the immediate itself.
\<close>

definition imul_3op :: "cs_insn \<Rightarrow> u16 \<Rightarrow> u32 \<Rightarrow> cpu \<Rightarrow> (int \<times> cpu) res" where
  "imul_3op i imm16 imm32 s =
     bnd (regs_at (op_reg (op1 i))) (\<lambda>r. bnd (rm_ptr (op2 i) s) (\<lambda>rm.
       if op_size (op1 i) = 2 then
         bnd (load16 rm s) (\<lambda>y. bnd (store16 r (y * imm16) s) (\<lambda>s.
         bnd (load16 rm s) (\<lambda>y. ret0 (range16 (scast y * scast imm16) s))))
       else
         bnd (load32 rm s) (\<lambda>y. bnd (store32 r (y * imm32) s) (\<lambda>s.
         bnd (load32 rm s) (\<lambda>y. ret0 (range32 (scast (y * imm32)) s))))))"

definition imul_6B :: handler where
  "imul_6B i s =
     (if op_count i = 3 then
        imul_3op i (sign_extend8_16 (ucast (op_imm (op3 i)))) (sign_extend8_32 (ucast (op_imm (op3 i)))) s
      else
        (let imm16 = sign_extend8_16 (ucast (op_imm (op2 i)));
             imm32 = sign_extend8_32 (ucast (op_imm (op2 i))) in
         bnd (regs_at (op_reg (op1 i))) (\<lambda>r.
           if op_size (op1 i) = 2 then
             bnd (load16 r s) (\<lambda>x. bnd (store16 r (x * imm16) s) (\<lambda>s.
             bnd (load16 r s) (\<lambda>x. ret0 (range16 (scast x * scast imm16) s))))
           else
             bnd (load32 r s) (\<lambda>x. bnd (store32 r (x * imm32) s) (\<lambda>s.
             bnd (load32 r s) (\<lambda>x. ret0 (range32 (scast (x * imm32)) s)))))))"

definition imul_69 :: handler where
  "imul_69 i s =
     (if op_count i = 3 then imul_3op i (ucast (op_imm (op3 i))) (ucast (op_imm (op3 i))) s
      else
        (let imm16 = ucast (op_imm (op2 i)); imm32 = ucast (op_imm (op2 i)) in
         bnd (regs_at (op_reg (op1 i))) (\<lambda>r.
           if op_size (op1 i) = 2 then
             bnd (load16 r s) (\<lambda>x. bnd (store16 r (x * imm16) s) (\<lambda>s.
             bnd (store16 r imm16 s) (\<lambda>s. ret0 (range16 (scast imm16) s))))
           else
             bnd (load32 r s) (\<lambda>x. bnd (store32 r (x * imm32) s) (\<lambda>s.
             bnd (store32 r imm32 s) (\<lambda>s. ret0 (range32 (scast imm32) s)))))))"

definition imul_i :: handler where
  "imul_i i s =
     (let s = adv i s; opc1 = insn_bytes i 0 in
      if opc1 = 0xF6 then imul_F6 i s
      else if opc1 = 0xF7 then imul_F7 i s
      else if opc1 = 0x0F then imul_0F i s
      else if opc1 = 0x6B then imul_6B i s
      else imul_69 i s)"

section \<open>Products and quotients as numbers\<close>

lemma cf_of_flags [simp]:
  "test_Flag CF (cf_of c s) = c" "test_Flag OF (cf_of c s) = c"
  "v \<noteq> EFLAGS \<Longrightarrow> var (cf_of c s) v = var s v" "mem (cf_of c s) = mem s"
  by (simp_all add: cf_of_def set_Flag_put clear_Flag_put)

lemma lo16_set [simp]: "lo16 v (set_lo16 v x s) = x" "v \<noteq> w \<Longrightarrow> lo16 v (set_lo16 w x s) = lo16 v s"
  by (simp_all add: lo16_def set_lo16_def)

lemma lo16_cf_of [simp]: "v \<noteq> EFLAGS \<Longrightarrow> lo16 v (cf_of c s) = lo16 v s"
  by (simp add: lo16_def)

lemma get_ah_lo16: "get_ah s = ucast (drop_bit 8 (lo16 EAX s))"
  unfolding get_ah_def lo16_def by (rule bit_word_eqI) (auto simp: bit_simps)

lemma unat_mult_u16: "unat (ucast (x::u8) * ucast (y::u8) :: u16) = unat x * unat y"
proof -
  have "unat x * unat y < 2 ^ 8 * 2 ^ 8"
    using unsigned_less [of x, where 'a = nat] unsigned_less [of y, where 'a = nat] by (intro mult_strict_mono) simp_all
  moreover have "unat (ucast z :: u16) = unat z" for z :: u8
    using unsigned_less [of z, where 'a = nat] by (simp add: unsigned_ucast_eq take_bit_nat_eq_self)
  ultimately show ?thesis by (simp add: unat_word_ariths)
qed

lemma unat_mult_u32: "unat (ucast (x::u16) * ucast (y::u16) :: u32) = unat x * unat y"
proof -
  have "unat x * unat y < 2 ^ 16 * 2 ^ 16"
    using unsigned_less [of x, where 'a = nat] unsigned_less [of y, where 'a = nat] by (intro mult_strict_mono) simp_all
  then show ?thesis by (simp add: unat_word_ariths)
qed

lemma unat_halves:
  "unat (ucast (drop_bit 16 (r::u32) AND 0xFFFF) :: u16) * 2 ^ 16 + unat (ucast (r AND 0xFFFF) :: u16) = unat r"
proof -
  have "(ucast (w AND 0xFFFF :: u32) :: u16) = ucast w" for w
    by (rule bit_word_eqI) (auto simp: bit_simps)
  moreover have "unat (ucast r :: u16) = unat r mod 2 ^ 16"
    by (simp add: unsigned_ucast_eq take_bit_eq_mod)
  moreover have "unat (ucast (drop_bit 16 r) :: u16) = unat r div 2 ^ 16"
    using unsigned_less [of r, where 'a = nat]
    by (simp add: unsigned_ucast_eq take_bit_eq_mod unat_drop_bit less_mult_imp_div_less)
  ultimately show ?thesis by (simp add: div_mult_mod_eq)
qed

lemma high_byte_0: "(ucast (drop_bit 8 (x::u16)) :: u8) = 0 \<longleftrightarrow> unat x < 256"
proof -
  have "unat (ucast (drop_bit 8 x) :: u8) = unat x div 2 ^ 8"
    using unsigned_less [of x, where 'a = nat]
    by (simp add: unsigned_ucast_eq take_bit_eq_mod unat_drop_bit less_mult_imp_div_less)
  then show ?thesis by (simp add: word_unat_eq_iff div_eq_0_iff)
qed

lemma high_half_0: "(ucast (drop_bit 16 (r::u32) AND 0xFFFF) :: u16) = 0 \<longleftrightarrow> unat r < 65536"
  using unat_halves [of r] unsigned_less [of "ucast (r AND 0xFFFF) :: u16", where 'a = nat]
  by (auto simp: word_unat_eq_iff)

lemma unat_pair64: "unat (push_bit 32 (ucast (h::u32)) OR ucast (l::u32) :: u64) = unat h * 2 ^ 32 + unat l"
proof -
  have u: "unat (ucast w :: u64) = unat w" for w :: u32
    using unsigned_less [of w, where 'a = nat] by (simp add: unsigned_ucast_eq take_bit_nat_eq_self)
  have b: "unat h * 2 ^ 32 + unat l < 2 ^ 64"
    using unsigned_less [of h, where 'a = nat] unsigned_less [of l, where 'a = nat] by simp
  have "push_bit 32 (ucast h) OR ucast l = (push_bit 32 (ucast h) + ucast l :: u64)"
    by (rule disjunctive_add [symmetric]) (auto simp: bit_simps)
  then show ?thesis
    using b by (simp add: push_bit_eq_mult unat_word_ariths u mod_simps)
qed

lemma u64_div_mod:
  "unat ((x::u64) div y) = unat x div unat y" "unat (x mod y) = unat x mod unat y"
  by (simp_all add: unat_div unat_mod)

section \<open>Correctness\<close>

text \<open>
  MUL, 8 bits. \<open>AX\<close> receives the full product of \<open>AL\<close> and the source byte; \<open>CF\<close> and
  \<open>OF\<close> are set exactly when the product does not fit in a byte.
\<close>

lemma mul_i_8:
  assumes "op_size (op1 i) = 1" "src8 (op2 i) (adv i s) = Inr val"
  shows "\<exists>s'. mul_i i s = Inr (0, s') \<and> unat (lo16 EAX s') = unat (get_al s) * unat val \<and>
    test_Flag CF s' = (unat (get_al s) * unat val \<ge> 256) \<and> test_Flag OF s' = test_Flag CF s'"
proof -
  have al: "get_al (adv i s) = get_al s" by (simp add: get_al_def)
  show ?thesis
    using assms
    by (simp add: mul_i_def ret0_def Let_def al zero_v_def ucast_eq_0 get_ah_lo16 high_byte_0 unat_mult_u16 not_less)
qed

text \<open>
  MUL, 16 bits. \<open>DX:AX\<close> receives the full product of \<open>AX\<close> and the source word; \<open>CF\<close> and
  \<open>OF\<close> are set exactly when the high half is not 0.
\<close>

lemma mul_i_16:
  assumes "op_size (op1 i) = 2" "src16 (op2 i) (adv i s) = Inr val"
  shows "\<exists>s'. mul_i i s = Inr (0, s') \<and>
    unat (lo16 EDX s') * 2 ^ 16 + unat (lo16 EAX s') = unat (lo16 EAX s) * unat val \<and>
    test_Flag CF s' = (unat (lo16 EAX s) * unat val \<ge> 2 ^ 16) \<and> test_Flag OF s' = test_Flag CF s'"
proof -
  let ?r = "ucast (lo16 EAX s) * ucast val :: u32"
  have ax: "lo16 EAX (adv i s) = lo16 EAX s" by (simp add: lo16_def)
  show ?thesis
    using assms unat_halves [of ?r] high_half_0 [of ?r]
    by (simp add: mul_i_def ret0_def Let_def ax zero_v_def ucast_eq_0 unat_mult_u32 not_less)
qed

text \<open>
  C31 (MUL, 32 bits). \<open>EAX\<close> receives the low half of the product, but \<open>EDX\<close> is always 0 and
  \<open>CF\<close> and \<open>OF\<close> are always cleared: the product is computed on 32 bits.
\<close>

theorem mul_i_32:
  assumes "op_size (op1 i) = 4" "src32 (op2 i) (adv i s) = Inr val"
  shows "\<exists>s'. mul_i i s = Inr (0, s') \<and> var s' EAX = var s EAX * val \<and> var s' EDX = 0 \<and>
    \<not> test_Flag CF s' \<and> \<not> test_Flag OF s'"
proof -
  have "drop_bit 32 (ucast (w::u32) :: u64) = 0" for w
    by (rule bit_word_eqI) (auto simp: bit_simps)
  moreover have "(ucast (ucast (w::u32) AND 0xFFFFFFFF :: u64) :: u32) = w" for w
    by (rule bit_word_eqI) (auto simp: bit_simps)
  ultimately show ?thesis
    using assms by (simp add: mul_i_def ret0_def Let_def zero_v_def)
qed
theorem mul_i_32_witness:
  "\<exists>s'. mul_i (insn2 (reg_opd 21 4) (reg_opd 21 4)) (wr EAX 0x10000 (wr EBX 0x10000 static_init)) = Inr (0, s') \<and>
    var s' EAX = 0 \<and> var s' EDX = 0 \<and> \<not> test_Flag CF s'"
  using mul_i_32 [of "insn2 (reg_opd 21 4) (reg_opd 21 4)" "wr EAX 0x10000 (wr EBX 0x10000 static_init)" "0x10000"]
  by (auto simp: sample_defs src8_def src16_def src32_def rm_ptr_def regs_at_def regs_def static_init_def)

text \<open>
  C30 (DIV, 32 bits). With the divisor taken from the second operand, \<open>div_i\<close> traps on 0, returns
  \<open>-1000\<close> and changes nothing else when the quotient of \<open>EDX:EAX\<close> does not fit in 32 bits, and
  otherwise stores quotient and remainder in \<open>EAX\<close> and \<open>EDX\<close>.
\<close>

theorem div_i_32:
  assumes "op_size (op1 i) = 4" "src32 (op2 i) (adv i s) = Inr val"
    and D: "D = unat (var s EDX) * 2 ^ 32 + unat (var s EAX)"
  shows "div_i i s = (if val = 0 then Inl DivTrap
    else if D div unat val \<ge> 2 ^ 32 then Inr (- 1000, adv i s)
    else Inr (0, wr EDX (of_nat (D mod unat val)) (wr EAX (of_nat (D div unat val)) (adv i s))))"
proof -
  have u: "unat (ucast w :: u64) = unat w" for w :: u32
    using unsigned_less [of w, where 'a = nat] by (simp add: unsigned_ucast_eq take_bit_nat_eq_self)
  let ?d = "push_bit 32 (ucast (var s EDX)) OR ucast (var s EAX) :: u64"
  have q: "unat (?d div ucast val) = D div unat val" "unat (?d mod ucast val) = D mod unat val"
    by (simp_all add: u64_div_mod unat_pair64 D u)
  then have "(ucast (?d div ucast val) :: u32) = of_nat (D div unat val)" 
    "(ucast (?d mod ucast val) :: u32) = of_nat (D mod unat val)"
    by (metis of_nat_unat)+
  moreover have "?d div ucast val > 0xFFFFFFFF \<longleftrightarrow> D div unat val \<ge> 2 ^ 32"
    using q(1) by (simp add: word_less_nat_alt) linarith
  ultimately show ?thesis
    using assms by (simp add: div_i_def ret0_def Let_def)
qed
theorem div_i_32_witness:
  "\<exists>s'. div_i (insn2 (reg_opd 21 4) (reg_opd 21 4)) (wr EDX 1 (wr EAX 7 (wr EBX 0x10 static_init))) = Inr (0, s') \<and>
    var s' EAX = 0x10000000 \<and> var s' EDX = 7"
  using div_i_32 [of "insn2 (reg_opd 21 4) (reg_opd 21 4)" "wr EDX 1 (wr EAX 7 (wr EBX 0x10 static_init))" "0x10"
      "0x100000007"]
  by (auto simp: sample_defs src8_def src16_def src32_def rm_ptr_def regs_at_def regs_def static_init_def)

end
