(* ===== verification/VM_Shift.thy ===== *)
theory VM_Shift
  imports VM_MulDiv
begin

text \<open>
  The shift and rotate handlers of \<open>src/src/instr.c\<close>: RCL, RCR, ROL, ROR, SAL, SHL, SAR,
  SHR, SHLD and SHRD. Operands narrower than \<open>int\<close> are promoted to 32 bits before they
  are shifted; a shift amount below 0 or above 31 has no meaning in C (\<open>BadShift\<close>).
\<close>

section \<open>Shifts of C\<close>

definition c_shr :: "u32 \<Rightarrow> int \<Rightarrow> u32 res" where
  "c_shr x n = (if 0 \<le> n \<and> n < 32 then Inr (drop_bit (nat n) x) else Inl BadShift)"

definition c_shl :: "u32 \<Rightarrow> int \<Rightarrow> u32 res" where
  "c_shl x n = (if 0 \<le> n \<and> n < 32 then Inr (push_bit (nat n) x) else Inl BadShift)"

definition c_sar :: "u32 \<Rightarrow> int \<Rightarrow> u32 res" where
  "c_sar x n = (if 0 \<le> n \<and> n < 32 then Inr (signed_drop_bit (nat n) x) else Inl BadShift)"

text \<open>The width \<open>s1*8\<close>, an \<open>int\<close>.\<close>

definition bits :: "u8 \<Rightarrow> int" where
  "bits sz = uint sz * 8"

text \<open>The shift count: an immediate, or else the byte of a register.\<close>

definition count_of :: "cs_x86_op \<Rightarrow> cpu \<Rightarrow> u8 res" where
  "count_of oper s =
     (if op_type oper = X86_OP_IMM then Inr (ucast (op_imm oper))
      else bnd (regs_at (op_reg oper)) (\<lambda>p. load8 p s))"

text \<open>\<open>count %= n\<close>\<close>

definition c_mod :: "u8 \<Rightarrow> int \<Rightarrow> int res" where
  "c_mod count n = (if n = 0 then Inl DivTrap else Inr (uint count mod n))"

section \<open>Shifts\<close>

text \<open>
  The three statements of each width: \<open>CF\<close> from bit 0 of one shifted value, the operand
  replaced by another one, and \<open>res\<close> read back. The operand is read again after the flag
  is written, because it may be \<open>eflags\<close> itself.
\<close>

definition shift_cell :: "(cpu \<Rightarrow> 'a::len word res) \<Rightarrow> ('a word \<Rightarrow> cpu \<Rightarrow> cpu res) \<Rightarrow> ('a word \<Rightarrow> u32)
    \<Rightarrow> (u32 \<Rightarrow> u32 res) \<Rightarrow> (u32 \<Rightarrow> u32 res) \<Rightarrow> cpu \<Rightarrow> (u32 \<times> cpu) res" where
  "shift_cell ld st ext cf sh s =
     bnd (ld s) (\<lambda>v. bnd (cf (ext v)) (\<lambda>c. let s = put_Flag CF (c AND 1 \<noteq> 0) s in
     bnd (ld s) (\<lambda>v. bnd (sh (ext v)) (\<lambda>x.
     bnd (st (ucast x) s) (\<lambda>s.
     bnd (ld s) (\<lambda>r. Inr (ucast r, s)))))))"

definition shift_u :: "u8 \<Rightarrow> ptr \<Rightarrow> (u32 \<Rightarrow> u32 res) \<Rightarrow> (u32 \<Rightarrow> u32 res) \<Rightarrow> cpu \<Rightarrow> (u32 \<times> cpu) res" where
  "shift_u s1 p cf sh s =
     (if s1 = 1 then shift_cell (load8 p) (store8 p) ucast cf sh s
      else if s1 = 2 then shift_cell (load16 p) (store16 p) ucast cf sh s
      else shift_cell (load32 p) (store32 p) ucast cf sh s)"

definition shift_s :: "u8 \<Rightarrow> ptr \<Rightarrow> (u32 \<Rightarrow> u32 res) \<Rightarrow> (u32 \<Rightarrow> u32 res) \<Rightarrow> cpu \<Rightarrow> (u32 \<times> cpu) res" where
  "shift_s s1 p cf sh s =
     (if s1 = 1 then shift_cell (load8 p) (store8 p) scast cf sh s
      else if s1 = 2 then shift_cell (load16 p) (store16 p) scast cf sh s
      else shift_cell (load32 p) (store32 p) scast cf sh s)"

text \<open>The last three flag lines of the shifts.\<close>

definition shift_flags :: "u32 \<Rightarrow> u8 \<Rightarrow> cpu \<Rightarrow> (int \<times> cpu) res" where
  "shift_flags r base s =
     (let s = put_Flag ZF (zero_v r) s; s = put_Flag PF (parity r) s in
      bnd (sign r base) (\<lambda>sg. ret0 (put_Flag SF sg s)))"

definition sal_i :: handler where
  "sal_i i s =
     (let s = adv i s; s1 = op_size (op1 i) in
      bnd (count_of (op2 i) s) (\<lambda>c. bnd (c_mod c (bits s1)) (\<lambda>count.
        if count = 0 then ret0 s
        else if op_type (op1 i) \<noteq> X86_OP_REG then Inr (- 1, s)
        else
          bnd (regs_at (op_reg (op1 i))) (\<lambda>p.
          bnd (shift_u s1 p (\<lambda>v. c_shr v (bits s1 - count)) (\<lambda>v. c_shl v count) s) (\<lambda>(r, s).
          bnd (if count = 1 then
                 bnd (c_shr r (bits s1 - 1)) (\<lambda>m.
                   Inr (put_Flag OF ((m AND 1 \<noteq> 0) \<noteq> test_Flag CF s) s))
               else Inr s) (\<lambda>s.
          shift_flags r (s1 * 8) s))))))"

text \<open>The bodies of \<open>sal_i\<close> and \<open>shl_i\<close> are the same text.\<close>

definition shl_i :: handler where
  "shl_i = sal_i"

definition sar_i :: handler where
  "sar_i i s =
     (let s = adv i s; s1 = op_size (op1 i) in
      bnd (count_of (op2 i) s) (\<lambda>c. bnd (c_mod c (bits s1)) (\<lambda>count.
        if count = 0 then ret0 s
        else if op_type (op1 i) \<noteq> X86_OP_REG then Inr (- 1, s)
        else
          bnd (regs_at (op_reg (op1 i))) (\<lambda>p.
          bnd (shift_s s1 p (\<lambda>v. c_sar v (count - 1)) (\<lambda>v. c_sar v count) s) (\<lambda>(r, s).
          shift_flags r (s1 * 8) (if count = 1 then clear_Flag OF s else s))))))"

definition shr_i :: handler where
  "shr_i i s =
     (let s = adv i s; s1 = op_size (op1 i) in
      bnd (count_of (op2 i) s) (\<lambda>c. bnd (c_mod c (bits s1)) (\<lambda>count.
        if count = 0 then ret0 s
        else if op_type (op1 i) \<noteq> X86_OP_REG then Inr (- 1, s)
        else
          bnd (regs_at (op_reg (op1 i))) (\<lambda>p.
          bnd (shift_u s1 p (\<lambda>v. c_shr v (count - 1)) (\<lambda>v. c_shr v count) s) (\<lambda>(r, s).
          bnd (if count = 1 then
                 bnd (c_shl 1 (bits s1 - 1)) (\<lambda>msb. Inr (put_Flag OF (r AND msb \<noteq> 0) s))
               else Inr (clear_Flag OF s)) (\<lambda>s.
          shift_flags r (s1 * 8) s))))))"

section \<open>Rotations\<close>

text \<open>One width of rol: \<open>scaped = *p >> (s1*8 - count); *p = (*p << count) | scaped;\<close> and
  \<open>CF\<close> from bit 0 of \<open>scaped\<close>.\<close>

definition rol_cell :: "(cpu \<Rightarrow> 'a::len word res) \<Rightarrow> ('a word \<Rightarrow> cpu \<Rightarrow> cpu res) \<Rightarrow> int \<Rightarrow> int
    \<Rightarrow> cpu \<Rightarrow> (int \<times> cpu) res" where
  "rol_cell ld st w count s =
     bnd (ld s) (\<lambda>v.
     bnd (c_shr (ucast v) (w - count)) (\<lambda>x. let scaped = ucast x :: 'a word in
     bnd (c_shl (ucast v) count) (\<lambda>y.
     bnd (st (ucast y OR scaped) s) (\<lambda>s.
     ret0 (put_Flag CF (scaped AND 1 \<noteq> 0) s)))))"

definition rol_i :: handler where
  "rol_i i s =
     (let s = adv i s; s1 = op_size (op1 i) in
      bnd (count_of (op2 i) s) (\<lambda>c. bnd (rm_ptr (op1 i) s) (\<lambda>t.
      bnd (c_mod c (bits s1)) (\<lambda>count.
        if s1 = 1 then rol_cell (load8 t) (store8 t) (bits s1) count s
        else if s1 = 2 then rol_cell (load16 t) (store16 t) (bits s1) count s
        else rol_cell (load32 t) (store32 t) (bits s1) count s))))"

definition ror_cell :: "(cpu \<Rightarrow> 'a::len word res) \<Rightarrow> ('a word \<Rightarrow> cpu \<Rightarrow> cpu res) \<Rightarrow> int \<Rightarrow> int
    \<Rightarrow> cpu \<Rightarrow> (int \<times> cpu) res" where
  "ror_cell ld st w count s =
     bnd (ld s) (\<lambda>v.
     bnd (c_shl (ucast v) (w - count)) (\<lambda>x. let scaped = ucast x :: 'a word in
     bnd (c_shr (ucast v) count) (\<lambda>y.
     bnd (st (ucast y OR scaped) s) (\<lambda>s.
     bnd (c_shr (ucast scaped) (w - count)) (\<lambda>z.
     ret0 (put_Flag CF (z AND 1 \<noteq> 0) s))))))"

definition ror_i :: handler where
  "ror_i i s =
     (let s = adv i s; s1 = op_size (op1 i) in
      bnd (count_of (op2 i) s) (\<lambda>c. bnd (rm_ptr (op1 i) s) (\<lambda>t.
      bnd (c_mod c (bits s1)) (\<lambda>count.
        if s1 = 1 then ror_cell (load8 t) (store8 t) (bits s1) count s
        else if s1 = 2 then ror_cell (load16 t) (store16 t) (bits s1) count s
        else ror_cell (load32 t) (store32 t) (bits s1) count s))))"

text \<open>Rotations through the carry: the count is reduced modulo \<open>s1*8 + 1\<close>.\<close>

definition rcl_cell :: "(cpu \<Rightarrow> 'a::len word res) \<Rightarrow> ('a word \<Rightarrow> cpu \<Rightarrow> cpu res) \<Rightarrow> int \<Rightarrow> int
    \<Rightarrow> cpu \<Rightarrow> (int \<times> cpu) res" where
  "rcl_cell ld st w count s =
     bnd (ld s) (\<lambda>v.
     bnd (c_shr (ucast v) (w + 1 - count)) (\<lambda>x.
     bnd (c_shl (of_bool (test_Flag CF s)) (count - 1)) (\<lambda>c.
     let scaped = ucast x OR ucast c :: 'a word in
     bnd (c_shr (ucast v) (w - count)) (\<lambda>z. let s = put_Flag CF (z \<noteq> 0) s in
     bnd (ld s) (\<lambda>v.
     bnd (c_shl (ucast v) count) (\<lambda>y.
     bnd (st (ucast y OR scaped) s) ret0))))))"

definition rcl_i :: handler where
  "rcl_i i s =
     (let s = adv i s; s1 = op_size (op1 i) in
      bnd (count_of (op2 i) s) (\<lambda>c. bnd (rm_ptr (op1 i) s) (\<lambda>t.
      bnd (c_mod c (bits s1 + 1)) (\<lambda>count.
        if s1 = 1 then rcl_cell (load8 t) (store8 t) (bits s1) count s
        else if s1 = 2 then rcl_cell (load16 t) (store16 t) (bits s1) count s
        else rcl_cell (load32 t) (store32 t) (bits s1) count s))))"

definition rcr_cell :: "(cpu \<Rightarrow> 'a::len word res) \<Rightarrow> ('a word \<Rightarrow> cpu \<Rightarrow> cpu res) \<Rightarrow> int \<Rightarrow> int
    \<Rightarrow> cpu \<Rightarrow> (int \<times> cpu) res" where
  "rcr_cell ld st w count s =
     bnd (ld s) (\<lambda>v.
     bnd (c_shl (ucast v) (w + 1 - count)) (\<lambda>x.
     bnd (c_shl (of_bool (test_Flag CF s)) count) (\<lambda>c.
     let scaped = ucast x OR ucast c :: 'a word in
     bnd (c_shr (ucast v) (count - 1)) (\<lambda>z. let s = put_Flag CF (z AND 1 \<noteq> 0) s in
     bnd (ld s) (\<lambda>v.
     bnd (c_shr (ucast v) count) (\<lambda>y.
     bnd (st (ucast y OR scaped) s) ret0))))))"

definition rcr_i :: handler where
  "rcr_i i s =
     (let s = adv i s; s1 = op_size (op1 i) in
      bnd (count_of (op2 i) s) (\<lambda>c. bnd (rm_ptr (op1 i) s) (\<lambda>t.
      bnd (c_mod c (bits s1 + 1)) (\<lambda>count.
        if s1 = 1 then rcr_cell (load8 t) (store8 t) (bits s1) count s
        else if s1 = 2 then rcr_cell (load16 t) (store16 t) (bits s1) count s
        else rcr_cell (load32 t) (store32 t) (bits s1) count s))))"

section \<open>Double shifts\<close>

text \<open>\<open>shld_i\<close> is marked unimplemented and only advances.\<close>

definition shld_i :: handler where
  "shld_i i s = ret0 (adv i s)"

text \<open>
  The locals \<open>r16\<close>/\<open>rm16\<close> are set when the size of the second operand is 2, the locals
  \<open>r32\<close>/\<open>rm32\<close> otherwise; the 16-bit form takes its flags from \<open>*r16\<close>.
\<close>

definition shrd_flags :: "u32 \<Rightarrow> u8 \<Rightarrow> cpu \<Rightarrow> (int \<times> cpu) res" where
  "shrd_flags r base s =
     bnd (sign r base) (\<lambda>sg.
       ret0 (put_Flag PF (parity r) (put_Flag ZF (zero_v r) (put_Flag SF sg s))))"

definition shrd_i :: handler where
  "shrd_i i s =
     (let s = adv i s; s2 = op_size (op2 i) in
      bnd (count_of (op3 i) s) (\<lambda>count.
        if op_type (op2 i) \<noteq> X86_OP_REG then Inr (1, s)
        else
          bnd (regs_at (op_reg (op2 i))) (\<lambda>r. bnd (rm_ptr (op1 i) s) (\<lambda>rm.
          let shiftAmt = uint count mod 32 in
          if shiftAmt = 0 then ret0 s
          else
            bnd (if s2 = 4 then load32 r s
                 else if s2 = 2 then bnd (load16 r s) (\<lambda>x. Inr (ucast x))
                 else Inl Uninit) (\<lambda>inBits.
            if shiftAmt \<ge> bits s2 then ret0 s
            else if s2 = 2 then
              bnd (shift_u s2 rm (\<lambda>v. c_shr v (shiftAmt - 1)) (\<lambda>v. c_shr v shiftAmt) s) (\<lambda>(_, s).
              bnd (load16 r s) (\<lambda>x. bnd (c_shl (ucast x) (bits s2 - shiftAmt)) (\<lambda>temp.
              bnd (rmw16 rm (\<lambda>v. v OR ucast temp) s) (\<lambda>(_, _, s).
              bnd (load16 r s) (\<lambda>res. shrd_flags (ucast res) (s2 * 8) s)))))
            else
              bnd (shift_u s2 rm (\<lambda>v. c_shr v (shiftAmt - 1)) (\<lambda>v. c_shr v shiftAmt) s) (\<lambda>(_, s).
              bnd (load32 r s) (\<lambda>x. bnd (c_shl x (bits s2 - shiftAmt)) (\<lambda>temp.
              bnd (rmw32 rm (\<lambda>v. v OR temp) s) (\<lambda>(_, res, s).
              shrd_flags res (s2 * 8) s)))))))))"

section \<open>Cells under shifts and rotations\<close>

lemma rol_cell_32:
  assumes "load32 p s = Inr v" "0 < n" "n < 32"
  shows "\<exists>s'. rol_cell (load32 p) (store32 p) 32 (int n) s = Inr (0, put_Flag CF (bit v (32 - n)) s') \<and>
    store32 p (word_rotl n v) s = Inr s'"
proof -
  obtain t where t: "store32 p (word_rotl n v) s = Inr t" using c32.st_total [OF assms(1)] by blast
  have e: "push_bit n v OR drop_bit (32 - n) v = word_rotl n v"
    using rotl_word [of n v] assms by simp
  have n: "nat (32 - int n) = 32 - n" using assms by simp
  show ?thesis
    using assms t by (simp add: rol_cell_def c_shr_def c_shl_def ret0_def Let_def e n drop_bit_and_1)
qed

lemma ror_cell_32:
  assumes "load32 p s = Inr v" "0 < n" "n < 32"
  shows "\<exists>s'. ror_cell (load32 p) (store32 p) 32 (int n) s = Inr (0, put_Flag CF (bit v 0) s') \<and>
    store32 p (word_rotr n v) s = Inr s'"
proof -
  obtain t where t: "store32 p (word_rotr n v) s = Inr t" using c32.st_total [OF assms(1)] by blast
  have e: "drop_bit n v OR push_bit (32 - n) v = word_rotr n v"
    using rotr_word [of n v] assms by simp
  have n: "nat (32 - int n) = 32 - n" using assms by simp
  have "(drop_bit (32 - n) (push_bit (32 - n) v) AND 1 \<noteq> 0) = bit v 0"
    unfolding drop_bit_and_1 using assms by (auto simp: bit_simps)
  then show ?thesis
    using assms t by (simp add: ror_cell_def c_shr_def c_shl_def ret0_def Let_def e n)
qed

lemma count_mod: "uint (c::u8) mod 32 = int (unat c mod 32)"
  by (simp add: zmod_int)

lemma rol_i_cell:
  assumes "op_size (op1 i) = 4" "rm_ptr (op1 i) (adv i s) = Inr p" "count_of (op2 i) (adv i s) = Inr c"
  shows "rol_i i s = rol_cell (load32 p) (store32 p) 32 (int (unat c mod 32)) (adv i s)"
    "ror_i i s = ror_cell (load32 p) (store32 p) 32 (int (unat c mod 32)) (adv i s)"
  using assms by (simp_all add: rol_i_def ror_i_def bits_def c_mod_def count_mod Let_def)

lemma shift_cell_32:
  assumes "load32 p s = Inr v" "p \<noteq> PVar EFLAGS" "cf v = Inr c" "sh v = Inr x"
  shows "\<exists>t. shift_cell (load32 p) (store32 p) ucast cf sh s = Inr (x, t) \<and>
    store32 p x (put_Flag CF (c AND 1 \<noteq> 0) s) = Inr t"
proof -
  let ?s = "put_Flag CF (c AND 1 \<noteq> 0) s"
  have "load32 p ?s = Inr v" using assms by simp
  moreover from this obtain t where "store32 p x ?s = Inr t" using c32.st_total by blast
  ultimately show ?thesis
    using assms by (simp add: shift_cell_def Let_def c32.ld_st)
qed

section \<open>Correctness\<close>

text \<open>
  For a count that is not a multiple of 32 the destination is rotated left by
  the count modulo 32 and \<open>CF\<close> is the lowest bit of the result. For a multiple of 32 the code
  shifts a 32-bit operand by 32, which C leaves undefined.
\<close>

lemma rol_i_32:
  assumes "op_size (op1 i) = 4" "rm_ptr (op1 i) (adv i s) = Inr p" "p \<noteq> PVar EFLAGS"
    and "load32 p (adv i s) = Inr v" "count_of (op2 i) (adv i s) = Inr c" and n: "n = unat c mod 32"
  shows "(n = 0 \<longrightarrow> rol_i i s = Inl BadShift) \<and>
    (n \<noteq> 0 \<longrightarrow> (\<exists>s'. rol_i i s = Inr (0, s') \<and> load32 p s' = Inr (word_rotl n v) \<and>
      test_Flag CF s' = bit (word_rotl n v) 0))"
proof (cases "n = 0")
  case True
  then show ?thesis
    using assms by (simp add: rol_i_cell rol_cell_def c_shr_def)
next
  case False
  then have b: "0 < n" "n < 32" using n by simp_all
  obtain t where t: "rol_cell (load32 p) (store32 p) 32 (int n) (adv i s) = Inr (0, put_Flag CF (bit v (32 - n)) t)"
    "store32 p (word_rotl n v) (adv i s) = Inr t"
    using rol_cell_32 [OF assms(4) b] by blast
  have "bit (word_rotl n v) 0 = bit v (32 - n)"
    using b by (simp add: bit_simps)
  then show ?thesis
    using False assms t c32.ld_st [OF t(2)] by (simp add: rol_i_cell)
qed

text \<open>
  After \<open>rol_i\<close> on a 32-bit register with an immediate count, \<open>ror_i\<close> with the
  same operands returns and restores the register; only \<open>eflags\<close> and \<open>eip\<close> differ.
\<close>

lemma rol_ror:
  assumes "rol_i i s = Inr (0, s1)" "op_size (op1 i) = 4" "op_type (op1 i) = X86_OP_REG" "op_reg (op1 i) < 50"
      "regs ! op_reg (op1 i) = PVar v" "v \<notin> {EFLAGS, EIP}"
    and "op_type (op2 i) = X86_OP_IMM" "operands j = operands i"
  shows "\<exists>s2. ror_i j s1 = Inr (0, s2) \<and> var s2 v = var s v \<and> (\<forall>w. w \<notin> {EFLAGS, EIP} \<longrightarrow> var s2 w = var s w)"
proof -
  define n where "n = unat (ucast (op_imm (op2 i)) :: u8) mod 32"
  let ?x = "var s v" and ?p = "PVar v"
  have p: "rm_ptr (op1 i) t = Inr ?p" "count_of (op2 i) t = Inr (ucast (op_imm (op2 i)))" for t
    using assms by (simp_all add: rm_ptr_reg count_of_def)
  have "rol_i i s = Inl BadShift" if "n = 0"
    using that assms p by (simp add: rol_i_cell n_def rol_cell_def c_shr_def)
  then have "n \<noteq> 0" using assms(1) by auto
  then have b: "0 < n" "n < 32" by (simp_all add: n_def)
  have l: "load32 ?p (adv i s) = Inr ?x" using assms by simp
  obtain t where t: "rol_i i s = Inr (0, put_Flag CF (bit ?x (32 - n)) t)" "store32 ?p (word_rotl n ?x) (adv i s) = Inr t"
    using rol_cell_32 [OF l b] assms p by (auto simp: rol_i_cell n_def)
  have s1: "s1 = put_Flag CF (bit ?x (32 - n)) (wr v (word_rotl n ?x) (adv i s))"
    using t assms(1) by simp
  have l1: "load32 ?p (adv j s1) = Inr (word_rotl n ?x)" using assms by (simp add: s1)
  obtain u where u: "ror_i j s1 = Inr (0, put_Flag CF (bit (word_rotl n ?x) 0) u)" "store32 ?p ?x (adv j s1) = Inr u"
    using ror_cell_32 [OF l1 b] assms p by (auto simp: rol_i_cell n_def)
  then show ?thesis using assms by (auto simp: s1)
qed


text \<open>
  For a count that is not a multiple of 32 the register is shifted
  left by the count modulo 32, \<open>CF\<close> is the last bit shifted out, \<open>ZF\<close> and \<open>SF\<close> are those of the
  result, and no other register changes.
\<close>

lemma shl_i_32:
  assumes "op_size (op1 i) = 4" "op_type (op1 i) = X86_OP_REG" "op_reg (op1 i) < 50" "regs ! op_reg (op1 i) = PVar v"
      "v \<notin> {EFLAGS, EIP}" and c: "count_of (op2 i) (adv i s) = Inr c" "n = unat c mod 32" "0 < n"
  shows "\<exists>s'. shl_i i s = Inr (0, s') \<and> var s' v = push_bit n (var s v) \<and>
    test_Flag CF s' = bit (var s v) (32 - n) \<and> test_Flag ZF s' = (push_bit n (var s v) = 0) \<and>
    test_Flag SF s' = (sint (push_bit n (var s v)) < 0) \<and>
    (\<forall>w. w \<notin> {v, EFLAGS} \<longrightarrow> var s' w = var (adv i s) w)"
proof -
  let ?x = "var s v" and ?p = "PVar v"
  have b: "n < 32" using c by simp
  have m: "uint c mod 32 = int n" using c(2) by (simp add: count_mod)
  have k: "nat (32 - int n) = 32 - n" using b by simp
  let ?t = "wr v (push_bit n ?x) (put_Flag CF (bit ?x (32 - n)) (adv i s))"
  have "shift_u 4 ?p (\<lambda>v. c_shr v (32 - int n)) (\<lambda>v. c_shl v (int n)) (adv i s) = Inr (push_bit n ?x, ?t)"
    using shift_cell_32 [of ?p "adv i s" ?x "\<lambda>v. c_shr v (32 - int n)" "drop_bit (32 - n) ?x" "\<lambda>v. c_shl v (int n)"
        "push_bit n ?x"] assms b k
    by (auto simp: shift_u_def c_shr_def c_shl_def drop_bit_and_1)
  then show ?thesis
    using assms b m
    by (auto simp: shl_i_def sal_i_def bits_def c_mod_def c_shr_def regs_at_def shift_flags_def ret0_def Let_def zero_v_def
        sign_meaning simp del: sign_bases)
qed
end
