(* ===== verification/VM_Bits.thy ===== *)
theory VM_Bits
  imports VM_Shift
begin

text \<open>
  The bit scan and bit test handlers of \<open>src/src/instr.c\<close>: BSF, BSR, BT, BTC, BTR, BTS.
\<close>

section \<open>Bit scan\<close>

text \<open>
  The loop \<open>while ((val >> temp) & 0x1 == 0)\<close>: in C the comparison binds tighter than the
  bitwise AND, so the condition is \<open>(val >> temp) & (0x1 == 0)\<close>.
\<close>

definition scan_cond :: "u32 \<Rightarrow> bool" where
  "scan_cond shifted = (shifted AND of_bool ((0x1::u32) = 0) \<noteq> 0)"

function scan_loop :: "int \<Rightarrow> (u32 \<Rightarrow> cpu \<Rightarrow> cpu res) \<Rightarrow> u32 \<Rightarrow> int \<Rightarrow> cpu \<Rightarrow> cpu res" where
  "scan_loop d st val temp s =
     bnd (c_shr val temp) (\<lambda>x.
       if scan_cond x then bnd (st (of_int (temp + d)) s) (\<lambda>s. scan_loop d st val (temp + d) s)
       else Inr s)"
  by pat_completeness auto
termination
  by (relation "measure (\<lambda>_. 0)") (simp_all add: scan_cond_def)

declare scan_loop.simps [simp del]

text \<open>BSF counts \<open>temp\<close> up from 0, BSR down from 15 or 31.\<close>

definition bit_scan :: "int \<Rightarrow> int \<Rightarrow> int \<Rightarrow> handler" where
  "bit_scan d from16 from32 i s =
     (let s = adv i s in
      bnd (src_val (op2 i) s) (\<lambda>val.
        if val = 0 then ret0 (set_Flag ZF s)
        else if op_type (op1 i) \<noteq> X86_OP_REG then Inr (- 1, s)
        else
          bnd (regs_size_at (op_reg (op1 i))) (\<lambda>base. bnd (regs_at (op_reg (op1 i))) (\<lambda>p.
            if base = 0x10 then
              bnd (scan_loop d (\<lambda>x. store16 p (ucast x)) val from16 (clear_Flag ZF s)) ret0
            else
              bnd (scan_loop d (store32 p) val from32 (clear_Flag ZF s)) ret0))))"

definition bsf_i :: handler where
  "bsf_i = bit_scan 1 0 0"

definition bsr_i :: handler where
  "bsr_i = bit_scan (- 1) 15 31"

section \<open>Bit test\<close>

text \<open>A register operand of the bit tests: the branch for the size code \<open>0x1\<close> reads 16 bits,
  the other one 32.\<close>

definition bt_reg :: "nat \<Rightarrow> cpu \<Rightarrow> (u32 \<times> u8) res" where
  "bt_reg r s =
     bnd (regs_size_at r) (\<lambda>b. bnd (regs_at r) (\<lambda>p.
     bnd (if b = 0x1 then bnd (load16 p s) (\<lambda>x. Inr (ucast x)) else load32 p s) (\<lambda>v.
     Inr (v, b))))"

text \<open>The bit offset (operand 2) with the modulus it leaves in \<open>b\<close>.\<close>

definition bt_off :: "cs_x86_op \<Rightarrow> cpu \<Rightarrow> (u32 \<times> u8) res" where
  "bt_off oper s =
     (if op_type oper = X86_OP_REG then bt_reg (op_reg oper) s
      else Inr (ucast (op_imm oper), 0x8))"

text \<open>\<open>val2 % b\<close>\<close>

definition bt_mod :: "u32 \<Rightarrow> u8 \<Rightarrow> u32 res" where
  "bt_mod val2 b = (if b = 0 then Inl DivTrap else Inr (val2 mod ucast b))"

definition bt_i :: handler where
  "bt_i i s =
     (let s = adv i s; s1 = op_size (op1 i); s2 = op_size (op2 i) in
      bnd (if op_type (op1 i) = X86_OP_REG then
             bnd (bt_reg (op_reg (op1 i)) s) (\<lambda>(v, _). Inr v)
           else
             bnd (mem_ptr (op1 i) s) (\<lambda>t.
               if s1 = 4 then load32 t s
               else if s2 = 2 then bnd (load16 t s) (\<lambda>x. Inr (ucast x))
               else bnd (load8 t s) (\<lambda>x. Inr (ucast x)))) (\<lambda>val1.
      bnd (bt_off (op2 i) s) (\<lambda>(val2, b).
      bnd (bt_mod val2 b) (\<lambda>n.
      bnd (c_shr val1 (uint n)) (\<lambda>x.
      ret0 (put_Flag CF (x \<noteq> 0) s))))))"

text \<open>The flag and the update \<open>*val1 = f(*val1)\<close> of BTC, BTR and BTS on one lvalue.\<close>

definition bt_cell :: "(cpu \<Rightarrow> 'a::len word res) \<Rightarrow> ('a word \<Rightarrow> cpu \<Rightarrow> cpu res)
    \<Rightarrow> (u32 \<Rightarrow> 'a word \<Rightarrow> 'a word) \<Rightarrow> u32 \<Rightarrow> u8 \<Rightarrow> cpu \<Rightarrow> (int \<times> cpu) res" where
  "bt_cell ld st f val2 b s =
     bnd (ld s) (\<lambda>v. bnd (bt_mod val2 b) (\<lambda>n. bnd (c_shr (ucast v) (uint n)) (\<lambda>x.
     let s = put_Flag CF (x \<noteq> 0) s in
     bnd (rmw ld st (f (pow_i 2 n)) s) (\<lambda>(_, _, s). ret0 s))))"

definition bt_upd_reg :: "(u32 \<Rightarrow> u16 \<Rightarrow> u16) \<Rightarrow> (u32 \<Rightarrow> u32 \<Rightarrow> u32) \<Rightarrow> nat \<Rightarrow> u32 \<Rightarrow> cpu
    \<Rightarrow> (int \<times> cpu) res" where
  "bt_upd_reg f16 f32 r val2 s =
     bnd (regs_size_at r) (\<lambda>b. bnd (regs_at r) (\<lambda>p.
       if b = 0x1 then bt_cell (load16 p) (store16 p) f16 val2 b s
       else bt_cell (load32 p) (store32 p) f32 val2 b s))"

text \<open>In BTC and BTR the memory branch reads the operand and then writes it through the
  pointer \<open>val1\<close>, which was never initialised.\<close>

definition bt_upd_mem_uninit :: "cs_x86_op \<Rightarrow> cpu \<Rightarrow> (int \<times> cpu) res" where
  "bt_upd_mem_uninit oper s =
     bnd (mem_ptr oper s) (\<lambda>t. bnd (load_sz (op_size oper) t s) (\<lambda>_. Inl Uninit))"

definition btc_i :: handler where
  "btc_i i s =
     (let s = adv i s in
      bnd (bt_off (op2 i) s) (\<lambda>(val2, _).
        if op_type (op1 i) = X86_OP_REG then
          bt_upd_reg (\<lambda>m v. v XOR ucast m) (\<lambda>m v. v XOR m) (op_reg (op1 i)) val2 s
        else bt_upd_mem_uninit (op1 i) s))"

definition btr_i :: handler where
  "btr_i i s =
     (let s = adv i s in
      bnd (bt_off (op2 i) s) (\<lambda>(val2, _).
        if op_type (op1 i) = X86_OP_REG then
          bt_upd_reg (\<lambda>m v. v AND ucast (0xFFFF - m)) (\<lambda>m v. v AND (0xFFFFFFFF - m))
            (op_reg (op1 i)) val2 s
        else bt_upd_mem_uninit (op1 i) s))"

definition bts_i :: handler where
  "bts_i i s =
     (let s = adv i s in
      bnd (bt_off (op2 i) s) (\<lambda>(val2, _).
        if op_type (op1 i) = X86_OP_REG then
          bt_upd_reg (\<lambda>m v. v OR ucast m) (\<lambda>m v. v OR m) (op_reg (op1 i)) val2 s
        else
          bnd (mem_ptr (op1 i) s) (\<lambda>p.
            bt_cell (load32 p) (store32 p) (\<lambda>m v. v OR m) val2 0x20 s)))"

section \<open>Cells under bit updates\<close>

lemma scan_loop_exits: "0 \<le> temp \<Longrightarrow> temp < 32 \<Longrightarrow> scan_loop d st val temp s = Inr s"
  by (subst scan_loop.simps) (simp add: c_shr_def scan_cond_def)

lemma bt_cell_32:
  assumes "load32 p s = Inr v" "p \<noteq> PVar EFLAGS"
  shows "\<exists>t. bt_cell (load32 p) (store32 p) f val2 32 s = Inr (0, t) \<and>
    store32 p (f (2 ^ (unat val2 mod 32)) v) (put_Flag CF (unat v \<ge> 2 ^ (unat val2 mod 32)) s) = Inr t"
proof -
  let ?n = "unat val2 mod 32"
  have n: "unat (val2 mod 32) = ?n" by (simp add: unat_mod)
  then have u: "uint (val2 mod 32) = int ?n" by (metis uint_nat)
  have p: "pow_i 2 (val2 mod 32) = 2 ^ ?n" by (simp add: pow_i_eq n)
  let ?s = "put_Flag CF (unat v \<ge> 2 ^ ?n) s"
  have l: "load32 p ?s = Inr v" using assms by simp
  obtain t where "store32 p (f (2 ^ ?n) v) ?s = Inr t" using c32.st_total [OF l] by blast
  moreover from this have "rmw (load32 p) (store32 p) (f (2 ^ ?n)) ?s = Inr (v, f (2 ^ ?n) v, t)"
    using l by (simp add: c32.rmw_iff)
  ultimately show ?thesis
    using assms by (simp add: bt_cell_def bt_mod_def c_shr_def u p drop_bit_neq_0 ret0_def Let_def)
qed

text \<open>The bits of the destination after BTS, BTR, BTC.\<close>

lemma bt_words:
  fixes v :: u32
  assumes "n < 32"
  shows "bit (v OR 2 ^ n) m \<longleftrightarrow> m = n \<or> bit v m" "bit (v XOR 2 ^ n) m \<longleftrightarrow> (m = n) \<noteq> bit v m"
    "bit (v AND (0xFFFFFFFF - 2 ^ n)) m \<longleftrightarrow> m \<noteq> n \<and> bit v m"
proof -
  have e: "bit (2 ^ n :: u32) m \<longleftrightarrow> m = n" using assms by (auto simp: bit_simps)
  have "(0xFFFFFFFF :: u32) - 2 ^ n = NOT (2 ^ n)"
    by (simp add: not_eq_complement)
  then show "bit (v AND (0xFFFFFFFF - 2 ^ n)) m \<longleftrightarrow> m \<noteq> n \<and> bit v m"
    using e by (auto simp: bit_simps dest: bit_imp_le_length)
  show "bit (v OR 2 ^ n) m \<longleftrightarrow> m = n \<or> bit v m" "bit (v XOR 2 ^ n) m \<longleftrightarrow> (m = n) \<noteq> bit v m"
    using e by (auto simp: bit_or_iff bit_xor_iff)
qed

section \<open>Correctness\<close>

text \<open>
  C40 (BSF, BSR). Neither handler ever writes its destination: on a register destination both
  only set \<open>ZF\<close> to whether the source is 0 and advance, because the condition of their scan
  loop is constantly false.
\<close>

theorem bit_scan_never_writes:
  assumes "src_val (op2 i) (adv i s) = Inr val" "op_type (op1 i) = X86_OP_REG" "op_reg (op1 i) < 50"
  shows "bsf_i i s = Inr (0, put_Flag ZF (val = 0) (adv i s)) \<and> bsr_i i s = Inr (0, put_Flag ZF (val = 0) (adv i s))"
  using assms
  by (simp add: bsf_i_def bsr_i_def bit_scan_def scan_loop_exits regs_at_def regs_size_at_def ret0_def Let_def
      set_Flag_put clear_Flag_put)

theorem bit_scan_never_writes_witness:
  "\<exists>s'. bsf_i (insn2 (reg_opd 21 4) (reg_opd 19 4)) (wr EBX 77 (wr EAX 0x100 static_init)) = Inr (0, s') \<and> var s' EBX = 77"
  using bit_scan_never_writes [of "insn2 (reg_opd 21 4) (reg_opd 19 4)" "wr EBX 77 (wr EAX 0x100 static_init)" "0x100"]
  by (simp add: sample_defs src_val_def reg_val_def regs_def regs_size_def static_init_def)

text \<open>
  C39 (BTS, BTR, BTC on a 32-bit register). With an immediate offset \<open>n\<close> (modulo 32) the three
  handlers set, clear and complement exactly bit \<open>n\<close> of the register. \<open>CF\<close> is not bit \<open>n\<close> of the
  old value: it is set whenever any bit at position \<open>n\<close> or above is, as the code does not mask
  the shifted value.
\<close>

theorem bt_update_32:
  assumes "op_type (op1 i) = X86_OP_REG" "op_reg (op1 i) < 50" "regs ! op_reg (op1 i) = PVar v"
      "regs_size ! op_reg (op1 i) = 32" "v \<notin> {EFLAGS, EIP}" "op_type (op2 i) = X86_OP_IMM"
    and n: "n = unat (ucast (op_imm (op2 i)) :: u32) mod 32"
  shows "\<exists>s1 s2 s3. bts_i i s = Inr (0, s1) \<and> btr_i i s = Inr (0, s2) \<and> btc_i i s = Inr (0, s3) \<and>
    (\<forall>m. bit (var s1 v) m \<longleftrightarrow> m = n \<or> bit (var s v) m) \<and>
    (\<forall>m. bit (var s2 v) m \<longleftrightarrow> m \<noteq> n \<and> bit (var s v) m) \<and>
    (\<forall>m. bit (var s3 v) m \<longleftrightarrow> (m = n) \<noteq> bit (var s v) m) \<and>
    test_Flag CF s1 = (unat (var s v) \<ge> 2 ^ n) \<and> test_Flag CF s2 = test_Flag CF s1 \<and> test_Flag CF s3 = test_Flag CF s1"
proof -
  have l: "load32 (PVar v) (adv i s) = Inr (var s v)" "PVar v \<noteq> PVar EFLAGS" using assms by simp_all
  note c = bt_cell_32 [OF l, of _ "ucast (op_imm (op2 i))", folded n]
  obtain s1 s2 s3 where
    "bts_i i s = Inr (0, s1)" "s1 = wr v (var s v OR 2 ^ n) (put_Flag CF (unat (var s v) \<ge> 2 ^ n) (adv i s))"
    "btr_i i s = Inr (0, s2)" "s2 = wr v (var s v AND (0xFFFFFFFF - 2 ^ n)) (put_Flag CF (unat (var s v) \<ge> 2 ^ n) (adv i s))"
    "btc_i i s = Inr (0, s3)" "s3 = wr v (var s v XOR 2 ^ n) (put_Flag CF (unat (var s v) \<ge> 2 ^ n) (adv i s))"
    using assms(1-6) c [of "\<lambda>m v. v OR m"] c [of "\<lambda>m v. v AND (0xFFFFFFFF - m)"] c [of "\<lambda>m v. v XOR m"]
    by (auto simp: bts_i_def btr_i_def btc_i_def bt_off_def bt_upd_reg_def regs_at_def regs_size_at_def Let_def)
  moreover have "n < 32" by (simp add: n)
  ultimately show ?thesis
    using assms(5) bt_words [of n "var s v"] by auto
qed
theorem bt_update_32_witness:
  "\<exists>s1. bts_i (insn2 (reg_opd 19 4) (imm_opd 1 1)) (wr EAX 4 static_init) = Inr (0, s1) \<and> bit (var s1 EAX) 1 \<and>
    test_Flag CF s1"
  using bt_update_32 [of "insn2 (reg_opd 19 4) (imm_opd 1 1)" EAX 1 "wr EAX 4 static_init"]
  by (auto simp: sample_defs regs_def regs_size_def)

end
