(* ===== verification/VM_Bcd.thy ===== *)
theory VM_Bcd
  imports VM_Bits
begin

text \<open>
  The decimal adjustments and the conversions inside the accumulator of
  \<open>src/src/instr.c\<close>: AAA, AAD, AAM, AAS, DAA, DAS, CBW, CWDE, CWD, CDQ, LAHF, SAHF.
\<close>

section \<open>Decimal adjustments\<close>

text \<open>The condition of aaa is \<open>*al & 0x0F > 9\<close>, which C reads as \<open>*al & (0x0F > 9)\<close>.\<close>

definition aaa_i :: handler where
  "aaa_i i s =
     (let s = adv i s in
      if get_al s AND of_bool ((0x0F::u8) > 9) \<noteq> 0 \<or> test_Flag AF s then
        (let s = set_al ((get_al s + 6) AND 0x0F) s;
             s = set_ah (get_ah s + 1) s
         in ret0 (set_Flag CF (set_Flag AF s)))
      else ret0 (clear_Flag ZF (clear_Flag AF s)))"

text \<open>The flag lines of aad and aam; the branches of the \<open>ZF\<close> line are exchanged.\<close>

definition aad_flags :: "cpu \<Rightarrow> (int \<times> cpu) res" where
  "aad_flags s =
     bnd (sign (ucast (get_al s)) 0x8) (\<lambda>sg. let s = put_Flag SF sg s;
         s = (if zero_v (ucast (get_al s)) then clear_Flag ZF s else set_Flag ZF s);
         s = put_Flag PF (parity (ucast (get_al s))) s
     in ret0 s)"

definition aad_i :: handler where
  "aad_i i s =
     (let s = adv i s;
          s = set_al (get_ah s * 10 + get_al s) s;
          s = set_ah 0 s
      in aad_flags s)"

definition aam_i :: handler where
  "aam_i i s =
     (let s = adv i s;
          s = set_ah (get_al s div 10) s;
          s = set_al (get_al s mod 10) s
      in aad_flags s)"

definition aas_i :: handler where
  "aas_i i s =
     (let s = adv i s in
      if get_al s AND 0x0F > 9 \<or> test_Flag AF s then
        (let s = set_al (get_al s - 6) s;
             s = set_al (get_al s AND 0x0F) s;
             s = set_ah (get_ah s - 1) s
         in ret0 (set_Flag CF (set_Flag AF s)))
      else ret0 (clear_Flag CF (clear_Flag AF s)))"

definition al_flags :: "cpu \<Rightarrow> (int \<times> cpu) res" where
  "al_flags s =
     bnd (sign (ucast (get_al s)) 0x08) (\<lambda>sg. let s = put_Flag SF sg s;
         s = put_Flag ZF (zero_v (ucast (get_al s))) s;
         s = put_Flag PF (parity (ucast (get_al s))) s
     in ret0 s)"

definition daa_i :: handler where
  "daa_i i s =
     (let s = adv i s;
          s = (if get_al s AND 0xF > 9 \<or> test_Flag AF s
               then set_Flag AF (set_al (get_al s + 6) s) else clear_Flag AF s);
          s = (if get_al s > 0x9F \<or> test_Flag CF s
               then set_Flag CF (set_al (get_al s + 0x60) s) else clear_Flag CF s)
      in al_flags s)"

definition das_i :: handler where
  "das_i i s =
     (let s = adv i s;
          s = (if get_al s AND 0xF > 9 \<or> test_Flag AF s
               then set_Flag AF (set_al (get_al s - 6) s) else clear_Flag AF s);
          s = (if get_al s > 0x9F \<or> test_Flag CF s
               then set_Flag CF (set_al (get_al s - 0x60) s) else clear_Flag CF s)
      in al_flags s)"

section \<open>Conversions\<close>

definition cbw_i :: handler where
  "cbw_i i s =
     (let s = adv i s; al = get_al s; ax = lo16 EAX s in
      ret0 (if drop_bit 7 al \<noteq> 0 then set_lo16 EAX (ax OR (0xFF00 OR ucast al)) s
            else set_lo16 EAX (ax AND (0x00FF AND ucast al)) s))"

definition cwde_i :: handler where
  "cwde_i i s =
     (let s = adv i s; ax = lo16 EAX s in
      ret0 (if drop_bit 15 ax \<noteq> 0 then wr EAX (var s EAX OR (0xFFFF0000 OR ucast ax)) s
            else wr EAX (var s EAX AND (0x0000FFFF AND ucast ax)) s))"

definition cwd_i :: handler where
  "cwd_i i s =
     (let s = adv i s in
      bnd (sign (ucast (lo16 EAX s)) 0x10) (\<lambda>sg.
        ret0 (if sg then set_lo16 EDX 0xFFFF s else set_lo16 EDX 0x0000 s)))"

definition cdq_i :: handler where
  "cdq_i i s =
     (let s = adv i s in
      bnd (sign (var s EAX) 0x20) (\<lambda>sg.
        ret0 (if sg then wr EDX 0xFFFFFFFF s else wr EDX 0x00000000 s)))"

definition lahf_i :: handler where
  "lahf_i i s =
     (let s = adv i s in ret0 (set_ah (ucast (var s EFLAGS AND 0xFF)) s))"

definition sahf_i :: handler where
  "sahf_i i s =
     (let s = adv i s in bnd (store8 (PVar EFLAGS) (get_ah s) s) ret0)"

section \<open>Bytes of the accumulator\<close>

lemma acc_bytes [simp]:
  "get_al (set_al x s) = x" "get_ah (set_ah x s) = x" "get_al (set_ah x s) = get_al s" "get_ah (set_al x s) = get_ah s"
  unfolding get_al_def get_ah_def set_al_def set_ah_def
  by (rule bit_word_eqI, (simp add: bit_simps; auto)[1])+

lemma acc_frame [simp]:
  "v \<noteq> EAX \<Longrightarrow> var (set_al x s) v = var s v" "v \<noteq> EAX \<Longrightarrow> var (set_ah x s) v = var s v"
  "get_al (adv i s) = get_al s" "get_ah (adv i s) = get_ah s" "get_al (put_Flag f c s) = get_al s"
  "get_ah (put_Flag f c s) = get_ah s"
  by (simp_all add: get_al_def get_ah_def set_al_def set_ah_def)

lemma widen_words:
  "bit (ucast x :: u8) 7 \<Longrightarrow> (x::u16) OR (0xFF00 OR ucast (ucast x :: u8)) = scast (ucast x :: u8)"
  "\<not> bit (ucast x :: u8) 7 \<Longrightarrow> (x::u16) AND (0x00FF AND ucast (ucast x :: u8)) = scast (ucast x :: u8)"
  "bit (ucast y :: u16) 15 \<Longrightarrow> (y::u32) OR (0xFFFF0000 OR ucast (ucast y :: u16)) = scast (ucast y :: u16)"
  "\<not> bit (ucast y :: u16) 15 \<Longrightarrow> (y::u32) AND (0x0000FFFF AND ucast (ucast y :: u16)) = scast (ucast y :: u16)"
  by (rule bit_word_eqI, (auto simp: bit_simps min_def le_less)[1])+

lemma top_bits: "drop_bit 7 (b::u8) \<noteq> 0 \<longleftrightarrow> bit b 7" "drop_bit 15 (h::u16) \<noteq> 0 \<longleftrightarrow> bit h 15"
  using drop_bit_ucast_top [of b, where 'b = 8] drop_bit_ucast_top [of h, where 'b = 16] by simp_all

lemma lahf_sahf_word: "((e::u32) AND 0xFFFFFF00) OR ucast (ucast (w AND 0xFF :: u32) :: u8) = (e AND 0xFFFFFF00) OR (w AND 0xFF)"
  by (rule bit_word_eqI) (auto simp: bit_simps)

section \<open>Correctness\<close>

text \<open>
  AAM. \<open>aam_i\<close> splits \<open>AL\<close> into its tens (\<open>AH\<close>) and units (\<open>AL\<close>); \<open>ZF\<close> is the
  opposite of what the comment says: it is set exactly when the new \<open>AL\<close> is not 0.
\<close>

lemma aam_i_digits:
  "\<exists>s'. aam_i i s = Inr (0, s') \<and> unat (get_ah s') = unat (get_al s) div 10 \<and>
    unat (get_al s') = unat (get_al s) mod 10 \<and> test_Flag ZF s' = (unat (get_al s) mod 10 \<noteq> 0)"
proof -
  have z: "(get_al s mod 10 = 0) = (unat (get_al s) mod 10 = 0)"
    by (simp add: word_unat_eq_iff unat_mod)
  show ?thesis
    by (simp add: aam_i_def aad_flags_def set_Flag_put clear_Flag_put ret0_def Let_def unat_div unat_mod zero_v_def
        ucast_eq_0 z)
qed

text \<open>
  AAM, AAD. \<open>aad_i\<close> after \<open>aam_i\<close> puts the digits together again: \<open>AL\<close> is what it was,
  \<open>AH\<close> is 0, and \<open>ZF\<close> is again inverted.
\<close>

lemma aam_aad:
  assumes "aam_i i s = Inr (0, s1)"
  shows "\<exists>s2. aad_i j s1 = Inr (0, s2) \<and> get_al s2 = get_al s \<and> get_ah s2 = 0 \<and>
    test_Flag ZF s2 = (get_al s \<noteq> 0)"
proof -
  from assms have s1: "get_al s1 = get_al s mod 10" "get_ah s1 = get_al s div 10"
    by (auto simp: aam_i_def aad_flags_def set_Flag_put clear_Flag_put ret0_def Let_def)
  have "get_al s div 10 * 10 + get_al s mod 10 = get_al s"
    by (rule div_mult_mod_eq)
  then show ?thesis
    by (simp add: aad_i_def aad_flags_def set_Flag_put clear_Flag_put ret0_def Let_def s1 zero_v_def ucast_eq_0)
qed

text \<open>
  CBW, CWDE, CWD, CDQ. Each conversion is the sign extension of the accumulator: within
  \<open>AX\<close>, within \<open>EAX\<close>, into \<open>DX\<close> and into \<open>EDX\<close>.
\<close>

lemma conversions:
  "(\<exists>s'. cbw_i i s = Inr (0, s') \<and> lo16 EAX s' = scast (get_al s)) \<and>
   (\<exists>s'. cwde_i i s = Inr (0, s') \<and> var s' EAX = scast (lo16 EAX s)) \<and>
   (\<exists>s'. cwd_i i s = Inr (0, s') \<and> lo16 EDX s' = (if sint (lo16 EAX s) < 0 then - 1 else 0)) \<and>
   (\<exists>s'. cdq_i i s = Inr (0, s') \<and> var s' EDX = (if sint (var s EAX) < 0 then - 1 else 0))"
proof (intro conjI)
  have ax: "lo16 v (adv i s) = lo16 v s" if "v \<noteq> EIP" for v using that by (simp add: lo16_def)
  have al: "get_al s = ucast (lo16 EAX s)"
    unfolding get_al_def lo16_def by (rule bit_word_eqI) (auto simp: bit_simps)
  show "\<exists>s'. cbw_i i s = Inr (0, s') \<and> lo16 EAX s' = scast (get_al s)"
    by (simp add: cbw_i_def ret0_def Let_def ax top_bits al widen_words)
  show "\<exists>s'. cwde_i i s = Inr (0, s') \<and> var s' EAX = scast (lo16 EAX s)"
    using widen_words(3,4) [of "var s EAX"] by (auto simp: cwde_i_def ret0_def Let_def ax top_bits lo16_def)
  show "\<exists>s'. cwd_i i s = Inr (0, s') \<and> lo16 EDX s' = (if sint (lo16 EAX s) < 0 then - 1 else 0)"
    by (simp add: cwd_i_def ret0_def Let_def ax sign_meaning del: sign_bases)
  show "\<exists>s'. cdq_i i s = Inr (0, s') \<and> var s' EDX = (if sint (var s EAX) < 0 then - 1 else 0)"
    by (simp add: cdq_i_def ret0_def Let_def sign_meaning del: sign_bases)
qed

text \<open>
  LAHF, SAHF. As long as \<open>AH\<close> is kept, \<open>sahf_i\<close> restores the low byte of \<open>eflags\<close> that
  \<open>lahf_i\<close> saved and leaves the other bits and registers alone.
\<close>

lemma lahf_sahf:
  assumes "lahf_i i s = Inr (0, s1)" and "get_ah s2 = get_ah s1"
  shows "\<exists>s3. sahf_i j s2 = Inr (0, s3) \<and>
    var s3 EFLAGS = (var s2 EFLAGS AND 0xFFFFFF00) OR (var s EFLAGS AND 0xFF) \<and>
    (\<forall>v. v \<noteq> EFLAGS \<longrightarrow> var s3 v = var (adv j s2) v)"
proof -
  have "get_ah s2 = ucast (var s EFLAGS AND 0xFF)"
    using assms by (auto simp: lahf_i_def ret0_def Let_def)
  then show ?thesis
    using lahf_sahf_word [of "var s2 EFLAGS" "var s EFLAGS"] by (simp add: sahf_i_def ret0_def Let_def)
qed
end
