(* ===== verification/VM_Jumps.thy ===== *)
theory VM_Jumps
  imports VM_Bcd
begin

text \<open>
  The jumps of \<open>src/src/instr.c\<close>: the conditional jumps, JMP and the LOOP family. The
  bodies of the conditional jumps differ only in the condition.
\<close>

section \<open>Conditional jumps\<close>

text \<open>
  \<open>eip += insn->size; if (cond) { val = ...; eip = val; } return 0;\<close>
\<close>

definition jcc :: "(cpu \<Rightarrow> bool) \<Rightarrow> handler" where
  "jcc cond i s =
     (let s = adv i s in
      if cond s then bnd (target_val (op1 i) s) (\<lambda>val. ret0 (wr EIP val s))
      else ret0 s)"

definition ja_i :: handler where
  "ja_i = jcc (\<lambda>s. \<not> test_Flag CF s \<and> \<not> test_Flag ZF s)"

definition jae_i :: handler where
  "jae_i = jcc (\<lambda>s. \<not> test_Flag CF s)"

definition jb_i :: handler where
  "jb_i = jcc (\<lambda>s. test_Flag CF s)"

definition jbe_i :: handler where
  "jbe_i = jcc (\<lambda>s. test_Flag CF s \<or> test_Flag ZF s)"

definition jc_i :: handler where
  "jc_i = jcc (\<lambda>s. test_Flag CF s)"

definition jcxz_i :: handler where
  "jcxz_i = jcc (\<lambda>s. var s ECX AND 0xFFFF = 0)"

definition jecxz_i :: handler where
  "jecxz_i = jcc (\<lambda>s. var s ECX = 0)"

definition je_i :: handler where
  "je_i = jcc (\<lambda>s. test_Flag ZF s)"

definition jz_i :: handler where
  "jz_i = jcc (\<lambda>s. test_Flag ZF s)"

definition jg_i :: handler where
  "jg_i = jcc (\<lambda>s. \<not> test_Flag ZF s \<and> (test_Flag SF s = test_Flag OF s))"

definition jge_i :: handler where
  "jge_i = jcc (\<lambda>s. test_Flag SF s = test_Flag OF s)"

definition jl_i :: handler where
  "jl_i = jcc (\<lambda>s. test_Flag SF s \<noteq> test_Flag OF s)"

definition jle_i :: handler where
  "jle_i = jcc (\<lambda>s. test_Flag ZF s \<and> (test_Flag SF s \<noteq> test_Flag OF s))"

text \<open>\<open>jmp_i\<close> does not advance \<open>eip\<close> before it reads its operand.\<close>

definition jmp_i :: handler where
  "jmp_i i s = bnd (target_val (op1 i) s) (\<lambda>val. ret0 (wr EIP val s))"

definition jna_i :: handler where
  "jna_i = jcc (\<lambda>s. test_Flag CF s \<or> test_Flag ZF s)"

definition jnae_i :: handler where
  "jnae_i = jcc (\<lambda>s. test_Flag CF s)"

definition jnb_i :: handler where
  "jnb_i = jcc (\<lambda>s. \<not> test_Flag CF s)"

definition jnbe_i :: handler where
  "jnbe_i = jcc (\<lambda>s. \<not> test_Flag CF s \<and> \<not> test_Flag ZF s)"

definition jnc_i :: handler where
  "jnc_i = jcc (\<lambda>s. \<not> test_Flag CF s)"

definition jne_i :: handler where
  "jne_i = jcc (\<lambda>s. \<not> test_Flag ZF s)"

definition jng_i :: handler where
  "jng_i = jcc (\<lambda>s. test_Flag ZF s \<or> (test_Flag SF s \<noteq> test_Flag OF s))"

definition jnge_i :: handler where
  "jnge_i = jcc (\<lambda>s. test_Flag SF s \<noteq> test_Flag OF s)"

definition jnl_i :: handler where
  "jnl_i = jcc (\<lambda>s. test_Flag SF s = test_Flag OF s)"

definition jnle_i :: handler where
  "jnle_i = jcc (\<lambda>s. \<not> test_Flag ZF s \<and> (test_Flag SF s = test_Flag OF s))"

definition jno_i :: handler where
  "jno_i = jcc (\<lambda>s. \<not> test_Flag OF s)"

definition jnp_i :: handler where
  "jnp_i = jcc (\<lambda>s. \<not> test_Flag PF s)"

definition jns_i :: handler where
  "jns_i = jcc (\<lambda>s. \<not> test_Flag SF s)"

definition jnz_i :: handler where
  "jnz_i = jcc (\<lambda>s. \<not> test_Flag ZF s)"

definition jo_i :: handler where
  "jo_i = jcc (\<lambda>s. test_Flag OF s)"

definition jp_i :: handler where
  "jp_i = jcc (\<lambda>s. test_Flag PF s)"

definition jpe_i :: handler where
  "jpe_i = jcc (\<lambda>s. test_Flag PF s)"

definition jpo_i :: handler where
  "jpo_i = jcc (\<lambda>s. \<not> test_Flag PF s)"

definition js_i :: handler where
  "js_i = jcc (\<lambda>s. test_Flag SF s)"

section \<open>Loops\<close>

text \<open>
  \<open>ecx--; if (cond) { if (op1.size == 1) ... else if (op1.size == 4) ... } return 0;\<close> The sum of \<open>eip\<close> and the
  displacement is computed on \<open>int32_t\<close> and wraps around, like an effective address.
\<close>

definition loopcc :: "(cpu \<Rightarrow> bool) \<Rightarrow> handler" where
  "loopcc cond i s =
     (let s = adv i s; s = wr ECX (var s ECX - 1) s in
      if cond s then
        (if op_size (op1 i) = 1 then
           ret0 (wr EIP (var s EIP + sign_extend8_32 (ucast (op_imm (op1 i)))) s)
         else if op_size (op1 i) = 4 then ret0 (wr EIP (ucast (op_imm (op1 i))) s)
         else ret0 s)
      else ret0 s)"

definition loop_i :: handler where
  "loop_i = loopcc (\<lambda>s. var s ECX = 0)"

definition loope_i :: handler where
  "loope_i = loopcc (\<lambda>s. var s ECX = 0 \<and> test_Flag ZF s)"

definition loopne_i :: handler where
  "loopne_i = loopcc (\<lambda>s. var s ECX = 0 \<and> \<not> test_Flag ZF s)"

definition loopnz_i :: handler where
  "loopnz_i = loopcc (\<lambda>s. var s ECX = 0 \<and> \<not> test_Flag ZF s)"

definition loopz_i :: handler where
  "loopz_i = loopcc (\<lambda>s. var s ECX = 0 \<and> test_Flag ZF s)"

lemmas jcc_defs =
  ja_i_def jae_i_def jb_i_def jbe_i_def jc_i_def jcxz_i_def jecxz_i_def je_i_def jz_i_def jg_i_def
  jge_i_def jl_i_def jle_i_def jna_i_def jnae_i_def jnb_i_def jnbe_i_def jnc_i_def jne_i_def
  jng_i_def jnge_i_def jnl_i_def jnle_i_def jno_i_def jnp_i_def jns_i_def jnz_i_def jo_i_def
  jp_i_def jpe_i_def jpo_i_def js_i_def

section \<open>Branches in pairs\<close>

lemma jcc_taken:
  "cond (adv i s) \<Longrightarrow> target_val (op1 i) (adv i s) = Inr t \<Longrightarrow> jcc cond i s = Inr (0, wr EIP t (adv i s))"
  by (simp add: jcc_def ret0_def Let_def)

lemma jcc_not_taken: "\<not> cond (adv i s) \<Longrightarrow> jcc cond i s = Inr (0, adv i s)"
  by (simp add: jcc_def ret0_def Let_def)

text \<open>A branch and its negation: the condition does not look at \<open>eip\<close>.\<close>

locale branch_pair =
  fixes jx jnx :: handler and cx :: "cpu \<Rightarrow> bool"
  assumes pos: "jx = jcc cx" and neg: "jnx = jcc (\<lambda>s. \<not> cx s)" and eip_free: "cx (adv i s) = cx s"
begin

lemma exactly_one:
  assumes "target_val (op1 i) (adv i s) = Inr t"
  shows "(jx i s, jnx i s) =
    (if cx s then (Inr (0, wr EIP t (adv i s)), Inr (0, adv i s))
     else (Inr (0, adv i s), Inr (0, wr EIP t (adv i s))))"
  using assms by (simp add: pos neg eip_free jcc_taken jcc_not_taken)

end

interpretation bp_a: branch_pair ja_i jbe_i "\<lambda>s. \<not> test_Flag CF s \<and> \<not> test_Flag ZF s"
  by unfold_locales (simp_all add: ja_i_def jbe_i_def)

interpretation bp_ae: branch_pair jae_i jb_i "\<lambda>s. \<not> test_Flag CF s"
  by unfold_locales (simp_all add: jae_i_def jb_i_def)

interpretation bp_c: branch_pair jc_i jnc_i "\<lambda>s. test_Flag CF s"
  by unfold_locales (simp_all add: jc_i_def jnc_i_def)

interpretation bp_e: branch_pair je_i jne_i "\<lambda>s. test_Flag ZF s"
  by unfold_locales (simp_all add: je_i_def jne_i_def)

interpretation bp_g: branch_pair jg_i jng_i "\<lambda>s. \<not> test_Flag ZF s \<and> (test_Flag SF s = test_Flag OF s)"
  by unfold_locales (auto simp add: jg_i_def jng_i_def fun_eq_iff intro!: arg_cong [of _ _ jcc])

interpretation bp_ge: branch_pair jge_i jl_i "\<lambda>s. test_Flag SF s = test_Flag OF s"
  by unfold_locales (simp_all add: jge_i_def jl_i_def)

interpretation bp_o: branch_pair jo_i jno_i "\<lambda>s. test_Flag OF s"
  by unfold_locales (simp_all add: jo_i_def jno_i_def)

interpretation bp_p: branch_pair jp_i jnp_i "\<lambda>s. test_Flag PF s"
  by unfold_locales (simp_all add: jp_i_def jnp_i_def)

interpretation bp_s: branch_pair js_i jns_i "\<lambda>s. test_Flag SF s"
  by unfold_locales (simp_all add: js_i_def jns_i_def)

section \<open>Correctness\<close>

text \<open>
  C32 (conditional jumps). For each of nine pairs of a condition and its negation, executed in
  the same state on the same readable target, one of the two handlers jumps to the target and
  the other falls through to the next instruction; neither changes anything else.
\<close>

theorem jcc_exactly_one:
  assumes "target_val (op1 i) (adv i s) = Inr t"
  shows "list_all (\<lambda>(jx, jnx). {jx i s, jnx i s} = {Inr (0, wr EIP t (adv i s)), Inr (0, adv i s)})
    [(ja_i, jbe_i), (jae_i, jb_i), (jc_i, jnc_i), (je_i, jne_i), (jg_i, jng_i), (jge_i, jl_i),
     (jo_i, jno_i), (jp_i, jnp_i), (js_i, jns_i)]"
  using bp_a.exactly_one [OF assms] bp_ae.exactly_one [OF assms] bp_c.exactly_one [OF assms]
    bp_e.exactly_one [OF assms] bp_g.exactly_one [OF assms] bp_ge.exactly_one [OF assms]
    bp_o.exactly_one [OF assms] bp_p.exactly_one [OF assms] bp_s.exactly_one [OF assms]
  by (simp add: insert_commute split: if_splits)

theorem jcc_exactly_one_witness:
  "{ja_i (insn2 (imm_opd 0x400 4) (reg_opd 0 0)) static_init, jbe_i (insn2 (imm_opd 0x400 4) (reg_opd 0 0)) static_init} =
    {Inr (0, wr EIP 0x400 (adv (insn2 (imm_opd 0x400 4) (reg_opd 0 0)) static_init)),
     Inr (0, adv (insn2 (imm_opd 0x400 4) (reg_opd 0 0)) static_init)}"
  using jcc_exactly_one [of "insn2 (imm_opd 0x400 4) (reg_opd 0 0)" static_init "0x400"]
  by (simp add: target_val_def sample_defs)

text \<open>
  synonyms. The mnemonics that Intel defines as synonyms have the same handler function,
  JLE and JNG excepted.
\<close>

lemma jcc_synonyms:
  "ja_i = jnbe_i \<and> jae_i = jnb_i \<and> jae_i = jnc_i \<and> jb_i = jc_i \<and> jb_i = jnae_i \<and> jbe_i = jna_i \<and>
   je_i = jz_i \<and> jne_i = jnz_i \<and> jg_i = jnle_i \<and> jge_i = jnl_i \<and> jl_i = jnge_i \<and> jp_i = jpe_i \<and> jnp_i = jpo_i"
  by (simp add: ja_i_def jnbe_i_def jae_i_def jnb_i_def jnc_i_def jb_i_def jc_i_def jnae_i_def jbe_i_def jna_i_def
      je_i_def jz_i_def jne_i_def jnz_i_def jg_i_def jnle_i_def jge_i_def jnl_i_def jl_i_def jnge_i_def jp_i_def
      jpe_i_def jnp_i_def jpo_i_def)

text \<open>
  C34 (LOOP). \<open>loop_i\<close> decrements \<open>ecx\<close> and jumps exactly when the counter \<^emph>\<open>reaches\<close> 0, that is
  when it was 1; while iterations remain it falls through. Nothing but \<open>ecx\<close> and \<open>eip\<close> changes.
\<close>

theorem loop_i_spec:
  assumes "op_size (op1 i) = 1 \<or> op_size (op1 i) = 4"
  shows "\<exists>s'. loop_i i s = Inr (0, s') \<and> var s' ECX = var s ECX - 1 \<and>
    var s' EIP = (if var s ECX = 1 then
        (if op_size (op1 i) = 1 then var s EIP + ucast (insn_size i) + scast (ucast (op_imm (op1 i)) :: u8)
         else ucast (op_imm (op1 i)))
      else var s EIP + ucast (insn_size i)) \<and>
    (\<forall>v. v \<notin> {ECX, EIP} \<longrightarrow> var s' v = var s v) \<and> mem s' = mem s"
  using assms by (auto simp: loop_i_def loopcc_def ret0_def Let_def sign_extend_scast)

theorem loop_i_spec_witness:
  "\<exists>s'. loop_i (insn2 (imm_opd 0x400 4) (reg_opd 0 0)) (wr ECX 5 static_init) = Inr (0, s') \<and>
    var s' ECX = 4 \<and> var s' EIP = 2"
  using loop_i_spec [of "insn2 (imm_opd 0x400 4) (reg_opd 0 0)" "wr ECX 5 static_init"]
  by (auto simp: sample_defs static_init_def)

end
