(* ===== verification/VM_Setcc.thy ===== *)
theory VM_Setcc
  imports VM_Jumps
begin

text \<open>
  The SETcc handlers of \<open>src/src/instr.c\<close>, which store 1 or 0 in a byte operand. Their
  bodies differ only in the condition.
\<close>

section \<open>Handlers\<close>

definition setcc :: "(cpu \<Rightarrow> bool) \<Rightarrow> handler" where
  "setcc cond i s =
     (let s = adv i s in
      bnd (rm_ptr (op1 i) s) (\<lambda>p.
        if cond s then bnd (store8 p 0x1 s) ret0 else bnd (store8 p 0x0 s) ret0))"

definition seta_i :: handler where
  "seta_i = setcc (\<lambda>s. \<not> test_Flag CF s \<and> \<not> test_Flag ZF s)"

definition setae_i :: handler where
  "setae_i = setcc (\<lambda>s. \<not> test_Flag CF s)"

definition setb_i :: handler where
  "setb_i = setcc (\<lambda>s. test_Flag CF s)"

definition setbe_i :: handler where
  "setbe_i = setcc (\<lambda>s. test_Flag CF s \<or> test_Flag ZF s)"

definition setc_i :: handler where
  "setc_i = setcc (\<lambda>s. test_Flag CF s)"

definition sete_i :: handler where
  "sete_i = setcc (\<lambda>s. test_Flag ZF s)"

definition setg_i :: handler where
  "setg_i = setcc (\<lambda>s. \<not> test_Flag ZF s \<or> (test_Flag OF s = test_Flag SF s))"

definition setge_i :: handler where
  "setge_i = setcc (\<lambda>s. test_Flag OF s = test_Flag SF s)"

definition setl_i :: handler where
  "setl_i = setcc (\<lambda>s. test_Flag OF s \<noteq> test_Flag SF s)"

definition setle_i :: handler where
  "setle_i = setcc (\<lambda>s. (test_Flag OF s \<noteq> test_Flag SF s) \<and> test_Flag ZF s)"

definition setna_i :: handler where
  "setna_i = setcc (\<lambda>s. test_Flag CF s)"

definition setnae_i :: handler where
  "setnae_i = setcc (\<lambda>s. test_Flag CF s)"

definition setnb_i :: handler where
  "setnb_i = setcc (\<lambda>s. \<not> test_Flag CF s)"

definition setnbe_i :: handler where
  "setnbe_i = setcc (\<lambda>s. \<not> test_Flag CF s \<and> \<not> test_Flag ZF s)"

definition setnc_i :: handler where
  "setnc_i = setcc (\<lambda>s. \<not> test_Flag CF s)"

definition setne_i :: handler where
  "setne_i = setcc (\<lambda>s. \<not> test_Flag ZF s)"

definition setng_i :: handler where
  "setng_i = setcc (\<lambda>s. test_Flag ZF s \<or> (test_Flag OF s \<noteq> test_Flag SF s))"

definition setnge_i :: handler where
  "setnge_i = setcc (\<lambda>s. test_Flag OF s \<noteq> test_Flag SF s)"

definition setnl_i :: handler where
  "setnl_i = setcc (\<lambda>s. test_Flag OF s = test_Flag SF s)"

definition setnle_i :: handler where
  "setnle_i = setcc (\<lambda>s. test_Flag ZF s \<and> (test_Flag OF s \<noteq> test_Flag SF s))"

definition setno_i :: handler where
  "setno_i = setcc (\<lambda>s. \<not> test_Flag OF s)"

definition setnp_i :: handler where
  "setnp_i = setcc (\<lambda>s. \<not> test_Flag PF s)"

definition setns_i :: handler where
  "setns_i = setcc (\<lambda>s. \<not> test_Flag SF s)"

definition seto_i :: handler where
  "seto_i = setcc (\<lambda>s. test_Flag OF s)"

definition setp_i :: handler where
  "setp_i = setcc (\<lambda>s. test_Flag PF s)"

definition setpe_i :: handler where
  "setpe_i = setcc (\<lambda>s. test_Flag PF s)"

definition setpo_i :: handler where
  "setpo_i = setcc (\<lambda>s. \<not> test_Flag PF s)"

definition sets_i :: handler where
  "sets_i = setcc (\<lambda>s. test_Flag SF s)"

definition setz_i :: handler where
  "setz_i = setcc (\<lambda>s. test_Flag ZF s)"

lemmas setcc_defs =
  seta_i_def setae_i_def setb_i_def setbe_i_def setc_i_def sete_i_def setg_i_def setge_i_def
  setl_i_def setle_i_def setna_i_def setnae_i_def setnb_i_def setnbe_i_def setnc_i_def setne_i_def
  setng_i_def setnge_i_def setnl_i_def setnle_i_def setno_i_def setnp_i_def setns_i_def seto_i_def
  setp_i_def setpe_i_def setpo_i_def sets_i_def setz_i_def

section \<open>Correctness\<close>

text \<open>
  C33 (SETcc and Jcc). For the 26 conditions listed, the SETcc handler stores 1 exactly when the
  jump of the same name is taken: both test one condition. SETG, SETNA and SETNLE are not in the
  list: they test other conditions than JG, JNA and JNLE.
\<close>

theorem setcc_matches_jcc:
  "list_all (\<lambda>(st, j). \<exists>c. (\<forall>i s. c (adv i s) = c s) \<and> st = setcc c \<and> j = jcc c)
    [(seta_i, ja_i), (setae_i, jae_i), (setb_i, jb_i), (setbe_i, jbe_i), (setc_i, jc_i), (sete_i, je_i),
     (setge_i, jge_i), (setl_i, jl_i), (setle_i, jle_i), (setnae_i, jnae_i), (setnb_i, jnb_i),
     (setnbe_i, jnbe_i), (setnc_i, jnc_i), (setne_i, jne_i), (setng_i, jng_i), (setnge_i, jnge_i),
     (setnl_i, jnl_i), (setno_i, jno_i), (setnp_i, jnp_i), (setns_i, jns_i), (seto_i, jo_i),
     (setp_i, jp_i), (setpe_i, jpe_i), (setpo_i, jpo_i), (sets_i, js_i), (setz_i, jz_i)]"
proof -
  have same: "\<exists>c. (\<forall>i s. c (adv i s) = c s) \<and> setcc d = setcc c \<and> jcc d' = jcc c"
    if "\<And>s. d s = d' s" "\<And>i s. d (adv i s) = d s" for d d'
    using that by (intro exI [of _ d]) (simp add: ext [of d d'])
  show ?thesis
    unfolding list.pred_inject(2) prod.case setcc_defs jcc_defs
    by (intro conjI list.pred_inject(1); rule same; (blast | simp))
qed

lemma setcc_store:
  assumes "rm_ptr (op1 i) (adv i s) = Inr p" "load8 p (adv i s) = Inr x"
  shows "\<exists>s'. setcc cond i s = Inr (0, s') \<and> load8 p s' = Inr (if cond (adv i s) then 1 else 0)"
proof -
  obtain t where t: "store8 p (if cond (adv i s) then 1 else 0) (adv i s) = Inr t"
    using c8.st_total [OF assms(2)] by blast
  moreover from t have "setcc cond i s = Inr (0, t)"
    using assms(1) by (simp add: setcc_def ret0_def Let_def split: if_splits)
  ultimately show ?thesis using c8.ld_st by blast
qed

end
