(* ===== verification/VM_Stack.thy ===== *)
theory VM_Stack
  imports VM_Setcc
begin

text \<open>
  The stack handlers of \<open>src/src/instr.c\<close>: PUSH, POP, PUSHA, PUSHAD, POPA, POPAD, PUSHF,
  PUSHFD, POPF, POPFD, CALL, RET, LEAVE and ENTER.
\<close>

section \<open>Stack accesses\<close>

text \<open>\<open>esp -= 4; write32(esp, x);\<close> and \<open>v = read32(esp); esp += 4;\<close>, with their 16-bit forms.\<close>

definition push32 :: "u32 \<Rightarrow> cpu \<Rightarrow> cpu res" where
  "push32 x s = (let s = wr ESP (var s ESP - 4) s in write32 (var s ESP) x s)"

definition push16 :: "u16 \<Rightarrow> cpu \<Rightarrow> cpu res" where
  "push16 x s = (let s = wr ESP (var s ESP - 2) s in write16 (var s ESP) x s)"

definition pop32 :: "gvar \<Rightarrow> cpu \<Rightarrow> cpu res" where
  "pop32 v s =
     bnd (read32 (var s ESP) s) (\<lambda>x. let s = wr v x s in Inr (wr ESP (var s ESP + 4) s))"

definition pop16 :: "gvar \<Rightarrow> cpu \<Rightarrow> cpu res" where
  "pop16 v s =
     bnd (read16 (var s ESP) s) (\<lambda>x. let s = set_lo16 v x s in Inr (wr ESP (var s ESP + 2) s))"

section \<open>Handlers\<close>

definition ret_i :: handler where
  "ret_i i s =
     bnd (pop32 EIP s) (\<lambda>s.
       ret0 (if op_count i = 1 then wr ESP (var s ESP + ucast (op_imm (op1 i))) s else s))"

definition call_i :: handler where
  "call_i i s =
     (let s = adv i s in
      bnd (target_val (op1 i) s) (\<lambda>val.
      bnd (push32 (var s EIP) s) (\<lambda>s. ret0 (wr EIP val s))))"

definition push_i :: handler where
  "push_i i s =
     (let s = adv i s in
      bnd (src_val32 (op1 i) s) (\<lambda>val.
      bnd (if op_size (op1 i) = 2 then push16 (ucast val) s else push32 val s) ret0))"

definition pop_i :: handler where
  "pop_i i s =
     (let s = adv i s in
      if op_type (op1 i) = X86_OP_REG then
        bnd (regs_at (op_reg (op1 i))) (\<lambda>p.
          if op_size (op1 i) = 2 then
            bnd (read16 (var s ESP) s) (\<lambda>x. bnd (store16 p x s) (\<lambda>s.
            ret0 (wr ESP (var s ESP + 2) s)))
          else
            bnd (read32 (var s ESP) s) (\<lambda>x. bnd (store32 p x s) (\<lambda>s.
            ret0 (wr ESP (var s ESP + 4) s))))
      else if op_type (op1 i) = X86_OP_MEM then
        bnd (eff_addr (op_mem (op1 i)) s) (\<lambda>addr.
        bnd (read32 (var s ESP) s) (\<lambda>x. bnd (write32 addr x s) (\<lambda>s.
        ret0 (wr ESP (var s ESP + 4) s))))
      else ret0 s)"

text \<open>The 32-bit form of leave reads 16 bits and adds 4 to \<open>esp\<close>.\<close>

definition leave_i :: handler where
  "leave_i i s =
     (let s = adv i s; s = wr ESP (var s EBP) s in
      if prefix i 0 = 0x66 then bnd (pop16 EBP s) ret0
      else
        bnd (read16 (var s ESP) s) (\<lambda>x. let s = wr EBP (ucast x) s in
        ret0 (wr ESP (var s ESP + 4) s)))"

text \<open>The \<open>for\<close> loop of enter, by the number of iterations left.\<close>

primrec enter_loop :: "nat \<Rightarrow> cpu \<Rightarrow> cpu res" where
  "enter_loop 0 s = Inr s"
| "enter_loop (Suc n) s =
     (let s = wr EBP (var s EBP - 4) s in bnd (push32 (var s EBP) s) (enter_loop n))"

definition enter_i :: handler where
  "enter_i i s =
     (let s = adv i s; level = ucast (op_imm (op2 i)) :: u8 in
      bnd (push32 (var s EBP) s) (\<lambda>s. let frame = var s ESP in
      bnd (if level \<noteq> 0 then bnd (enter_loop (unat level - 1) s) (push32 frame) else Inr s) (\<lambda>s.
      let s = wr EBP frame s in
      ret0 (wr ESP (var s ESP - zero_extend16_32 (ucast (op_imm (op1 i)))) s))))"

definition popa_i :: handler where
  "popa_i i s =
     (let s = adv i s in
      bnd (pop16 EDI s) (\<lambda>s. bnd (pop16 ESI s) (\<lambda>s. bnd (pop16 EBP s) (\<lambda>s.
      let s = wr ESP (var s ESP + 2) s in
      bnd (pop16 EBX s) (\<lambda>s. bnd (pop16 EDX s) (\<lambda>s. bnd (pop16 ECX s) (\<lambda>s.
      bnd (pop16 EAX s) ret0)))))))"

definition popad_i :: handler where
  "popad_i i s =
     (let s = adv i s in
      bnd (pop32 EDI s) (\<lambda>s. bnd (pop32 ESI s) (\<lambda>s. bnd (pop32 EBP s) (\<lambda>s.
      let s = wr ESP (var s ESP + 4) s in
      bnd (pop32 EBX s) (\<lambda>s. bnd (pop32 EDX s) (\<lambda>s. bnd (pop32 ECX s) (\<lambda>s.
      bnd (pop32 EAX s) ret0)))))))"

definition popf_i :: handler where
  "popf_i i s = bnd (pop16 EFLAGS (adv i s)) ret0"

definition popfd_i :: handler where
  "popfd_i i s =
     (let s = adv i s in
      bnd (read32 (var s ESP) s) (\<lambda>x. let s = set_lo16 EFLAGS (ucast (x AND 0xFFFF)) s in
      ret0 (wr ESP (var s ESP + 4) s)))"

definition pusha_i :: handler where
  "pusha_i i s =
     (let s = adv i s; temp = lo16 ESP s in
      bnd (push16 (lo16 EAX s) s) (\<lambda>s. bnd (push16 (lo16 ECX s) s) (\<lambda>s.
      bnd (push16 (lo16 EDX s) s) (\<lambda>s. bnd (push16 (lo16 EBX s) s) (\<lambda>s.
      bnd (push16 temp s) (\<lambda>s. bnd (push16 (lo16 EBP s) s) (\<lambda>s.
      bnd (push16 (lo16 ESI s) s) (\<lambda>s. bnd (push16 (lo16 EDI s) s) ret0))))))))"

definition pushad_i :: handler where
  "pushad_i i s =
     (let s = adv i s; temp = var s ESP in
      bnd (push32 (var s EAX) s) (\<lambda>s. bnd (push32 (var s ECX) s) (\<lambda>s.
      bnd (push32 (var s EDX) s) (\<lambda>s. bnd (push32 (var s EBX) s) (\<lambda>s.
      bnd (push32 temp s) (\<lambda>s. bnd (push32 (var s EBP) s) (\<lambda>s.
      bnd (push32 (var s ESI) s) (\<lambda>s. bnd (push32 (var s EDI) s) ret0))))))))"

definition pushf_i :: handler where
  "pushf_i i s = (let s = adv i s in bnd (push16 (ucast (var s EFLAGS AND 0xFFFF)) s) ret0)"

definition pushfd_i :: handler where
  "pushfd_i i s = (let s = adv i s in bnd (push32 (var s EFLAGS) s) ret0)"

section \<open>The stack as a list of words\<close>

text \<open>\<open>stk a xs m\<close>: the doublewords of the list \<open>xs\<close> lie in memory from address \<open>a\<close> upwards.\<close>

primrec stk :: "u32 \<Rightarrow> u32 list \<Rightarrow> (u32 \<Rightarrow> u8) \<Rightarrow> bool" where
  "stk a [] m = True"
| "stk a (x # xs) m =
     (le32 m a = x \<and> idx_ok a \<and> idx_ok (a + 1) \<and> idx_ok (a + 2) \<and> idx_ok (a + 3) \<and> stk (a + 4) xs m)"

text \<open>The doubleword stack of the machine.\<close>

definition top32 :: "cpu \<Rightarrow> (u32 \<times> cpu) res" where
  "top32 s = bnd (read32 (var s ESP) s) (\<lambda>x. Inr (x, wr ESP (var s ESP + 4) s))"

definition content32 :: "u32 list \<Rightarrow> cpu \<Rightarrow> bool" where
  "content32 xs s = stk (var s ESP) xs (mem s)"

section \<open>Last in, first out\<close>

text \<open>What a last-in first-out store promises, and what follows for sequences of operations.\<close>

locale lifo =
  fixes push :: "'v \<Rightarrow> 's \<Rightarrow> 's res" and pop :: "'s \<Rightarrow> ('v \<times> 's) res"
    and content :: "'v list \<Rightarrow> 's \<Rightarrow> bool" and cap :: nat
  assumes content_Nil: "content [] s"
    and content_push: "push x s = Inr s' \<Longrightarrow> content xs s \<Longrightarrow> length xs < cap \<Longrightarrow> content (x # xs) s'"
    and content_pop: "content (x # xs) s \<Longrightarrow> \<exists>s'. pop s = Inr (x, s') \<and> content xs s'"
begin

primrec push_all :: "'v list \<Rightarrow> 's \<Rightarrow> 's res" where
  "push_all [] s = Inr s"
| "push_all (x # xs) s = bnd (push x s) (push_all xs)"

primrec pop_n :: "nat \<Rightarrow> 's \<Rightarrow> ('v list \<times> 's) res" where
  "pop_n 0 s = Inr ([], s)"
| "pop_n (Suc n) s = bnd (pop s) (\<lambda>(x, s). bnd (pop_n n s) (\<lambda>(xs, s). Inr (x # xs, s)))"

lemma content_push_all:
  "push_all xs s = Inr s' \<Longrightarrow> content ys s \<Longrightarrow> length xs + length ys \<le> cap \<Longrightarrow> content (rev xs @ ys) s'"
proof (induction xs arbitrary: s ys)
  case (Cons x xs)
  then obtain t where t: "push x s = Inr t" "push_all xs t = Inr s'" by auto
  with Cons.prems content_push [of x s t ys] have "content (x # ys) t" by simp
  with Cons.IH [OF t(2)] Cons.prems(3) show ?case by simp
qed simp

lemma content_pop_n: "content (xs @ ys) s \<Longrightarrow> \<exists>s'. pop_n (length xs) s = Inr (xs, s') \<and> content ys s'"
proof (induction xs arbitrary: s)
  case (Cons x xs)
  then obtain t where "pop s = Inr (x, t)" "content (xs @ ys) t"
    using content_pop [of x "xs @ ys" s] by auto
  with Cons.IH [of t] show ?case by auto
qed simp

lemma push_all_pop_n:
  assumes "push_all xs s = Inr s'" "length xs \<le> cap"
  shows "\<exists>s''. pop_n (length xs) s' = Inr (rev xs, s'')"
  using content_push_all [OF assms(1) content_Nil [of s]] assms(2) content_pop_n [of "rev xs" "[]" s'] by auto

end

section \<open>The machine stack is one\<close>

lemma put32_below:
  assumes "4 \<le> k" "k < 2 ^ 32"
  shows "put32 b v m (b + of_nat k) = m (b + of_nat k)"
proof (rule put32_other)
  have "(of_nat k :: u32) \<noteq> of_nat 0" "(of_nat k :: u32) \<noteq> of_nat 1" "(of_nat k :: u32) \<noteq> of_nat 2"
    "(of_nat k :: u32) \<noteq> of_nat 3"
    using assms of_nat_u32_eq [of k 0] of_nat_u32_eq [of k 1] of_nat_u32_eq [of k 2] of_nat_u32_eq [of k 3] by auto
  then show "b + of_nat k \<notin> {b, b + 1, b + 2, b + 3}" by simp
qed

lemma stk_below:
  assumes "4 \<le> k" "k + 4 * length xs \<le> 2 ^ 32"
  shows "stk (b + of_nat k) xs (put32 b v m) = stk (b + of_nat k) xs m"
  using assms
proof (induction xs arbitrary: k)
  case Nil
  then show ?case by simp
next
  case (Cons x xs)
  have e: "b + of_nat k + 1 = b + of_nat (k + 1)" "b + of_nat k + 2 = b + of_nat (k + 2)"
    "b + of_nat k + 3 = b + of_nat (k + 3)"
    by simp_all
  have "le32 (put32 b v m) (b + of_nat k) = le32 m (b + of_nat k)"
    unfolding le32_def e using Cons.prems put32_below [of k] put32_below [of "k + 1"] put32_below [of "k + 2"]
      put32_below [of "k + 3"] by (simp del: of_nat_add)
  moreover have "stk (b + of_nat k + 4) xs (put32 b v m) = stk (b + of_nat k + 4) xs m"
    using Cons.IH [of "k + 4"] Cons.prems by (simp add: add.assoc add.commute)
  ultimately show ?case by simp
qed

lemma push32_content:
  assumes "push32 x s = Inr s'" "content32 xs s" "length xs < 2 ^ 30 - 1"
  shows "content32 (x # xs) s'" 
proof -
  let ?b = "var s ESP - 4"
  from assms(1) have s': "s' = mem_update (put32 ?b x) (wr ESP ?b s)"
    and ok: "idx_ok ?b" "idx_ok (?b + 1)" "idx_ok (?b + 2)" "idx_ok (?b + 3)"
    by (auto simp: push32_def write32_def Let_def split: if_splits)
  have "stk (?b + of_nat 4) xs (put32 ?b x (mem s))"
    using assms(2,3) by (subst stk_below) (simp_all add: content32_def)
  then show ?thesis using ok by (simp add: content32_def s')
qed

interpretation dw: lifo push32 top32 content32 "2 ^ 30 - 1"
proof
  show "content32 [] s" for s by (simp add: content32_def)
  show "push32 x s = Inr s' \<Longrightarrow> content32 xs s \<Longrightarrow> length xs < 2 ^ 30 - 1 \<Longrightarrow> content32 (x # xs) s'" for x s s' xs
    by (rule push32_content)
  show "content32 (x # xs) s \<Longrightarrow> \<exists>s'. top32 s = Inr (x, s') \<and> content32 xs s'" for x xs s
    by (auto simp: content32_def top32_def read32_def)
qed

lemma push32_Inr:
  assumes "push32 x s = Inr s'"
  shows "var s' ESP = var s ESP - 4" "v \<noteq> ESP \<Longrightarrow> var s' v = var s v"
    "gdtr s' = gdtr s" "ldtr s' = ldtr s" "idtr s' = idtr s" "outp s' = outp s"
    "mem s' = put32 (var s ESP - 4) x (mem s)"
  using assms by (auto simp: push32_def write32_def Let_def split: if_splits)

lemma pop32_content:
  "v \<noteq> ESP \<Longrightarrow> content32 (x # xs) s \<Longrightarrow> pop32 v s = Inr (wr ESP (var s ESP + 4) (wr v x s))"
  by (simp add: content32_def pop32_def read32_def)

lemma content32_wr [simp]: "v \<noteq> ESP \<Longrightarrow> content32 xs (wr v x s) = content32 xs s"
  by (simp add: content32_def)

lemma content32_adv [simp]: "content32 xs (adv i s) = content32 xs s"
  by (simp add: content32_def)

lemma content32_drop: "content32 (x # xs) s \<Longrightarrow> content32 xs (wr ESP (var s ESP + 4) s)"
  by (simp add: content32_def)

section \<open>Correctness\<close>

text \<open>
  A doubleword pushed by \<open>push_i\<close> is what a following \<open>pop_i\<close> into a 32-bit
  register (other than \<open>esp\<close>) delivers; the pop returns, \<open>esp\<close> is back where it was, and no
  variable but the destination and \<open>eip\<close> has changed.
\<close>

lemma push_pop:
  assumes push: "push_i i s = Inr (0, s1)" and sz: "op_size (op1 i) \<noteq> 2"
    and val: "src_val32 (op1 i) (adv i s) = Inr x"
    and j: "op_type (op1 j) = X86_OP_REG" "op_reg (op1 j) < 50" "regs ! op_reg (op1 j) = PVar v"
      "op_size (op1 j) = 4" "v \<notin> {ESP, EIP}"
  shows "\<exists>s2. pop_i j s1 = Inr (0, s2) \<and> var s2 v = x \<and> var s2 ESP = var s ESP \<and>
    (\<forall>w. w \<notin> {v, EIP} \<longrightarrow> var s2 w = var s w)"
proof -
  have s1: "push32 x (adv i s) = Inr s1"
    using push sz val by (auto simp: push_i_def ret0_def bnd_eq_Inr)
  have c: "content32 [x] s1"
    using dw.content_push [OF s1 dw.content_Nil] by simp
  have "pop_i j s1 = Inr (0, wr ESP (var s1 ESP + 4) (wr v x (adv j s1)))"
    using j c by (auto simp: pop_i_def regs_at_def content32_def read32_def ret0_def Let_def)
  then show ?thesis
    using push32_Inr(1,2) [OF s1] j by auto
qed

text \<open>
  C12 (PUSHAD, POPAD). After a \<open>pushad_i\<close> that succeeds, \<open>popad_i\<close> returns and gives every
  register, \<open>esp\<close> included, the value it had before; only \<open>eip\<close> has moved, by both sizes.
\<close>

theorem pushad_popad:
  assumes "pushad_i i s = Inr (0, s1)"
  shows "\<exists>s2. popad_i j s1 = Inr (0, s2) \<and>
    (\<forall>v. v \<noteq> EIP \<longrightarrow> var s2 v = var s v) \<and>
    var s2 EIP = var s EIP + ucast (insn_size i) + ucast (insn_size j) \<and> mem s2 = mem s1"
proof -
  let ?L = "[var s EAX, var s ECX, var s EDX, var s EBX, var s ESP, var s EBP, var s ESI, var s EDI]"
  have all: "dw.push_all ?L (adv i s) = Inr s1" and fr: "\<forall>v. v \<noteq> ESP \<longrightarrow> var s1 v = var (adv i s) v"
    and esp: "var s1 ESP = var s ESP - 32"
    using assms by (auto simp: pushad_i_def ret0_def bnd_eq_Inr push32_Inr)
  have "content32 (rev ?L) s1"
    using dw.content_push_all [OF all dw.content_Nil] by simp
  then have "\<exists>s2. popad_i j s1 = Inr (0, s2) \<and>
      (\<forall>v. v \<noteq> EIP \<longrightarrow> var s2 v = (if v = ESP then var s1 ESP + 32 else
        if v \<in> {EAX, ECX, EDX, EBX, EBP, ESI, EDI} then var s v else var s1 v)) \<and>
      var s2 EIP = var s1 EIP + ucast (insn_size j) \<and> mem s2 = mem s1"
    by (simp add: popad_i_def pop32_def read32_def content32_def ret0_def Let_def)
  then show ?thesis using fr esp by auto
qed
theorem pushad_popad_witness:
  "\<exists>s1 s2. pushad_i (insn2 (reg_opd 0 0) (reg_opd 0 0)) (wr EAX 7 (wr ESP 0x1000 static_init)) = Inr (0, s1) \<and>
    popad_i (insn2 (reg_opd 0 0) (reg_opd 0 0)) s1 = Inr (0, s2) \<and> var s2 EAX = 7 \<and> var s2 ESP = 0x1000 \<and>
    var s2 EIP = 4"
proof -
  let ?i = "insn2 (reg_opd 0 0) (reg_opd 0 0)" and ?s = "wr EAX 7 (wr ESP 0x1000 static_init)"
  obtain s1 where s1: "pushad_i ?i ?s = Inr (0, s1)"
    by (simp add: pushad_i_def sample_defs push32_def write32_def idx_ok_def static_init_def ret0_def Let_def)
  show ?thesis using s1 pushad_popad [OF s1, of ?i] by (auto simp: static_init_def sample_defs)
qed

text \<open>
  \<open>call_i\<close> jumps to its target, and whenever the callee leaves \<open>esp\<close> and the
  pushed doubleword as they were at its entry, \<open>ret_i\<close> returns to the instruction after the
  call with the stack pointer of the caller and nothing else changed.
\<close>

lemma call_ret:
  assumes call: "call_i i s = Inr (0, s1)"
    and body: "var s2 ESP = var s1 ESP" "read32 (var s1 ESP) s2 = read32 (var s1 ESP) s1"
    and j: "op_count j \<noteq> 1"
  shows "target_val (op1 i) (adv i s) = Inr (var s1 EIP) \<and>
    (\<exists>s3. ret_i j s2 = Inr (0, s3) \<and> var s3 EIP = var s EIP + ucast (insn_size i) \<and>
      var s3 ESP = var s ESP \<and> (\<forall>v. v \<notin> {EIP, ESP} \<longrightarrow> var s3 v = var s2 v) \<and> mem s3 = mem s2)"
proof -
  obtain val t where t: "target_val (op1 i) (adv i s) = Inr val" "push32 (var (adv i s) EIP) (adv i s) = Inr t"
    "s1 = wr EIP val t"
    using call by (auto simp: call_i_def ret0_def bnd_eq_Inr Let_def)
  have "content32 [var (adv i s) EIP] t"
    using dw.content_push [OF t(2) dw.content_Nil] by simp
  then have "read32 (var s1 ESP) s1 = Inr (var s EIP + ucast (insn_size i))"
    by (simp add: t(3) content32_def read32_def)
  then show ?thesis
    using t body j push32_Inr(1) [OF t(2)] by (simp add: ret_i_def pop32_def ret0_def Let_def)
qed

text \<open>
  ENTER, LEAVE. Leaving a level-0 frame restores \<open>esp\<close>, but the 32-bit form of
  \<open>leave_i\<close> reads only 16 bits: the frame pointer it restores is the low half of the saved one.
\<close>

lemma enter_leave:
  assumes "enter_i i s = Inr (0, s1)" "(ucast (op_imm (op2 i)) :: u8) = 0" "prefix j 0 \<noteq> 0x66"
  shows "\<exists>s2. leave_i j s1 = Inr (0, s2) \<and> var s2 ESP = var s ESP \<and> var s2 EBP = var s EBP AND 0xFFFF"
proof -
  obtain t where t: "push32 (var s EBP) (adv i s) = Inr t" and s1: "var s1 EBP = var t ESP" "mem s1 = mem t"
    using assms by (auto simp: enter_i_def ret0_def bnd_eq_Inr Let_def)
  have c: "content32 [var s EBP] t"
    using dw.content_push [OF t dw.content_Nil] by simp
  have "(ucast (ucast (var s EBP) :: u16) :: u32) = var s EBP AND 0xFFFF"
    by (rule bit_word_eqI) (auto simp: bit_simps)
  moreover have "le16 m a = ucast (le32 m a)" for m a
    unfolding le32_def le16_def by (rule bit_word_eqI) (auto simp: bit_simps)
  ultimately show ?thesis
    using c s1 assms(3) push32_Inr(1) [OF t] by (auto simp: leave_i_def read16_def content32_def ret0_def Let_def)
qed

text \<open>
  Whatever happens to the flags in between, \<open>popfd_i\<close> restores the low 16
  bits of \<open>eflags\<close> saved by \<open>pushfd_i\<close> and leaves the high 16 bits as they are.
\<close>

lemma pushfd_popfd:
  assumes "pushfd_i i s = Inr (0, s1)" and "var s2 ESP = var s1 ESP" "mem s2 = mem s1"
  shows "\<exists>s3. popfd_i j s2 = Inr (0, s3) \<and> var s3 ESP = var s ESP \<and>
    var s3 EFLAGS = (var s2 EFLAGS AND 0xFFFF0000) OR (var s EFLAGS AND 0xFFFF)"
proof -
  have t: "push32 (var s EFLAGS) (adv i s) = Inr s1"
    using assms(1) by (auto simp: pushfd_i_def ret0_def bnd_eq_Inr)
  have c: "content32 [var s EFLAGS] s1"
    using dw.content_push [OF t dw.content_Nil] by simp
  have "(ucast (ucast (w AND 0xFFFF) :: u16) :: u32) = w AND 0xFFFF" for w :: u32
    by (rule bit_word_eqI) (auto simp: bit_simps)
  then show ?thesis
    using c assms push32_Inr(1) [OF t]
    by (simp add: popfd_i_def read32_def content32_def ret0_def Let_def set_lo16_def)
qed

end
