(* ===== verification/VM_Moves.thy ===== *)
theory VM_Moves
  imports VM_Stack
begin

text \<open>
  The data movement handlers of \<open>src/src/instr.c\<close>: MOV, MOVSX, MOVZX, LEA, LDS, LES, LFS,
  LGS, LSS, LAR, LSL, XCHG, XLAT and the LODS family.
\<close>

section \<open>Handlers\<close>

text \<open>A memory destination of mov is written as 32 bits whatever its size.\<close>

definition mov_i :: handler where
  "mov_i i s =
     (let s = adv i s in
      bnd (src_val32 (op2 i) s) (\<lambda>val.
        if op_type (op1 i) = X86_OP_REG then
          bnd (regs_at (op_reg (op1 i))) (\<lambda>p. bnd (regs_size_at (op_reg (op1 i))) (\<lambda>base.
            if base = 0x8 then bnd (store8 p (ucast (val AND 0xFF)) s) ret0
            else if base = 0x10 then bnd (store16 p (ucast (val AND 0xFFFF)) s) ret0
            else bnd (store32 p val s) ret0))
        else if op_type (op1 i) = X86_OP_MEM then
          bnd (mem_ptr (op1 i) s) (\<lambda>p. bnd (store32 p val s) ret0)
        else ret0 s))"

definition movsx_i :: handler where
  "movsx_i i s =
     (let s = adv i s; s1 = op_size (op1 i); s2 = op_size (op2 i) in
      bnd (src_val32 (op2 i) s) (\<lambda>val.
        if op_type (op1 i) \<noteq> X86_OP_REG then Inr (- 1, s)
        else
          bnd (regs_at (op_reg (op1 i))) (\<lambda>p.
            if s1 = 4 then
              (if s2 = 2 then bnd (store32 p (sign_extend16_32 (ucast val)) s) ret0
               else if s2 = 1 then bnd (store32 p (sign_extend8_32 (ucast val)) s) ret0
               else ret0 s)
            else bnd (store16 p (sign_extend8_16 (ucast val)) s) ret0)))"

definition movzx_i :: handler where
  "movzx_i i s =
     (let s = adv i s; s1 = op_size (op1 i); s2 = op_size (op2 i) in
      bnd (src_val32 (op2 i) s) (\<lambda>val.
        if op_type (op1 i) \<noteq> X86_OP_REG then Inr (- 1, s)
        else
          bnd (regs_at (op_reg (op1 i))) (\<lambda>p.
            if s1 = 4 then
              (if s2 = 2 then bnd (store32 p (zero_extend16_32 (ucast val)) s) ret0
               else bnd (store32 p (zero_extend8_32 (ucast val)) s) ret0)
            else bnd (store16 p (zero_extend8_16 (ucast val)) s) ret0)))"

definition lea_i :: handler where
  "lea_i i s =
     (let s = adv i s in
      if op_type (op1 i) \<noteq> X86_OP_REG \<or> op_type (op2 i) \<noteq> X86_OP_MEM then Inr (- 1, s)
      else
        bnd (eff_addr (op_mem (op2 i)) s) (\<lambda>addr. bnd (regs_at (op_reg (op1 i))) (\<lambda>p.
          if prefix i 0 = 0x66 then bnd (store16 p (ucast (addr AND 0xFFFF)) s) ret0
          else bnd (store32 p addr s) ret0)))"

text \<open>The five far-pointer loads differ only in the segment register.\<close>

definition lfar :: "gvar \<Rightarrow> handler" where
  "lfar seg i s =
     (let s = adv i s in
      bnd (regs_at (op_reg (op1 i))) (\<lambda>reg. bnd (eff_addr (op_mem (op2 i)) s) (\<lambda>a.
        if op_size (op1 i) = 2 then
          bnd (load16 (PMem (unat a)) s) (\<lambda>off. bnd (store16 reg off s) (\<lambda>s.
          bnd (load16 (PMem (unat a + 2)) s) (\<lambda>sel. ret0 (wr seg (ucast sel) s))))
        else
          bnd (load32 (PMem (unat a)) s) (\<lambda>off. bnd (store32 reg off s) (\<lambda>s.
          bnd (load16 (PMem (unat a + 4)) s) (\<lambda>sel. ret0 (wr seg (ucast sel) s)))))))"

definition lds_i :: handler where "lds_i = lfar DS"
definition les_i :: handler where "les_i = lfar ES"
definition lfs_i :: handler where "lfs_i = lfar FS"
definition lgs_i :: handler where "lgs_i = lfar GS"
definition lss_i :: handler where "lss_i = lfar SS"

definition lar_i :: handler where
  "lar_i i s =
     (let s = adv i s in
      if op_size (op1 i) = 2 then
        bnd (src16 (op2 i) s) (\<lambda>val. bnd (regs_at (op_reg (op1 i))) (\<lambda>p.
        bnd (store16 p (val AND 0xFF00) s) (\<lambda>s. ret0 (set_Flag ZF s))))
      else
        bnd (src32 (op2 i) s) (\<lambda>val. bnd (regs_at (op_reg (op1 i))) (\<lambda>p.
        bnd (store32 p (val AND 0x00FFFF00) s) (\<lambda>s. ret0 (set_Flag ZF s)))))"

definition lsl_i :: handler where
  "lsl_i i s =
     (let s = adv i s in
      bnd (src16 (op2 i) s) (\<lambda>selector.
        let n = drop_bit 3 selector AND 0x1FFF in
        if unat n < GDT_ENTRIES then
          (let s = set_Flag ZF s in
           bnd (get_gdt_limit selector s) (\<lambda>limit. bnd (regs_at (op_reg (op1 i))) (\<lambda>p.
             if op_size (op1 i) = 2 then bnd (store16 p (ucast (limit AND 0xFFFF)) s) ret0
             else bnd (store32 p limit s) ret0)))
        else ret0 (clear_Flag ZF s)))"

text \<open>\<open>temp = *p2; *p2 = *p1; *p1 = temp;\<close> at one width.\<close>

definition swap_cells :: "(cpu \<Rightarrow> 'v res) \<Rightarrow> ('v \<Rightarrow> cpu \<Rightarrow> cpu res) \<Rightarrow> (cpu \<Rightarrow> 'v res)
    \<Rightarrow> ('v \<Rightarrow> cpu \<Rightarrow> cpu res) \<Rightarrow> cpu \<Rightarrow> (int \<times> cpu) res" where
  "swap_cells ld1 st1 ld2 st2 s =
     bnd (ld2 s) (\<lambda>temp. bnd (ld1 s) (\<lambda>x. bnd (st2 x s) (\<lambda>s. bnd (st1 temp s) ret0)))"

definition xchg_i :: handler where
  "xchg_i i s =
     (let s = adv i s; s1 = op_size (op1 i) in
      bnd (rm_ptr (op1 i) s) (\<lambda>p1. bnd (rm_ptr (op2 i) s) (\<lambda>p2.
        if s1 = 1 then swap_cells (load8 p1) (store8 p1) (load8 p2) (store8 p2) s
        else if s1 = 2 then swap_cells (load16 p1) (store16 p1) (load16 p2) (store16 p2) s
        else swap_cells (load32 p1) (store32 p1) (load32 p2) (store32 p2) s)))"

definition xlat_i :: handler where
  "xlat_i i s =
     (let s = adv i s in
      bnd (load8 (PMem (unat (var s EBX + ucast (get_al s)))) s) (\<lambda>x. ret0 (set_al x s)))"

section \<open>The LODS family\<close>

text \<open>None of the four handlers moves \<open>esi\<close>.\<close>

definition lods_i :: handler where
  "lods_i i s =
     (let s = adv i s; s1 = op_size (op1 i) in
      bnd (mem_ptr (op1 i) s) (\<lambda>m.
        if s1 = 1 then bnd (load8 m s) (\<lambda>x. ret0 (set_al x s))
        else if s1 = 2 then bnd (load16 m s) (\<lambda>x. ret0 (set_lo16 EAX x s))
        else bnd (load32 m s) (\<lambda>x. ret0 (wr EAX x s))))"

definition lodsb_i :: handler where
  "lodsb_i i s =
     (let s = adv i s in bnd (load8 (PMem (unat (var s ESI))) s) (\<lambda>x. ret0 (set_al x s)))"

definition lodsw_i :: handler where
  "lodsw_i i s =
     (let s = adv i s in bnd (load16 (PMem (unat (var s ESI))) s) (\<lambda>x. ret0 (set_lo16 EAX x s)))"

definition lodsd_i :: handler where
  "lodsd_i i s =
     (let s = adv i s in bnd (load32 (PMem (unat (var s ESI))) s) (\<lambda>x. ret0 (wr EAX x s)))"

section \<open>Properties\<close>

text \<open>
  A register destination receives the low bits of the source, at the width the
  register table gives it. A memory destination receives all 32 bits of the source whatever
  the operand size, so that a byte move also overwrites the three bytes behind it.
\<close>

lemma mov_i_dest:
  assumes v: "src_val32 (op2 i) (adv i s) = Inr x" and p: "rm_ptr (op1 i) (adv i s) = Inr p"
    and ok: "load32 p (adv i s) = Inr old" and t: "op_type (op1 i) \<in> {X86_OP_REG, X86_OP_MEM}"
  shows "\<exists>s'. mov_i i s = Inr (0, s') \<and> (\<forall>w. PVar w \<noteq> p \<longrightarrow> var s' w = var (adv i s) w) \<and>
    (op_type (op1 i) = X86_OP_MEM \<or> regs_size ! op_reg (op1 i) \<notin> {8, 16} \<longrightarrow> load32 p s' = Inr x) \<and>
    (op_type (op1 i) = X86_OP_REG \<and> regs_size ! op_reg (op1 i) = 16 \<longrightarrow> load16 p s' = Inr (ucast x)) \<and>
    (op_type (op1 i) = X86_OP_REG \<and> regs_size ! op_reg (op1 i) = 8 \<longrightarrow> load8 p s' = Inr (ucast x))"
proof -
  have w: "ucast (x AND 0xFF) = (ucast x :: u8)" "ucast (x AND 0xFFFF) = (ucast x :: u16)"
    by (auto simp: bit_eq_iff bit_simps)
  obtain s8 s16 s32 where "store8 p (ucast x) (adv i s) = Inr s8" "store16 p (ucast x) (adv i s) = Inr s16"
    "store32 p x (adv i s) = Inr s32"
    using ok by (cases p) (auto split: if_splits)
  then show ?thesis
    using assms c8.ld_st c16.ld_st c32.ld_st store_frame
    by (auto simp: mov_i_def rm_ptr_def regs_size_at_def regs_at_def ret0_def w Let_def split: if_splits)
qed

text \<open>
  XCHG. With at least one register operand, exchanging doublewords swaps the two values
  and changes no other variable; the two operands may also be the same register.
\<close>

lemma xchg_i_32:
  assumes "op_size (op1 i) = 4" and p: "rm_ptr (op1 i) (adv i s) = Inr p1" "rm_ptr (op2 i) (adv i s) = Inr p2"
    and ab: "load32 p1 (adv i s) = Inr a" "load32 p2 (adv i s) = Inr b" and reg: "p1 = PVar v \<or> p2 = PVar v"
  shows "\<exists>s'. xchg_i i s = Inr (0, s') \<and> load32 p1 s' = Inr b \<and> load32 p2 s' = Inr a \<and>
    (\<forall>w. PVar w \<notin> {p1, p2} \<longrightarrow> var s' w = var (adv i s) w)"
proof -
  obtain t where t: "store32 p2 a (adv i s) = Inr t" using c32.st_total [OF ab(2)] by blast
  have "\<exists>y. load32 p1 t = Inr y" using ab t by (cases p1; cases p2) (auto split: if_splits)
  then obtain s' where s': "store32 p1 b t = Inr s'" using c32.st_total by blast
  have "load32 p2 s' = Inr a" using reg ab t s' c32.ld_st [OF t] by (cases p1; cases p2) (auto split: if_splits)
  moreover have "xchg_i i s = Inr (0, s')"
    using assms t s' by (simp add: xchg_i_def swap_cells_def ret0_def)
  ultimately show ?thesis using c32.ld_st [OF s'] store_frame(3) [OF t] store_frame(3) [OF s'] by auto
qed

text \<open>
  MOVSX, MOVZX. Into a doubleword register, MOVSX stores the signed value of the low byte or
  word of the source and MOVZX its unsigned value.
\<close>

lemma movsx_movzx:
  assumes v: "src_val32 (op2 i) (adv i s) = Inr x" and t: "op_type (op1 i) = X86_OP_REG" "op_size (op1 i) = 4"
    and r: "op_reg (op1 i) < 50" "regs ! op_reg (op1 i) = PVar d" and z: "op_size (op2 i) \<in> {1, 2}"
  shows "\<exists>s1 s2. movsx_i i s = Inr (0, s1) \<and> movzx_i i s = Inr (0, s2) \<and>
    sint (var s1 d) = (if op_size (op2 i) = 1 then sint (ucast x :: u8) else sint (ucast x :: u16)) \<and>
    unat (var s2 d) = (if op_size (op2 i) = 1 then unat (ucast x :: u8) else unat (ucast x :: u16)) \<and>
    (\<forall>w. w \<noteq> d \<longrightarrow> var s1 w = var (adv i s) w \<and> var s2 w = var (adv i s) w)"
  using assms
  by (auto simp: movsx_i_def movzx_i_def ret0_def regs_at_def Let_def sign_extend_scast zero_extend_ucast
      sint_up_scast is_up)

end
