(* ===== verification/VM_Strings.thy ===== *)
theory VM_Strings
  imports VM_Moves
begin

text \<open>
  The string handlers of \<open>src/src/instr.c\<close>: CMPSB, CMPSW, CMPSD, MOVS, SCAS, STOS and the
  repeated forms REP STOS and REP MOVS. A repeated form performs one iteration per call and
  advances \<open>eip\<close> only when \<open>ecx\<close> reaches 0, so the main loop executes it again until then.
\<close>

section \<open>Compare\<close>

text \<open>\<open>!test_Flag(DF) ? k : -k\<close>\<close>

definition dir_step :: "u32 \<Rightarrow> cpu \<Rightarrow> u32" where
  "dir_step k s = (if \<not> test_Flag DF s then k else - k)"

text \<open>One width of CMPS: the flags of the difference, then both index registers.\<close>

definition cmps_body :: "u32 \<Rightarrow> u32 \<Rightarrow> u32 \<Rightarrow> u8 \<Rightarrow> u32 \<Rightarrow> cpu \<Rightarrow> (int \<times> cpu) res" where
  "cmps_body o1 o2 r base k s =
     bnd (arith_flags (o1 < o2) o1 o2 r base s) (\<lambda>s.
       if test_Flag DF s then
         (let s = wr EDI (var s EDI - k) s in ret0 (wr ESI (var s ESI - k) s))
       else
         (let s = wr EDI (var s EDI + k) s in ret0 (wr ESI (var s ESI + k) s)))"

definition cmpsb_i :: handler where
  "cmpsb_i i s =
     (let s = adv i s in
      bnd (load8 (PMem (unat (var s ESI))) s) (\<lambda>x1. bnd (load8 (PMem (unat (var s EDI))) s) (\<lambda>x2.
      cmps_body (ucast x1) (ucast x2) (ucast (x1 - x2)) 0x08 1 s)))"

definition cmpsw_i :: handler where
  "cmpsw_i i s =
     (let s = adv i s in
      bnd (load16 (PMem (unat (var s ESI))) s) (\<lambda>x1. bnd (load16 (PMem (unat (var s EDI))) s) (\<lambda>x2.
      cmps_body (ucast x1) (ucast x2) (ucast (x1 - x2)) 0x10 2 s)))"

definition cmpsd_i :: handler where
  "cmpsd_i i s =
     (let s = adv i s in
      bnd (load32 (PMem (unat (var s ESI))) s) (\<lambda>x1. bnd (load32 (PMem (unat (var s EDI))) s) (\<lambda>x2.
      cmps_body x1 x2 (x1 - x2) 0x20 4 s)))"

text \<open>SCAS: the result is kept on 32 bits and \<open>edi\<close> is not moved.\<close>

definition scas_i :: handler where
  "scas_i i s =
     (let s = adv i s; s1 = op_size (op1 i); p = PMem (unat (var s EDI)) in
      bnd (if s1 = 1 then bnd (load8 p s) (\<lambda>x. Inr (ucast (get_al s), ucast x))
           else if s1 = 2 then bnd (load16 p s) (\<lambda>x. Inr (ucast (lo16 EAX s), ucast x))
           else bnd (load32 p s) (\<lambda>x. Inr (var s EAX, x))) (\<lambda>(o1, o2).
      bnd (arith_flags (o1 < o2) o1 o2 (o1 - o2) (s1 * 8) s) ret0))"

section \<open>Move\<close>

text \<open>The copy \<open>*(mem+edi) = *(mem+esi)\<close> at the operand size.\<close>

definition movs_copy :: "u8 \<Rightarrow> cpu \<Rightarrow> cpu res" where
  "movs_copy s1 s =
     (let d = PMem (unat (var s EDI)); p = PMem (unat (var s ESI)) in
      if s1 = 1 then bnd (load8 p s) (\<lambda>x. store8 d x s)
      else if s1 = 2 then bnd (load16 p s) (\<lambda>x. store16 d x s)
      else bnd (load32 p s) (\<lambda>x. store32 d x s))"

definition str_width :: "u8 \<Rightarrow> u32" where
  "str_width s1 = (if s1 = 1 then 1 else if s1 = 2 then 2 else 4)"

definition movs_i :: handler where
  "movs_i i s =
     (let s = adv i s; s1 = op_size (op1 i) in
      bnd (movs_copy s1 s) (\<lambda>s. let k = dir_step (str_width s1) s;
          s = wr EDI (var s EDI + k) s
      in ret0 (wr ESI (var s ESI + k) s)))"

text \<open>\<open>if(!ecx){ eip += insn->size; }\<close>\<close>

definition rep_end :: handler where
  "rep_end i s = ret0 (if var s ECX = 0 then adv i s else s)"

definition rep_movs_i :: handler where
  "rep_movs_i i s =
     (let s1 = op_size (op1 i) in
      bnd (movs_copy s1 s) (\<lambda>s. let s = wr ECX (var s ECX - 1) s;
          k = dir_step (str_width s1) s;
          s = wr EDI (var s EDI + k) s;
          s = wr ESI (var s ESI + k) s
      in rep_end i s))"

section \<open>Store\<close>

text \<open>\<open>*(mem+destreg) = AL, AX or EAX\<close> with \<open>destreg = segbase + edi\<close>.\<close>

definition stos_put :: "u8 \<Rightarrow> u32 \<Rightarrow> cpu \<Rightarrow> cpu res" where
  "stos_put sz segbase s =
     (let d = PMem (unat (segbase + var s EDI)) in
      if sz = 1 then store8 d (get_al s) s
      else if sz = 2 then store16 d (lo16 EAX s) s
      else store32 d (var s EAX) s)"

text \<open>
  \<open>stos_i\<close> ends without a \<open>return\<close>: the value its caller sees is not determined by the
  code and is the argument \<open>junk\<close>.
\<close>

definition stos_i :: "int \<Rightarrow> handler" where
  "stos_i junk i s =
     (let s = adv i s; sz = op_size (op1 i) in
      bnd (get_gdt_base (ucast (var s ES)) s) (\<lambda>segbase.
      bnd (stos_put sz segbase s) (\<lambda>s.
      Inr (junk, wr EDI (var s EDI + dir_step (str_width sz) s) s))))"

definition rep_stos_i :: handler where
  "rep_stos_i i s =
     (let sz = op_size (op1 i) in
      bnd (get_gdt_base (ucast (var s ES)) s) (\<lambda>segbase.
      bnd (stos_put sz segbase s) (\<lambda>s. let s = wr EDI (var s EDI + dir_step (str_width sz) s) s;
          s = wr ECX (var s ECX - 1) s
      in rep_end i s)))"

section \<open>Repetition\<close>

text \<open>The main loop calls the handler again while \<open>eip\<close> still points at the instruction.\<close>

primrec iter :: "nat \<Rightarrow> (cpu \<Rightarrow> (int \<times> cpu) res) \<Rightarrow> cpu \<Rightarrow> cpu res" where
  "iter 0 f s = Inr s"
| "iter (Suc n) f s = bnd (f s) (\<lambda>(_, s). iter n f s)"

lemma unat_pred: "(d::u32) \<noteq> 0 \<Longrightarrow> unat (d - 1) = unat d - 1"
  by (simp add: unat_minus_one)

lemma rep_movs_step:
  assumes "op_size (op1 i) = 1" "\<not> test_Flag DF s" "unat (var s ESI) < MEM_BYTES" "unat (var s EDI) < MEM_BYTES"
  shows "\<exists>s1. rep_movs_i i s = Inr (0, s1) \<and> mem s1 = (mem s)(var s EDI := mem s (var s ESI)) \<and>
    var s1 ESI = var s ESI + 1 \<and> var s1 EDI = var s EDI + 1 \<and> var s1 ECX = var s ECX - 1 \<and>
    var s1 EIP = (if var s ECX = 1 then var s EIP + ucast (insn_size i) else var s EIP) \<and>
    (\<forall>v. v \<notin> {ESI, EDI, ECX, EIP} \<longrightarrow> var s1 v = var s v)"
  using assms
  by (simp add: rep_movs_i_def movs_copy_def rep_end_def ret0_def Let_def str_width_def dir_step_def)

lemma copy_extend:
  fixes e f :: u32
  assumes m1: "m1 = m(e := m f)" and m': "\<forall>a. m' a = (if unat (a - (e + 1)) < Suc n then m1 (f + 1 + (a - (e + 1))) else m1 a)"
    and ahead: "Suc n < unat (e - f)" and n: "Suc n < 2 ^ 32 - 1"
  shows "m' a = (if unat (a - e) < Suc (Suc n) then m (f + (a - e)) else m a)"
proof (cases "a = e")
  case True
  have "unat (- 1 :: u32) = 2 ^ 32 - 1" using unat_sub_if' [of "0::u32" 1] by simp
  then show ?thesis using True n by (simp add: m' m1)
next
  case False
  let ?d = "a - e"
  have "?d \<noteq> 0" using False by simp
  then have u: "unat (a - (e + 1)) = unat ?d - 1" "0 < unat ?d"
    using unat_pred [of ?d] by (simp_all add: diff_diff_eq unat_gt_0)
  have "f + ?d \<noteq> e" if "unat ?d < Suc (Suc n)"
  proof
    assume "f + ?d = e"
    then have "e - f = ?d" by (metis add_diff_cancel_left')
    then have "unat (e - f) = unat ?d" by (rule arg_cong)
    with that ahead show False by linarith
  qed
  moreover have "f + 1 + (a - (e + 1)) = f + ?d" by simp
  ultimately show ?thesis using False u by (auto simp: m' m1)
qed

text \<open>
  C26 (REP MOVSB). Executing the instruction \<open>ecx\<close> times, as the main loop does, terminates
  without a fault and copies \<open>ecx\<close> bytes from \<open>esi\<close> to \<open>edi\<close>, provided the destination does not
  start inside the source. No other byte changes, both index registers end just behind their
  regions, \<open>ecx\<close> is 0, and \<open>eip\<close> has moved past the instruction exactly once.
\<close>

theorem rep_movsb_copies:
  assumes "op_size (op1 i) = 1" "\<not> test_Flag DF s" "unat (var s ECX) = Suc n"
    and "unat (var s ESI) + n < MEM_BYTES" "unat (var s EDI) + n < MEM_BYTES"
    and "n < unat (var s EDI - var s ESI)"
  shows "\<exists>s'. iter (Suc n) (rep_movs_i i) s = Inr s' \<and>
    (\<forall>a. mem s' a = (if unat (a - var s EDI) < Suc n then mem s (var s ESI + (a - var s EDI)) else mem s a)) \<and>
    var s' ECX = 0 \<and> var s' ESI = var s ESI + of_nat (Suc n) \<and> var s' EDI = var s EDI + of_nat (Suc n) \<and>
    var s' EIP = var s EIP + ucast (insn_size i) \<and> (\<forall>v. v \<notin> {ESI, EDI, ECX, EIP} \<longrightarrow> var s' v = var s v)"
  using assms
proof (induction n arbitrary: s)
  case 0
  then have "var s ECX = 1" by (simp add: word_unat_eq_iff)
  moreover have "unat d < 1 \<longleftrightarrow> d = 0" for d :: u32 by (simp add: unat_eq_0)
  moreover obtain s1 where "rep_movs_i i s = Inr (0, s1)" "mem s1 = (mem s)(var s EDI := mem s (var s ESI))"
    "var s1 ESI = var s ESI + 1" "var s1 EDI = var s EDI + 1" "var s1 ECX = var s ECX - 1"
    "var s1 EIP = (if var s ECX = 1 then var s EIP + ucast (insn_size i) else var s EIP)"
    "\<forall>v. v \<notin> {ESI, EDI, ECX, EIP} \<longrightarrow> var s1 v = var s v"
    using rep_movs_step [of i s] 0 by auto
  ultimately show ?case by (auto simp: fun_upd_def)
next
  case (Suc n)
  obtain s1 where s1: "rep_movs_i i s = Inr (0, s1)" "mem s1 = (mem s)(var s EDI := mem s (var s ESI))"
    "var s1 ESI = var s ESI + 1" "var s1 EDI = var s EDI + 1" "var s1 ECX = var s ECX - 1"
    "var s1 EIP = (if var s ECX = 1 then var s EIP + ucast (insn_size i) else var s EIP)"
    "\<forall>v. v \<notin> {ESI, EDI, ECX, EIP} \<longrightarrow> var s1 v = var s v"
    using rep_movs_step [of i s] Suc.prems by auto
  have c: "var s ECX \<noteq> 0" "var s ECX \<noteq> 1" using Suc.prems(3) by auto
  then have ecx: "unat (var s1 ECX) = Suc n" using Suc.prems(3) by (simp add: s1 unat_pred)
  have inc: "unat (x + 1) = unat x + 1" if "unat x + Suc n < MEM_BYTES" for x :: u32
    using that by (simp add: MEM_BYTES_def unat_word_ariths)
  have d: "var s1 EDI - var s1 ESI = var s EDI - var s ESI" by (simp add: s1)
  have df: "\<not> test_Flag DF s1" using Suc.prems(2) s1(7) by (simp add: test_Flag_def)
  obtain s' where s': "iter (Suc n) (rep_movs_i i) s1 = Inr s'"
    "\<forall>a. mem s' a = (if unat (a - var s1 EDI) < Suc n then mem s1 (var s1 ESI + (a - var s1 EDI)) else mem s1 a)"
    "var s' ECX = 0" "var s' ESI = var s1 ESI + of_nat (Suc n)" "var s' EDI = var s1 EDI + of_nat (Suc n)"
    "var s' EIP = var s1 EIP + ucast (insn_size i)" "\<forall>v. v \<notin> {ESI, EDI, ECX, EIP} \<longrightarrow> var s' v = var s1 v"
    using Suc.IH [of s1] Suc.prems ecx df d inc [of "var s ESI"] inc [of "var s EDI"] s1 by auto
  have "mem s' a = (if unat (a - var s EDI) < Suc (Suc n) then mem s (var s ESI + (a - var s EDI)) else mem s a)" for a
    using Suc.prems(4,6) by (intro copy_extend [OF s1(2) s'(2) [unfolded s1(3,4)]]) (simp_all add: MEM_BYTES_def)
  then show ?case using s' s1 c by (auto simp: add.assoc)
qed

theorem rep_movsb_copies_witness:
  "\<exists>s'. iter (Suc 1) (rep_movs_i (insn2 (reg_opd 0 1) (reg_opd 0 1)))
      (poke 0x101 0xBB (poke 0x100 0xAA (wr EDI 0x200 (wr ESI 0x100 (wr ECX 2 static_init))))) = Inr s' \<and>
    mem s' 0x200 = 0xAA \<and> mem s' 0x201 = 0xBB \<and> var s' EDI = 0x202 \<and> var s' EIP = 2"
proof -
  let ?s = "poke 0x101 0xBB (poke 0x100 0xAA (wr EDI 0x200 (wr ESI 0x100 (wr ECX 2 static_init))))"
  let ?i = "insn2 (reg_opd 0 1) (reg_opd 0 1)"
  have "op_size (op1 ?i) = 1" "\<not> test_Flag DF ?s" "unat (var ?s ECX) = Suc 1"
    "unat (var ?s ESI) + 1 < MEM_BYTES" "unat (var ?s EDI) + 1 < MEM_BYTES" "1 < unat (var ?s EDI - var ?s ESI)"
    by (simp_all add: poke_def sample_defs static_init_def MEM_BYTES_def test_Flag_def DF_def)
  from rep_movsb_copies [OF this]
  obtain s' where s': "iter (Suc 1) (rep_movs_i ?i) ?s = Inr s'"
    "\<forall>a. mem s' a = (if unat (a - var ?s EDI) < Suc 1 then mem ?s (var ?s ESI + (a - var ?s EDI)) else mem ?s a)"
    "var s' EDI = var ?s EDI + of_nat (Suc 1)" "var s' EIP = var ?s EIP + ucast (insn_size ?i)"
    by blast
  show ?thesis
    using s'(1,3,4) s'(2) [rule_format, of "0x200"] s'(2) [rule_format, of "0x201"]
    by (intro exI [of _ s']) (simp add: poke_def sample_defs static_init_def del: iter.simps)
qed

end
