(* ===== verification/VM_System.thy ===== *)
theory VM_System
  imports VM_Strings
begin

text \<open>
  The system handlers of \<open>src/src/instr.c\<close>: the flag instructions, the descriptor-table and
  machine-status registers, ARPL, BOUND, VERR, VERW, port input and output, and the
  handlers marked unimplemented, which only advance \<open>eip\<close>.
\<close>

section \<open>Flag instructions and no-operations\<close>

definition clc_i :: handler where "clc_i i s = ret0 (clear_Flag CF (adv i s))"
definition cld_i :: handler where "cld_i i s = ret0 (clear_Flag DF (adv i s))"
definition cli_i :: handler where "cli_i i s = ret0 (clear_Flag IF (adv i s))"
definition cmc_i :: handler where "cmc_i i s = ret0 (complement_Flag CF (adv i s))"
definition stc_i :: handler where "stc_i i s = ret0 (set_Flag CF (adv i s))"
definition std_i :: handler where "std_i i s = ret0 (set_Flag DF (adv i s))"
definition sti_i :: handler where "sti_i i s = ret0 (set_Flag IF (adv i s))"

definition nop_i :: handler where "nop_i i s = ret0 (adv i s)"
definition clts_i :: handler where "clts_i i s = ret0 (adv i s)"
definition cmpxchg :: handler where "cmpxchg i s = ret0 (adv i s)"
definition hlt_i :: handler where "hlt_i i s = ret0 (adv i s)"
definition iret_i :: handler where "iret_i i s = ret0 (adv i s)"
definition iretd_i :: handler where "iretd_i i s = ret0 (adv i s)"
definition ltr_i :: handler where "ltr_i i s = ret0 (adv i s)"
definition lock_i :: handler where "lock_i i s = ret0 (adv i s)"
definition wait_i :: handler where "wait_i i s = ret0 (adv i s)"
definition rep_ins_i :: handler where "rep_ins_i i s = ret0 (adv i s)"
definition rep_outs_i :: handler where "rep_outs_i i s = ret0 (adv i s)"

section \<open>Protection\<close>

text \<open>The condition \<open>*p & 0x3 < val & 0x3\<close> of arpl is \<open>(*p & (0x3 < val)) & 0x3\<close> in C.\<close>

definition arpl_i :: handler where
  "arpl_i i s =
     (let s = adv i s in
      bnd (src_val (op2 i) s) (\<lambda>val.
      bnd (if op_type (op1 i) = X86_OP_REG then regs_at (op_reg (op1 i))
           else if op_type (op1 i) = X86_OP_MEM then mem_ptr (op1 i) s
           else Inl Uninit) (\<lambda>p.
      bnd (load8 p s) (\<lambda>x.
        if (x AND of_bool (0x3 < val)) AND 0x3 \<noteq> 0 then
          (let s = set_Flag ZF s in
           bnd (rmw8 p (\<lambda>v. v AND 0xFC) s) (\<lambda>(_, _, s).
           bnd (rmw8 p (\<lambda>v. v OR ucast (val AND 0x3)) s) (\<lambda>(_, _, s). ret0 s)))
        else ret0 (clear_Flag ZF s)))))"

definition bound_i :: handler where
  "bound_i i s =
     (let s = adv i s in
      if op_type (op1 i) \<noteq> X86_OP_REG \<or> op_type (op2 i) \<noteq> X86_OP_MEM then Inr (- 1, s)
      else
        bnd (regs_at (op_reg (op1 i))) (\<lambda>p. bnd (regs_size_at (op_reg (op1 i))) (\<lambda>base.
        bnd (eff_addr (op_mem (op2 i)) s) (\<lambda>a.
          if base = 0x10 then
            bnd (load16 (PMem (unat a)) s) (\<lambda>rsrc1. bnd (load16 (PMem (unat a + 2)) s) (\<lambda>rsrc2.
            bnd (load16 p s) (\<lambda>r. if r < rsrc1 \<or> r > rsrc2 then Inr (- 5, s) else ret0 s)))
          else
            bnd (load32 (PMem (unat a)) s) (\<lambda>rsrc1. bnd (load32 (PMem (unat a + 4)) s) (\<lambda>rsrc2.
            bnd (load32 p s) (\<lambda>r. if r < rsrc1 \<or> r > rsrc2 then Inr (- 5, s) else ret0 s)))))))"

text \<open>VERR and VERW; \<open>verr_i\<close> ends without a \<open>return\<close>, like \<open>stos_i\<close>.\<close>

definition verify_sel :: "cs_insn \<Rightarrow> cpu \<Rightarrow> cpu res" where
  "verify_sel i s =
     (let s = adv i s in
      bnd (src16 (op1 i) s) (\<lambda>selector. let n = drop_bit 3 selector in
        Inr (if n > 0 \<and> unat n < GDT_ENTRIES then clear_Flag ZF s else set_Flag ZF s)))"

definition verr_i :: "int \<Rightarrow> handler" where
  "verr_i junk i s = bnd (verify_sel i s) (\<lambda>s. Inr (junk, s))"

definition verw_i :: handler where
  "verw_i i s = bnd (verify_sel i s) ret0"

section \<open>Descriptor-table registers\<close>

definition load_dtr :: "cs_insn \<Rightarrow> cpu \<Rightarrow> GDTR res" where
  "load_dtr i s =
     bnd (eff_addr (op_mem (op1 i)) s) (\<lambda>a.
     bnd (load16 (PMem (unat a)) s) (\<lambda>l. bnd (load32 (PMem (unat a + 2)) s) (\<lambda>b.
     Inr \<lparr>dtr_limit = l, dtr_base = b\<rparr>)))"

definition lgdt_i :: handler where
  "lgdt_i i s = (let s = adv i s in bnd (load_dtr i s) (\<lambda>d. ret0 (s\<lparr>gdtr := d\<rparr>)))"

definition lidt_i :: handler where
  "lidt_i i s = (let s = adv i s in bnd (load_dtr i s) (\<lambda>d. ret0 (s\<lparr>idtr := d\<rparr>)))"

text \<open>The stores keep 24 bits of the base.\<close>

definition store_dtr :: "GDTR \<Rightarrow> handler" where
  "store_dtr d i s =
     bnd (eff_addr (op_mem (op1 i)) s) (\<lambda>a.
     bnd (store16 (PMem (unat a)) (dtr_limit d) s) (\<lambda>s.
     bnd (store32 (PMem (unat a + 2)) (dtr_base d AND 0xFFFFFF) s) ret0))"

definition sgdt_i :: handler where
  "sgdt_i i s = (let s = adv i s in store_dtr (gdtr s) i s)"

definition sidt_i :: handler where
  "sidt_i i s = (let s = adv i s in store_dtr (idtr s) i s)"

definition lldt_i :: handler where
  "lldt_i i s = (let s = adv i s in bnd (src16 (op1 i) s) (\<lambda>val. ret0 (s\<lparr>ldtr := val\<rparr>)))"

definition sldt_i :: handler where
  "sldt_i i s = (let s = adv i s in bnd (rm_ptr (op1 i) s) (\<lambda>p. bnd (store16 p (ldtr s) s) ret0))"

definition lmsw_i :: handler where
  "lmsw_i i s = (let s = adv i s in bnd (src16 (op1 i) s) (\<lambda>val. ret0 (set_lo16 CR0 val s)))"

definition smsw_i :: handler where
  "smsw_i i s =
     (let s = adv i s in
      bnd (rm_ptr (op1 i) s) (\<lambda>p. bnd (store16 p (ucast (var s CR0 AND 0xFFFF)) s) ret0))"

section \<open>The host\<close>

text \<open>
  An argument of a call of the host kernel, as the program builds it: an \<open>int\<close> or another type
  of 32 bits, a type of 64 bits, the address \<open>mem + a\<close> of guest address \<open>a\<close>, a null pointer, or the
  address of a structure of the host: a buffer whose contents are discarded, a vector of
  buffers (guest address and length), a null-terminated array of guest addresses, a
  \<open>struct timespec\<close> or a \<open>struct sigaction\<close> (handler, mask, flags, restorer).
\<close>

datatype karg =
    KInt u32
  | KLong u64
  | KPtr u32
  | KNull
  | KLocal
  | KIov "(u32 \<times> u64) list"
  | KPtrs "u32 list"
  | KTimespec u64 u64
  | KSigaction karg u64 u64 u32 karg

text \<open>
  What the program obtains from outside: whether \<open>/dev/port\<close> can be opened, the bytes a \<open>pread\<close>
  of a port delivers (\<open>None\<close> when it fails), the value a \<open>pwrite\<close> returns, a call of the host
  kernel (which may write guest memory), the calls \<open>poll\<close> and \<open>ppoll\<close> with the array of file
  descriptors they read and the \<open>revents\<close> they return, whether an allocation of a number of
  bytes succeeds, the host address of the guest memory, and the value a function that ends
  without \<open>return\<close> leaves for its caller.
\<close>

record host =
  h_open :: bool
  h_pread :: "nat \<Rightarrow> u16 \<Rightarrow> u8 list option"
  h_pwrite :: "u16 \<Rightarrow> u8 list \<Rightarrow> int"
  h_kernel :: "string \<Rightarrow> karg list \<Rightarrow> cpu \<Rightarrow> (u64 \<times> cpu) res"
  h_poll :: "string \<Rightarrow> (u32 \<times> u16) list \<Rightarrow> karg list \<Rightarrow> cpu \<Rightarrow> (u64 \<times> u16 list \<times> cpu) res"
  h_malloc :: "nat \<Rightarrow> bool"
  h_membase :: u64
  h_junk :: int

text \<open>A host that answers 0 to everything.\<close>

definition idle_host :: host where
  "idle_host = \<lparr>h_open = False, h_pread = (\<lambda>_ _. None), h_pwrite = (\<lambda>_ _. - 1),
     h_kernel = (\<lambda>_ _ s. Inr (0, s)), h_poll = (\<lambda>_ _ _ s. Inr (0, [], s)), h_malloc = (\<lambda>_. True),
     h_membase = 0, h_junk = 0\<rparr>"

text \<open>The bytes at a pointer, and a prefix of them overwritten.\<close>

fun get_bytes :: "ptr \<Rightarrow> nat \<Rightarrow> cpu \<Rightarrow> u8 list res" where
  "get_bytes Null n s = Inl NullDeref"
| "get_bytes (PVar v) n s = Inr (map (\<lambda>j. ucast (drop_bit (8 * j) (var s v))) [0..<n])"
| "get_bytes (PMem k) n s =
     (if k + n \<le> MEM_BYTES then Inr (map (\<lambda>j. mem s (of_nat (k + j))) [0..<n]) else Inl OutOfBounds)"

definition put_byte :: "nat \<Rightarrow> u8 \<Rightarrow> u32 \<Rightarrow> u32" where
  "put_byte j b w = (w AND NOT (push_bit (8 * j) 0xFF)) OR push_bit (8 * j) (ucast b)"

fun put_bytes :: "ptr \<Rightarrow> nat \<Rightarrow> u8 list \<Rightarrow> cpu \<Rightarrow> cpu res" where
  "put_bytes p j [] s = Inr s"
| "put_bytes Null j (b # bs) s = Inl NullDeref"
| "put_bytes (PVar v) j (b # bs) s = put_bytes (PVar v) (Suc j) bs (wr v (put_byte j b (var s v)) s)"
| "put_bytes (PMem k) j (b # bs) s =
     bnd (store8 (PMem (k + j)) b s) (put_bytes (PMem k) (Suc j) bs)"

definition port_size :: "u8 \<Rightarrow> nat" where
  "port_size sz = (if sz = 1 then 1 else if sz = 2 then 2 else 4)"

text \<open>\<open>res = pread(fd, p, n, port)\<close> and \<open>res = pwrite(fd, p, n, port)\<close>.\<close>

definition port_in :: "host \<Rightarrow> ptr \<Rightarrow> nat \<Rightarrow> u16 \<Rightarrow> cpu \<Rightarrow> (int \<times> cpu) res" where
  "port_in h p n port s =
     (case h_pread h n port of
        None \<Rightarrow> Inr (- 1, s)
      | Some bs \<Rightarrow> bnd (put_bytes p 0 (take n bs) s) (\<lambda>s. Inr (int (length (take n bs)), s)))"

definition port_out :: "host \<Rightarrow> ptr \<Rightarrow> nat \<Rightarrow> u16 \<Rightarrow> cpu \<Rightarrow> (int \<times> cpu) res" where
  "port_out h p n port s =
     bnd (get_bytes p n s) (\<lambda>bs. Inr (h_pwrite h port bs, outp_update (\<lambda>l. l @ [(port, bs)]) s))"

section \<open>Port handlers\<close>

definition port_of :: "cs_x86_op \<Rightarrow> cpu \<Rightarrow> u16 res" where
  "port_of oper s =
     (if op_type oper = X86_OP_IMM then Inr (ucast (op_imm oper))
      else bnd (regs_at (op_reg oper)) (\<lambda>p. load16 p s))"

definition in_i :: "host \<Rightarrow> handler" where
  "in_i h i s =
     (let s = adv i s; s1 = op_size (op1 i) in
      bnd (port_of (op2 i) s) (\<lambda>port.
        if \<not> h_open h then Inr (1, s)
        else
          bnd (port_in h (PVar EAX) (port_size s1) port s) (\<lambda>(res, s).
          Inr (of_bool (res \<noteq> uint s1), s))))"

definition ins_i :: "host \<Rightarrow> handler" where
  "ins_i h i s =
     (let s = adv i s; s1 = op_size (op1 i); port = lo16 EDX s in
      if \<not> h_open h then Inr (1, s)
      else
        bnd (rm_ptr (op1 i) s) (\<lambda>p.
        bnd (port_in h p (port_size s1) port s) (\<lambda>(_, s). ret0 s)))"

text \<open>INSB, INSW and INSD read into the register \<open>edi\<close> itself; the OUTS forms write from it.\<close>

definition ins_edi :: "nat \<Rightarrow> host \<Rightarrow> handler" where
  "ins_edi n h i s =
     (let s = adv i s; port = lo16 EDX s in
      if \<not> h_open h then Inr (1, s)
      else bnd (port_in h (PVar EDI) n port s) (\<lambda>(_, s). ret0 s))"

definition insb_i :: "host \<Rightarrow> handler" where "insb_i = ins_edi 1"
definition insw_i :: "host \<Rightarrow> handler" where "insw_i = ins_edi 2"
definition insd_i :: "host \<Rightarrow> handler" where "insd_i = ins_edi 4"

definition out_i :: "host \<Rightarrow> handler" where
  "out_i h i s =
     (let s = adv i s; s2 = op_size (op2 i) in
      bnd (port_of (op1 i) s) (\<lambda>port.
        if \<not> h_open h then Inr (1, s)
        else
          bnd (port_out h (PVar EAX) (port_size s2) port s) (\<lambda>(res, s).
          Inr (of_bool (res \<noteq> uint s2), s))))"

definition outs_i :: "host \<Rightarrow> handler" where
  "outs_i h i s =
     (let s = adv i s; s2 = op_size (op2 i); port = lo16 EDX s in
      if \<not> h_open h then Inr (1, s)
      else
        bnd (rm_ptr (op2 i) s) (\<lambda>p.
        bnd (port_out h p (port_size s2) port s) (\<lambda>(_, s). ret0 s)))"

definition outs_edi :: "nat \<Rightarrow> host \<Rightarrow> handler" where
  "outs_edi n h i s =
     (let s = adv i s; port = lo16 EDX s in
      if \<not> h_open h then Inr (1, s)
      else bnd (port_out h (PVar EDI) n port s) (\<lambda>(_, s). ret0 s))"

definition outsb_i :: "host \<Rightarrow> handler" where "outsb_i = outs_edi 1"
definition outsw_i :: "host \<Rightarrow> handler" where "outsw_i = outs_edi 2"
definition outsd_i :: "host \<Rightarrow> handler" where "outsd_i = outs_edi 4"

end
