(* ===== verification/VM_Syscalls.thy ===== *)
theory VM_Syscalls
  imports VM_System
begin

text \<open>
  The system calls: the wrappers of \<open>src/src/syscall.c\<close>, which translate the arguments of a
  32-bit guest to a call of the 64-bit host, and the table \<open>syscalls\<close> of
  \<open>src/src/trad_syscall.c\<close> that \<open>int80\<close> indexes. The host kernel is the parameter \<open>h_kernel\<close>: it
  receives the name of the call and its arguments as the wrapper passes them. A wrapper whose
  body is empty returns the undetermined value \<open>h_junk\<close>.
\<close>

section \<open>Arguments and calls\<close>

type_synonym syscall32 = "host \<Rightarrow> cpu \<Rightarrow> (u32 \<times> cpu) res"

text \<open>\<open>int80\<close> passes \<open>&ebx, &ecx, &edx, &esi, &edi, &ebp\<close> as \<open>arg1\<close> to \<open>arg6\<close>.\<close>

definition arg1 :: "cpu \<Rightarrow> u32" where "arg1 s = var s EBX"
definition arg2 :: "cpu \<Rightarrow> u32" where "arg2 s = var s ECX"
definition arg3 :: "cpu \<Rightarrow> u32" where "arg3 s = var s EDX"
definition arg4 :: "cpu \<Rightarrow> u32" where "arg4 s = var s ESI"
definition arg5 :: "cpu \<Rightarrow> u32" where "arg5 s = var s EDI"
definition arg6 :: "cpu \<Rightarrow> u32" where "arg6 s = var s EBP"

lemmas arg_defs = arg1_def arg2_def arg3_def arg4_def arg5_def arg6_def

text \<open>\<open>(uint32_t)syscall(SYS_x, ...)\<close>, and the same for a call that returns a host address, which
  is made relative to the guest memory.\<close>

definition ksys :: "host \<Rightarrow> string \<Rightarrow> karg list \<Rightarrow> cpu \<Rightarrow> (u32 \<times> cpu) res" where
  "ksys h x args s = bnd (h_kernel h x args s) (\<lambda>(r, s). Inr (ucast r, s))"

definition ksys_ptr :: "host \<Rightarrow> string \<Rightarrow> karg list \<Rightarrow> cpu \<Rightarrow> (u32 \<times> cpu) res" where
  "ksys_ptr h x args s = bnd (h_kernel h x args s) (\<lambda>(r, s). Inr (ucast (r - h_membase h), s))"

text \<open>\<open>(*arg)?(char *)(mem+*arg):NULL\<close>\<close>

definition opt_ptr :: "u32 \<Rightarrow> karg" where
  "opt_ptr a = (if a \<noteq> 0 then KPtr a else KNull)"

definition no_return :: syscall32 where
  "no_return h s = Inr (word_of_int (h_junk h), s)"

definition unimpl :: syscall32 where
  "unimpl h s = Inr (0, s)"

section \<open>Wrappers with one call\<close>

definition do_read :: syscall32 where
  "do_read h s = ksys h ''read'' [KInt (arg1 s), KPtr (arg2 s), KLong (ucast (arg3 s))] s"

definition do_write :: syscall32 where
  "do_write h s = ksys h ''write'' [KInt (arg1 s), KPtr (arg2 s), KLong (ucast (arg3 s))] s"

definition do_close :: syscall32 where
  "do_close h s = ksys h ''close'' [KInt (arg1 s)] s"

definition do_mmap :: syscall32 where
  "do_mmap h s = ksys_ptr h ''mmap'' [KPtr (arg1 s), KLong (ucast (arg2 s)), KInt (arg3 s),
    KInt (arg4 s), KInt (arg5 s), KLong (ucast (arg6 s))] s"

definition do_mprotect :: syscall32 where
  "do_mprotect h s = ksys h ''mprotect'' [KPtr (arg1 s), KLong (ucast (arg2 s)), KInt (arg3 s)]
    s"

definition do_munmap :: syscall32 where
  "do_munmap h s = ksys h ''munmap'' [KPtr (arg1 s), KLong (ucast (arg2 s))] s"

definition do_brk :: syscall32 where
  "do_brk h s = ksys h ''brk'' [KPtr (arg1 s)] s"

definition do_pread64 :: syscall32 where
  "do_pread64 h s = ksys h ''pread64'' [KInt (arg1 s), KPtr (arg2 s), KLong (ucast (arg3 s)),
    KLong (ucast (arg4 s))] s"

definition do_pwrite64 :: syscall32 where
  "do_pwrite64 h s = ksys h ''pwrite64'' [KInt (arg1 s), KPtr (arg2 s), KLong (ucast (arg3 s)),
    KLong (ucast (arg4 s))] s"

definition do_access :: syscall32 where
  "do_access h s = ksys h ''access'' [KPtr (arg1 s), KInt (arg2 s)] s"

definition do_pipe :: syscall32 where
  "do_pipe h s = ksys h ''pipe'' [KPtr (arg1 s)] s"

definition do_sched_yield :: syscall32 where
  "do_sched_yield h s = ksys h ''sched_yield'' [] s"

definition do_mremap :: syscall32 where
  "do_mremap h s = ksys_ptr h ''sched_yield'' [KPtr (arg1 s), KLong (ucast (arg2 s)), KLong
    (ucast (arg3 s)), KInt (arg4 s), KPtr (arg5 s)] s"

definition do_msync :: syscall32 where
  "do_msync h s = ksys h ''msync'' [KPtr (arg1 s), KLong (ucast (arg2 s)), KInt (arg3 s)] s"

definition do_mincore :: syscall32 where
  "do_mincore h s = ksys h ''mincore'' [KPtr (arg1 s), KLong (ucast (arg2 s)), KPtr (arg3 s)]
    s"

definition do_madvise :: syscall32 where
  "do_madvise h s = ksys h ''madvise'' [KPtr (arg1 s), KLong (ucast (arg2 s)), KInt (arg3 s)]
    s"

definition do_shmget :: syscall32 where
  "do_shmget h s = ksys h ''shmget'' [KInt (arg1 s), KLong (ucast (arg2 s)), KInt (arg3 s)] s"

definition do_shmat :: syscall32 where
  "do_shmat h s = ksys_ptr h ''shmat'' [KInt (arg1 s), KPtr (arg2 s), KInt (arg3 s)] s"

definition do_dup :: syscall32 where
  "do_dup h s = ksys h ''dup'' [KInt (arg1 s)] s"

definition do_dup2 :: syscall32 where
  "do_dup2 h s = ksys h ''dup2'' [KInt (arg1 s), KInt (arg2 s)] s"

definition do_pause :: syscall32 where
  "do_pause h s = ksys h ''pause'' [] s"

definition do_alarm :: syscall32 where
  "do_alarm h s = ksys h ''alarm'' [KInt (arg1 s)] s"

definition do_getpid :: syscall32 where
  "do_getpid h s = ksys h ''getpid'' [] s"

definition do_sendfile :: syscall32 where
  "do_sendfile h s = ksys h ''sendfile'' [KInt (arg1 s), KInt (arg2 s), opt_ptr (arg3 s), KLong
    (ucast (arg4 s))] s"

definition do_socket :: syscall32 where
  "do_socket h s = ksys h ''socket'' [KInt (arg1 s), KInt (arg2 s), KInt (arg3 s)] s"

definition do_listen :: syscall32 where
  "do_listen h s = ksys h ''listen'' [KInt (arg1 s), KInt (arg2 s)] s"

definition do_fork :: syscall32 where
  "do_fork h s = ksys h ''fork'' [] s"

definition do_vfork :: syscall32 where
  "do_vfork h s = ksys h ''vfork'' [] s"

definition do_kill :: syscall32 where
  "do_kill h s = ksys h ''kill'' [KInt (arg1 s), KInt (arg2 s)] s"

definition do_semget :: syscall32 where
  "do_semget h s = ksys h ''semget'' [KInt (arg1 s), KInt (arg2 s), KInt (arg3 s)] s"

definition do_shmdt :: syscall32 where
  "do_shmdt h s = ksys h ''shmdt'' [KPtr (arg1 s)] s"

definition do_msgget :: syscall32 where
  "do_msgget h s = ksys h ''msgget'' [KInt (arg1 s), KInt (arg2 s)] s"

definition do_msgsnd :: syscall32 where
  "do_msgsnd h s = ksys h ''msgsnd'' [KInt (arg1 s), KPtr (arg2 s), KLong (ucast (arg3 s)),
    KInt (arg4 s)] s"

definition do_msgrcv :: syscall32 where
  "do_msgrcv h s = ksys h ''msgrcv'' [KInt (arg1 s), KPtr (arg2 s), KLong (ucast (arg3 s)),
    KLong (ucast (arg4 s)), KInt (arg5 s)] s"

definition do_flock :: syscall32 where
  "do_flock h s = ksys h ''flock'' [KInt (arg1 s), KInt (arg2 s)] s"

definition do_fsync :: syscall32 where
  "do_fsync h s = ksys h ''fsync'' [KInt (arg1 s)] s"

definition do_fdatasync :: syscall32 where
  "do_fdatasync h s = ksys h ''fdatasync'' [KInt (arg1 s)] s"

definition do_truncate :: syscall32 where
  "do_truncate h s = ksys h ''truncate'' [KPtr (arg1 s), KLong (ucast (arg2 s))] s"

definition do_ftruncate :: syscall32 where
  "do_ftruncate h s = ksys h ''ftruncate'' [KInt (arg1 s), KLong (ucast (arg2 s))] s"

definition do_getcwd :: syscall32 where
  "do_getcwd h s = ksys_ptr h ''getcwd'' [KPtr (arg1 s), KLong (ucast (arg2 s))] s"

definition do_chdir :: syscall32 where
  "do_chdir h s = ksys h ''chdir'' [KPtr (arg1 s)] s"

definition do_fchdir :: syscall32 where
  "do_fchdir h s = ksys h ''fchdir'' [KInt (arg1 s)] s"

definition do_rename :: syscall32 where
  "do_rename h s = ksys h ''rename'' [KPtr (arg1 s), KPtr (arg2 s)] s"

definition do_mkdir :: syscall32 where
  "do_mkdir h s = ksys h ''mkdir'' [KPtr (arg1 s), KInt (arg2 s)] s"

definition do_rmdir :: syscall32 where
  "do_rmdir h s = ksys h ''rmdir'' [KPtr (arg1 s)] s"

definition do_creat :: syscall32 where
  "do_creat h s = ksys h ''creat'' [KPtr (arg1 s), KInt (arg2 s)] s"

definition do_link :: syscall32 where
  "do_link h s = ksys h ''link'' [KPtr (arg1 s), KPtr (arg2 s)] s"

definition do_unlink :: syscall32 where
  "do_unlink h s = ksys h ''unlink'' [KPtr (arg1 s)] s"

definition do_symlink :: syscall32 where
  "do_symlink h s = ksys h ''symlink'' [KPtr (arg1 s), KPtr (arg2 s)] s"

definition do_readlink :: syscall32 where
  "do_readlink h s = ksys h ''readlink'' [KPtr (arg1 s), KPtr (arg2 s), KLong (ucast (arg3 s))]
    s"

definition do_chmod :: syscall32 where
  "do_chmod h s = ksys h ''chmod'' [KPtr (arg1 s), KInt (arg2 s)] s"

definition do_fchmod :: syscall32 where
  "do_fchmod h s = ksys h ''fchmod'' [KInt (arg1 s), KInt (arg2 s)] s"

definition do_chown :: syscall32 where
  "do_chown h s = ksys h ''chown'' [KPtr (arg1 s), KInt (arg2 s), KInt (arg3 s)] s"

definition do_fchown :: syscall32 where
  "do_fchown h s = ksys h ''chown'' [KInt (arg1 s), KInt (arg2 s), KInt (arg3 s)] s"

definition do_lchown :: syscall32 where
  "do_lchown h s = ksys h ''chown'' [KPtr (arg1 s), KInt (arg2 s), KInt (arg3 s)] s"

definition do_umask :: syscall32 where
  "do_umask h s = ksys h ''umask'' [KInt (arg1 s)] s"

definition do_ptrace :: syscall32 where
  "do_ptrace h s = ksys h ''ptrace'' [KInt (arg1 s), KInt (arg2 s), KPtr (arg3 s), KPtr (arg4
    s)] s"

definition do_getuid :: syscall32 where
  "do_getuid h s = ksys h ''getuid'' [] s"

definition do_syslog :: syscall32 where
  "do_syslog h s = ksys h ''syslog'' [KInt (arg1 s), KPtr (arg2 s), KInt (arg3 s)] s"

definition do_getgid :: syscall32 where
  "do_getgid h s = ksys h ''getgid'' [] s"

definition do_setuid :: syscall32 where
  "do_setuid h s = ksys h ''setuid'' [KInt (arg1 s)] s"

definition do_setgid :: syscall32 where
  "do_setgid h s = ksys h ''setgid'' [KInt (arg1 s)] s"

definition do_geteuid :: syscall32 where
  "do_geteuid h s = ksys h ''geteuid'' [] s"

definition do_getegid :: syscall32 where
  "do_getegid h s = ksys h ''getegid'' [] s"

definition do_setpgid :: syscall32 where
  "do_setpgid h s = ksys h ''setpgid'' [KInt (arg1 s), KInt (arg2 s)] s"

definition do_getppid :: syscall32 where
  "do_getppid h s = ksys h ''getppid'' [] s"

definition do_getpgrp :: syscall32 where
  "do_getpgrp h s = ksys h ''getpgrp'' [] s"

definition do_setsid :: syscall32 where
  "do_setsid h s = ksys h ''setsid'' [] s"

definition do_setreuid :: syscall32 where
  "do_setreuid h s = ksys h ''setreuid'' [KInt (arg1 s), KInt (arg2 s)] s"

definition do_setregid :: syscall32 where
  "do_setregid h s = ksys h ''setregid'' [KInt (arg1 s), KInt (arg2 s)] s"

definition do_getgroups :: syscall32 where
  "do_getgroups h s = ksys h ''getgroups'' [KInt (arg1 s), KPtr (arg2 s)] s"

definition do_setgroups :: syscall32 where
  "do_setgroups h s = ksys h ''setgroups'' [KLong (ucast (arg1 s)), KPtr (arg2 s)] s"

definition do_setresuid :: syscall32 where
  "do_setresuid h s = ksys h ''setresuid'' [KInt (arg1 s), KInt (arg2 s), KInt (arg3 s)] s"

definition do_getresuid :: syscall32 where
  "do_getresuid h s = ksys h ''getresuid'' [KPtr (arg1 s), KPtr (arg2 s), KPtr (arg3 s)] s"

definition do_setresgid :: syscall32 where
  "do_setresgid h s = ksys h ''setresgid'' [KInt (arg1 s), KInt (arg2 s), KInt (arg3 s)] s"

definition do_getresgid :: syscall32 where
  "do_getresgid h s = ksys h ''getresgid'' [KPtr (arg1 s), KPtr (arg2 s), KPtr (arg3 s)] s"

definition do_getpgid :: syscall32 where
  "do_getpgid h s = ksys h ''getpgid'' [KInt (arg1 s)] s"

definition do_setfsuid :: syscall32 where
  "do_setfsuid h s = ksys h ''setfsuid'' [KInt (arg1 s)] s"

definition do_setfsgid :: syscall32 where
  "do_setfsgid h s = ksys h ''setfsgid'' [KInt (arg1 s)] s"

definition do_getsid :: syscall32 where
  "do_getsid h s = ksys h ''getsid'' [KInt (arg1 s)] s"

definition do_mknod :: syscall32 where
  "do_mknod h s = ksys h ''mknod'' [KPtr (arg1 s), KInt (arg2 s), KLong (ucast (arg3 s))] s"

definition do_uselib :: syscall32 where
  "do_uselib h s = ksys h ''uselib'' [KPtr (arg1 s)] s"

definition do_personality :: syscall32 where
  "do_personality h s = ksys h ''personality'' [KLong (ucast (arg1 s))] s"

definition do_getpriority :: syscall32 where
  "do_getpriority h s = ksys h ''getpriority'' [KInt (arg1 s), KInt (arg2 s)] s"

definition do_setpriority :: syscall32 where
  "do_setpriority h s = ksys h ''setpriority'' [KInt (arg1 s), KInt (arg2 s), KInt (arg3 s)] s"

definition do_sched_get_priority_max :: syscall32 where
  "do_sched_get_priority_max h s = ksys h ''sched_get_priority_max'' [KInt (arg1 s)] s"

definition do_sched_get_priority_min :: syscall32 where
  "do_sched_get_priority_min h s = ksys h ''sched_get_priority_min'' [KInt (arg1 s)] s"

definition do_mlock :: syscall32 where
  "do_mlock h s = ksys h ''mlock'' [KPtr (arg1 s), KLong (ucast (arg2 s))] s"

definition do_munlock :: syscall32 where
  "do_munlock h s = ksys h ''munlock'' [KPtr (arg1 s), KLong (ucast (arg2 s))] s"

definition do_mlockall :: syscall32 where
  "do_mlockall h s = ksys h ''mlockall'' [KInt (arg1 s)] s"

definition do_munlockall :: syscall32 where
  "do_munlockall h s = ksys h ''munlockall'' [] s"

definition do_vhangup :: syscall32 where
  "do_vhangup h s = ksys h ''vhangup'' [] s"

definition do_modify_ldt :: syscall32 where
  "do_modify_ldt h s = ksys h ''modify_ldt'' [KInt (arg1 s), KPtr (arg2 s), KLong (ucast (arg3
    s))] s"

definition do_pivot_root :: syscall32 where
  "do_pivot_root h s = ksys h ''pivot_root'' [KPtr (arg1 s), KPtr (arg2 s)] s"

definition do_chroot :: syscall32 where
  "do_chroot h s = ksys h ''chroot'' [KPtr (arg1 s)] s"

definition do_sync :: syscall32 where
  "do_sync h s = ksys h ''sync'' [] s"

definition do_acct :: syscall32 where
  "do_acct h s = ksys h ''acct'' [opt_ptr (arg1 s)] s"

definition do_mount :: syscall32 where
  "do_mount h s = ksys h ''mount'' [KPtr (arg1 s), KPtr (arg2 s), KPtr (arg3 s), KLong (ucast
    (arg4 s)), opt_ptr (arg5 s)] s"

definition do_umount2 :: syscall32 where
  "do_umount2 h s = ksys h ''umount2'' [KPtr (arg1 s), KInt (arg2 s)] s"

definition do_swapon :: syscall32 where
  "do_swapon h s = ksys h ''swapon'' [KPtr (arg1 s), KInt (arg2 s)] s"

definition do_swapoff :: syscall32 where
  "do_swapoff h s = ksys h ''swapoff'' [KPtr (arg1 s)] s"

definition do_reboot :: syscall32 where
  "do_reboot h s = ksys h ''reboot'' [KInt (arg1 s)] s"

definition do_sethostname :: syscall32 where
  "do_sethostname h s = ksys h ''sethostname'' [KPtr (arg1 s), KLong (ucast (arg2 s))] s"

definition do_setdomainname :: syscall32 where
  "do_setdomainname h s = ksys h ''setdomainname'' [KPtr (arg1 s), KLong (ucast (arg2 s))] s"

definition do_iopl :: syscall32 where
  "do_iopl h s = ksys h ''iopl'' [KInt (arg1 s)] s"

definition do_ioperm :: syscall32 where
  "do_ioperm h s = ksys h ''ioperm'' [KLong (ucast (arg1 s)), KLong (ucast (arg2 s)), KInt
    (arg3 s)] s"

definition do_gettid :: syscall32 where
  "do_gettid h s = ksys h ''gettid'' [] s"

definition do_readahead :: syscall32 where
  "do_readahead h s = ksys h ''readahead'' [KInt (arg1 s), KLong (ucast (arg2 s)), KLong (ucast
    (arg3 s))] s"

definition do_setxattr :: syscall32 where
  "do_setxattr h s = ksys h ''setxattr'' [KPtr (arg1 s), KPtr (arg2 s), KPtr (arg3 s), KLong
    (ucast (arg4 s)), KInt (arg5 s)] s"

definition do_lsetxattr :: syscall32 where
  "do_lsetxattr h s = ksys h ''lsetxattr'' [KPtr (arg1 s), KPtr (arg2 s), KPtr (arg3 s), KLong
    (ucast (arg4 s)), KInt (arg5 s)] s"

definition do_fsetxattr :: syscall32 where
  "do_fsetxattr h s = ksys h ''fsetxattr'' [KInt (arg1 s), KPtr (arg2 s), KPtr (arg3 s), KLong
    (ucast (arg4 s)), KInt (arg5 s)] s"

definition do_getxattr :: syscall32 where
  "do_getxattr h s = ksys h ''getxattr'' [KPtr (arg1 s), KPtr (arg2 s), KPtr (arg3 s), KLong
    (ucast (arg4 s))] s"

definition do_lgetxattr :: syscall32 where
  "do_lgetxattr h s = ksys h ''lgetxattr'' [KPtr (arg1 s), KPtr (arg2 s), KPtr (arg3 s), KLong
    (ucast (arg4 s))] s"

definition do_fgetxattr :: syscall32 where
  "do_fgetxattr h s = ksys h ''fgetxattr'' [KInt (arg1 s), KPtr (arg2 s), KPtr (arg3 s), KLong
    (ucast (arg4 s))] s"

definition do_listxattr :: syscall32 where
  "do_listxattr h s = ksys h ''listxattr'' [KPtr (arg1 s), opt_ptr (arg2 s), KLong (ucast (arg3
    s))] s"

definition do_llistxattr :: syscall32 where
  "do_llistxattr h s = ksys h ''llistxattr'' [KPtr (arg1 s), opt_ptr (arg2 s), KLong (ucast
    (arg3 s))] s"

definition do_flistxattr :: syscall32 where
  "do_flistxattr h s = ksys h ''llistxattr'' [KInt (arg1 s), opt_ptr (arg2 s), KLong (ucast
    (arg3 s))] s"

definition do_removexattr :: syscall32 where
  "do_removexattr h s = ksys h ''removexattr'' [KPtr (arg1 s), KPtr (arg2 s)] s"

definition do_lremovexattr :: syscall32 where
  "do_lremovexattr h s = ksys h ''lremovexattr'' [KPtr (arg1 s), KPtr (arg2 s)] s"

definition do_fremovexattr :: syscall32 where
  "do_fremovexattr h s = ksys h ''lremovexattr'' [KInt (arg1 s), KPtr (arg2 s)] s"

definition do_tkill :: syscall32 where
  "do_tkill h s = ksys h ''tkill'' [KInt (arg1 s), KInt (arg2 s)] s"

definition do_epoll_create :: syscall32 where
  "do_epoll_create h s = ksys h ''epoll_create'' [KInt (arg1 s)] s"

definition do_remap_file_pages :: syscall32 where
  "do_remap_file_pages h s = ksys h ''remap_file_pages'' [KPtr (arg1 s), KLong (ucast (arg2
    s)), KInt (arg3 s), KLong (ucast (arg4 s)), KInt (arg5 s)] s"

definition do_set_tid_address :: syscall32 where
  "do_set_tid_address h s = ksys h ''set_tid_address'' [KPtr (arg1 s)] s"

definition do_restart_syscall :: syscall32 where
  "do_restart_syscall h s = ksys h ''restart_syscall'' [] s"

definition do_fadvise64 :: syscall32 where
  "do_fadvise64 h s = ksys h ''fadvise64'' [KInt (arg1 s), KLong (ucast (arg2 s)), KLong (ucast
    (arg3 s)), KInt (arg4 s)] s"

definition do_exit_group :: syscall32 where
  "do_exit_group h s = ksys h ''exit_group'' [KInt (arg1 s)] s"

definition do_tgkill :: syscall32 where
  "do_tgkill h s = ksys h ''tgkill'' [KInt (arg1 s), KInt (arg2 s), KInt (arg3 s)] s"

definition do_mkdirat :: syscall32 where
  "do_mkdirat h s = ksys h ''mkdirat'' [KInt (arg1 s), KPtr (arg2 s), KInt (arg3 s)] s"

definition do_mknodat :: syscall32 where
  "do_mknodat h s = ksys h ''mknodat'' [KInt (arg1 s), KPtr (arg2 s), KInt (arg3 s), KLong
    (ucast (arg4 s))] s"

definition do_fchownat :: syscall32 where
  "do_fchownat h s = ksys h ''fchownat'' [KInt (arg1 s), KPtr (arg2 s), KInt (arg3 s), KInt
    (arg4 s), KInt (arg5 s)] s"

definition do_unlinkat :: syscall32 where
  "do_unlinkat h s = ksys h ''unlinkat'' [KInt (arg1 s), KPtr (arg2 s), KInt (arg3 s)] s"

definition do_renameat :: syscall32 where
  "do_renameat h s = ksys h ''renameat'' [KInt (arg1 s), KPtr (arg2 s), KInt (arg3 s), KPtr
    (arg4 s)] s"

definition do_linkat :: syscall32 where
  "do_linkat h s = ksys h ''linkat'' [KInt (arg1 s), KPtr (arg2 s), KInt (arg3 s), KPtr (arg4
    s), KInt (arg5 s)] s"

definition do_symlinkat :: syscall32 where
  "do_symlinkat h s = ksys h ''symlinkat'' [KPtr (arg1 s), KInt (arg2 s), KPtr (arg3 s)] s"

definition do_readlinkat :: syscall32 where
  "do_readlinkat h s = ksys h ''readlinkat'' [KInt (arg1 s), KPtr (arg2 s), KPtr (arg3 s),
    KLong (ucast (arg4 s))] s"

definition do_fchmodat :: syscall32 where
  "do_fchmodat h s = ksys h ''fchmodat'' [KInt (arg1 s), KPtr (arg2 s), KInt (arg3 s), KInt
    (arg4 s)] s"

definition do_faccessat :: syscall32 where
  "do_faccessat h s = ksys h ''faccessat'' [KInt (arg1 s), KPtr (arg2 s), KInt (arg3 s), KInt
    (arg4 s)] s"

definition do_unshare :: syscall32 where
  "do_unshare h s = ksys h ''unshare'' [KInt (arg1 s)] s"

section \<open>Wrappers without a body\<close>

definition do_rt_sigprocmask :: syscall32 where "do_rt_sigprocmask = no_return"
definition do_rt_sigreturn :: syscall32 where "do_rt_sigreturn = no_return"
definition do_readv :: syscall32 where "do_readv = no_return"
definition do_select :: syscall32 where "do_select = no_return"
definition do_nanosleep :: syscall32 where "do_nanosleep = no_return"
definition do_getitimer :: syscall32 where "do_getitimer = no_return"
definition do_setitimer :: syscall32 where "do_setitimer = no_return"
definition do_clone :: syscall32 where "do_clone = no_return"
definition do_wait4 :: syscall32 where "do_wait4 = no_return"
definition do_uname :: syscall32 where "do_uname = no_return"
definition do_gettimeofday :: syscall32 where "do_gettimeofday = no_return"
definition do_getrlimit :: syscall32 where "do_getrlimit = no_return"
definition do_getrusage :: syscall32 where "do_getrusage = no_return"
definition do_sysinfo :: syscall32 where "do_sysinfo = no_return"
definition do_times :: syscall32 where "do_times = no_return"
definition do_capget :: syscall32 where "do_capget = no_return"
definition do_capset :: syscall32 where "do_capset = no_return"
definition do_rt_sigpending :: syscall32 where "do_rt_sigpending = no_return"
definition do_rt_sigtimedwait :: syscall32 where "do_rt_sigtimedwait = no_return"
definition do_rt_sigqueueinfo :: syscall32 where "do_rt_sigqueueinfo = no_return"
definition do_rt_sigsuspend :: syscall32 where "do_rt_sigsuspend = no_return"
definition do_sigaltstack :: syscall32 where "do_sigaltstack = no_return"
definition do_utime :: syscall32 where "do_utime = no_return"
definition do_ustat :: syscall32 where "do_ustat = no_return"
definition do_statfs :: syscall32 where "do_statfs = no_return"
definition do_fstatfs :: syscall32 where "do_fstatfs = no_return"
definition do_sched_setparam :: syscall32 where "do_sched_setparam = no_return"
definition do_sched_getparam :: syscall32 where "do_sched_getparam = no_return"
definition do_sched_setscheduler :: syscall32 where "do_sched_setscheduler = no_return"
definition do_sched_getscheduler :: syscall32 where "do_sched_getscheduler = no_return"
definition do_sched_rr_get_interval :: syscall32 where "do_sched_rr_get_interval = no_return"
definition do__sysctl :: syscall32 where "do__sysctl = no_return"
definition do_prctl :: syscall32 where "do_prctl = no_return"
definition do_adjtimex :: syscall32 where "do_adjtimex = no_return"
definition do_setrlimit :: syscall32 where "do_setrlimit = no_return"
definition do_settimeofday :: syscall32 where "do_settimeofday = no_return"
definition do_create_module :: syscall32 where "do_create_module = no_return"
definition do_init_module :: syscall32 where "do_init_module = no_return"
definition do_delete_module :: syscall32 where "do_delete_module = no_return"
definition do_get_kernel_syms :: syscall32 where "do_get_kernel_syms = no_return"
definition do_query_module :: syscall32 where "do_query_module = no_return"
definition do_quotactl :: syscall32 where "do_quotactl = no_return"
definition do_nfsservctl :: syscall32 where "do_nfsservctl = no_return"
definition do_getpmsg :: syscall32 where "do_getpmsg = no_return"
definition do_putpmsg :: syscall32 where "do_putpmsg = no_return"
definition do_afs_syscall :: syscall32 where "do_afs_syscall = no_return"

section \<open>Wrappers with a choice of calls\<close>

definition do_break :: syscall32 where
  "do_break h s = Inr (0, s)"

text \<open>The value that the main loop takes as the order to stop.\<close>

definition do_exit :: syscall32 where
  "do_exit h s = Inr (0xdeadbeef, s)"

definition O_CREAT :: u32 where "O_CREAT = 0x40"

definition do_open :: syscall32 where
  "do_open h s =
     (if arg2 s AND O_CREAT \<noteq> 0
      then ksys h ''open'' [KPtr (arg1 s), KInt (arg2 s), KInt (arg3 s)] s
      else ksys h ''open'' [KPtr (arg1 s), KInt (arg2 s)] s)"

definition do_openat :: syscall32 where
  "do_openat h s =
     (if arg3 s AND O_CREAT \<noteq> 0
      then ksys h ''openat'' [KInt (arg1 s), KPtr (arg2 s), KInt (arg3 s), KInt (arg4 s)] s
      else ksys h ''openat'' [KInt (arg1 s), KPtr (arg2 s), KInt (arg3 s)] s)"

text \<open>The three \<open>stat\<close> calls fill a structure of the host and do not copy it to the guest.\<close>

definition do_stat :: syscall32 where
  "do_stat h s = ksys h ''stat'' [KPtr (arg1 s), KLocal] s"

definition do_fstat :: syscall32 where
  "do_fstat h s = ksys h ''fstat'' [KInt (arg1 s), KLocal] s"

definition do_lstat :: syscall32 where
  "do_lstat h s = ksys h ''lstat'' [KPtr (arg1 s), KLocal] s"

definition do_lseek :: syscall32 where
  "do_lseek h s =
     ksys h ''lseek'' [KInt (arg1 s), KLong (push_bit 32 (ucast (arg3 s)) OR ucast (arg2 s)), KInt (arg4 s)] s"

definition do_sysfs :: syscall32 where
  "do_sysfs h s =
     (if arg1 s = 1 then ksys h ''sysfs'' [KInt (arg1 s), KPtr (arg2 s)] s
      else if arg1 s = 2 then ksys h ''sysfs'' [KInt (arg1 s), KInt (arg2 s), KPtr (arg3 s)] s
      else ksys h ''sysfs'' [KInt (arg1 s)] s)"

definition do_time :: syscall32 where
  "do_time h s =
     (if arg1 s \<noteq> 0 then ksys h ''time'' [KLong (ucast (arg1 s))] s else ksys h ''time'' [KNull] s)"

definition ENOTTY :: u32 where "ENOTTY = 25"
definition ENOMEM :: u32 where "ENOMEM = 12"

definition do_ioctl :: syscall32 where
  "do_ioctl h s =
     (let oper = arg2 s in
      if oper < 0x5401 \<or> oper > 0x545B then Inr (- ENOTTY, s)
      else if (oper \<ge> 0x5401 \<and> oper \<le> 0x5404) \<or> oper = 0x5456 \<or> oper = 0x5457 then
        ksys h ''ioctl'' [KInt (arg1 s), KInt oper, KPtr (arg3 s)] s
      else if (oper \<ge> 0x5409 \<and> oper \<le> 0x540B) \<or> oper = 0x540E \<or> oper = 0x5425 then
        ksys h ''ioctl'' [KInt (arg1 s), KInt oper, KInt (arg3 s)] s
      else if oper = 0x540C \<or> oper = 0x540D \<or> oper = 0x541D \<or> oper = 0x5422 \<or> oper = 0x5450
        \<or> oper = 0x5451 then
        ksys h ''ioctl'' [KInt (arg1 s), KInt oper] s
      else if oper = 0x5411 \<or> (oper \<ge> 0x5415 \<and> oper \<le> 0x541B) \<or> oper = 0x5420 \<or> oper = 0x5421
        \<or> (oper \<ge> 0x5423 \<and> oper \<le> 0x5425) \<or> oper = 0x5452 \<or> oper = 0x5454 \<or> oper = 0x5455
        \<or> oper = 0x5459 then
        ksys h ''ioctl'' [KInt (arg1 s), KInt oper, KPtr (arg3 s)] s
      else if oper = 0x540F \<or> oper = 0x5410 then
        ksys h ''ioctl'' [KInt (arg1 s), KInt oper, KPtr (arg3 s)] s
      else if oper = 0x5413 \<or> oper = 0x5414 then
        ksys h ''ioctl'' [KInt (arg1 s), KInt oper, KPtr (arg3 s)] s
      else no_return h s)"

section \<open>Vectors of guest structures\<close>

text \<open>The elements \<open>iovec[0], ..., iovec[n-1]\<close> at address \<open>a\<close>, each two words.\<close>

fun iovecs_64 :: "nat \<Rightarrow> nat \<Rightarrow> cpu \<Rightarrow> (u32 \<times> u64) list res" where
  "iovecs_64 a 0 s = Inr []"
| "iovecs_64 a (Suc n) s =
     bnd (load32 (PMem a) s) (\<lambda>iov_base. bnd (load32 (PMem (a + 4)) s) (\<lambda>iov_len.
     bnd (iovecs_64 (a + 8) n s) (\<lambda>vs. Inr ((iov_base, ucast iov_len) # vs))))"

text \<open>A negative count makes \<open>calloc\<close> fail and the loop empty.\<close>

definition do_writev :: syscall32 where
  "do_writev h s =
     (let count = arg3 s in
      if sint count < 0 then ksys h ''writev'' [KInt (arg1 s), KNull, KInt count] s
      else if \<not> h_malloc h (unat count * 16) then
        (if count = 0 then ksys h ''writev'' [KInt (arg1 s), KNull, KInt count] s else Inl NullDeref)
      else
        bnd (iovecs_64 (unat (arg2 s)) (unat count) s) (\<lambda>vs.
        ksys h ''writev'' [KInt (arg1 s), KIov vs, KInt count] s))"

text \<open>\<open>fds64[i].fd = fds32[i].fd; fds64[i].events = fds32[i].events;\<close>\<close>

fun pollfds_64 :: "nat \<Rightarrow> nat \<Rightarrow> cpu \<Rightarrow> (u32 \<times> u16) list res" where
  "pollfds_64 a 0 s = Inr []"
| "pollfds_64 a (Suc n) s =
     bnd (load32 (PMem a) s) (\<lambda>fd. bnd (load16 (PMem (a + 4)) s) (\<lambda>events.
     bnd (pollfds_64 (a + 8) n s) (\<lambda>fds. Inr ((fd, events) # fds))))"

text \<open>\<open>fds32[i].revents = fds64[i].revents;\<close>\<close>

fun put_revents :: "nat \<Rightarrow> u16 list \<Rightarrow> cpu \<Rightarrow> cpu res" where
  "put_revents a [] s = Inr s"
| "put_revents a (r # rs) s = bnd (store16 (PMem (a + 6)) r s) (put_revents (a + 8) rs)"

text \<open>The common part of \<open>do_poll\<close> and \<open>do_ppoll\<close>: the call \<open>x\<close> with the translated array in front
  of the arguments that \<open>rest\<close> computes.\<close>

definition poll_with :: "string \<Rightarrow> (cpu \<Rightarrow> karg list res) \<Rightarrow> syscall32" where
  "poll_with x rest h s =
     (let a = unat (arg1 s); nfds = unat (arg2 s) in
      if \<not> h_malloc h (nfds * 8) then Inr (- ENOMEM, s)
      else
        bnd (pollfds_64 a nfds s) (\<lambda>fds. bnd (rest s) (\<lambda>args.
        bnd (h_poll h x fds args s) (\<lambda>(r, revents, s). let result = ucast r :: u32 in
          if sint result \<ge> 0 then bnd (put_revents a revents s) (\<lambda>s. Inr (result, s))
          else Inr (result, s)))))"

definition do_poll :: syscall32 where
  "do_poll = poll_with ''poll'' (\<lambda>s. Inr [KLong (ucast (arg2 s)), KInt (arg3 s)])"

text \<open>The address \<open>mem + *arg3\<close> is never null, so a timeout is always read.\<close>

definition do_ppoll :: syscall32 where
  "do_ppoll = poll_with ''ppoll'' (\<lambda>s.
     bnd (load32 (PMem (unat (arg3 s))) s) (\<lambda>tv_sec.
     bnd (load32 (PMem (unat (arg3 s) + 4)) s) (\<lambda>tv_nsec.
     Inr [KLong (ucast (arg2 s)), KTimespec (scast tv_sec) (scast tv_nsec), KPtr (arg4 s), KInt 8])))"

section \<open>execve\<close>

text \<open>\<open>while (buff[count] != 0) count++;\<close> from address \<open>a\<close>.\<close>

function buffer_size_from :: "nat \<Rightarrow> nat \<Rightarrow> cpu \<Rightarrow> nat res" where
  "buffer_size_from a count s =
     (if a + 4 * count + 4 \<le> MEM_BYTES then
        bnd (load32 (PMem (a + 4 * count)) s) (\<lambda>x.
          if x \<noteq> 0 then buffer_size_from a (Suc count) s else Inr count)
      else Inl OutOfBounds)"
  by pat_completeness auto

termination
  by (relation "measure (\<lambda>(a, count, s). MEM_BYTES - (a + 4 * count))") auto

definition buffer_size :: "nat \<Rightarrow> cpu \<Rightarrow> nat res" where
  "buffer_size a s = buffer_size_from a 0 s"

fun translate_buffer_dirs_32_to_64 :: "nat \<Rightarrow> nat \<Rightarrow> cpu \<Rightarrow> u32 list res" where
  "translate_buffer_dirs_32_to_64 a 0 s = Inr []"
| "translate_buffer_dirs_32_to_64 a (Suc n) s =
     bnd (load32 (PMem a) s) (\<lambda>x.
     bnd (translate_buffer_dirs_32_to_64 (a + 4) n s) (\<lambda>xs. Inr (x # xs)))"

text \<open>\<open>calloc(n + 1, sizeof(char *))\<close> filled with the \<open>n\<close> translated pointers; the last one
  stays null. A failed \<open>calloc\<close> is a null dereference unless nothing is stored.\<close>

definition pointer_vector :: "host \<Rightarrow> nat \<Rightarrow> cpu \<Rightarrow> karg res" where
  "pointer_vector h a s =
     bnd (buffer_size a s) (\<lambda>n.
       if h_malloc h ((n + 1) * 8) then
         bnd (translate_buffer_dirs_32_to_64 a n s) (\<lambda>ps. Inr (KPtrs ps))
       else if n = 0 then Inr KNull else Inl NullDeref)"

definition do_execve :: syscall32 where
  "do_execve h s =
     bnd (pointer_vector h (unat (arg2 s)) s) (\<lambda>argv. bnd (pointer_vector h (unat (arg3 s)) s) (\<lambda>envp.
     ksys h ''execve'' [KPtr (arg1 s), argv, envp] s))"

section \<open>Signals\<close>

definition load64 :: "ptr \<Rightarrow> nat \<Rightarrow> cpu \<Rightarrow> u64 res" where
  "load64 p k s =
     (case p of PMem a \<Rightarrow>
        bnd (load32 (PMem (a + k)) s) (\<lambda>lo. bnd (load32 (PMem (a + k + 4)) s) (\<lambda>hi.
        Inr (push_bit 32 (ucast hi) OR ucast lo)))
      | _ \<Rightarrow> Inl NullDeref)"

text \<open>The two words of the mask; \<open>sigset_t32\<close> is \<open>uint64_t[2]\<close>, which the compiler aligns to
  offset 16 of \<open>struct sigaction32\<close>.\<close>

definition convert_mask32_to_mask64 :: "ptr \<Rightarrow> cpu \<Rightarrow> (u64 \<times> u64) res" where
  "convert_mask32_to_mask64 src s = bnd (load64 src 0 s) (\<lambda>a. bnd (load64 src 8 s) (\<lambda>b. Inr (a, b)))"

definition SA_RESTORER :: u32 where "SA_RESTORER = 0x04000000"
definition SA_SIGINFO :: u32 where "SA_SIGINFO = 4"

definition convert_flags32_to_flags64 :: "u32 \<Rightarrow> u32" where
  "convert_flags32_to_flags64 f32 = (if f32 AND SA_RESTORER \<noteq> 0 then 0 OR SA_SIGINFO else 0)"

definition do_rt_sigaction :: syscall32 where
  "do_rt_sigaction h s =
     (let a = unat (arg2 s) in
      if \<not> h_malloc h 152 then Inl NullDeref
      else
        bnd (convert_mask32_to_mask64 (PMem (a + 16)) s) (\<lambda>(m0, m1).
        bnd (load32 (PMem a) s) (\<lambda>sa_handler. bnd (load32 (PMem (a + 4)) s) (\<lambda>sa_flags.
        bnd (load32 (PMem (a + 8)) s) (\<lambda>sa_restorer.
          ksys h ''sigaction'' [KInt (arg1 s),
            KSigaction (if sa_handler = 0 \<or> sa_handler = 1 then KLong (ucast sa_handler) else KPtr sa_handler)
              m0 m1 sa_flags (opt_ptr sa_restorer), KNull] s)))))"

section \<open>Thread-local storage\<close>

definition GDT_TLS_RESERVED :: nat where "GDT_TLS_RESERVED = 3"

text \<open>\<open>gdt[index]\<close>: the address of a descriptor.\<close>

definition desc_addr :: "cpu \<Rightarrow> nat \<Rightarrow> nat" where
  "desc_addr s index = unat (dtr_base (gdtr s)) + index * sizeof_GDT_Descriptor"

text \<open>The search loop over the reserved entries; \<open>None\<close> is the \<open>return -1\<close> of its last iteration.\<close>

fun tls_search :: "nat list \<Rightarrow> cpu \<Rightarrow> nat option res" where
  "tls_search [] s = Inr None"
| "tls_search (i # is) s =
     (let index = GDT_ENTRIES - GDT_TLS_RESERVED + i in
      bnd (load8 (PMem (desc_addr s index + off_used)) s) (\<lambda>used.
        if used = 0 then Inr (Some index) else tls_search is s))"

text \<open>The access byte and the granularity byte built from the bit fields of \<open>struct user_desc32\<close>
  (\<open>seg_32bit\<close> 0, \<open>contents\<close> 1-2, \<open>read_exec_only\<close> 3, \<open>limit_in_pages\<close> 4, \<open>seg_not_present\<close> 5,
  \<open>useable\<close> 6).\<close>

definition tls_type :: "u32 \<Rightarrow> u8" where
  "tls_type bf =
     (let contents = drop_bit 1 bf AND 3 in
      if contents = 0 then (if bit bf 3 then 0x0 else 0x2)
      else if contents = 2 then (if bit bf 3 then 0x8 else 0xA)
      else 0)"

definition tls_granularity :: "u32 \<Rightarrow> u32 \<Rightarrow> u8" where
  "tls_granularity limit bf =
     ucast (drop_bit 16 limit AND 0x0F) OR (if bit bf 4 then 0x80 else 0)
       OR (if bit bf 0 then 0x40 else 0) OR (if bit bf 6 then 0x10 else 0)"

text \<open>The descriptor at \<open>d\<close> is filled from the structure at \<open>u\<close>, field by field.\<close>

definition tls_fill :: "nat \<Rightarrow> nat \<Rightarrow> cpu \<Rightarrow> cpu res" where
  "tls_fill d u s =
     bnd (store8 (PMem (d + off_used)) 1 s) (\<lambda>s.
     bnd (load32 (PMem (u + 8)) s) (\<lambda>limit.
     bnd (store16 (PMem (d + off_limit_low)) (ucast limit) s) (\<lambda>s.
     bnd (load32 (PMem (u + 4)) s) (\<lambda>base.
     bnd (store16 (PMem (d + off_base_low)) (ucast (base AND 0xFFFF)) s) (\<lambda>s.
     bnd (load32 (PMem (u + 4)) s) (\<lambda>base.
     bnd (store8 (PMem (d + off_base_mid)) (ucast (drop_bit 16 base AND 0xFF)) s) (\<lambda>s.
     bnd (load32 (PMem (u + 4)) s) (\<lambda>base.
     bnd (store8 (PMem (d + off_base_high)) (ucast (drop_bit 24 base AND 0xFF)) s) (\<lambda>s.
     bnd (load32 (PMem (u + 12)) s) (\<lambda>bf.
     bnd (store8 (PMem (d + off_access)) (0x80 OR 0x60 OR 0x10 OR tls_type bf) s) (\<lambda>s.
     bnd (load32 (PMem (u + 12)) s) (\<lambda>bf.
     bnd (if bit bf 5
          then bnd (rmw8 (PMem (d + off_access)) (\<lambda>v. v AND 0x7F) s) (\<lambda>(_, _, s). Inr s)
          else Inr s) (\<lambda>s.
     bnd (load32 (PMem (u + 8)) s) (\<lambda>limit. bnd (load32 (PMem (u + 12)) s) (\<lambda>bf.
     store8 (PMem (d + off_granularity)) (tls_granularity limit bf) s)))))))))))))))"

definition do_set_thread_area :: syscall32 where
  "do_set_thread_area h s =
     (let u = unat (arg1 s) in
      bnd (load32 (PMem u) s) (\<lambda>entry_number.
      bnd (if entry_number \<noteq> - 1 then Inr (Some (unat (ucast entry_number :: u8)))
           else tls_search [0..<3] s) (\<lambda>found.
        case found of
          None \<Rightarrow> Inr (- 1, s)
        | Some index \<Rightarrow>
            bnd (tls_fill (desc_addr s index) u s) (\<lambda>s.
            bnd (store32 (PMem u) (of_nat index) s) (\<lambda>s. Inr (0, s))))))"

section \<open>The table\<close>

definition syscalls :: "syscall32 list" where
  "syscalls = [do_restart_syscall, do_exit, do_fork, do_read, do_write, do_open, do_close,
    unimpl, do_creat, do_link, do_unlink, do_execve, do_chdir, do_time, do_mknod, do_chmod,
    do_lchown, do_break, unimpl, unimpl, do_getpid, do_mount, unimpl, do_setuid, do_getuid,
    unimpl, do_ptrace, do_alarm, unimpl, do_pause, do_utime, unimpl, unimpl, do_access, unimpl,
    unimpl, do_sync, do_kill, do_rename, do_mkdir, do_rmdir, do_dup, do_pipe, do_times, unimpl,
    do_brk, do_setgid, do_getgid, unimpl, do_geteuid, do_getegid, do_acct, do_umount2, unimpl,
    do_ioctl, unimpl, unimpl, do_setpgid, unimpl, unimpl, do_umask, do_chroot, do_ustat,
    do_dup2, do_getppid, do_getpgrp, do_setsid, do_rt_sigaction, unimpl, unimpl, do_setreuid,
    do_setregid, do_rt_sigsuspend, do_rt_sigpending, do_sethostname, do_setrlimit,
    do_getrlimit, do_getrusage, do_gettimeofday, do_settimeofday, do_getgroups, do_setgroups,
    do_select, do_symlink, unimpl, do_readlink, do_uselib, do_swapon, do_reboot, unimpl,
    do_mmap, do_munmap, do_truncate, do_ftruncate, do_fchmod, do_fchown, do_getpriority,
    do_setpriority, unimpl, do_statfs, do_fstatfs, do_ioperm, unimpl, do_syslog, do_setitimer,
    do_getitimer, do_stat, do_lstat, do_fstat, unimpl, do_iopl, do_vhangup, unimpl, unimpl,
    do_wait4, do_swapoff, do_sysinfo, unimpl, do_fsync, do_rt_sigreturn, do_clone,
    do_setdomainname, do_uname, do_modify_ldt, do_adjtimex, do_mprotect, do_rt_sigprocmask,
    do_create_module, do_init_module, do_delete_module, do_get_kernel_syms, do_quotactl,
    do_getpgid, do_fchdir, unimpl, do_sysfs, do_personality, do_afs_syscall, do_setfsuid,
    do_setfsgid, unimpl, unimpl, unimpl, unimpl, do_msync, do_readv, do_writev, do_getsid,
    do_fdatasync, do__sysctl, do_mlock, do_munlock, do_mlockall, do_munlockall,
    do_sched_setparam, do_sched_getparam, do_sched_setscheduler, do_sched_getscheduler,
    do_sched_yield, do_sched_get_priority_max, do_sched_get_priority_min,
    do_sched_rr_get_interval, do_nanosleep, do_mremap, do_setresuid, do_getresuid, unimpl,
    do_query_module, do_poll, do_nfsservctl, do_setresgid, do_getresgid, do_prctl,
    do_rt_sigreturn, do_rt_sigaction, do_rt_sigprocmask, do_rt_sigpending, do_rt_sigtimedwait,
    do_rt_sigqueueinfo, do_rt_sigsuspend, unimpl, unimpl, do_chown, do_getcwd, do_capget,
    do_capset, do_sigaltstack, do_sendfile, do_getpmsg, do_putpmsg, do_vfork] @ replicate 52
    unimpl @ [do_set_thread_area] @ replicate 14 unimpl @ [do_set_tid_address] @ replicate 193
    unimpl"

section \<open>Specifications\<close>

text \<open>The access byte after both of its assignments.\<close>

definition tls_access :: "u32 \<Rightarrow> u8" where
  "tls_access bf = (if bit bf 5 then (0xF0 OR tls_type bf) AND 0x7F else 0xF0 OR tls_type bf)"

text \<open>The memory with a descriptor at \<open>d\<close> made from a base, a limit and bit fields.\<close>

definition tls_image :: "nat \<Rightarrow> u32 \<Rightarrow> u32 \<Rightarrow> u32 \<Rightarrow> cpu \<Rightarrow> nat \<Rightarrow> u8" where
  "tls_image d base limit bf s k =
     (if k = d + 6 then tls_granularity limit bf else if k = d + 5 then tls_access bf
       else if k = d + 7 then ucast (drop_bit 24 base) else if k = d + 4 then ucast (drop_bit 16 base)
       else if k = d + 3 then ucast (drop_bit 8 base) else if k = d + 2 then ucast base
       else if k = d + 1 then ucast (drop_bit 8 limit) else if k = d then ucast limit
       else if k = d + 8 then 1 else mem s (of_nat k))"

text \<open>The descriptor that a request names: the one it asks for, or the first reserved one not in use.\<close>

definition tls_index :: "u32 \<Rightarrow> cpu \<Rightarrow> nat option" where
  "tls_index e s =
     (if e \<noteq> - 1 then Some (unat e)
      else find (\<lambda>i. mem s (of_nat (unat (dtr_base (gdtr s)) + i * 10 + 8)) = 0) [6, 7, 8])"

text \<open>The words of a list in memory.\<close>

definition words_at :: "nat \<Rightarrow> u32 list \<Rightarrow> cpu \<Rightarrow> bool" where
  "words_at a xs s = (\<forall>j < length xs. load32 (PMem (a + 4 * j)) s = Inr (xs ! j))"

section \<open>Lemmas\<close>

lemma load_PMem:
  "k < MEM_BYTES \<Longrightarrow> load8 (PMem k) s = Inr (mem s (of_nat k))"
  "k + 2 \<le> MEM_BYTES \<Longrightarrow> load16 (PMem k) s = Inr (le16 (mem s) (of_nat k))"
  "k + 4 \<le> MEM_BYTES \<Longrightarrow> load32 (PMem k) s = Inr (le32 (mem s) (of_nat k))"
  by simp_all

lemma of_nat_add_numeral: "(of_nat k :: u32) + numeral n = of_nat (k + numeral n)" "(of_nat k :: u32) + 1 = of_nat (k + 1)"
  by simp_all

text \<open>A byte written elsewhere does not disturb an access.\<close>

lemma load_poke_other:
  assumes "j < MEM_BYTES"
  shows "k < MEM_BYTES \<Longrightarrow> j \<noteq> k \<Longrightarrow> load8 (PMem k) (poke j x s) = load8 (PMem k) s"
    "k + 2 \<le> MEM_BYTES \<Longrightarrow> j < k \<or> k + 2 \<le> j \<Longrightarrow> load16 (PMem k) (poke j x s) = load16 (PMem k) s"
    "k + 4 \<le> MEM_BYTES \<Longrightarrow> j < k \<or> k + 4 \<le> j \<Longrightarrow> load32 (PMem k) (poke j x s) = load32 (PMem k) s"
  using assms
  by (auto simp: MEM_BYTES_def le16_def le32_def of_nat_add_numeral simp del: of_nat_add of_nat_Suc)

lemma tls_fill_pokes:
  assumes d: "d + 10 \<le> MEM_BYTES" and u: "u + 16 \<le> MEM_BYTES" "u + 16 \<le> d \<or> d + 10 \<le> u"
    and v: "load32 (PMem (u + 4)) s = Inr base" "load32 (PMem (u + 8)) s = Inr limit" "load32 (PMem (u + 12)) s = Inr bf"
  shows "\<exists>s'. tls_fill d u s = Inr s' \<and> var s' = var s \<and> gdtr s' = gdtr s \<and>
    (\<forall>k < 2 ^ 32. mem s' (of_nat k) =
      tls_image d base limit bf s k)"
proof -
  have w: "ucast (base AND 0xFFFF) = (ucast base :: u16)" "ucast (drop_bit 16 base AND 0xFF) = (ucast (drop_bit 16 base) :: u8)"
    "ucast (drop_bit 24 base AND 0xFF) = (ucast (drop_bit 24 base) :: u8)"
    "(ucast (drop_bit 8 (ucast base :: u16)) :: u8) = ucast (drop_bit 8 base)"
    "(ucast (drop_bit 8 (ucast limit :: u16)) :: u8) = ucast (drop_bit 8 limit)"
    "(ucast (ucast base :: u16) :: u8) = ucast base" "(ucast (ucast limit :: u16) :: u8) = ucast limit"
    by (rule bit_word_eqI; auto simp: bit_simps)+
  have ld: "load32 (PMem (u + k)) (poke (d + j) x t) = load32 (PMem (u + k)) t" if "k \<le> 12" "j < 10" for k j x t
    using d u that by (intro load_poke_other) auto
  have st: "store8 (PMem (d + k)) x t = Inr (poke (d + k) x t)" if "k < 10" for k x t
    using d that by (simp add: MEM_BYTES_def poke_def)
  have st16: "store16 (PMem (d + k)) y t = Inr (poke (d + (k + 1)) (ucast (drop_bit 8 y)) (poke (d + k) (ucast y) t))" if "k < 9" for k y t
    using d that store_poke(2) [of "d + k"] by (simp add: MEM_BYTES_def)
  have ld0: "load32 (PMem (u + k)) (poke d x t) = load32 (PMem (u + k)) t" if "k \<le> 12" for k x t
    using ld [of k 0] that by (simp only: add_0_right)
  have st0: "store16 (PMem d) y t = Inr (poke (d + 1) (ucast (drop_bit 8 y)) (poke d (ucast y) t))" for y t
    using st16 [of 0 y t] by (simp only: add_0_right add_0_left)
  have acc: "rmw8 (PMem (d + 5)) f (poke (d + 5) x t) = Inr (ucast x, ucast (f x), poke (d + 5) (f x) (poke (d + 5) x t))" for f x t
    using d by (simp add: rmw8_def rmw_def MEM_BYTES_def poke_def)
  have ors: "0x80 OR 0x60 OR 0x10 OR x = 0xF0 OR (x :: u8)" for x
    by (simp flip: or.assoc)
  let ?t = "poke (d + 7) (ucast (drop_bit 24 base)) (poke (d + 4) (ucast (drop_bit 16 base)) (poke (d + 3) (ucast (drop_bit 8 base))
    (poke (d + 2) (ucast base) (poke (d + 1) (ucast (drop_bit 8 limit)) (poke (d + 0) (ucast limit) (poke (d + 8) 1 s))))))"
  let ?a = "if bit bf 5 then poke (d + 5) ((0xF0 OR tls_type bf) AND 0x7F) (poke (d + 5) (0xF0 OR tls_type bf) ?t)
    else poke (d + 5) (0xF0 OR tls_type bf) ?t"
  have eq: "tls_fill d u s = Inr (poke (d + 6) (tls_granularity limit bf) ?a)"
    unfolding tls_fill_def gdt_layout
    by (simp add: ld ld0 st st16 st0 acc v w ors
        del: load32.simps store8.simps store16.simps add_2_eq_Suc' One_nat_def)
  have "mem (poke (d + 6) (tls_granularity limit bf) ?a) (of_nat k) = tls_image d base limit bf s k" if "k < 2 ^ 32" for k
    using d that by (simp add: tls_image_def tls_access_def MEM_BYTES_def del: of_nat_add of_nat_Suc)
  then have "\<forall>k < 2 ^ 32. mem (poke (d + 6) (tls_granularity limit bf) ?a) (of_nat k) = tls_image d base limit bf s k"
    by blast
  moreover have "var (poke (d + 6) (tls_granularity limit bf) ?a) = var s" "gdtr (poke (d + 6) (tls_granularity limit bf) ?a) = gdtr s"
    by simp_all
  ultimately show ?thesis using eq by blast
qed
lemma tls_search_find:
  assumes "unat (dtr_base (gdtr s)) + 90 \<le> MEM_BYTES"
  shows "tls_search [0..<3] s =
    Inr (find (\<lambda>i. mem s (of_nat (unat (dtr_base (gdtr s)) + i * 10 + 8)) = 0) [6, 7, 8])"
  using assms by (simp add: upt_rec gdt_layout GDT_TLS_RESERVED_def desc_addr_def MEM_BYTES_def)

text \<open>The base that a selector names, from the bytes of its descriptor.\<close>

lemma get_gdt_base_bytes:
  assumes "unat (dtr_base (gdtr s)) + 90 \<le> MEM_BYTES"
  shows "get_gdt_base sel s = (let d = unat (dtr_base (gdtr s)) + gdt_index sel * 10; m = \<lambda>k. mem s (of_nat (d + k)) in
    Inr (ucast (ucast (m 2) OR push_bit 8 (ucast (m 3)) :: u16) OR push_bit 16 (ucast (m 4)) OR push_bit 24 (ucast (m 7))))"
proof -
  have "gdt_index sel < 9" by (simp add: gdt_index_def GDT_ENTRIES_def)
  then show ?thesis
    using assms by (simp add: get_gdt_base_def gdt_layout Let_def le16_def MEM_BYTES_def ac_simps)
qed

lemma base_bytes:
  "ucast (ucast (ucast (b :: u32) :: u8) OR push_bit 8 (ucast (ucast (drop_bit 8 b) :: u8)) :: u16)
    OR push_bit 16 (ucast (ucast (drop_bit 16 b) :: u8)) OR push_bit 24 (ucast (ucast (drop_bit 24 b) :: u8)) = b"
proof (rule bit_word_eqI)
  fix n :: nat
  consider "n < 8" | "8 \<le> n" "n < 16" | "16 \<le> n" "n < 24" | "24 \<le> n" by linarith
  then show "bit (ucast (ucast (ucast (b :: u32) :: u8) OR push_bit 8 (ucast (ucast (drop_bit 8 b) :: u8)) :: u16)
      OR push_bit 16 (ucast (ucast (drop_bit 16 b) :: u8)) OR push_bit 24 (ucast (ucast (drop_bit 24 b) :: u8)) :: u32) n = bit b n"
    by cases (auto simp: bit_simps dest: bit_imp_le_length)
qed

lemma put32_bytes:
  assumes "u + 4 \<le> 2 ^ 32" "k < 2 ^ 32" "k < u \<or> u + 4 \<le> k"
  shows "put32 (of_nat u) x m (of_nat k) = m (of_nat k)"
  using assms by (auto simp: put32_def of_nat_add_numeral of_nat_u32_eq simp del: of_nat_add of_nat_Suc)

lemma tls_index_small: "tls_index e s = Some i \<Longrightarrow> e = - 1 \<or> unat e < 9 \<Longrightarrow> i < 9"
  by (auto simp: tls_index_def split: if_splits)

lemma tls_updates_base:
  assumes g: "g = unat (dtr_base (gdtr s))" "g + 90 \<le> MEM_BYTES" "gdtr s' = gdtr s" and i: "i < 9"
    and m: "\<And>k. k < 90 \<Longrightarrow> mem s' (of_nat (g + k)) = tls_image (g + i * 10) base limit bf s (g + k)"
  shows "get_gdt_base sel s' = (if gdt_index sel = i then Inr base else get_gdt_base sel s)"
proof -
  let ?j = "gdt_index sel"
  have j: "?j < 9" by (simp add: gdt_index_def GDT_ENTRIES_def)
  have b: "mem s' (of_nat (g + ?j * 10 + k)) = tls_image (g + i * 10) base limit bf s (g + ?j * 10 + k)" if "k < 10" for k
    using m [of "?j * 10 + k"] j that by (simp add: add.assoc)
  have o: "tls_image (g + i * 10) base limit bf s (g + ?j * 10 + k) = mem s (of_nat (g + ?j * 10 + k))" if "?j \<noteq> i" "k < 10" for k
  proof -
    have "g + ?j * 10 + k < g + i * 10 \<or> g + i * 10 + 10 \<le> g + ?j * 10 + k" using that by linarith
    then show ?thesis by (auto simp: tls_image_def)
  qed
  have "get_gdt_base sel s' = Inr base" if "?j = i"
    using g b that by (simp add: get_gdt_base_bytes Let_def tls_image_def base_bytes
        del: of_nat_add of_nat_Suc add_2_eq_Suc')
  moreover have "get_gdt_base sel s' = get_gdt_base sel s" if "?j \<noteq> i"
    using g b o [OF that] by (simp add: get_gdt_base_bytes Let_def del: of_nat_add of_nat_Suc add_2_eq_Suc')
  ultimately show ?thesis by simp
qed

lemma set_thread_area_core:
  assumes u: "u = unat (arg1 s)" "u + 16 \<le> MEM_BYTES" and g: "g = unat (dtr_base (gdtr s))" "g + 90 \<le> MEM_BYTES"
    and apart: "u + 16 \<le> g \<or> g + 90 \<le> u"
    and v: "load32 (PMem u) s = Inr e" "load32 (PMem (u + 4)) s = Inr base" "load32 (PMem (u + 8)) s = Inr limit"
      "load32 (PMem (u + 12)) s = Inr bf" and e: "e = - 1 \<or> unat e < 9"
  shows "(tls_index e s = None \<longrightarrow> do_set_thread_area h s = Inr (- 1, s)) \<and>
    (\<forall>i. tls_index e s = Some i \<longrightarrow> (\<exists>s'. do_set_thread_area h s = Inr (0, s') \<and> var s' = var s \<and>
      load32 (PMem u) s' = Inr (of_nat i) \<and> load8 (PMem (g + i * 10 + 8)) s' = Inr 1 \<and>
      (\<forall>sel. get_gdt_base sel s' = (if gdt_index sel = i then Inr base else get_gdt_base sel s))))"
proof -
  have e8: "unat (ucast e :: u8) = unat e" if "e \<noteq> - 1"
    using e that by (simp add: unsigned_ucast_eq take_bit_nat_eq_self)
  have found: "(if e \<noteq> - 1 then Inr (Some (unat (ucast e :: u8))) else tls_search [0..<3] s) = Inr (tls_index e s)"
    using g e8 tls_search_find by (simp add: tls_index_def)
  have none: "do_set_thread_area h s = Inr (- 1, s)" if "tls_index e s = None"
    using v(1) u(1) found that by (simp add: do_set_thread_area_def del: load32.simps)
  have some: "\<exists>s'. do_set_thread_area h s = Inr (0, s') \<and> var s' = var s \<and> load32 (PMem u) s' = Inr (of_nat i) \<and>
      load8 (PMem (g + i * 10 + 8)) s' = Inr 1 \<and>
      (\<forall>sel. get_gdt_base sel s' = (if gdt_index sel = i then Inr base else get_gdt_base sel s))"
    if i: "tls_index e s = Some i" for i
  proof -
    have i9: "i < 9" using tls_index_small [OF i e] .
    obtain t where t: "tls_fill (g + i * 10) u s = Inr t" "var t = var s" "gdtr t = gdtr s"
      "\<forall>k < 2 ^ 32. mem t (of_nat k) = tls_image (g + i * 10) base limit bf s k"
      using tls_fill_pokes [of "g + i * 10" u s base limit bf] u(2) g(2) apart v(2-4) i9 by auto
    obtain s' where s': "store32 (PMem u) (of_nat i) t = Inr s'" "s' = mem_update (put32 (of_nat u) (of_nat i)) t"
      using u(2) by simp
    have m: "mem s' (of_nat (g + k)) = tls_image (g + i * 10) base limit bf s (g + k)" if "k < 90" for k
      using that t(4) u(2) g(2) apart by (auto simp: s'(2) put32_bytes MEM_BYTES_def simp del: of_nat_add)
    have used: "load8 (PMem (g + i * 10 + 8)) s' = Inr 1"
      using m [of "i * 10 + 8"] i9 g(2) by (simp add: tls_image_def MEM_BYTES_def add.assoc del: of_nat_add of_nat_mult)
    have "do_set_thread_area h s = Inr (0, s')"
      using v(1) u(1) found i t(1) s'(1) g(1)
      by (simp add: do_set_thread_area_def desc_addr_def sizeof_GDT_Descriptor_def del: load32.simps store32.simps)
    moreover have "var s' = var s" "gdtr s' = gdtr s" using t s'(2) by simp_all
    ultimately show ?thesis
      using c32.ld_st [OF s'(1)] used tls_updates_base [OF g _ i9 m] by blast
  qed
  show ?thesis using none some by blast
qed

text \<open>
  C27 (set_thread_area). For a request outside the descriptor table, with an entry number below
  9 or -1, the call installs the base address: afterwards every selector of the chosen
  descriptor, and no other, translates to it; the entry number is stored back and the
  descriptor is marked as used. With -1 the first reserved descriptor not in use is chosen, and
  when all three are in use the call returns -1 and changes nothing.
\<close>

theorem set_thread_area_tls:
  assumes u: "u = unat (arg1 s)" "u + 16 \<le> MEM_BYTES" and g: "g = unat (dtr_base (gdtr s))" "g + 90 \<le> MEM_BYTES"
    and apart: "u + 16 \<le> g \<or> g + 90 \<le> u"
    and v: "load32 (PMem u) s = Inr e" "load32 (PMem (u + 4)) s = Inr base" "load32 (PMem (u + 8)) s = Inr limit"
      "load32 (PMem (u + 12)) s = Inr bf" and e: "e = - 1 \<or> unat e < 9"
  shows "(tls_index e s = None \<longrightarrow> do_set_thread_area h s = Inr (- 1, s)) \<and>
    (\<forall>i. tls_index e s = Some i \<longrightarrow> (\<exists>s'. do_set_thread_area h s = Inr (0, s') \<and> var s' = var s \<and>
      load32 (PMem u) s' = Inr (of_nat i) \<and> load8 (PMem (g + i * 10 + 8)) s' = Inr 1 \<and>
      (\<forall>sel. get_gdt_base sel s' = (if gdt_index sel = i then Inr base else get_gdt_base sel s))))"
  using set_thread_area_core [OF assms] .

theorem set_thread_area_tls_witness:
  "\<exists>s'. do_set_thread_area idle_host (wr EBX 0x100 (static_init\<lparr>mem := put32 0x104 0x12345678 (put32 0x100 0xFFFFFFFF (\<lambda>_. 0))\<rparr>)) = Inr (0, s') \<and>
    load32 (PMem 0x100) s' = Inr 6 \<and> get_gdt_base 0x33 s' = Inr 0x12345678"
proof -
  let ?s = "wr EBX 0x100 (static_init\<lparr>mem := put32 0x104 0x12345678 (put32 0x100 0xFFFFFFFF (\<lambda>_. 0))\<rparr>)"
  have v: "load32 (PMem 0x100) ?s = Inr 0xFFFFFFFF" "load32 (PMem (0x100 + 4)) ?s = Inr 0x12345678"
    "load32 (PMem (0x100 + 8)) ?s = Inr 0" "load32 (PMem (0x100 + 12)) ?s = Inr 0"
    by (simp_all add: MEM_BYTES_def le32_def put32_def)
  have "tls_index 0xFFFFFFFF ?s = Some 6" by (simp add: tls_index_def static_init_def put32_def)
  moreover have "(0x100 :: nat) = unat (arg1 ?s)" "(0x100 :: nat) + 16 \<le> MEM_BYTES" "0 = unat (dtr_base (gdtr ?s))"
    "0 + 90 \<le> MEM_BYTES" "(0x100 :: nat) + 16 \<le> 0 \<or> 0 + 90 \<le> (0x100 :: nat)" "(0xFFFFFFFF :: u32) = - 1 \<or> unat (0xFFFFFFFF :: u32) < 9"
    by (simp_all add: arg1_def MEM_BYTES_def static_init_def)
  moreover have "gdt_index 0x33 = 6" by (simp add: gdt_index_def GDT_ENTRIES_def)
  ultimately show ?thesis using set_thread_area_tls [OF _ _ _ _ _ v] by (metis of_nat_numeral)
qed

lemma words_at_Cons:
  "words_at a (x # xs) s \<longleftrightarrow> load32 (PMem a) s = Inr x \<and> words_at (a + 4) xs s"
  by (auto simp: words_at_def less_Suc_eq_0_disj add.assoc simp del: load32.simps)

lemma buffer_size_words:
  assumes "words_at a (xs @ [0]) s" "0 \<notin> set xs" "n \<le> length xs"
  shows "buffer_size_from a n s = Inr (length xs)"
  using assms(3)
proof (induction "length xs - n" arbitrary: n)
  case 0
  then have "n = length xs" by simp
  moreover have "load32 (PMem (a + 4 * length xs)) s = Inr 0" using assms(1) by (simp add: words_at_def nth_append del: load32.simps)
  moreover from this have "a + 4 * length xs + 4 \<le> MEM_BYTES" by (simp split: if_splits)
  ultimately show ?case by (simp add: buffer_size_from.simps [of a "length xs"] del: buffer_size_from.simps load32.simps)
next
  case (Suc k)
  then have n: "n < length xs" by simp
  have x: "load32 (PMem (a + 4 * n)) s = Inr (xs ! n)"
    using assms(1) n by (auto simp: words_at_def nth_append simp del: load32.simps)
  moreover have "xs ! n \<noteq> 0" using assms(2) nth_mem [OF n] by metis
  moreover have "a + 4 * n + 4 \<le> MEM_BYTES" using x by (simp split: if_splits)
  ultimately show ?case
    using Suc n by (simp add: buffer_size_from.simps [of a n] del: buffer_size_from.simps load32.simps)
qed

lemma translate_words: "words_at a xs s \<Longrightarrow> translate_buffer_dirs_32_to_64 a (length xs) s = Inr xs"
  by (induction xs arbitrary: a) (simp_all add: words_at_Cons del: load32.simps)

lemma words_at_append: "words_at a (xs @ ys) s \<Longrightarrow> words_at a xs s"
  by (auto simp: words_at_def nth_append simp del: load32.simps dest!: spec split: if_splits)

text \<open>
  C37 (execve vectors). When the words at \<open>a\<close> are \<open>xs\<close>, none of them zero, followed by a zero
  word, the argument vector is translated to exactly \<open>xs\<close>: the scan for the terminator ends
  there and every pointer before it is passed on in order.
\<close>

theorem execve_vectors:
  assumes a: "words_at (unat (arg2 s)) (xs @ [0]) s" "0 \<notin> set xs"
    and e: "words_at (unat (arg3 s)) (ys @ [0]) s" "0 \<notin> set ys" and "\<And>n. h_malloc h n"
  shows "do_execve h s = ksys h ''execve'' [KPtr (arg1 s), KPtrs xs, KPtrs ys] s"
proof -
  have "pointer_vector h k s = Inr (KPtrs zs)" if "words_at k (zs @ [0]) s" "0 \<notin> set zs" for k zs
    using buffer_size_words [OF that, of 0] translate_words [OF words_at_append [OF that(1)]] assms(5)
    by (simp add: pointer_vector_def buffer_size_def del: buffer_size_from.simps)
  from this [OF a] this [OF e] show ?thesis by (simp add: do_execve_def)
qed

theorem execve_vectors_witness:
  "do_execve idle_host (wr EDX 0x200 (wr ECX 0x100 (static_init\<lparr>mem := put32 0x100 0x300 (\<lambda>_. 0)\<rparr>))) =
    ksys idle_host ''execve'' [KPtr 0, KPtrs [0x300], KPtrs []]
      (wr EDX 0x200 (wr ECX 0x100 (static_init\<lparr>mem := put32 0x100 0x300 (\<lambda>_. 0)\<rparr>)))"
  using execve_vectors [of "wr EDX 0x200 (wr ECX 0x100 (static_init\<lparr>mem := put32 0x100 0x300 (\<lambda>_. 0)\<rparr>))"
      "[0x300]" "[]" idle_host]
  by (simp add: words_at_def less_Suc_eq arg_defs MEM_BYTES_def le32_def put32_def idle_host_def static_init_def)

lemma iovecs_words:
  "words_at a (concat (map (\<lambda>(b, l). [b, l]) vs)) s \<Longrightarrow>
    iovecs_64 a (length vs) s = Inr (map (\<lambda>(b, l). (b, ucast l)) vs)"
  by (induction vs arbitrary: a) (auto simp: words_at_Cons add.assoc simp del: load32.simps)

text \<open>
  C38 (writev). With a non-negative count and its vector of structures in memory, the host
  receives one buffer per structure: the guest address and the zero-extended length.
\<close>

theorem writev_vectors:
  assumes "words_at (unat (arg2 s)) (concat (map (\<lambda>(b, l). [b, l]) vs)) s"
    and "sint (arg3 s) = int (length vs)" "h_malloc h (length vs * 16)"
  shows "do_writev h s = ksys h ''writev'' [KInt (arg1 s), KIov (map (\<lambda>(b, l). (b, ucast l)) vs), KInt (arg3 s)] s"
proof -
  have "unat (arg3 s) = length vs"
    using assms(2) uint_sint [of "arg3 s"] sint_bounds [of "arg3 s"]
    by (simp add: take_bit_int_eq_self unat_eq_nat_uint)
  then show ?thesis using assms iovecs_words by (simp add: do_writev_def Let_def)
qed

theorem writev_vectors_witness:
  "do_writev idle_host (wr EDX 1 (wr ECX 0x100 (static_init\<lparr>mem := put32 0x104 5 (put32 0x100 0x300 (\<lambda>_. 0))\<rparr>))) =
    ksys idle_host ''writev'' [KInt 0, KIov [(0x300, 5)], KInt 1]
      (wr EDX 1 (wr ECX 0x100 (static_init\<lparr>mem := put32 0x104 5 (put32 0x100 0x300 (\<lambda>_. 0))\<rparr>)))"
  using writev_vectors [of "wr EDX 1 (wr ECX 0x100 (static_init\<lparr>mem := put32 0x104 5 (put32 0x100 0x300 (\<lambda>_. 0))\<rparr>))"
      "[(0x300, 5)]" idle_host]
  by (simp add: words_at_def less_Suc_eq arg_defs MEM_BYTES_def le32_def put32_def idle_host_def static_init_def)

end
