(* ===== verification/VM_Dispatch.thy ===== *)
theory VM_Dispatch
  imports VM_Syscalls
begin

text \<open>
  Software interrupts (\<open>src/src/interrupts.c\<close>, with INT and INTO of \<open>src/src/instr.c\<close>) and
  the dispatcher of \<open>src/src/instr.c\<close>, which finds the handler of a mnemonic by a linear
  search in the table \<open>inss\<close>.
\<close>

section \<open>Interrupts\<close>

type_synonym interrupt = "cpu \<Rightarrow> (u32 \<times> cpu) res"

definition unimplemented :: interrupt where
  "unimplemented s = Inr (0, s)"

text \<open>The number indexes the table \<open>syscalls\<close> without a check.\<close>

definition int80 :: "host \<Rightarrow> interrupt" where
  "int80 h s =
     (let n = unat (var s EAX) in
      if n < length syscalls then
        bnd ((syscalls ! n) h s) (\<lambda>(r, s). let s = wr EAX r s in Inr (var s EAX, s))
      else Inl OutOfBounds)"

definition idt :: "host \<Rightarrow> interrupt list" where
  "idt h = replicate 128 unimplemented @ [int80 h] @ replicate 143 unimplemented"

definition int_dispatcher :: "host \<Rightarrow> u8 \<Rightarrow> interrupt" where
  "int_dispatcher h v s = (idt h ! unat v) s"

text \<open>The handlers return the \<open>uint32_t\<close> of the interrupt as an \<open>int\<close>.\<close>

definition int_i :: "host \<Rightarrow> handler" where
  "int_i h i s =
     (let s = adv i s; v = ucast (op_imm (op1 i)) :: u8 in
      if v = 0 then Inr (- 1, s)
      else bnd (int_dispatcher h v s) (\<lambda>(r, s). Inr (sint r, s)))"

definition into_i :: "host \<Rightarrow> handler" where
  "into_i h i s =
     (let s = adv i s in bnd (int_dispatcher h 0x4 s) (\<lambda>(r, s). Inr (sint r, s)))"

section \<open>Tables\<close>

definition NINS :: nat where
  "NINS = 205"

definition inss :: "string list" where
  "inss = [
     ''aaa'', ''aad'', ''aam'', ''aas'', ''adc'', ''add'', ''and'', ''arpl'', ''bound'',
     ''bsf'', ''bsr'', ''bt'', ''btc'', ''btr'', ''bts'', ''call'', ''cbw'', ''cwde'', ''clc'',
     ''cld'', ''cli'', ''clts'', ''cmc'', ''cmp'', ''cmpsb'', ''cmpsw'', ''cmpsd'', ''cwd'',
     ''cdq'', ''daa'', ''das'', ''dec'', ''div'', ''hlt'', ''idiv'', ''imul'', ''in'', ''inc'',
     ''ins'', ''insb'', ''insw'', ''insd'', ''int'', ''into'', ''iret'', ''iretd'', ''ja'',
     ''jae'', ''jb'', ''jbe'', ''jc'', ''jcxz'', ''jecxz_i'', ''je'', ''jg'', ''jge'', ''jl'',
     ''jle'', ''jmp'', ''jna'', ''jnae'', ''jnb'', ''jnbe'', ''jnc'', ''jne'', ''jng'',
     ''jnge'', ''jnl'', ''jnle'', ''jno'', ''jnp'', ''jns'', ''jo'', ''jp'', ''jpe'', ''jpo'',
     ''js'', ''jz'', ''lahf'', ''lar'', ''lea'', ''leave'', ''lgdt'', ''lidt'', ''les'',
     ''lfs'', ''lgs'', ''lds'', ''lss'', ''lldt'', ''lmsw'', ''lock'', ''lods'', ''lodsb'',
     ''lodsw'', ''lodsd'', ''loop'', ''loope'', ''loopne'', ''loopnz'', ''loopz'', ''lsl'',
     ''ltr'', ''mov'', ''movs'', ''movsb'', ''movsw'', ''movsd'', ''movsx'', ''movzx'',
     ''mul'', ''neg'', ''nop'', ''not'', ''or'', ''out'', ''outs'', ''outsb'', ''outsw'',
     ''outsd'', ''pop'', ''popa'', ''popad'', ''popf'', ''popfd'', ''push'', ''pusha'',
     ''pushad'', ''pushf'', ''pushfd'', ''rcl'', ''rcr'', ''rol'', ''ror'', ''ret'', ''sahf'',
     ''sal'', ''sar'', ''shl'', ''shr'', ''sbb'', ''scas'', ''scasb'', ''scasw'', ''scasd'',
     ''seta'', ''setae'', ''setb'', ''setbe'', ''setc'', ''sete'', ''setg'', ''setge'',
     ''setl'', ''setle'', ''setna'', ''setnae'', ''setnb'', ''setnbe'', ''setnc'', ''setne'',
     ''setng'', ''setnge'', ''setnl'', ''setnle'', ''setno'', ''setnp'', ''setns'', ''seto'',
     ''setp'', ''setpe'', ''setpo'', ''sets'', ''setz'', ''sgdt'', ''sidt'', ''shld'',
     ''shrd'', ''sldt'', ''smsw'', ''stc'', ''std'', ''sti'', ''stos'', ''stosb'', ''stosw'',
     ''stosd'', ''sub'', ''test'', ''verr'', ''verw'', ''wait'', ''xchg'', ''xlat'', ''xlatb'',
     ''xor'', ''rep ins'', ''rep movsb'', ''rep movsw'', ''rep movsd'', ''rep outs'',
     ''rep stosb'', ''rep stosw'', ''rep stosd'', '''']"

text \<open>\<open>None\<close> is the null pointer that ends the table.\<close>

definition instructions :: "host \<Rightarrow> handler option list" where
  "instructions h = [
     Some aaa_i, Some aad_i, Some aam_i, Some aas_i, Some adc_i, Some add_i, Some and_i,
     Some arpl_i, Some bound_i, Some bsf_i, Some bsr_i, Some bt_i, Some btc_i, Some btr_i,
     Some bts_i, Some call_i, Some cbw_i, Some cwde_i, Some clc_i, Some cld_i, Some cli_i,
     Some clts_i, Some cmc_i, Some cmp_i, Some cmpsb_i, Some cmpsw_i, Some cmpsd_i, Some cwd_i,
     Some cdq_i, Some daa_i, Some das_i, Some dec_i, Some div_i, Some hlt_i, Some idiv_i,
     Some imul_i, Some (in_i h), Some inc_i, Some (ins_i h), Some (insb_i h), Some (insw_i h),
     Some (insd_i h), Some (int_i h), Some (into_i h), Some iret_i, Some iretd_i, Some ja_i,
     Some jae_i, Some jb_i, Some jbe_i, Some jc_i, Some jcxz_i, Some jecxz_i, Some je_i,
     Some jg_i, Some jge_i, Some jl_i, Some jle_i, Some jmp_i, Some jna_i, Some jnae_i,
     Some jnb_i, Some jnbe_i, Some jnc_i, Some jne_i, Some jng_i, Some jnge_i, Some jnl_i,
     Some jnle_i, Some jno_i, Some jnp_i, Some jns_i, Some jo_i, Some jp_i, Some jpe_i,
     Some jpo_i, Some js_i, Some jz_i, Some lahf_i, Some lar_i, Some lea_i, Some leave_i,
     Some lgdt_i, Some lidt_i, Some les_i, Some lfs_i, Some lgs_i, Some lds_i, Some lss_i,
     Some lldt_i, Some lmsw_i, Some lock_i, Some lods_i, Some lodsb_i, Some lodsw_i,
     Some lodsd_i, Some loop_i, Some loope_i, Some loopne_i, Some loopnz_i, Some loopz_i,
     Some lsl_i, Some ltr_i, Some mov_i, Some movs_i, Some movs_i, Some movs_i, Some movs_i,
     Some movsx_i, Some movzx_i, Some mul_i, Some neg_i, Some nop_i, Some not_i, Some or_i,
     Some (out_i h), Some (outs_i h), Some (outsb_i h), Some (outsw_i h), Some (outsd_i h),
     Some pop_i, Some popa_i, Some popad_i, Some popf_i, Some popfd_i, Some push_i,
     Some pusha_i, Some pushad_i, Some pushf_i, Some pushfd_i, Some rcl_i, Some rcr_i,
     Some rol_i, Some ror_i, Some ret_i, Some sahf_i, Some sal_i, Some sar_i, Some shl_i,
     Some shr_i, Some sbb_i, Some scas_i, Some scas_i, Some scas_i, Some scas_i, Some seta_i,
     Some setae_i, Some setb_i, Some setbe_i, Some setc_i, Some sete_i, Some setg_i,
     Some setge_i, Some setl_i, Some setle_i, Some setna_i, Some setnae_i, Some setnb_i,
     Some setnbe_i, Some setnc_i, Some setne_i, Some setng_i, Some setnge_i, Some setnl_i,
     Some setnle_i, Some setno_i, Some setnp_i, Some setns_i, Some seto_i, Some setp_i,
     Some setpe_i, Some setpo_i, Some sets_i, Some setz_i, Some sgdt_i, Some sidt_i,
     Some shld_i, Some shrd_i, Some sldt_i, Some smsw_i, Some stc_i, Some std_i, Some sti_i,
     Some (stos_i (h_junk h)), Some (stos_i (h_junk h)), Some (stos_i (h_junk h)),
     Some (stos_i (h_junk h)), Some sub_i, Some test_i, Some (verr_i (h_junk h)), Some verw_i,
     Some wait_i, Some xchg_i, Some xlat_i, Some xlat_i, Some xor_i, Some rep_ins_i,
     Some rep_movs_i, Some rep_movs_i, Some rep_movs_i, Some rep_outs_i, Some rep_stos_i,
     Some rep_stos_i, Some rep_stos_i, None]"

section \<open>Dispatcher\<close>

text \<open>The \<open>for\<close> loop of \<open>dispatcher\<close>, over the rows of the two tables.\<close>

fun dispatch_loop :: "(string \<times> handler option) list \<Rightarrow> string \<Rightarrow> handler" where
  "dispatch_loop [] mn i s = Inr (- 1, s)"
| "dispatch_loop ((n, f) # rows) mn i s =
     (if n = mn then (case f of None \<Rightarrow> Inl NullCall | Some g \<Rightarrow> g i s)
      else dispatch_loop rows mn i s)"

definition dispatcher :: "host \<Rightarrow> string \<Rightarrow> handler" where
  "dispatcher h mn i s = dispatch_loop (take NINS (zip inss (instructions h))) mn i s"

section \<open>Properties\<close>

lemma inss_shape: "length inss = NINS" "length (instructions h) = NINS" "distinct inss"
  by (simp_all add: inss_def instructions_def NINS_def)

lemma dispatch_hit:
  "distinct (map fst rows) \<Longrightarrow> k < length rows \<Longrightarrow> rows ! k = (mn, f) \<Longrightarrow>
    dispatch_loop rows mn i s = (case f of None \<Rightarrow> Inl NullCall | Some g \<Rightarrow> g i s)"
proof (induction rows arbitrary: k)
  case (Cons row rows)
  show ?case
  proof (cases k)
    case 0
    then show ?thesis using Cons.prems by simp
  next
    case (Suc m)
    then have m: "m < length rows" "rows ! m = (mn, f)" using Cons.prems by simp_all
    then have "(mn, f) \<in> set rows" using nth_mem [OF m(1)] by simp
    then have "fst row \<noteq> mn" using Cons.prems(1) by (auto simp: image_iff)
    then show ?thesis using Cons.IH [OF _ m] Cons.prems(1) by (cases row) simp
  qed
qed simp

lemma dispatch_miss: "mn \<notin> fst ` set rows \<Longrightarrow> dispatch_loop rows mn i s = Inr (- 1, s)"
  by (induction rows) auto

lemma dispatcher_row:
  "k < NINS \<Longrightarrow> dispatcher h (inss ! k) i s = (case instructions h ! k of None \<Rightarrow> Inl NullCall | Some g \<Rightarrow> g i s)"
  unfolding dispatcher_def by (rule dispatch_hit [of _ k]) (simp_all add: inss_shape)

lemma dispatcher_other: "mn \<notin> set inss \<Longrightarrow> dispatcher h mn i s = Inr (- 1, s)"
  unfolding dispatcher_def by (rule dispatch_miss) (auto dest!: in_set_takeD elim: in_set_zipE)

lemma instructions_ends: "None \<notin> set (butlast (instructions h))" "instructions h ! (NINS - 1) = None"
  by (simp_all add: instructions_def NINS_def)

text \<open>
  C14 (dispatcher). Every row of the two tables is reachable by its mnemonic: the linear search
  for the mnemonic of row \<open>k\<close> calls the handler of row \<open>k\<close> and no other, the last row (the empty
  mnemonic) calls a null pointer, and a mnemonic outside the table leaves the machine unchanged
  and returns -1.
\<close>

theorem dispatcher_table:
  "(k < NINS - 1 \<longrightarrow> (\<exists>f. instructions h ! k = Some f \<and> dispatcher h (inss ! k) i s = f i s)) \<and>
   dispatcher h '''' i s = Inl NullCall \<and>
   (mn \<notin> set inss \<longrightarrow> dispatcher h mn i s = Inr (- 1, s))"
proof -
  have "\<exists>f. instructions h ! k = Some f" if "k < NINS - 1"
    using instructions_ends(1) [of h] that nth_butlast [of k "instructions h"] nth_mem [of k "butlast (instructions h)"]
      inss_shape(2) [of h]
    by (cases "instructions h ! k") auto
  moreover have "inss ! (NINS - 1) = ''''" by (simp add: inss_def NINS_def)
  then have "dispatcher h '''' i s = Inl NullCall"
    using dispatcher_row [of "NINS - 1" h i s] instructions_ends(2) [of h] by (simp add: NINS_def)
  ultimately show ?thesis using dispatcher_row [of k h i s] dispatcher_other [of mn h i s] by fastforce
qed

theorem dispatcher_table_witness:
  "dispatcher idle_host ''nop'' (insn2 (reg_opd 0 0) (reg_opd 0 0)) static_init =
     nop_i (insn2 (reg_opd 0 0) (reg_opd 0 0)) static_init \<and>
   dispatcher idle_host ''fadd'' (insn2 (reg_opd 0 0) (reg_opd 0 0)) static_init = Inr (- 1, static_init)"
proof -
  have "112 < NINS - 1" "inss ! 112 = ''nop''" "instructions idle_host ! 112 = Some nop_i" "''fadd'' \<notin> set inss"
    by (simp_all add: NINS_def inss_def instructions_def)
  then show ?thesis
    using dispatcher_table [of 112 idle_host "insn2 (reg_opd 0 0) (reg_opd 0 0)" static_init "''fadd''"] by auto
qed

text \<open>
  JECXZ. The table spells the mnemonic with the handler's suffix, so the disassembler's
  \<open>jecxz\<close> is not found, and the handler is only called for \<open>jecxz_i\<close>.
\<close>

lemma jecxz_unreachable:
  "dispatcher h ''jecxz'' i s = Inr (- 1, s) \<and> dispatcher h ''jecxz_i'' i s = jecxz_i i s"
proof -
  have "inss ! 52 = ''jecxz_i''" "instructions h ! 52 = Some jecxz_i" "''jecxz'' \<notin> set inss"
    by (simp_all add: inss_def instructions_def)
  then show ?thesis using dispatcher_row [of 52 h i s] dispatcher_other [of "''jecxz''" h i s] by (simp add: NINS_def)
qed

lemma idt_row: "idt h ! unat v = (if v = 0x80 then int80 h else unimplemented)" for v :: u8
  using unsigned_less [where 'a = nat, of v] by (auto simp: idt_def nth_append nth_Cons' word_unat_eq_iff)

text \<open>
  C35 (INT). Vector 0 is refused, vector 0x80 performs the system call selected by \<open>eax\<close> with
  its result left in \<open>eax\<close> and returned, and every other vector does nothing but advance.
\<close>

theorem int_i_vectors:
  assumes v: "v = (ucast (op_imm (op1 i)) :: u8)"
  shows "int_i h i s =
    (if v = 0 then Inr (- 1, adv i s)
     else if v \<noteq> 0x80 then Inr (0, adv i s)
     else if unat (var s EAX) < length syscalls
       then bnd ((syscalls ! unat (var s EAX)) h (adv i s)) (\<lambda>(r, s'). Inr (sint r, wr EAX r s'))
     else Inl OutOfBounds)"
  by (auto simp: int_i_def int_dispatcher_def v [symmetric] idt_row unimplemented_def int80_def bnd_assoc split_def
      intro!: arg_cong [where f = "bnd ((syscalls ! unat (var s EAX)) h (adv i s))"])

theorem int_i_vectors_witness:
  "int_i idle_host (insn2 (imm_opd 3 1) (reg_opd 0 0)) static_init =
     Inr (0, adv (insn2 (imm_opd 3 1) (reg_opd 0 0)) static_init)"
  using int_i_vectors [of 3 "insn2 (imm_opd 3 1) (reg_opd 0 0)" idle_host static_init]
  by (simp add: sample_defs)

lemma syscalls_shape: "length syscalls = 452" "syscalls ! Suc 0 = do_exit" "syscalls ! 243 = do_set_thread_area"
  by (simp_all add: syscalls_def nth_append)

lemma syscalls_tail: "k < 261 \<Longrightarrow> k \<noteq> 52 \<Longrightarrow> k \<noteq> 67 \<Longrightarrow> syscalls ! (191 + k) = unimpl"
proof -
  assume k: "k < 261" "k \<noteq> 52" "k \<noteq> 67"
  have "syscalls ! (191 + k) = drop 191 syscalls ! k" by (simp add: syscalls_shape)
  also have "drop 191 syscalls = replicate 52 unimpl @ do_set_thread_area # replicate 14 unimpl
      @ do_set_tid_address # replicate 193 unimpl"
    by (simp add: syscalls_def)
  also have "\<dots> ! k = unimpl" using k by (auto simp: nth_append nth_Cons')
  finally show ?thesis .
qed

text \<open>
  C36 (system-call numbers). Every number from 0 to 451 is in the table, \<open>exit\<close> returns the value
  that stops the machine and leaves it in \<open>eax\<close>, a number of 191 or more other than
  \<open>set_thread_area\<close> (243) and \<open>set_tid_address\<close> (258) does nothing but clear \<open>eax\<close>, and a number
  beyond the table indexes outside of it.
\<close>

theorem int80_numbers:
  "(var s EAX = 1 \<longrightarrow> int80 h s = Inr (0xdeadbeef, wr EAX 0xdeadbeef s)) \<and>
   (191 \<le> unat (var s EAX) \<and> unat (var s EAX) < 452 \<and> unat (var s EAX) \<notin> {243, 258} \<longrightarrow>
      int80 h s = Inr (0, wr EAX 0 s)) \<and>
   (452 \<le> unat (var s EAX) \<longrightarrow> int80 h s = Inl OutOfBounds)"
proof -
  let ?n = "unat (var s EAX)"
  have "syscalls ! ?n = unimpl" if "191 \<le> ?n" "?n < 452" "?n \<notin> {243, 258}"
    using that syscalls_tail [of "?n - 191"] by auto
  moreover have "var s EAX = 1 \<Longrightarrow> ?n = 1" by simp
  ultimately show ?thesis
    by (auto simp: int80_def syscalls_shape unimpl_def do_exit_def Let_def)
qed

theorem int80_numbers_witness:
  "int80 idle_host (wr EAX 1 static_init) = Inr (0xdeadbeef, wr EAX 0xdeadbeef (wr EAX 1 static_init)) \<and>
   int80 idle_host (wr EAX 300 static_init) = Inr (0, wr EAX 0 (wr EAX 300 static_init)) \<and>
   int80 idle_host (wr EAX 452 static_init) = Inl OutOfBounds"
  using int80_numbers [of "wr EAX 1 static_init" idle_host] int80_numbers [of "wr EAX 300 static_init" idle_host]
    int80_numbers [of "wr EAX 452 static_init" idle_host]
  by simp

end
