(* ===== verification/VM_Loader.thy ===== *)
theory VM_Loader
  imports VM_Dispatch "HOL-Library.Multiset"
begin

text \<open>
  The loader, \<open>src/src/loader.c\<close>: an ELF or a raw file is copied into guest memory, the
  executable sections and the function symbols are collected for the debugger, and the
  initial stack of the guest is built (strings, auxiliary vector, environment, arguments).
  A file is the list of its bytes; the structures of \<open>elf.h\<close> are read from it at their offsets.
  Using a structure that the file is too short to fill is the fault \<open>Uninit\<close>.
\<close>

section \<open>What the loader gets from outside\<close>

text \<open>
  Whether \<open>log.txt\<close> can be opened and the guest memory is allocated, the bytes of \<open>argv[2]\<close>
  (\<open>None\<close> when it cannot be opened), how many bytes a read of the raw file delivers, the entries
  of \<open>/proc/self/auxv\<close> (\<open>None\<close> when it cannot be opened), two random numbers, and the contents of
  the array \<open>argv_emu\<close> before it is written.
\<close>

record ldenv =
  log_ok :: bool
  mem_ok :: bool
  in_file :: "u8 list option"
  delivered :: "nat \<Rightarrow> nat"
  auxv :: "(u64 \<times> u64) list option"
  rand1 :: u32
  rand2 :: u32
  vla :: "nat \<Rightarrow> u32"

text \<open>The global variables of the loader.\<close>

record ldr =
  ph_addr :: u32
  ph_size :: u32
  ph_num :: u32
  platform_addr :: u32
  execfn :: u32
  rr :: u32

definition ldr_init :: ldr where
  "ldr_init = \<lparr>ph_addr = 0, ph_size = 0, ph_num = 0, platform_addr = 0, execfn = 0, rr = 0\<rparr>"

section \<open>The auxiliary vector\<close>

type_synonym auxv_getter = "ldr \<Rightarrow> cpu \<Rightarrow> u64 \<Rightarrow> u32"

definition get_AT_PHDR :: auxv_getter where "get_AT_PHDR l s v = ph_addr l"
definition get_AT_PHENT :: auxv_getter where "get_AT_PHENT l s v = ph_size l"
definition get_AT_PHNUM :: auxv_getter where "get_AT_PHNUM l s v = ph_num l"
definition get_AT_BASE :: auxv_getter where "get_AT_BASE l s v = 0x0"
definition get_AT_ENTRY :: auxv_getter where "get_AT_ENTRY l s v = var s EIP"
definition get_AT_GENERIC :: auxv_getter where "get_AT_GENERIC l s v = ucast v"
definition get_AT_PLATFORM :: auxv_getter where "get_AT_PLATFORM l s v = platform_addr l"
definition get_AT_BASE_PLATFORM :: auxv_getter where "get_AT_BASE_PLATFORM l s v = platform_addr l"
definition get_AT_RANDOM :: auxv_getter where "get_AT_RANDOM l s v = rr l"
definition get_AT_EXECFN :: auxv_getter where "get_AT_EXECFN l s v = execfn l"

definition getters :: "auxv_getter list" where
  "getters = [get_AT_GENERIC, get_AT_GENERIC, get_AT_GENERIC, get_AT_PHDR, get_AT_PHENT, get_AT_PHNUM,
     get_AT_GENERIC, get_AT_BASE, get_AT_GENERIC, get_AT_ENTRY] @ replicate 5 get_AT_GENERIC @
     [get_AT_PLATFORM] @ replicate 8 get_AT_GENERIC @ [get_AT_BASE_PLATFORM, get_AT_RANDOM] @
     replicate 5 get_AT_GENERIC @ [get_AT_EXECFN] @ replicate 21 get_AT_GENERIC"

definition AT_NULL :: u64 where "AT_NULL = 0"

text \<open>The \<open>while\<close> loop of \<open>read_auxv\<close>: value and type of every entry up to \<open>AT_NULL\<close>, the system
  pointers (32 and 33) left out.\<close>

fun auxv_loop :: "(u64 \<times> u64) list \<Rightarrow> ldr \<Rightarrow> cpu \<Rightarrow> cpu res" where
  "auxv_loop [] l s = Inr s"
| "auxv_loop ((a_type, a_val) # es) l s =
     (if a_type = AT_NULL then Inr s
      else if a_type = 32 \<or> a_type = 33 then auxv_loop es l s
      else if unat a_type < length getters then
        (let val = (getters ! unat a_type) l s a_val in
         bnd (push32 val s) (\<lambda>s. bnd (push32 (ucast a_type) s) (auxv_loop es l)))
      else Inl OutOfBounds)"

text \<open>The check \<open>fd < 0\<close> never holds for a pointer, so a file that cannot be opened is read.\<close>

definition read_auxv :: "ldenv \<Rightarrow> ldr \<Rightarrow> cpu \<Rightarrow> cpu res" where
  "read_auxv e l s =
     bnd (push32 0x00000000 s) (\<lambda>s. bnd (push32 0x00000000 s) (\<lambda>s.
       case auxv e of None \<Rightarrow> Inl NullDeref | Some es \<Rightarrow> auxv_loop es l s))"

section \<open>The initial stack\<close>

text \<open>\<open>esp -= len; memcpy(&mem[esp], p, len);\<close>\<close>

definition push_bytes :: "u8 list \<Rightarrow> cpu \<Rightarrow> cpu res" where
  "push_bytes bs s =
     (let s = wr ESP (var s ESP - of_nat (length bs)) s in put_bytes (PMem (unat (var s ESP))) 0 bs s)"

text \<open>The strings of a vector, the last one first, each with its terminating 0; the result is the
  array of their addresses.\<close>

fun push_strings :: "u8 list list \<Rightarrow> cpu \<Rightarrow> (u32 list \<times> cpu) res" where
  "push_strings [] s = Inr ([], s)"
| "push_strings (p # ps) s =
     bnd (push_strings ps s) (\<lambda>(as, s). bnd (push_bytes (p @ [0]) s) (\<lambda>s. Inr (var s ESP # as, s)))"

text \<open>The words of an array, the last one first.\<close>

fun push_words :: "u32 list \<Rightarrow> cpu \<Rightarrow> cpu res" where
  "push_words [] s = Inr s"
| "push_words (x # xs) s = bnd (push_words xs s) (push32 x)"

definition platform :: "u8 list" where "platform = [0x78, 0x38, 0x36]"

text \<open>
  Only the strings from \<open>argv[2]\<close> on are pushed, but the addresses from \<open>argv_emu[1]\<close> on:
  \<open>argv_emu[1]\<close> is never assigned, and neither is \<open>execfn\<close>.
\<close>

definition load_stack :: "ldenv \<Rightarrow> int \<Rightarrow> u8 list list \<Rightarrow> u8 list list \<Rightarrow> ldr \<Rightarrow> cpu \<Rightarrow> (ldr \<times> cpu) res" where
  "load_stack e argc argv envp l s =
     bnd (push_strings envp s) (\<lambda>(envp_emu, s).
     bnd (push_strings (drop 2 argv) s) (\<lambda>(addrs, s).
     let argv_emu = take (length argv) [vla e 0, vla e 1] @ addrs in
     bnd (push_bytes (platform @ [0]) s) (\<lambda>s. let l = l\<lparr>platform_addr := var s ESP\<rparr> in
     bnd (push32 (rand1 e) s) (\<lambda>s. bnd (push32 (rand2 e) s) (\<lambda>s.
     let l = l\<lparr>rr := var s ESP\<rparr>; s = wr ESP (var s ESP AND 0xFFFFFFFC) s in
     bnd (read_auxv e l s) (\<lambda>s.
     bnd (push32 0x00000000 s) (\<lambda>s. bnd (push_words envp_emu s) (\<lambda>s.
     bnd (push32 0x00000000 s) (\<lambda>s. bnd (push_words (tl argv_emu) s) (\<lambda>s.
     bnd (push32 (word_of_int (argc - 1)) s) (\<lambda>s. Inr (l, s))))))))))))"

section \<open>ELF structures\<close>

definition field16 :: "u8 list \<Rightarrow> nat \<Rightarrow> u16" where
  "field16 bs k = ucast (bs ! k) OR push_bit 8 (ucast (bs ! (k + 1)))"

definition field32 :: "u8 list \<Rightarrow> nat \<Rightarrow> u32" where
  "field32 bs k = ucast (bs ! k) OR push_bit 8 (ucast (bs ! (k + 1)))
     OR push_bit 16 (ucast (bs ! (k + 2))) OR push_bit 24 (ucast (bs ! (k + 3)))"

text \<open>\<open>fseek(f, off, SEEK_SET); fread(&x, 1, n, f);\<close> into a structure of \<open>n\<close> bytes.\<close>

definition read_struct :: "u8 list \<Rightarrow> nat \<Rightarrow> nat \<Rightarrow> u8 list res" where
  "read_struct f off n = (if off + n \<le> length f then Inr (take n (drop off f)) else Inl Uninit)"

record Elf32_Ehdr =
  e_ident :: "u8 list"
  e_entry :: u32
  e_phoff :: u32
  e_shoff :: u32
  e_phentsize :: u16
  e_phnum :: u16
  e_shentsize :: u16
  e_shnum :: u16
  e_shstrndx :: u16

definition read_ehdr :: "u8 list \<Rightarrow> Elf32_Ehdr res" where
  "read_ehdr f = bnd (read_struct f 0 52) (\<lambda>b. Inr
     \<lparr>e_ident = take 16 b, e_entry = field32 b 24, e_phoff = field32 b 28, e_shoff = field32 b 32,
      e_phentsize = field16 b 42, e_phnum = field16 b 44, e_shentsize = field16 b 46,
      e_shnum = field16 b 48, e_shstrndx = field16 b 50\<rparr>)"

record Elf32_Phdr =
  p_type :: u32
  p_offset :: u32
  p_vaddr :: u32
  p_filesz :: u32

definition sizeof_Phdr :: nat where "sizeof_Phdr = 32"

definition read_phdr :: "u8 list \<Rightarrow> nat \<Rightarrow> Elf32_Phdr res" where
  "read_phdr f off = bnd (read_struct f off sizeof_Phdr) (\<lambda>b. Inr
     \<lparr>p_type = field32 b 0, p_offset = field32 b 4, p_vaddr = field32 b 8, p_filesz = field32 b 16\<rparr>)"

record Elf32_Shdr =
  sh_type :: u32
  sh_flags :: u32
  sh_addr :: u32
  sh_offset :: u32
  sh_size :: u32

definition read_shdr :: "u8 list \<Rightarrow> nat \<Rightarrow> Elf32_Shdr res" where
  "read_shdr f off = bnd (read_struct f off 40) (\<lambda>b. Inr
     \<lparr>sh_type = field32 b 4, sh_flags = field32 b 8, sh_addr = field32 b 12, sh_offset = field32 b 16,
      sh_size = field32 b 20\<rparr>)"

record Elf32_Sym =
  st_name :: u32
  st_value :: u32
  st_info :: u8

definition sizeof_Sym :: nat where "sizeof_Sym = 16"

definition read_sym :: "u8 list \<Rightarrow> nat \<Rightarrow> Elf32_Sym res" where
  "read_sym f off = bnd (read_struct f off sizeof_Sym) (\<lambda>b. Inr
     \<lparr>st_name = field32 b 0, st_value = field32 b 4, st_info = b ! 12\<rparr>)"

definition PT_LOAD :: u32 where "PT_LOAD = 1"
definition SHT_PROGBITS :: u32 where "SHT_PROGBITS = 1"
definition SHT_SYMTAB :: u32 where "SHT_SYMTAB = 2"
definition SHT_STRTAB :: u32 where "SHT_STRTAB = 3"
definition SHF_EXECINSTR :: u32 where "SHF_EXECINSTR = 4"
definition STT_NOTYPE :: u8 where "STT_NOTYPE = 0"
definition STT_FUNC :: u8 where "STT_FUNC = 2"
definition ELFMAG :: "u8 list" where "ELFMAG = [0x7F, 0x45, 0x4C, 0x46]"
definition ELFCLASS32 :: u8 where "ELFCLASS32 = 1"

section \<open>Segments, sections and symbols\<close>

text \<open>\<open>progbits[0]\<close> and \<open>progbits[1]\<close>, \<open>None\<close> while not assigned.\<close>

type_synonym progbits = "u32 option \<times> u32 option"

definition note_progbits :: "Elf32_Phdr \<Rightarrow> progbits \<Rightarrow> progbits" where
  "note_progbits p pb =
     (case pb of (None, b) \<Rightarrow> (Some (p_vaddr p), b) | (Some a, b) \<Rightarrow> (Some a, Some (p_vaddr p + p_filesz p)))"

text \<open>\<open>fread(mem + phdr.p_vaddr, 1, phdr.p_filesz, elf_file)\<close> at \<open>p_offset\<close>.\<close>

definition load_segment :: "u8 list \<Rightarrow> Elf32_Phdr \<Rightarrow> cpu \<Rightarrow> cpu res" where
  "load_segment f p s =
     put_bytes (PMem (unat (p_vaddr p))) 0 (take (unat (p_filesz p)) (drop (unat (p_offset p)) f)) s"

fun load_segments :: "u8 list \<Rightarrow> Elf32_Ehdr \<Rightarrow> nat list \<Rightarrow> ldr \<Rightarrow> progbits \<Rightarrow> cpu \<Rightarrow> (ldr \<times> progbits \<times> cpu) res" where
  "load_segments f eh [] l pb s = Inr (l, pb, s)"
| "load_segments f eh (i # is) l pb s =
     bnd (read_phdr f (unat (e_phoff eh) + i * sizeof_Phdr)) (\<lambda>p.
       if p_type p \<noteq> PT_LOAD then load_segments f eh is l pb s
       else
         (let l = (if i = 0 then l\<lparr>ph_addr := p_vaddr p + e_phoff eh\<rparr> else l) in
          bnd (load_segment f p s) (load_segments f eh is l (note_progbits p pb))))"

text \<open>The result of the scan of the section headers: addresses and sizes of the executable
  sections, then \<open>tabs[0]\<close> and \<open>tabs[1]\<close>.\<close>

type_synonym sections = "(u32 \<times> u32) list \<times> Elf32_Shdr option \<times> Elf32_Shdr option"

text \<open>The offset \<open>i * ehdr.e_shentsize\<close> is a product of type \<open>int\<close>.\<close>

fun scan_sections :: "u8 list \<Rightarrow> Elf32_Ehdr \<Rightarrow> nat list \<Rightarrow> sections \<Rightarrow> sections res" where
  "scan_sections f eh [] acc = Inr acc"
| "scan_sections f eh (i # is) (sheader, tab0, tab1) =
     (if int i * uint (e_shentsize eh) \<ge> 0x80000000 then Inl IntOverflow else
     bnd (read_shdr f (unat (e_shoff eh) + i * unat (e_shentsize eh))) (\<lambda>sh.
       scan_sections f eh is
         (if sh_type sh = SHT_PROGBITS \<and> sh_flags sh AND SHF_EXECINSTR \<noteq> 0
          then (sheader @ [(sh_addr sh, sh_size sh)], tab0, tab1)
          else if sh_type sh = SHT_SYMTAB then (sheader, Some sh, tab1)
          else if sh_type sh = SHT_STRTAB \<and> i \<noteq> unat (e_shstrndx eh) then (sheader, tab0, Some sh)
          else (sheader, tab0, tab1))))"

text \<open>A symbol is kept when it is a function, or has no type and lies between the two addresses.\<close>

definition keep_sym :: "progbits \<Rightarrow> Elf32_Sym \<Rightarrow> bool res" where
  "keep_sym pb y =
     (let t = st_info y AND 0xF in
      if t = STT_FUNC then Inr True
      else if t = STT_NOTYPE then
        (case fst pb of None \<Rightarrow> Inl Uninit
         | Some a \<Rightarrow> if st_value y \<ge> a
             then (case snd pb of None \<Rightarrow> Inl Uninit | Some b \<Rightarrow> Inr (st_value y \<le> b))
             else Inr False)
      else Inr False)"

fun read_symbols :: "u8 list \<Rightarrow> nat \<Rightarrow> nat \<Rightarrow> progbits \<Rightarrow> (u32 \<times> u32) list res" where
  "read_symbols f off 0 pb = Inr []"
| "read_symbols f off (Suc n) pb =
     bnd (read_sym f off) (\<lambda>y. bnd (keep_sym pb y) (\<lambda>k.
     bnd (read_symbols f (off + sizeof_Sym) n pb) (\<lambda>ys.
     Inr (if k then (st_name y, st_value y) # ys else ys))))"

section \<open>The sort\<close>

text \<open>The inner loop, which looks for the smallest address behind position \<open>i\<close>.\<close>

fun min_loop :: "(u32 \<times> u32) list \<Rightarrow> nat list \<Rightarrow> nat \<Rightarrow> nat" where
  "min_loop xs [] min_idx = min_idx"
| "min_loop xs (j # js) min_idx =
     min_loop xs js (if snd (xs ! j) < snd (xs ! min_idx) then j else min_idx)"

definition exchange :: "nat \<Rightarrow> nat \<Rightarrow> (u32 \<times> u32) list \<Rightarrow> (u32 \<times> u32) list" where
  "exchange i j xs = xs[i := xs ! j, j := xs ! i]"

fun sort_loop :: "nat list \<Rightarrow> (u32 \<times> u32) list \<Rightarrow> (u32 \<times> u32) list" where
  "sort_loop [] xs = xs"
| "sort_loop (i # is) xs =
     (let m = min_loop xs [i + 1..<length xs] i in
      sort_loop is (if m \<noteq> i then exchange i m xs else xs))"

text \<open>The bound \<open>(*ccc)-1\<close> is unsigned: for an empty table it is \<open>2 ^ 32 - 1\<close> and the counter, an
  \<open>int\<close>, overflows.\<close>

definition sort_symbols :: "(u32 \<times> u32) list \<Rightarrow> (u32 \<times> u32) list res" where
  "sort_symbols xs = (if xs = [] then Inl IntOverflow else Inr (sort_loop [0..<length xs - 1] xs))"

section \<open>Reading a file\<close>

text \<open>What \<open>read_elf_file\<close> hands to the debugger; \<open>nsyms\<close> is the number of entries that
  \<open>symbols\<close> has room for, and \<open>strtab\<close> is its whole zero-initialised buffer.\<close>

record elf_out =
  sheader :: "(u32 \<times> u32) list"
  symbols :: "(u32 \<times> u32) list"
  nsyms :: nat
  strtab :: "u8 list"

text \<open>The part guarded by \<open>symbols != NULL && *strtab != NULL\<close>. The size \<open>sh_size + 1\<close> of the buffer of the strings
  wraps around.\<close>

definition load_symbols :: "u8 list \<Rightarrow> progbits \<Rightarrow> Elf32_Shdr option \<Rightarrow> Elf32_Shdr option
    \<Rightarrow> ((u32 \<times> u32) list \<times> nat \<times> u8 list) res" where
  "load_symbols f pb tab0 tab1 =
     (case (tab0, tab1) of
        (Some y, Some t) \<Rightarrow>
          (let n = unat (sh_size y) div sizeof_Sym;
               size = unat (sh_size t + 1); strs = take (unat (sh_size t)) (drop (unat (sh_offset t)) f) in
           if length strs > size then Inl OutOfBounds else
           bnd (read_symbols f (unat (sh_offset y)) n pb) (\<lambda>syms.
           bnd (sort_symbols syms) (\<lambda>syms.
           Inr (syms, n, strs @ replicate (size - length strs) 0))))
      | _ \<Rightarrow> Inl Uninit)"

definition read_elf_file :: "ldenv \<Rightarrow> bool \<Rightarrow> int \<Rightarrow> u8 list list \<Rightarrow> u8 list list \<Rightarrow> ldr \<Rightarrow> cpu
    \<Rightarrow> (u32 \<times> elf_out \<times> ldr \<times> cpu) res" where
  "read_elf_file e with_symbols argc argv envp l s =
     (let none = \<lparr>sheader = [], symbols = [], nsyms = 0, strtab = []\<rparr> in
      if \<not> log_ok e then Inr (1, none, l, s)
      else case in_file e of None \<Rightarrow> Inr (1, none, l, s)
      | Some f \<Rightarrow>
          bnd (read_struct f 0 4) (\<lambda>magic. if magic \<noteq> ELFMAG then Inr (1, none, l, s) else
          bnd (read_struct f 4 1) (\<lambda>cls. if cls \<noteq> [ELFCLASS32] then Inr (1, none, l, s)
            else if \<not> mem_ok e then Inr (1, none, l, s)
            else
              bnd (read_ehdr f) (\<lambda>eh.
               let l = l\<lparr>ph_num := ucast (e_phnum eh), ph_size := ucast (e_phentsize eh)\<rparr> in
               bnd (load_segments f eh [0..<unat (e_phnum eh)] l (None, None) s) (\<lambda>(l, pb, s).
               bnd (scan_sections f eh [0..<unat (e_shnum eh)] ([], None, None)) (\<lambda>(hdrs, tab0, tab1).
               bnd (if with_symbols then load_symbols f pb tab0 tab1 else Inr ([], 0, [])) (\<lambda>(syms, n, strs).
               let s = wr EIP (e_entry eh) s in
               bnd (load_stack e argc argv envp l s) (\<lambda>(l, s).
               Inr (0, \<lparr>sheader = hdrs, symbols = syms, nsyms = n, strtab = strs\<rparr>, l, s)))))))))"

text \<open>A file that does not start with the magic number, or not for 32 bits, is refused untouched.\<close>

lemma read_elf_file_refused:
  assumes "log_ok e" "in_file e = Some f" "5 \<le> length f" "take 4 f \<noteq> ELFMAG \<or> f ! 4 \<noteq> ELFCLASS32"
  shows "\<exists>out. read_elf_file e b argc argv envp l s = Inr (1, out, l, s)"
proof -
  have "take 1 (drop 4 f) = [f ! 4]" using assms(3) by (simp add: take_Suc_conv_app_nth)
  then show ?thesis using assms by (auto simp: read_elf_file_def read_struct_def Let_def)
qed

definition EXIT_FAILURE :: u32 where "EXIT_FAILURE = 1"

text \<open>The third component is \<open>*count\<close>.\<close>

definition read_raw_file :: "ldenv \<Rightarrow> cpu \<Rightarrow> (u32 \<times> u32 \<times> cpu) res" where
  "read_raw_file e s =
     (if \<not> log_ok e then Inr (1, 0, s)
      else case in_file e of None \<Rightarrow> Inr (1, 0, s)
      | Some f \<Rightarrow>
          (let size = length f; bs = take (delivered e size) f in
           bnd (put_bytes (PMem 0) 0 bs s) (\<lambda>s.
             if length bs \<noteq> size then Inr (EXIT_FAILURE, 0, s)
             else Inr (0, of_nat size, wr EIP 0x00000000 s))))"

section \<open>The sort is a sort\<close>

lemma min_loop_min:
  "min_loop xs js m \<in> insert m (set js) \<and> (\<forall>k \<in> insert m (set js). snd (xs ! min_loop xs js m) \<le> snd (xs ! k))"
proof (induction js arbitrary: m)
  case (Cons j js)
  show ?case using Cons.IH [of j] Cons.IH [of m] by (auto intro: order_trans less_imp_le)
qed simp

text \<open>The first \<open>k\<close> symbols are in place: none of them has a larger address than a symbol behind it.\<close>

definition placed :: "nat \<Rightarrow> (u32 \<times> u32) list \<Rightarrow> bool" where
  "placed k xs = (\<forall>a b. a < k \<and> a < b \<and> b < length xs \<longrightarrow> snd (xs ! a) \<le> snd (xs ! b))"

lemma exchange_props:
  assumes "i < length xs" "j < length xs"
  shows "mset (exchange i j xs) = mset xs" "length (exchange i j xs) = length xs"
    "k < length xs \<Longrightarrow> exchange i j xs ! k = xs ! (if k = j then i else if k = i then j else k)"
  using assms by (auto simp: exchange_def mset_swap nth_list_update)

lemma select_placed:
  assumes "placed i xs" "i < length xs"
  shows "let m = min_loop xs [i + 1..<length xs] i; ys = (if m \<noteq> i then exchange i m xs else xs) in
    placed (Suc i) ys \<and> mset ys = mset xs \<and> length ys = length xs"
proof -
  define m where "m = min_loop xs [i + 1..<length xs] i"
  have m: "i \<le> m" "m < length xs" "\<And>k. i \<le> k \<Longrightarrow> k < length xs \<Longrightarrow> snd (xs ! m) \<le> snd (xs ! k)"
    using min_loop_min [of xs "[i + 1..<length xs]" i, folded m_def] assms(2) by (auto simp: Suc_le_eq le_less)
  have "placed (Suc i) (exchange i m xs)"
    unfolding placed_def exchange_props(2) [OF assms(2) m(2)]
  proof (intro allI impI, elim conjE)
    fix a b assume ab: "a < Suc i" "a < b" "b < length xs"
    show "snd (exchange i m xs ! a) \<le> snd (exchange i m xs ! b)"
      using ab assms m(1,2) m(3) [of "if b = m then i else if b = i then m else b"]
      by (cases "a = i") (auto simp: exchange_props(3) [OF assms(2) m(2)] placed_def)
  qed
  moreover have "exchange i m xs = xs" if "m = i" using that by (simp add: exchange_def)
  ultimately show ?thesis
    using exchange_props [OF assms(2) m(2)] unfolding m_def [symmetric] by (auto simp: Let_def)
qed

lemma sort_loop_placed:
  "k \<le> n \<Longrightarrow> n \<le> length xs \<Longrightarrow> placed k xs \<Longrightarrow>
    placed n (sort_loop [k..<n] xs) \<and> mset (sort_loop [k..<n] xs) = mset xs \<and> length (sort_loop [k..<n] xs) = length xs"
proof (induction "n - k" arbitrary: k xs)
  case (Suc d)
  then have k: "k < n" "[k..<n] = k # [Suc k..<n]" by (simp_all add: upt_conv_Cons)
  define ys where "ys = (let m = min_loop xs [k + 1..<length xs] k in if m \<noteq> k then exchange k m xs else xs)"
  have ys: "placed (Suc k) ys" "mset ys = mset xs" "length ys = length xs"
    using select_placed [OF Suc.prems(3)] k Suc.prems(2) by (auto simp: ys_def Let_def)
  then show ?case
    using Suc.hyps(1) [of "Suc k" ys] Suc.hyps(2) Suc.prems k(1) unfolding k(2) by (simp add: ys_def Let_def)
qed simp

text \<open>
  C23 (symbol table). A table with at least one symbol is sorted by address, and the sort only
  permutes the pairs of name and address; an empty table makes the loop counter overflow.
\<close>

theorem sort_symbols_sorts:
  "(xs = [] \<longrightarrow> sort_symbols xs = Inl IntOverflow) \<and>
   (xs \<noteq> [] \<longrightarrow> (\<exists>ys. sort_symbols xs = Inr ys \<and> sorted (map snd ys) \<and> mset ys = mset xs))"
proof -
  have "sorted (map snd (sort_loop [0..<length xs - 1] xs)) \<and> mset (sort_loop [0..<length xs - 1] xs) = mset xs"
    using sort_loop_placed [of 0 "length xs - 1" xs] unfolding placed_def
    by (auto simp: sorted_iff_nth_mono_less)
  then show ?thesis by (simp add: sort_symbols_def)
qed

theorem sort_symbols_sorts_witness:
  "\<exists>ys. sort_symbols [(7, 0x30), (8, 0x10), (9, 0x20)] = Inr ys \<and> sorted (map snd ys) \<and>
     mset ys = mset [(7, 0x30), (8, 0x10), (9, 0x20)]"
  using sort_symbols_sorts [of "[(7, 0x30), (8, 0x10), (9, 0x20)]"] by simp

section \<open>A stack that only grows\<close>

text \<open>
  \<open>grows n s s'\<close>: the stack pointer went down by \<open>n\<close>, and no memory outside of the bytes it passed and no
  other register changed.
\<close>

definition grows :: "nat \<Rightarrow> cpu \<Rightarrow> cpu \<Rightarrow> bool" where
  "grows n s s' = (unat (var s' ESP) + n = unat (var s ESP) \<and> (\<forall>v. v \<noteq> ESP \<longrightarrow> var s' v = var s v) \<and>
     (\<forall>k. (k < unat (var s' ESP) \<or> unat (var s ESP) \<le> k) \<and> k < 2 ^ 32 \<longrightarrow> mem s' (of_nat k) = mem s (of_nat k)))"

text \<open>The bytes of a list lie at an address at or above the stack pointer.\<close>

definition bytes_at :: "u32 \<Rightarrow> u8 list \<Rightarrow> cpu \<Rightarrow> bool" where
  "bytes_at a bs s = (unat (var s ESP) \<le> unat a \<and> unat a + length bs \<le> 2 ^ 32 \<and>
     (\<forall>j < length bs. mem s (of_nat (unat a + j)) = bs ! j))"

lemma grows_refl: "grows 0 s s"
  by (simp add: grows_def)

lemma grows_trans: "grows n s t \<Longrightarrow> grows m t u \<Longrightarrow> grows (n + m) s u"
  by (auto simp: grows_def)

lemma grows_esp: "grows n s s' \<Longrightarrow> unat (var s' ESP) = unat (var s ESP) - n"
  by (auto simp: grows_def)

lemma bytes_at_grows: "bytes_at a bs s \<Longrightarrow> grows n s s' \<Longrightarrow> bytes_at a bs s'"
  by (auto simp: bytes_at_def grows_def simp del: of_nat_add)

lemma unat_sub_room: "n \<le> unat (x :: u32) \<Longrightarrow> unat (x - of_nat n) = unat x - n"
proof -
  assume n: "n \<le> unat x"
  then have "unat (of_nat n :: u32) = n"
    using unsigned_less [where 'a = nat, of x] by (simp add: unat_of_nat)
  then show ?thesis using n by (simp add: unat_sub word_le_nat_alt)
qed

lemma push32_grows:
  assumes "4 \<le> unat (var s ESP)"
  shows "\<exists>s'. push32 x s = Inr s' \<and> grows 4 s s'"
proof -
  let ?b = "var s ESP - 4"
  have lt: "unat (var s ESP) < 2 ^ 32" using unsigned_less [where 'a = nat, of "var s ESP"] by simp
  have j: "unat (var s ESP - of_nat j) = unat (var s ESP) - j" if "j \<le> 4" for j
    using that assms by (intro unat_sub_room) simp
  have ok: "idx_ok (var s ESP - of_nat j)" if "0 < j" "j \<le> 4" for j
    using j [of j] that assms lt by (auto simp: idx_ok_def word_unat_eq_iff)
  have m: "put32 ?b x (mem s) (of_nat k) = mem s (of_nat k)" if "k < unat ?b \<or> unat (var s ESP) \<le> k" "k < 2 ^ 32" for k
    using that j [of 4] assms lt put32_bytes [of "unat ?b" k x "mem s"] by simp
  show ?thesis
    using j [of 4] ok [of 1] ok [of 2] ok [of 3] ok [of 4] m assms
    by (auto simp: push32_def write32_def Let_def grows_def)
qed

lemma put_bytes_mem:
  "k + j + length bs \<le> MEM_BYTES \<Longrightarrow> \<exists>s'. put_bytes (PMem k) j bs s = Inr s' \<and> var s' = var s \<and>
    (\<forall>a < 2 ^ 32. mem s' (of_nat a) = (if k + j \<le> a \<and> a < k + j + length bs then bs ! (a - (k + j)) else mem s (of_nat a)))"
proof (induction bs arbitrary: j s)
  case (Cons b bs)
  let ?t = "poke (k + j) b s"
  obtain s' where s': "put_bytes (PMem k) (Suc j) bs ?t = Inr s'" "var s' = var ?t"
    "\<forall>a < 2 ^ 32. mem s' (of_nat a) = (if k + Suc j \<le> a \<and> a < k + Suc j + length bs then bs ! (a - (k + Suc j)) else mem ?t (of_nat a))"
    using Cons.IH [of "Suc j" ?t] Cons.prems by auto
  have "store8 (PMem (k + j)) b s = Inr ?t" using Cons.prems by (simp add: MEM_BYTES_def poke_def)
  moreover have "mem s' (of_nat a) = (if k + j \<le> a \<and> a < k + j + length (b # bs) then (b # bs) ! (a - (k + j)) else mem s (of_nat a))"
    if "a < 2 ^ 32" for a
    using that s'(3) Cons.prems by (auto simp: MEM_BYTES_def nth_Cons' Suc_le_eq simp del: of_nat_add)
  ultimately show ?case using s'(1,2) by (auto simp del: store8.simps)
qed auto

lemma push_bytes_grows:
  assumes "length bs \<le> unat (var s ESP)"
  shows "\<exists>s'. push_bytes bs s = Inr s' \<and> grows (length bs) s s' \<and> bytes_at (var s' ESP) bs s'"
proof -
  define b where "b = var s ESP - of_nat (length bs)"
  have b: "unat b + length bs = unat (var s ESP)" using unat_sub_room [OF assms] assms by (simp add: b_def)
  have lt: "unat (var s ESP) < 2 ^ 32" using unsigned_less [where 'a = nat, of "var s ESP"] by simp
  obtain s' where s': "put_bytes (PMem (unat b)) 0 bs (wr ESP b s) = Inr s'" "var s' = var (wr ESP b s)"
    "\<forall>a < 2 ^ 32. mem s' (of_nat a) = (if unat b \<le> a \<and> a < unat b + length bs then bs ! (a - unat b) else mem s (of_nat a))"
    using put_bytes_mem [of "unat b" 0 bs "wr ESP b s"] b lt by (auto simp: MEM_BYTES_def)
  have "bytes_at (var s' ESP) bs s'"
    unfolding bytes_at_def using s'(2,3) b lt by (auto simp del: of_nat_add)
  moreover have "grows (length bs) s s'" unfolding grows_def using s'(2,3) b by auto
  ultimately show ?thesis using s'(1) by (simp add: push_bytes_def Let_def b_def)
qed


text \<open>\<open>pushed ws s s'\<close>: the stack pointer went down by the words \<open>ws\<close>, which now lie on top of what was
  there, the head at the lowest address.\<close>

definition pushed :: "u32 list \<Rightarrow> cpu \<Rightarrow> cpu \<Rightarrow> bool" where
  "pushed ws s s' = (grows (4 * length ws) s s' \<and>
     (\<forall>ys. content32 ys s \<and> length ws + length ys < 2 ^ 30 \<longrightarrow> content32 (ws @ ys) s'))"

lemma pushed_Nil: "pushed [] s s"
  by (simp add: pushed_def grows_refl)

lemma pushed_trans: "pushed ws s t \<Longrightarrow> pushed vs t u \<Longrightarrow> pushed (vs @ ws) s u"
  using grows_trans [of "4 * length ws" s t "4 * length vs" u] by (auto simp: pushed_def add.commute)

lemma pushed_esp: "pushed ws s s' \<Longrightarrow> unat (var s' ESP) = unat (var s ESP) - 4 * length ws"
  by (auto simp: pushed_def grows_esp)

lemma pushed_var: "pushed ws s s' \<Longrightarrow> v \<noteq> ESP \<Longrightarrow> var s' v = var s v"
  by (auto simp: pushed_def grows_def)

lemma push32_pushed: "4 \<le> unat (var s ESP) \<Longrightarrow> \<exists>s'. push32 x s = Inr s' \<and> pushed [x] s s'"
  using push32_grows [of s x] push32_content [of x s] by (auto simp: pushed_def)

lemma push32_after:
  assumes "pushed ws s t" "4 * length ws + 4 \<le> unat (var s ESP)"
  shows "\<exists>u. push32 x t = Inr u \<and> pushed (x # ws) s u"
proof -
  have "4 \<le> unat (var t ESP)" using pushed_esp [OF assms(1)] assms(2) by simp
  then obtain u where "push32 x t = Inr u" "pushed [x] t u" using push32_pushed by blast
  then show ?thesis using pushed_trans [OF assms(1)] by fastforce
qed

lemma push_words_after:
  "pushed ws s t \<Longrightarrow> 4 * length xs + 4 * length ws \<le> unat (var s ESP) \<Longrightarrow>
    \<exists>u. push_words xs t = Inr u \<and> pushed (xs @ ws) s u"
proof (induction xs)
  case (Cons x xs)
  then obtain u where u: "push_words xs t = Inr u" "pushed (xs @ ws) s u" by auto
  show ?case using push32_after [OF u(2), of x] u(1) Cons.prems(2) by (auto simp: add.commute)
qed auto

text \<open>The addresses that \<open>push_strings\<close> returns are those of the strings.\<close>

lemma push_strings_grows:
  "sum_list (map (\<lambda>p. length p + 1) ps) \<le> unat (var s ESP) \<Longrightarrow> \<exists>as s'. push_strings ps s = Inr (as, s') \<and>
    grows (sum_list (map (\<lambda>p. length p + 1) ps)) s s' \<and> list_all2 (\<lambda>a p. bytes_at a (p @ [0]) s') as ps"
proof (induction ps)
  case (Cons p ps)
  then obtain as t where t: "push_strings ps s = Inr (as, t)" "grows (sum_list (map (\<lambda>p. length p + 1) ps)) s t"
    "list_all2 (\<lambda>a p. bytes_at a (p @ [0]) t) as ps" by auto
  have "length (p @ [0]) \<le> unat (var t ESP)" using grows_esp [OF t(2)] Cons.prems by simp
  from push_bytes_grows [OF this] obtain s' where s': "push_bytes (p @ [0]) t = Inr s'"
    "grows (length (p @ [0])) t s'" "bytes_at (var s' ESP) (p @ [0]) s'" by blast
  moreover have "list_all2 (\<lambda>a p. bytes_at a (p @ [0]) s') as ps"
    using t(3) by (rule list_all2_mono) (rule bytes_at_grows [OF _ s'(2)])
  ultimately show ?case using t grows_trans [OF t(2) s'(2)] by (auto simp: add.commute)
qed (auto simp: grows_refl)

text \<open>The words of the auxiliary vector, from the lowest address up.\<close>

fun aux_words :: "(u64 \<times> u64) list \<Rightarrow> ldr \<Rightarrow> cpu \<Rightarrow> u32 list" where
  "aux_words [] l s = []"
| "aux_words ((a_type, a_val) # es) l s =
     (if a_type = AT_NULL then []
      else if a_type = 32 \<or> a_type = 33 then aux_words es l s
      else aux_words es l s @ [ucast a_type, (getters ! unat a_type) l s a_val])"

lemma length_aux_words: "length (aux_words es l s) \<le> 2 * length es"
  by (induction es l s rule: aux_words.induct) auto

lemma length_getters: "length getters = 53"
  by (simp add: getters_def)

lemma getters_cong:
  assumes "var s EIP = var t EIP" "k < 53"
  shows "(getters ! k) l s v = (getters ! k) l t v"
proof -
  have "\<forall>g \<in> set getters. g l s v = g l t v"
    using assms(1) by (simp add: getters_def get_AT_PHDR_def get_AT_PHENT_def get_AT_PHNUM_def get_AT_BASE_def
        get_AT_ENTRY_def get_AT_GENERIC_def get_AT_PLATFORM_def get_AT_BASE_PLATFORM_def get_AT_RANDOM_def get_AT_EXECFN_def)
  then show ?thesis using assms(2) nth_mem [of k getters] by (auto simp: length_getters)
qed

lemma aux_words_cong:
  "var s EIP = var t EIP \<Longrightarrow> list_all (\<lambda>(a, v). unat a < 53) es \<Longrightarrow> aux_words es l s = aux_words es l t"
  by (induction es l s rule: aux_words.induct) (auto intro: getters_cong)

lemma auxv_loop_pushed:
  "list_all (\<lambda>(a, v). unat a < 53) es \<Longrightarrow> 8 * length es \<le> unat (var s ESP) \<Longrightarrow>
    \<exists>s'. auxv_loop es l s = Inr s' \<and> pushed (aux_words es l s) s s'"
proof (induction es l s rule: auxv_loop.induct)
  case (2 a_type a_val es l s)
  show ?case
  proof (cases "a_type = AT_NULL \<or> a_type = 32 \<or> a_type = 33")
    case True
    then show ?thesis using 2 by (auto simp: pushed_Nil AT_NULL_def)
  next
    case False
    let ?v = "(getters ! unat a_type) l s a_val"
    have a: "unat a_type < length getters" using "2.prems"(1) by (simp add: length_getters)
    obtain t where t: "push32 ?v s = Inr t" "pushed [?v] s t"
      using push32_pushed [of s ?v] "2.prems"(2) by auto
    obtain u where u: "push32 (ucast a_type) t = Inr u" "pushed [ucast a_type, ?v] s u"
      using push32_after [OF t(2), of "ucast a_type"] "2.prems"(2) by auto
    have w: "aux_words es l u = aux_words es l s"
      using pushed_var [OF u(2)] "2.prems"(1) by (intro aux_words_cong) auto
    have room: "8 * length es \<le> unat (var u ESP)" using pushed_esp [OF u(2)] "2.prems"(2) by simp
    obtain s' where s': "auxv_loop es l u = Inr s'" "pushed (aux_words es l s) u s'"
      using "2.IH"(2) [OF _ _ a refl _ room] False "2.prems"(1) unfolding w by auto
    show ?thesis
      using False a t(1) u(1) s'(1) pushed_trans [OF u(2) s'(2)] by auto
  qed
qed (simp add: pushed_Nil)

lemma read_auxv_pushed:
  assumes "auxv e = Some es" "list_all (\<lambda>(a, v). unat a < 53) es" "8 * length es + 8 \<le> unat (var s ESP)"
  shows "\<exists>s'. read_auxv e l s = Inr s' \<and> pushed (aux_words es l s @ [0, 0]) s s'"
proof -
  obtain t where t: "push32 0 s = Inr t" "pushed [0] s t" using push32_pushed [of s 0] assms(3) by auto
  obtain u where u: "push32 0 t = Inr u" "pushed [0, 0] s u" using push32_after [OF t(2), of 0] assms(3) by auto
  have w: "aux_words es l u = aux_words es l s"
    using pushed_var [OF u(2)] assms(2) by (intro aux_words_cong) auto
  have "8 * length es \<le> unat (var u ESP)" using pushed_esp [OF u(2)] assms(3) by simp
  then obtain s' where "auxv_loop es l u = Inr s'" "pushed (aux_words es l s) u s'"
    using auxv_loop_pushed [OF assms(2), of u l] by (auto simp: w)
  then show ?thesis
    using assms(1) t(1) u(1) pushed_trans [OF u(2), of "aux_words es l s"] by (auto simp: read_auxv_def)
qed

lemma align_down:
  fixes x :: u32
  shows "unat (x AND 0xFFFFFFFC) = unat x - unat x mod 4"
proof -
  have "x AND 0xFFFFFFFC = push_bit 2 (drop_bit 2 x)"
    using slice_eq_mask [of 2 30 x] by (simp add: take_bit_drop_bit take_bit_word_eq_self mask_eq_exp_minus_1)
  then have "x AND 0xFFFFFFFC = x - take_bit 2 x" using bits_ident [of 2 x] by (simp add: eq_diff_eq)
  moreover have "unat (take_bit 2 x) = unat x mod 4" by (simp add: take_bit_eq_mod unat_mod)
  ultimately show ?thesis by (simp add: unat_sub word_le_nat_alt)
qed


lemma align_grows:
  "\<exists>n \<le> 3. grows n s (wr ESP (var s ESP AND 0xFFFFFFFC) s) \<and> unat (var s ESP AND 0xFFFFFFFC) mod 4 = 0"
proof -
  let ?n = "unat (var s ESP) mod 4"
  have "?n \<le> 3" using mod_less_divisor [of 4 "unat (var s ESP)"] by linarith
  moreover have "grows ?n s (wr ESP (var s ESP AND 0xFFFFFFFC) s)" by (simp add: grows_def align_down)
  moreover have "unat (var s ESP AND 0xFFFFFFFC) mod 4 = 0"
    using dvd_minus_mod [of 4 "unat (var s ESP)"] by (simp add: align_down)
  ultimately show ?thesis by (intro exI [of _ ?n] conjI)
qed

lemma list_all2_bytes_at_grows:
  "list_all2 (\<lambda>a p. bytes_at a (p @ [0]) s) as ps \<Longrightarrow> grows n s s' \<Longrightarrow> list_all2 (\<lambda>a p. bytes_at a (p @ [0]) s') as ps"
  by (erule list_all2_mono) (rule bytes_at_grows)

text \<open>The strings, the platform name and the random bytes, then the alignment of the stack pointer.\<close>

definition strings_room :: "u8 list list \<Rightarrow> nat" where
  "strings_room ps = sum_list (map (\<lambda>p. length p + 1) ps)"

lemma stack_strings:
  assumes "strings_room envp + strings_room (drop 2 argv) + 16 \<le> unat (var s ESP)"
  shows "\<exists>ea aa s1 s2 s3 s4 s5 n. push_strings envp s = Inr (ea, s1) \<and> push_strings (drop 2 argv) s1 = Inr (aa, s2) \<and>
    push_bytes (platform @ [0]) s2 = Inr s3 \<and> push32 (rand1 e) s3 = Inr s4 \<and> push32 (rand2 e) s4 = Inr s5 \<and>
    (let t = wr ESP (var s5 ESP AND 0xFFFFFFFC) s5 in
       grows n s t \<and> n \<le> strings_room envp + strings_room (drop 2 argv) + 15 \<and> unat (var t ESP) mod 4 = 0 \<and>
       list_all2 (\<lambda>a p. bytes_at a (p @ [0]) t) ea envp \<and> list_all2 (\<lambda>a p. bytes_at a (p @ [0]) t) aa (drop 2 argv) \<and>
       bytes_at (var s3 ESP) (platform @ [0]) t)"
proof -
  obtain ea s1 where s1: "push_strings envp s = Inr (ea, s1)" "grows (strings_room envp) s s1"
    "list_all2 (\<lambda>a p. bytes_at a (p @ [0]) s1) ea envp"
    using push_strings_grows [of envp s] assms unfolding strings_room_def by auto
  have "strings_room (drop 2 argv) \<le> unat (var s1 ESP)" using grows_esp [OF s1(2)] assms by simp
  then obtain aa s2 where s2: "push_strings (drop 2 argv) s1 = Inr (aa, s2)" "grows (strings_room (drop 2 argv)) s1 s2"
    "list_all2 (\<lambda>a p. bytes_at a (p @ [0]) s2) aa (drop 2 argv)"
    using push_strings_grows [of "drop 2 argv" s1] unfolding strings_room_def by auto
  have g2: "grows (strings_room envp + strings_room (drop 2 argv)) s s2" by (rule grows_trans [OF s1(2) s2(2)])
  have "length (platform @ [0]) \<le> unat (var s2 ESP)" using grows_esp [OF g2] assms by (simp add: platform_def)
  then obtain s3 where s3: "push_bytes (platform @ [0]) s2 = Inr s3" "grows 4 s2 s3"
    "bytes_at (var s3 ESP) (platform @ [0]) s3" using push_bytes_grows [of "platform @ [0]" s2] by (auto simp: platform_def numeral_eq_Suc)
  have "4 \<le> unat (var s3 ESP)" using grows_esp [OF g2] grows_esp [OF s3(2)] assms by simp
  then obtain s4 where s4: "push32 (rand1 e) s3 = Inr s4" "grows 4 s3 s4" using push32_grows by blast
  have "4 \<le> unat (var s4 ESP)" using grows_esp [OF g2] grows_esp [OF s3(2)] grows_esp [OF s4(2)] assms by simp
  then obtain s5 where s5: "push32 (rand2 e) s4 = Inr s5" "grows 4 s4 s5" using push32_grows by blast
  define t where "t = wr ESP (var s5 ESP AND 0xFFFFFFFC) s5"
  obtain n where n: "n \<le> 3" "grows n s5 t" "unat (var t ESP) mod 4 = 0" using align_grows [of s5] by (auto simp: t_def)
  have g3: "grows (4 + (4 + n)) s3 t" by (rule grows_trans [OF s4(2) grows_trans [OF s5(2) n(2)]])
  have g: "grows (strings_room (drop 2 argv) + (4 + (4 + (4 + n)))) s1 t"
    by (rule grows_trans [OF s2(2) grows_trans [OF s3(2) g3]])
  show ?thesis
    unfolding Let_def
    using s1(1) s2(1) s3(1) s4(1) s5(1) grows_trans [OF s1(2) g] n(1,3) list_all2_bytes_at_grows [OF s1(3) g]
      list_all2_bytes_at_grows [OF s2(3) grows_trans [OF s3(2) g3]] bytes_at_grows [OF s3(3) g3]
    unfolding t_def by (intro exI conjI) (assumption | simp)+
qed


text \<open>The words of the initial stack.\<close>

lemma stack_words:
  assumes "auxv e = Some es" "list_all (\<lambda>(a, v). unat a < 53) es"
    "8 * length es + 4 * (length ea + length aa) + 20 \<le> unat (var t ESP)"
  shows "\<exists>s1 s2 s3 s4 s5 s'. read_auxv e l t = Inr s1 \<and> push32 0 s1 = Inr s2 \<and> push_words ea s2 = Inr s3 \<and>
    push32 0 s3 = Inr s4 \<and> push_words aa s4 = Inr s5 \<and> push32 x s5 = Inr s' \<and>
    pushed (x # aa @ 0 # ea @ 0 # aux_words es l t @ [0, 0]) t s'"
proof -
  have len: "4 * length (aux_words es l t) \<le> 8 * length es" using length_aux_words [of es l t] by simp
  obtain s1 where s1: "read_auxv e l t = Inr s1" "pushed (aux_words es l t @ [0, 0]) t s1"
    using read_auxv_pushed [OF assms(1,2), of t l] assms(3) by auto
  obtain s2 where s2: "push32 0 s1 = Inr s2" "pushed (0 # aux_words es l t @ [0, 0]) t s2"
    using push32_after [OF s1(2), of 0] assms(3) len by auto
  obtain s3 where s3: "push_words ea s2 = Inr s3" "pushed (ea @ 0 # aux_words es l t @ [0, 0]) t s3"
    using push_words_after [OF s2(2), of ea] assms(3) len by auto
  obtain s4 where s4: "push32 0 s3 = Inr s4" "pushed (0 # ea @ 0 # aux_words es l t @ [0, 0]) t s4"
    using push32_after [OF s3(2), of 0] assms(3) len by auto
  obtain s5 where s5: "push_words aa s4 = Inr s5" "pushed (aa @ 0 # ea @ 0 # aux_words es l t @ [0, 0]) t s5"
    using push_words_after [OF s4(2), of aa] assms(3) len by auto
  obtain s' where "push32 x s5 = Inr s'" "pushed (x # aa @ 0 # ea @ 0 # aux_words es l t @ [0, 0]) t s'"
    using push32_after [OF s5(2), of x] assms(3) len by auto
  then show ?thesis using s1(1) s2(1) s3(1) s4(1) s5(1) by blast
qed

definition stack_need :: "(u64 \<times> u64) list \<Rightarrow> u8 list list \<Rightarrow> u8 list list \<Rightarrow> nat" where
  "stack_need es argv envp =
     strings_room envp + strings_room (drop 2 argv) + 8 * length es + 4 * (length envp + length argv) + 40"

text \<open>
  The layout that the guest finds: the argument count less one, the argument pointers and a 0, the
  environment pointers and a 0, the auxiliary vector with its final pair of zeros; the pointers \<open>aa\<close> and
  \<open>ea\<close> lead to the strings.
\<close>

definition stack_layout :: "int \<Rightarrow> u8 list list \<Rightarrow> u8 list list \<Rightarrow> (u64 \<times> u64) list \<Rightarrow> u32 \<Rightarrow> ldr \<Rightarrow> u32 list \<Rightarrow> u32 list \<Rightarrow> cpu \<Rightarrow> bool" where
  "stack_layout argc argv envp es a0 l aa ea s = (unat (var s ESP) mod 4 = 0 \<and>
     content32 (word_of_int (argc - 1) # a0 # aa @ 0 # ea @ 0 # aux_words es l s @ [0, 0]) s \<and>
     list_all2 (\<lambda>a p. bytes_at a (p @ [0]) s) aa (drop 2 argv) \<and>
     list_all2 (\<lambda>a p. bytes_at a (p @ [0]) s) ea envp \<and> bytes_at (platform_addr l) (platform @ [0]) s)"

lemma load_stack_layout:
  assumes "auxv e = Some es" "list_all (\<lambda>(a, v). unat a < 53) es" "2 \<le> length argv"
    "stack_need es argv envp \<le> unat (var s ESP)"
  shows "\<exists>l' s' ea aa n pa r. load_stack e argc argv envp l s = Inr (l', s') \<and> l' = l\<lparr>platform_addr := pa, rr := r\<rparr> \<and>
    stack_layout argc argv envp es (vla e 1) l' aa ea s' \<and> grows n s s' \<and> n \<le> stack_need es argv envp"
proof -
  from stack_strings [of envp argv s e] assms(4) [unfolded stack_need_def] obtain ea aa s1 s2 s3 s4 s5 n t where
    run: "push_strings envp s = Inr (ea, s1)" "push_strings (drop 2 argv) s1 = Inr (aa, s2)"
      "push_bytes (platform @ [0]) s2 = Inr s3" "push32 (rand1 e) s3 = Inr s4" "push32 (rand2 e) s4 = Inr s5"
    and t: "t = wr ESP (var s5 ESP AND 0xFFFFFFFC) s5" "grows n s t"
      "n \<le> strings_room envp + strings_room (drop 2 argv) + 15" "unat (var t ESP) mod 4 = 0"
    and str: "list_all2 (\<lambda>a p. bytes_at a (p @ [0]) t) ea envp"
      "list_all2 (\<lambda>a p. bytes_at a (p @ [0]) t) aa (drop 2 argv)" "bytes_at (var s3 ESP) (platform @ [0]) t"
    unfolding Let_def by auto
  define l' where "l' = l\<lparr>platform_addr := var s3 ESP, rr := var s5 ESP\<rparr>"
  have len: "length ea = length envp" "length aa = length argv - 2"
    using str(1,2) by (auto dest: list_all2_lengthD)
  have room: "8 * length es + 4 * (length ea + length (vla e 1 # aa)) + 20 \<le> unat (var t ESP)"
    using grows_esp [OF t(2)] t(3) assms(3,4) len by (simp add: stack_need_def)
  let ?ws = "word_of_int (argc - 1) # (vla e 1 # aa) @ 0 # ea @ 0 # aux_words es l' t @ [0, 0]"
  from stack_words [OF assms(1,2) room, of l' "word_of_int (argc - 1)"] obtain u1 u2 u3 u4 u5 s' where
    u: "read_auxv e l' t = Inr u1" "push32 0 u1 = Inr u2" "push_words ea u2 = Inr u3" "push32 0 u3 = Inr u4"
      "push_words (vla e 1 # aa) u4 = Inr u5" "push32 (word_of_int (argc - 1)) u5 = Inr s'" and p: "pushed ?ws t s'"
    by blast
  have w: "aux_words es l' t = aux_words es l' s'" using pushed_var [OF p] assms(2) by (intro aux_words_cong) auto
  have g: "grows (4 * length ?ws) t s'" using p by (simp add: pushed_def)
  then have esp: "unat (var s' ESP) + 4 * length ?ws = unat (var t ESP)" by (simp add: grows_def)
  have "length ?ws < 2 ^ 30" using esp unsigned_less [where 'a = nat, of "var t ESP"] by simp
  then have "content32 ?ws s'" using p dw.content_Nil [of t] by (fastforce simp: pushed_def)
  moreover have "tl (take (length argv) [vla e 0, vla e 1] @ aa) = vla e 1 # aa" using assms(3) by (cases "length argv") auto
  then have "load_stack e argc argv envp l s = Inr (l', s')"
    using run u unfolding load_stack_def l'_def t(1) Let_def by simp
  moreover have "unat (var s' ESP) mod 4 = 0" using esp t(4) by presburger
  moreover have "length (aux_words es l' t) \<le> 2 * length es" by (rule length_aux_words)
  then have "n + 4 * length ?ws \<le> stack_need es argv envp" using t(3) len assms(3) by (simp add: stack_need_def)
  ultimately show ?thesis
    using list_all2_bytes_at_grows [OF str(1) g] list_all2_bytes_at_grows [OF str(2) g] bytes_at_grows [OF str(3) g]
      grows_trans [OF t(2) g]
    unfolding w stack_layout_def by (intro exI [of _ l'] exI [of _ s'] exI [of _ ea] exI [of _ aa]) (auto simp: l'_def)
qed


section \<open>The memory image\<close>

text \<open>The bytes of the file that belong to a segment, and whether they cover an address.\<close>

definition seg_bytes :: "u8 list \<Rightarrow> Elf32_Phdr \<Rightarrow> u8 list" where
  "seg_bytes f p = take (unat (p_filesz p)) (drop (unat (p_offset p)) f)"

definition covers :: "u8 list \<Rightarrow> nat \<Rightarrow> Elf32_Phdr \<Rightarrow> bool" where
  "covers f a p = (unat (p_vaddr p) \<le> a \<and> a < unat (p_vaddr p) + length (seg_bytes f p))"

definition image_byte :: "u8 list \<Rightarrow> Elf32_Phdr list \<Rightarrow> (u32 \<Rightarrow> u8) \<Rightarrow> nat \<Rightarrow> u8" where
  "image_byte f ps m a =
     (case find (covers f a) (rev ps) of None \<Rightarrow> m (of_nat a) | Some p \<Rightarrow> seg_bytes f p ! (a - unat (p_vaddr p)))"

text \<open>The loadable segments among the program headers \<open>js\<close>.\<close>

definition loads :: "u8 list \<Rightarrow> Elf32_Ehdr \<Rightarrow> nat list \<Rightarrow> Elf32_Phdr list" where
  "loads f eh js = filter (\<lambda>p. p_type p = PT_LOAD) (map (\<lambda>i. projr (read_phdr f (unat (e_phoff eh) + i * sizeof_Phdr))) js)"

lemma find_append: "find P (xs @ ys) = (case find P xs of None \<Rightarrow> find P ys | Some x \<Rightarrow> Some x)"
  by (induction xs) auto

lemma load_segment_mem:
  assumes "unat (p_vaddr p) + unat (p_filesz p) \<le> MEM_BYTES"
  shows "\<exists>s'. load_segment f p s = Inr s' \<and> var s' = var s \<and> (\<forall>a < 2 ^ 32. mem s' (of_nat a) = image_byte f [p] (mem s) a)"
proof -
  have "unat (p_vaddr p) + 0 + length (seg_bytes f p) \<le> MEM_BYTES" using assms by (simp add: seg_bytes_def MEM_BYTES_def)
  from put_bytes_mem [OF this, of s] show ?thesis
    by (auto simp: load_segment_def seg_bytes_def [symmetric] image_byte_def covers_def)
qed

lemma image_byte_Cons:
  assumes "\<forall>a < 2 ^ 32. m' (of_nat a) = image_byte f [p] m a" "a < 2 ^ 32"
  shows "image_byte f ps m' a = image_byte f (p # ps) m a"
  using assms by (auto simp: image_byte_def find_append split: option.splits)

text \<open>Every program header can be read, and every loadable segment lies in guest memory.\<close>

definition segments_ok :: "u8 list \<Rightarrow> Elf32_Ehdr \<Rightarrow> nat list \<Rightarrow> bool" where
  "segments_ok f eh js = list_all (\<lambda>i. case read_phdr f (unat (e_phoff eh) + i * sizeof_Phdr) of Inl _ \<Rightarrow> False
     | Inr p \<Rightarrow> p_type p = PT_LOAD \<longrightarrow> unat (p_vaddr p) + unat (p_filesz p) \<le> MEM_BYTES) js"

text \<open>Loading changes memory and \<open>ph_addr\<close>, and notes the first and the last loaded segment.\<close>

lemma load_segments_image:
  "segments_ok f eh js \<Longrightarrow> \<exists>x s'. load_segments f eh js l pb s =
      Inr (l\<lparr>ph_addr := x\<rparr>, fold note_progbits (loads f eh js) pb, s') \<and> var s' = var s \<and>
    (\<forall>a < 2 ^ 32. mem s' (of_nat a) = image_byte f (loads f eh js) (mem s) a)"
proof (induction js arbitrary: l pb s)
  case Nil
  show ?case by (intro exI [of _ "ph_addr l"] exI [of _ s]) (simp add: loads_def image_byte_def)
next
  case (Cons i js)
  then obtain p where p: "read_phdr f (unat (e_phoff eh) + i * sizeof_Phdr) = Inr p" "segments_ok f eh js"
    "p_type p = PT_LOAD \<longrightarrow> unat (p_vaddr p) + unat (p_filesz p) \<le> MEM_BYTES" by (auto simp: segments_ok_def split: sum.splits)
  show ?case
  proof (cases "p_type p = PT_LOAD")
    case True
    then obtain t where t: "load_segment f p s = Inr t" "var t = var s"
      "\<forall>a < 2 ^ 32. mem t (of_nat a) = image_byte f [p] (mem s) a" using load_segment_mem p(3) by blast
    let ?l = "if i = 0 then l\<lparr>ph_addr := p_vaddr p + e_phoff eh\<rparr> else l"
    have l: "?l\<lparr>ph_addr := x\<rparr> = l\<lparr>ph_addr := x\<rparr>" for x by simp
    have "loads f eh (i # js) = p # loads f eh js" using True p(1) by (simp add: loads_def)
    then show ?thesis
      using Cons.IH [OF p(2), of ?l "note_progbits p pb" t, unfolded l] True p(1) t image_byte_Cons [OF t(3)]
      by (simp add: Let_def)
  next
    case False
    then show ?thesis using Cons.IH [OF p(2), of l pb s] p(1) by (simp add: loads_def)
  qed
qed

section \<open>The executable sections\<close>

text \<open>The section headers, and those that go to the debugger.\<close>

definition shdr :: "u8 list \<Rightarrow> Elf32_Ehdr \<Rightarrow> nat \<Rightarrow> Elf32_Shdr" where
  "shdr f eh i = projr (read_shdr f (unat (e_shoff eh) + i * unat (e_shentsize eh)))"

definition executable :: "Elf32_Shdr \<Rightarrow> bool" where
  "executable h = (sh_type h = SHT_PROGBITS \<and> sh_flags h AND SHF_EXECINSTR \<noteq> 0)"

definition exec_sections :: "u8 list \<Rightarrow> Elf32_Ehdr \<Rightarrow> nat list \<Rightarrow> (u32 \<times> u32) list" where
  "exec_sections f eh js = map (\<lambda>h. (sh_addr h, sh_size h)) (filter executable (map (shdr f eh) js))"

definition sections_ok :: "u8 list \<Rightarrow> Elf32_Ehdr \<Rightarrow> nat list \<Rightarrow> bool" where
  "sections_ok f eh js = list_all (\<lambda>i. int i * uint (e_shentsize eh) < 0x80000000 \<and>
     \<not> isl (read_shdr f (unat (e_shoff eh) + i * unat (e_shentsize eh)))) js"

text \<open>The tables: the last one of each kind wins, and the section names do not count as strings.\<close>

definition symtab_of :: "u8 list \<Rightarrow> Elf32_Ehdr \<Rightarrow> nat list \<Rightarrow> Elf32_Shdr option" where
  "symtab_of f eh js = find (\<lambda>h. sh_type h = SHT_SYMTAB) (map (shdr f eh) (rev js))"

definition strtab_of :: "u8 list \<Rightarrow> Elf32_Ehdr \<Rightarrow> nat list \<Rightarrow> Elf32_Shdr option" where
  "strtab_of f eh js = find (\<lambda>h. sh_type h = SHT_STRTAB) (map (shdr f eh) (filter (\<lambda>i. i \<noteq> unat (e_shstrndx eh)) (rev js)))"

lemma scan_sections_acc:
  "sections_ok f eh js \<Longrightarrow> scan_sections f eh js (hs, y, t) =
    Inr (hs @ exec_sections f eh js,
      case symtab_of f eh js of None \<Rightarrow> y | Some h \<Rightarrow> Some h, case strtab_of f eh js of None \<Rightarrow> t | Some h \<Rightarrow> Some h)"
proof (induction js arbitrary: hs y t)
  case Nil
  then show ?case by (simp add: exec_sections_def symtab_of_def strtab_of_def)
next
  case (Cons i js)
  then have ok: "sections_ok f eh js" "read_shdr f (unat (e_shoff eh) + i * unat (e_shentsize eh)) = Inr (shdr f eh i)"
    "int i * uint (e_shentsize eh) < 0x80000000"
    by (auto simp: sections_ok_def shdr_def isl_def split: sum.splits)
  have e: "exec_sections f eh (i # js) = (if executable (shdr f eh i) then [(sh_addr (shdr f eh i), sh_size (shdr f eh i))] else [])
      @ exec_sections f eh js" by (simp add: exec_sections_def)
  have y: "symtab_of f eh (i # js) = (case symtab_of f eh js of None \<Rightarrow>
      if sh_type (shdr f eh i) = SHT_SYMTAB then Some (shdr f eh i) else None | Some h \<Rightarrow> Some h)"
    by (simp add: symtab_of_def find_append split: option.split)
  have t: "strtab_of f eh (i # js) = (case strtab_of f eh js of None \<Rightarrow>
      if sh_type (shdr f eh i) = SHT_STRTAB \<and> i \<noteq> unat (e_shstrndx eh) then Some (shdr f eh i) else None | Some h \<Rightarrow> Some h)"
    by (simp add: strtab_of_def find_append split: option.split)
  show ?case
    using ok(2,3) by (auto simp: Cons.IH [OF ok(1)] e y t executable_def SHT_PROGBITS_def SHT_SYMTAB_def SHT_STRTAB_def split: option.split)
qed

lemma scan_sections_all:
  assumes "sections_ok f eh js"
  shows "scan_sections f eh js ([], None, None) = Inr (exec_sections f eh js, symtab_of f eh js, strtab_of f eh js)"
  using scan_sections_acc [OF assms, of "[]" None None] by (simp split: option.splits)

section \<open>A whole ELF file\<close>

text \<open>A file for 32 bits whose headers can be read and whose segments lie in guest memory.\<close>

definition elf_file :: "u8 list \<Rightarrow> Elf32_Ehdr \<Rightarrow> bool" where
  "elf_file f eh = (take 4 f = ELFMAG \<and> take 1 (drop 4 f) = [ELFCLASS32] \<and> read_ehdr f = Inr eh \<and>
     segments_ok f eh [0..<unat (e_phnum eh)] \<and> sections_ok f eh [0..<unat (e_shnum eh)])"

lemma elf_file_read:
  assumes "elf_file f eh"
  shows "read_struct f 0 4 = Inr ELFMAG" "read_struct f 4 1 = Inr [ELFCLASS32]" "read_ehdr f = Inr eh"
proof -
  have "52 \<le> length f" using assms by (auto simp: elf_file_def read_ehdr_def read_struct_def split: if_splits)
  then show "read_struct f 0 4 = Inr ELFMAG" "read_struct f 4 1 = Inr [ELFCLASS32]" "read_ehdr f = Inr eh"
    using assms by (simp_all add: elf_file_def read_struct_def)
qed

text \<open>Address \<open>a\<close> holds what the loadable segments of the file map there.\<close>

definition elf_image :: "u8 list \<Rightarrow> Elf32_Ehdr \<Rightarrow> (u32 \<Rightarrow> u8) \<Rightarrow> nat \<Rightarrow> u8" where
  "elf_image f eh = image_byte f (loads f eh [0..<unat (e_phnum eh)])"

text \<open>The symbols, when the debugger asks for them.\<close>

definition elf_symbols :: "bool \<Rightarrow> u8 list \<Rightarrow> Elf32_Ehdr \<Rightarrow> ((u32 \<times> u32) list \<times> nat \<times> u8 list) res" where
  "elf_symbols b f eh = (if b then load_symbols f (fold note_progbits (loads f eh [0..<unat (e_phnum eh)]) (None, None))
       (symtab_of f eh [0..<unat (e_shnum eh)]) (strtab_of f eh [0..<unat (e_shnum eh)])
     else Inr ([], 0, []))"

lemma read_elf_file_built:
  assumes "log_ok e" "mem_ok e" "in_file e = Some f" "elf_file f eh" "elf_symbols b f eh = Inr (syms, n, strs)"
    and "auxv e = Some es" "list_all (\<lambda>(a, v). unat a < 53) es" "2 \<le> length argv"
    and "stack_need es argv envp \<le> unat (var s ESP)"
  shows "\<exists>l' s' ea aa m. read_elf_file e b argc argv envp l s =
      Inr (0, \<lparr>sheader = exec_sections f eh [0..<unat (e_shnum eh)], symbols = syms, nsyms = n, strtab = strs\<rparr>, l', s') \<and>
    ph_num l' = ucast (e_phnum eh) \<and> ph_size l' = ucast (e_phentsize eh) \<and> var s' EIP = e_entry eh \<and>
    (\<forall>v. v \<noteq> EIP \<and> v \<noteq> ESP \<longrightarrow> var s' v = var s v) \<and>
    stack_layout argc argv envp es (vla e 1) l' aa ea s' \<and>
    unat (var s' ESP) + m = unat (var s ESP) \<and> m \<le> stack_need es argv envp \<and>
    (\<forall>a < 2 ^ 32. a < unat (var s' ESP) \<or> unat (var s ESP) \<le> a \<longrightarrow> mem s' (of_nat a) = elf_image f eh (mem s) a)"
proof -
  let ?l = "l\<lparr>ph_num := ucast (e_phnum eh), ph_size := ucast (e_phentsize eh)\<rparr>"
  let ?js = "[0..<unat (e_phnum eh)]"
  have ok: "segments_ok f eh ?js" "sections_ok f eh [0..<unat (e_shnum eh)]" using assms(4) by (simp_all add: elf_file_def)
  obtain x t where t: "load_segments f eh ?js ?l (None, None) s = Inr (?l\<lparr>ph_addr := x\<rparr>, fold note_progbits (loads f eh ?js) (None, None), t)"
    "var t = var s" "\<forall>a < 2 ^ 32. mem t (of_nat a) = elf_image f eh (mem s) a"
    using load_segments_image [OF ok(1), of ?l "(None, None)" s] by (auto simp: elf_image_def)
  define u where "u = wr EIP (e_entry eh) t"
  have u: "stack_need es argv envp \<le> unat (var u ESP)" using assms(9) t(2) by (simp add: u_def)
  obtain l' s' ea aa m pa r where s': "load_stack e argc argv envp (?l\<lparr>ph_addr := x\<rparr>) u = Inr (l', s')"
    "l' = ?l\<lparr>ph_addr := x, platform_addr := pa, rr := r\<rparr>" "stack_layout argc argv envp es (vla e 1) l' aa ea s'"
    "grows m u s'" "m \<le> stack_need es argv envp"
    using load_stack_layout [OF assms(6-8) u, of argc "?l\<lparr>ph_addr := x\<rparr>"] by auto
  have "read_elf_file e b argc argv envp l s =
      Inr (0, \<lparr>sheader = exec_sections f eh [0..<unat (e_shnum eh)], symbols = syms, nsyms = n, strtab = strs\<rparr>, l', s')"
    using assms(1-3,5) elf_file_read [OF assms(4)] t(1) scan_sections_all [OF ok(2)] s'(1)
    by (simp add: read_elf_file_def elf_symbols_def u_def Let_def)
  moreover have "var s' EIP = e_entry eh" "\<forall>v. v \<noteq> EIP \<and> v \<noteq> ESP \<longrightarrow> var s' v = var s v"
    "unat (var s' ESP) + m = unat (var s ESP)" using s'(4) t(2) by (simp_all add: grows_def u_def)
  moreover have "\<forall>a < 2 ^ 32. a < unat (var s' ESP) \<or> unat (var s ESP) \<le> a \<longrightarrow> mem s' (of_nat a) = elf_image f eh (mem s) a"
    using s'(4) t(2,3) by (simp add: grows_def u_def)
  ultimately show ?thesis using s'(2,3,5) by (intro exI [of _ l'] exI [of _ s'] exI [of _ ea] exI [of _ aa] exI [of _ m]) simp
qed

text \<open>
  C5 (ELF file). A 32-bit ELF file whose headers can be read, whose segments lie in guest memory and whose
  symbols (when the debugger asks for them) can be read is loaded, when the strings, the auxiliary
  vector and the two arrays fit below the stack pointer and every entry of the vector has a known
  type. The debugger gets the executable sections in the order of the section headers. \<open>eip\<close> is the entry
  point, and no other register but \<open>esp\<close> changes. From an \<open>esp\<close> that is a multiple of 4 upwards lie
  the argument count less one, the argument pointers and a 0, the environment pointers and a 0, and the
  auxiliary vector with its final pair of zeros. Every pointer leads to its string with the terminating 0,
  except the first argument pointer, which is what the array \<open>argv_emu\<close> held before (\<open>argv_emu[1]\<close> is never
  assigned). Outside of that stack an address holds the byte of the file that the last segment
  covering it maps there, and what it held before when none does.
\<close>

theorem read_elf_file_loads:
  assumes "log_ok e" "mem_ok e" "in_file e = Some f" "elf_file f eh" "elf_symbols b f eh = Inr (syms, n, strs)"
    and "auxv e = Some es" "list_all (\<lambda>(a, v). unat a < 53) es" "2 \<le> length argv"
    and "stack_need es argv envp \<le> unat (var s ESP)"
  shows "\<exists>l' s' ea aa. read_elf_file e b argc argv envp l s =
      Inr (0, \<lparr>sheader = exec_sections f eh [0..<unat (e_shnum eh)], symbols = syms, nsyms = n, strtab = strs\<rparr>, l', s') \<and>
    ph_num l' = ucast (e_phnum eh) \<and> ph_size l' = ucast (e_phentsize eh) \<and>
    var s' EIP = e_entry eh \<and> (\<forall>v. v \<noteq> EIP \<and> v \<noteq> ESP \<longrightarrow> var s' v = var s v) \<and>
    unat (var s' ESP) mod 4 = 0 \<and> unat (var s ESP) \<le> unat (var s' ESP) + stack_need es argv envp \<and>
    content32 (word_of_int (argc - 1) # vla e 1 # aa @ 0 # ea @ 0 # aux_words es l' s' @ [0, 0]) s' \<and>
    list_all2 (\<lambda>a p. bytes_at a (p @ [0]) s') aa (drop 2 argv) \<and>
    list_all2 (\<lambda>a p. bytes_at a (p @ [0]) s') ea envp \<and> bytes_at (platform_addr l') (platform @ [0]) s' \<and>
    (\<forall>a < 2 ^ 32. a < unat (var s' ESP) \<or> unat (var s ESP) \<le> a \<longrightarrow>
       mem s' (of_nat a) = image_byte f (loads f eh [0..<unat (e_phnum eh)]) (mem s) a)"
proof -
  obtain l' s' ea aa m where "read_elf_file e b argc argv envp l s =
      Inr (0, \<lparr>sheader = exec_sections f eh [0..<unat (e_shnum eh)], symbols = syms, nsyms = n, strtab = strs\<rparr>, l', s')"
    "ph_num l' = ucast (e_phnum eh)" "ph_size l' = ucast (e_phentsize eh)" "var s' EIP = e_entry eh"
    "\<forall>v. v \<noteq> EIP \<and> v \<noteq> ESP \<longrightarrow> var s' v = var s v" "stack_layout argc argv envp es (vla e 1) l' aa ea s'"
    "unat (var s' ESP) + m = unat (var s ESP)" "m \<le> stack_need es argv envp"
    "\<forall>a < 2 ^ 32. a < unat (var s' ESP) \<or> unat (var s ESP) \<le> a \<longrightarrow> mem s' (of_nat a) = elf_image f eh (mem s) a"
    using read_elf_file_built [OF assms] by blast
  then show ?thesis
    by (intro exI [of _ l'] exI [of _ s'] exI [of _ ea] exI [of _ aa]) (simp add: stack_layout_def elf_image_def)
qed

text \<open>
  A file with one executable section and two loadable segments: \<open>mov eax, 2; int 0x80\<close> at the entry point
  0x1000, and one byte that makes it \<open>mov eax, 1\<close>.
\<close>

definition demo_elf :: "u8 list" where
  "demo_elf = [0x7F,0x45,0x4C,0x46, 1,1,1,0, 0,0,0,0, 0,0,0,0, 2,0,3,0, 1,0,0,0, 0x00,0x10,0,0, 52,0,0,0,
       124,0,0,0, 0,0,0,0, 52,0, 32,0, 2,0, 40,0, 1,0, 0,0] @
     [1,0,0,0, 116,0,0,0, 0x00,0x10,0,0, 0,0,0,0, 7,0,0,0, 7,0,0,0, 5,0,0,0, 0,0,0,0] @
     [1,0,0,0, 123,0,0,0, 0x01,0x10,0,0, 0,0,0,0, 1,0,0,0, 1,0,0,0, 5,0,0,0, 0,0,0,0] @
     [0xB8,2,0,0,0,0xCD,0x80, 1] @
     [0,0,0,0, 1,0,0,0, 6,0,0,0, 0x00,0x10,0,0, 116,0,0,0, 7,0,0,0, 0,0,0,0, 0,0,0,0, 0,0,0,0, 0,0,0,0]"

definition demo_ehdr :: Elf32_Ehdr where
  "demo_ehdr = \<lparr>e_ident = [0x7F,0x45,0x4C,0x46, 1,1,1,0, 0,0,0,0, 0,0,0,0], e_entry = 0x1000, e_phoff = 52, e_shoff = 124,
     e_phentsize = 32, e_phnum = 2, e_shentsize = 40, e_shnum = 1, e_shstrndx = 0\<rparr>"

lemma demo_elf_file: "elf_file demo_elf demo_ehdr"
proof -
  have "read_ehdr demo_elf = Inr demo_ehdr" by code_simp
  moreover have "read_phdr demo_elf 52 = Inr \<lparr>p_type = 1, p_offset = 116, p_vaddr = 0x1000, p_filesz = 7\<rparr>"
    "read_phdr demo_elf 84 = Inr \<lparr>p_type = 1, p_offset = 123, p_vaddr = 0x1001, p_filesz = 1\<rparr>" by code_simp+
  then have "segments_ok demo_elf demo_ehdr [0, 1]"
    by (simp add: segments_ok_def demo_ehdr_def sizeof_Phdr_def MEM_BYTES_def)
  moreover have "sections_ok demo_elf demo_ehdr [0]" by code_simp
  moreover have "take 4 demo_elf = ELFMAG" "take 1 (drop 4 demo_elf) = [ELFCLASS32]" by code_simp+
  moreover have "[0..<unat (e_phnum demo_ehdr)] = [0, 1]" "[0..<unat (e_shnum demo_ehdr)] = [0]" by code_simp+
  ultimately show ?thesis by (simp add: elf_file_def)
qed

lemma demo_elf_shape:
  "loads demo_elf demo_ehdr [0..<unat (e_phnum demo_ehdr)] =
     [\<lparr>p_type = 1, p_offset = 116, p_vaddr = 0x1000, p_filesz = 7\<rparr>, \<lparr>p_type = 1, p_offset = 123, p_vaddr = 0x1001, p_filesz = 1\<rparr>]"
  "exec_sections demo_elf demo_ehdr [0..<unat (e_shnum demo_ehdr)] = [(0x1000, 7)]"
  by code_simp+

lemma demo_elf_image:
  "k < 7 \<Longrightarrow> elf_image demo_elf demo_ehdr m (0x1000 + k) = [0xB8, 1, 0, 0, 0, 0xCD, 0x80] ! k"
proof -
  let ?p = "\<lparr>p_type = 1, p_offset = 116, p_vaddr = 0x1000, p_filesz = 7\<rparr>"
  let ?q = "\<lparr>p_type = 1, p_offset = 123, p_vaddr = 0x1001, p_filesz = 1\<rparr>"
  have seg: "seg_bytes demo_elf ?p = [0xB8, 2, 0, 0, 0, 0xCD, 0x80]" "seg_bytes demo_elf ?q = [1]" by code_simp+
  assume "k < 7"
  then have "k \<in> {0, 1, 2, 3, 4, 5, 6}" by auto
  then show ?thesis by (auto simp: elf_image_def demo_elf_shape image_byte_def covers_def seg)
qed

text \<open>The arguments \<open>emu -ne prog\<close>, one environment variable and three entries of the auxiliary vector.\<close>

definition demo_env :: ldenv where
  "demo_env = \<lparr>log_ok = True, mem_ok = True, in_file = Some demo_elf, delivered = id,
     auxv = Some [(3, 0), (33, 7), (6, 4096), (0, 0)], rand1 = 1, rand2 = 2, vla = (\<lambda>_. 0)\<rparr>"

lemma demo_aux_words: "aux_words [(3, 0), (33, 7), (6, 4096), (0, 0)] l s = [6, 4096, 3, ph_addr l]"
  by (simp add: AT_NULL_def getters_def get_AT_PHDR_def get_AT_GENERIC_def)

theorem read_elf_file_loads_witness:
  "\<exists>out l' s' ea aa. read_elf_file demo_env False 3 [[101], [45, 110, 101], [112]] [[65, 61]] ldr_init (wr ESP 0xFFFFDFF0 static_init) =
      Inr (0, out, l', s') \<and> sheader out = [(0x1000, 7)] \<and> var s' EIP = 0x1000 \<and>
    content32 ([2, 0, aa, 0, ea, 0, 6, 4096, 3, ph_addr l', 0, 0]) s' \<and> bytes_at aa [112, 0] s' \<and> bytes_at ea [65, 61, 0] s' \<and>
    mem s' 0x1001 = 1"
proof -
  have env: "log_ok demo_env" "mem_ok demo_env" "in_file demo_env = Some demo_elf" "vla demo_env = (\<lambda>_. 0)"
    "auxv demo_env = Some [(3, 0), (33, 7), (6, 4096), (0, 0)]" "e_entry demo_ehdr = 0x1000"
    by (simp_all add: demo_env_def demo_ehdr_def)
  have "elf_symbols False demo_elf demo_ehdr = Inr ([], 0, [])" by (simp add: elf_symbols_def)
  note load = read_elf_file_loads [of demo_env demo_elf demo_ehdr False "[]" 0 "[]" "[(3, 0), (33, 7), (6, 4096), (0, 0)]"
      "[[101], [45, 110, 101], [112]]" "[[65, 61]]" "wr ESP 0xFFFFDFF0 static_init" 3 ldr_init, OF env(1-3) demo_elf_file this env(5),
      folded elf_image_def, unfolded demo_aux_words demo_elf_shape]
  obtain out l' s' ea aa where s': "read_elf_file demo_env False 3 [[101], [45, 110, 101], [112]] [[65, 61]] ldr_init
      (wr ESP 0xFFFFDFF0 static_init) = Inr (0, out, l', s')" "sheader out = [(0x1000, 7)]" "var s' EIP = 0x1000"
    "content32 ([2, 0] @ aa @ [0] @ ea @ [0, 6, 4096, 3, ph_addr l', 0, 0]) s'" "list_all2 (\<lambda>a p. bytes_at a (p @ [0]) s') aa [[112]]"
    "list_all2 (\<lambda>a p. bytes_at a (p @ [0]) s') ea [[65, 61]]" "0xFFFFDFF0 \<le> unat (var s' ESP) + 93"
    and m: "\<forall>a < 2 ^ 32. a < unat (var s' ESP) \<or> 0xFFFFDFF0 \<le> a \<longrightarrow>
      mem s' (of_nat a) = elf_image demo_elf demo_ehdr (mem static_init) a"
    using load by (auto simp: env stack_need_def strings_room_def)
  have "mem s' (of_nat 0x1001) = 1"
    using m [rule_format, of "0x1001"] s'(7) demo_elf_image [of 1] by simp
  moreover obtain z za where "aa = [z]" "ea = [za]" "bytes_at z [112, 0] s'" "bytes_at za [65, 61, 0] s'"
    using s'(5,6) by (auto simp: list_all2_Cons2)
  ultimately show ?thesis using s'(1-4) by auto
qed

end
