(* ===== verification/VM_Proc.thy ===== *)
theory VM_Proc
  imports VM_Loader
begin

text \<open>
  The main loop, the functions of \<open>src/src/proc.c\<close> that run without the terminal interface:
  \<open>blind_elf_main\<close> and \<open>blind_raw_main\<close> with their fetch, dispatch and exit test, and the helpers
  \<open>dump_mem\<close> and \<open>contains\<close>. The disassembler is the library Capstone, a parameter of the model.
  A loop that never ends has the value \<open>None\<close>.
\<close>

section \<open>Loops\<close>

text \<open>
  A loop whose body \<open>p\<close> says whether to leave it. The body may fault, and it may not return at all.
\<close>

partial_function (option) iterate :: "('s \<Rightarrow> (bool \<times> 's) res option) \<Rightarrow> 's \<Rightarrow> 's res option" where
  "iterate p s =
     (case p s of
        None \<Rightarrow> None
      | Some (Inl f) \<Rightarrow> Some (Inl f)
      | Some (Inr (stop, s)) \<Rightarrow> if stop then Some (Inr s) else iterate p s)"

text \<open>One pass that does not leave the loop.\<close>

inductive pass :: "('s \<Rightarrow> (bool \<times> 's) res option) \<Rightarrow> 's \<Rightarrow> 's \<Rightarrow> bool" for p where
  pass: "p s = Some (Inr (False, s')) \<Longrightarrow> pass p s s'"

inductive_simps pass_iff: "pass p s s'"

lemma iterate_pass: "(pass p)\<^sup>*\<^sup>* s t \<Longrightarrow> iterate p s = iterate p t"
  by (induction rule: converse_rtranclp_induct) (auto simp: pass_iff iterate.simps [of _ "x" for x])

lemma iterate_result:
  assumes "iterate p s = Some y"
  shows "\<exists>t. (pass p)\<^sup>*\<^sup>* s t \<and> p t = Some (map_sum id (Pair True) y)"
  using assms
proof (rule iterate.raw_induct [where P = "\<lambda>p s y. \<exists>t. (pass p)\<^sup>*\<^sup>* s t \<and> p t = Some (map_sum id (Pair True) y)", rotated])
  fix loop :: "('s \<Rightarrow> (bool \<times> 's) res option) \<Rightarrow> 's \<Rightarrow> 's res option" and p s y
  assume IH: "\<And>p s y. loop p s = Some y \<Longrightarrow> \<exists>t. (pass p)\<^sup>*\<^sup>* s t \<and> p t = Some (map_sum id (Pair True) y)"
    and body: "(case p s of None \<Rightarrow> None | Some (Inl f) \<Rightarrow> Some (Inl f)
      | Some (Inr (stop, s)) \<Rightarrow> if stop then Some (Inr s) else loop p s) = Some y"
  show "\<exists>t. (pass p)\<^sup>*\<^sup>* s t \<and> p t = Some (map_sum id (Pair True) y)"
  proof (cases "\<exists>s'. p s = Some (Inr (False, s'))")
    case True
    then obtain s' where "pass p s s'" "loop p s' = Some y" using body by (auto simp: pass_iff)
    then show ?thesis using IH by (meson converse_rtranclp_into_rtranclp)
  next
    case False
    then have "p s = Some (map_sum id (Pair True) y)"
      using body by (auto split: option.splits sum.splits prod.splits if_splits)
    then show ?thesis by blast
  qed
qed

lemma iterate_iff: "iterate p s = Some y \<longleftrightarrow> (\<exists>t. (pass p)\<^sup>*\<^sup>* s t \<and> p t = Some (map_sum id (Pair True) y))"
proof
  assume "\<exists>t. (pass p)\<^sup>*\<^sup>* s t \<and> p t = Some (map_sum id (Pair True) y)"
  then show "iterate p s = Some y"
    using iterate_pass [of p s] by (cases y) (auto simp: iterate.simps [of p "t" for t])
qed (rule iterate_result)

lemma iterate_three:
  "p a = Some (Inr (False, b)) \<Longrightarrow> p b = Some (Inr (False, c)) \<Longrightarrow> p c = Some (Inr (True, r)) \<Longrightarrow> iterate p a = Some (Inr r)"
  by (simp add: iterate.simps [of p a] iterate.simps [of p b] iterate.simps [of p c])

lemma pass_det: "pass p s t \<Longrightarrow> pass p s u \<Longrightarrow> t = u"
  by (auto simp: pass_iff)

text \<open>The invariants of the passes are those of the loop.\<close>

lemma pass_invariant: "(pass p)\<^sup>*\<^sup>* s t \<Longrightarrow> I s \<Longrightarrow> (\<And>x y. pass p x y \<Longrightarrow> I x \<Longrightarrow> I y) \<Longrightarrow> I t"
  by (induction rule: rtranclp_induct) auto

text \<open>A loop that does the same on states of another form, as long as the passes stay related.\<close>

definition mapped :: "(bool \<Rightarrow> 's \<Rightarrow> 't) \<Rightarrow> ((bool \<times> 's) res option) \<Rightarrow> (bool \<times> 't) res option" where
  "mapped g = map_option (map_sum id (\<lambda>(b, t). (b, g b t)))"

lemma mapped_go: "mapped g r = Some (Inr (False, v)) \<longleftrightarrow> (\<exists>t. r = Some (Inr (False, t)) \<and> v = g False t)"
  by (cases r; cases "the r") (auto simp: mapped_def)

lemma mapped_stop:
  "mapped g r = Some (map_sum id (Pair True) z) \<longleftrightarrow>
    (\<exists>y. r = Some (map_sum id (Pair True) y) \<and> z = map_sum id (g True) y)"
  by (cases r; cases "the r"; cases z)
    (auto simp: mapped_def split_sum_ex)

lemma mapped_passes:
  assumes same: "\<And>t. (pass p)\<^sup>*\<^sup>* s t \<Longrightarrow> q (g False t) = mapped g (p t)"
  shows "(pass q)\<^sup>*\<^sup>* (g False s) u \<longleftrightarrow> (\<exists>t. u = g False t \<and> (pass p)\<^sup>*\<^sup>* s t)"
proof
  assume "(pass q)\<^sup>*\<^sup>* (g False s) u"
  then show "\<exists>t. u = g False t \<and> (pass p)\<^sup>*\<^sup>* s t"
  proof (induction rule: rtranclp_induct)
    case (step u v)
    then obtain t where t: "u = g False t" "(pass p)\<^sup>*\<^sup>* s t" by blast
    with step(2) same obtain t' where "pass p t t'" "v = g False t'" by (auto simp: pass_iff mapped_go)
    with t(2) show ?case using rtranclp.rtrancl_into_rtrancl [of "pass p"] by metis
  qed blast
next
  have "(pass q)\<^sup>*\<^sup>* (g False s) (g False t)" if "(pass p)\<^sup>*\<^sup>* s t" for t
    using that
  proof (induction rule: rtranclp_induct)
    case (step t u)
    then have "pass q (g False t) (g False u)" using same [OF step(1)] by (simp add: pass_iff mapped_go)
    with step(3) show ?case by (meson rtranclp.rtrancl_into_rtrancl)
  qed simp
  then show "\<exists>t. u = g False t \<and> (pass p)\<^sup>*\<^sup>* s t \<Longrightarrow> (pass q)\<^sup>*\<^sup>* (g False s) u" by blast
qed

lemma option_eqI: "(\<And>z. a = Some z \<longleftrightarrow> b = Some z) \<Longrightarrow> a = b"
  by (cases a; cases b) auto

lemma iterate_map:
  assumes same: "\<And>t. (pass p)\<^sup>*\<^sup>* s t \<Longrightarrow> q (g False t) = mapped g (p t)"
  shows "iterate q (g False s) = map_option (map_sum id (g True)) (iterate p s)"
proof (rule option_eqI)
  fix z
  have "iterate q (g False s) = Some z \<longleftrightarrow> (\<exists>t. (pass p)\<^sup>*\<^sup>* s t \<and> mapped g (p t) = Some (map_sum id (Pair True) z))"
    using mapped_passes [of p s q g] same by (simp add: iterate_iff) (metis same)
  also have "\<dots> \<longleftrightarrow> map_option (map_sum id (g True)) (iterate p s) = Some z"
    by (auto simp: mapped_stop iterate_iff)
  finally show "iterate q (g False s) = Some z \<longleftrightarrow> map_option (map_sum id (g True)) (iterate p s) = Some z" .
qed

text \<open>Two loops whose passes are related, in step, have related results, and run forever together.\<close>

abbreviation rel_run :: "('a \<Rightarrow> 'b \<Rightarrow> bool) \<Rightarrow> 'a res option \<Rightarrow> 'b res option \<Rightarrow> bool" where
  "rel_run R \<equiv> rel_option (rel_res R)"

lemma rel_run_bnd:
  "rel_run R a b \<Longrightarrow> (\<And>x y. R x y \<Longrightarrow> rel_res S (f x) (g y)) \<Longrightarrow>
    rel_run S (map_option (\<lambda>r. bnd r f) a) (map_option (\<lambda>r. bnd r g) b)"
  by (cases a; cases b) (auto intro: rel_res_bnd)

lemma passes_related:
  assumes body: "\<And>s t. R s t \<Longrightarrow> rel_run (rel_prod (=) R) (p s) (q t)"
  shows "(pass p)\<^sup>*\<^sup>* s s' \<Longrightarrow> R s t \<Longrightarrow> \<exists>t'. (pass q)\<^sup>*\<^sup>* t t' \<and> R s' t'"
proof (induction rule: rtranclp_induct)
  case (step u v)
  then obtain t' where t: "(pass q)\<^sup>*\<^sup>* t t'" "R u t'" by blast
  from body [OF t(2)] step(2) obtain t'' where "pass q t' t''" "R v t''"
    by (auto simp: pass_iff option_rel_Some1 rel_res_iff)
  with t(1) show ?case by (meson rtranclp.rtrancl_into_rtrancl)
qed blast

lemma iterate_related:
  assumes body: "\<And>s t. R s t \<Longrightarrow> rel_run (rel_prod (=) R) (p s) (q t)" and start: "R s t"
  shows "rel_run R (iterate p s) (iterate q t)"
proof -
  have body': "rel_run (rel_prod (=) R\<inverse>\<inverse>) (q t) (p s)" if "R\<inverse>\<inverse> t s" for s t
  proof -
    have "(rel_run (rel_prod (=) R))\<inverse>\<inverse> (q t) (p s)"
      using body that by simp
    then show ?thesis by (simp flip: option.rel_conversep sum.rel_conversep prod.rel_conversep)
  qed
  have stop: "\<exists>z. q v = Some (map_sum id (Pair True) z) \<and> rel_res R y z"
    if "R u v" "p u = Some (map_sum id (Pair True) y)" for u v y
    using body [OF that(1)] that(2) by (cases y) (auto simp: option_rel_Some1 rel_res_iff intro: exI [of _ "Inl _"] exI [of _ "Inr _"])
  have some: "\<exists>z. iterate q t = Some z \<and> rel_res R y z" if it: "iterate p s = Some y" for y
  proof -
    obtain u where "(pass p)\<^sup>*\<^sup>* s u" "p u = Some (map_sum id (Pair True) y)"
      using it by (auto simp: iterate_iff)
    moreover then obtain v where "(pass q)\<^sup>*\<^sup>* t v" "R u v"
      using passes_related [of R p q, OF body] start by blast
    ultimately show ?thesis using stop by (fastforce simp: iterate_iff)
  qed
  have none: "\<exists>y. iterate p s = Some y" if it: "iterate q t = Some z" for z
  proof -
    obtain v where v: "(pass q)\<^sup>*\<^sup>* t v" "q v = Some (map_sum id (Pair True) z)"
      using it by (auto simp: iterate_iff)
    then obtain u where "(pass p)\<^sup>*\<^sup>* s u" "R u v"
      using passes_related [of "R\<inverse>\<inverse>" q p, OF body'] start by blast
    moreover from body [OF this(2)] v(2) have "\<exists>y. p u = Some (map_sum id (Pair True) y)"
      by (cases z) (auto simp: option_rel_Some2 rel_sum.simps intro: exI [of _ "Inl _"] exI [of _ "Inr _"])
    ultimately show ?thesis by (auto simp: iterate_iff)
  qed
  show ?thesis using some none by (cases "iterate p s"; cases "iterate q t") auto
qed

section \<open>The disassembler\<close>

text \<open>
  What the program uses of Capstone: whether \<open>cs_open\<close> succeeds, \<open>cs_disasm\<close> with a count of 1
  (\<open>None\<close> when it disassembles nothing), and \<open>cs_disasm\<close> with a count of 0, which disassembles as
  many instructions as it can. The arguments are the memory, the position and the number of the
  bytes to decode, and the address of the first one.
\<close>

record listed =
  address :: u64
  l_mnemonic :: string
  op_str :: string

record capstone =
  cs_open_ok :: bool
  cs_disasm :: "(u32 \<Rightarrow> u8) \<Rightarrow> u32 \<Rightarrow> u32 \<Rightarrow> u32 \<Rightarrow> cs_insn option"
  cs_disasm_all :: "(u32 \<Rightarrow> u8) \<Rightarrow> u32 \<Rightarrow> u32 \<Rightarrow> u32 \<Rightarrow> listed list"

section \<open>Helpers\<close>

text \<open>What \<open>dump_mem\<close> prints: an address and four bytes for every word.\<close>

fun dump_loop :: "u32 \<Rightarrow> nat list \<Rightarrow> cpu \<Rightarrow> (u32 \<times> u8 list) list res" where
  "dump_loop off [] s = Inr []"
| "dump_loop off (i # is) s =
     (let a = off + 4 * of_nat i in
      bnd (load8 (PMem (unat a)) s) (\<lambda>b0. bnd (load8 (PMem (unat (a + 1))) s) (\<lambda>b1.
      bnd (load8 (PMem (unat (a + 2))) s) (\<lambda>b2. bnd (load8 (PMem (unat (a + 3))) s) (\<lambda>b3.
      bnd (dump_loop off is s) (\<lambda>r. Inr ((a, [b0, b1, b2, b3]) # r)))))))"

definition dump_mem :: "u32 \<Rightarrow> u32 \<Rightarrow> cpu \<Rightarrow> (u32 \<times> u8 list) list res" where
  "dump_mem off m s = dump_loop off [0..<unat m] s"

text \<open>The array is the list of its elements, \<open>None\<close> for one that was never assigned.\<close>

fun contains_loop :: "u32 option list \<Rightarrow> nat list \<Rightarrow> u32 \<Rightarrow> bool res" where
  "contains_loop arr [] v = Inr False"
| "contains_loop arr (i # is) v =
     (if i < length arr then
        (case arr ! i of None \<Rightarrow> Inl Uninit
         | Some x \<Rightarrow> if x = v then Inr True else contains_loop arr is v)
      else Inl OutOfBounds)"

definition contains :: "u32 option list \<Rightarrow> nat \<Rightarrow> u32 \<Rightarrow> bool res" where
  "contains arr n v = contains_loop arr [0..<n] v"

section \<open>The main loop\<close>

definition exit_code :: u32 where "exit_code = 0xdeadbeef"

text \<open>One pass through the body: whether the loop is left, and the machine afterwards.\<close>

definition blind_pass :: "host \<Rightarrow> capstone \<Rightarrow> u32 \<Rightarrow> cpu \<Rightarrow> (bool \<times> cpu) res" where
  "blind_pass h cs r s =
     (case cs_disasm cs (mem s) (var s EIP) (r - var s EIP) (var s EIP) of
        None \<Rightarrow> Inr (True, s)
      | Some ins \<Rightarrow>
          bnd (dispatcher h (mnemonic ins) ins s) (\<lambda>(res, s).
            Inr (insn_bytes ins 0 = 0xCD \<and> word_of_int res = exit_code, s)))"

definition blind_loop :: "host \<Rightarrow> capstone \<Rightarrow> u32 \<Rightarrow> cpu \<Rightarrow> cpu res option" where
  "blind_loop h cs r s = iterate (\<lambda>s. Some (blind_pass h cs r s)) s"

text \<open>
  The number that \<open>read_elf_file\<close> leaves in \<open>r\<close> is the number of executable sections. An
  error while reading the file leads to \<open>return 0\<close>.
\<close>

definition blind_elf_main :: "ldenv \<Rightarrow> host \<Rightarrow> capstone \<Rightarrow> int \<Rightarrow> u8 list list \<Rightarrow> u8 list list \<Rightarrow> (int \<times> cpu) res option" where
  "blind_elf_main e h cs argc argv envp =
     (case initialize (mem_ok e) static_init of
        Inl f \<Rightarrow> Some (Inl f)
      | Inr (ok, s) \<Rightarrow>
          if ok = 0 then Some (Inr (1, s))
          else case read_elf_file e False argc argv envp ldr_init s of
            Inl f \<Rightarrow> Some (Inl f)
          | Inr (err, out, l, s) \<Rightarrow>
              if err \<noteq> 0 then Some (Inr (0, s))
              else if \<not> cs_open_ok cs then Some (Inr (1, s))
              else map_option (\<lambda>r. bnd r (\<lambda>s. Inr (0, s))) (blind_loop h cs (of_nat (length (sheader out))) s))"

definition blind_raw_main :: "ldenv \<Rightarrow> host \<Rightarrow> capstone \<Rightarrow> int \<Rightarrow> u8 list list \<Rightarrow> u8 list list \<Rightarrow> (int \<times> cpu) res option" where
  "blind_raw_main e h cs argc argv envp =
     (case initialize (mem_ok e) static_init of
        Inl f \<Rightarrow> Some (Inl f)
      | Inr (ok, s) \<Rightarrow>
          if ok = 0 then Some (Inr (1, s))
          else case read_raw_file e s of
            Inl f \<Rightarrow> Some (Inl f)
          | Inr (err, sz, s) \<Rightarrow>
              if err \<noteq> 0 then Some (Inr (0, s))
              else if \<not> cs_open_ok cs then Some (Inr (1, s))
              else map_option (\<lambda>r. bnd r (\<lambda>s. Inr (0, s))) (blind_loop h cs sz s))"

section \<open>Runs\<close>

text \<open>One instruction: fetched, dispatched, and not the end of the program.\<close>

inductive vm_step :: "host \<Rightarrow> capstone \<Rightarrow> u32 \<Rightarrow> cpu \<Rightarrow> cpu \<Rightarrow> bool" for h cs r where
  vm_step: "cs_disasm cs (mem s) (var s EIP) (r - var s EIP) (var s EIP) = Some ins \<Longrightarrow>
    dispatcher h (mnemonic ins) ins s = Inr (res, s') \<Longrightarrow>
    insn_bytes ins 0 \<noteq> 0xCD \<or> word_of_int res \<noteq> exit_code \<Longrightarrow> vm_step h cs r s s'"

text \<open>The end of the program: nothing to disassemble, or an INT that returns the exit code.\<close>

inductive vm_end :: "host \<Rightarrow> capstone \<Rightarrow> u32 \<Rightarrow> cpu \<Rightarrow> cpu \<Rightarrow> bool" for h cs r where
  end_fetch: "cs_disasm cs (mem s) (var s EIP) (r - var s EIP) (var s EIP) = None \<Longrightarrow> vm_end h cs r s s"
| end_int: "cs_disasm cs (mem s) (var s EIP) (r - var s EIP) (var s EIP) = Some ins \<Longrightarrow>
    dispatcher h (mnemonic ins) ins s = Inr (res, s') \<Longrightarrow>
    insn_bytes ins 0 = 0xCD \<Longrightarrow> word_of_int res = exit_code \<Longrightarrow> vm_end h cs r s s'"

inductive_simps vm_step_iff: "vm_step h cs r s s'"

inductive_simps vm_end_iff: "vm_end h cs r s s'"

lemma pass_vm_step: "pass (\<lambda>s. Some (blind_pass h cs r s)) = vm_step h cs r"
  by (intro ext) (auto simp: pass_iff vm_step_iff blind_pass_def bnd_def split: option.splits sum.splits)

lemma blind_pass_end: "blind_pass h cs r s = Inr (True, s') \<longleftrightarrow> vm_end h cs r s s'"
  by (auto simp: vm_end_iff blind_pass_def bnd_def split: option.splits sum.splits)

lemma blind_loop_outcome:
  "blind_loop h cs r s = Some (Inr s') \<longleftrightarrow> (\<exists>t. (vm_step h cs r)\<^sup>*\<^sup>* s t \<and> vm_end h cs r t s')"
  unfolding blind_loop_def iterate_iff pass_vm_step by (simp add: blind_pass_end)

lemma blind_loop_vm_step: "vm_step h cs r s t \<Longrightarrow> blind_loop h cs r s = blind_loop h cs r t"
  unfolding blind_loop_def by (rule iterate_pass) (simp add: pass_vm_step)

lemma blind_loop_vm_end: "vm_end h cs r s t \<Longrightarrow> blind_loop h cs r s = Some (Inr t)"
  unfolding blind_loop_def by (subst iterate.simps) (simp add: blind_pass_end [symmetric])

section \<open>Search\<close>

lemma contains_loop_spec:
  "(\<And>i. i \<in> set js \<Longrightarrow> i < length arr \<and> arr ! i \<noteq> None) \<Longrightarrow> contains_loop arr js v = Inr (\<exists>i \<in> set js. arr ! i = Some v)"
  by (induction js) (auto split: option.split)

lemma contains_spec:
  assumes "n \<le> length arr" "None \<notin> set (take n arr)"
  shows "contains arr n v = Inr (Some v \<in> set (take n arr))"
proof -
  have "contains arr n v = Inr (\<exists>i \<in> set [0..<n]. arr ! i = Some v)"
    unfolding contains_def
  proof (rule contains_loop_spec)
    fix i assume "i \<in> set [0..<n]"
    then show "i < length arr \<and> arr ! i \<noteq> None" using assms nth_mem [of i "take n arr"] by (cases "arr ! i") auto
  qed
  also have "(\<exists>i \<in> set [0..<n]. arr ! i = Some v) = (Some v \<in> set (take n arr))"
    using assms(1) by (auto simp: in_set_conv_nth)
  finally show ?thesis .
qed

end
