(* ===== verification/VM_Debugger.thy ===== *)
theory VM_Debugger
  imports VM_Proc
begin

text \<open>
  The terminal debugger: \<open>interface_elf_main\<close> and \<open>interface_raw_main\<close> of \<open>src/src/proc.c\<close> with
  their command loop, the keyboard and the stack window of \<open>src/src/interface.c\<close>, and \<open>main\<close>.
  What is printed is the list \<open>shown\<close>, kept as values; the text of a screen is in \<open>VM_Screen\<close>, the cursor
  and the terminal modes are in \<open>VM_Interface\<close>. Waiting for input that
  does not come, like a loop that never ends, has the value \<open>None\<close>.
\<close>

section \<open>Keyboard\<close>

definition KEY_UP :: int where "KEY_UP = 1001"
definition KEY_DOWN :: int where "KEY_DOWN = 1002"
definition KEY_LEFT :: int where "KEY_LEFT = 1003"
definition KEY_RIGHT :: int where "KEY_RIGHT = 1004"
definition ESC :: u8 where "ESC = 0x1B"

text \<open>What the calls of \<open>read\<close> deliver: a byte, or \<open>None\<close> when the call fails or meets the end of
  the input. The result is the key and the input left.\<close>

definition arrow :: "u8 \<Rightarrow> u8 \<Rightarrow> int" where
  "arrow seq0 seq1 =
     (if seq0 = 0x5B then
        (if seq1 = 0x41 then KEY_UP else if seq1 = 0x42 then KEY_DOWN
         else if seq1 = 0x43 then KEY_RIGHT else if seq1 = 0x44 then KEY_LEFT else sint ESC)
      else sint ESC)"

fun getch :: "u8 option list \<Rightarrow> (int \<times> u8 option list) option" where
  "getch [] = None"
| "getch (None # ks) = Some (- 1, ks)"
| "getch (Some c # ks) =
     (if c = ESC then
        (case ks of [] \<Rightarrow> None
         | None # ks \<Rightarrow> Some (sint ESC, ks)
         | Some seq0 # ks \<Rightarrow>
             (case ks of [] \<Rightarrow> None
              | None # ks \<Rightarrow> Some (sint ESC, ks)
              | Some seq1 # ks \<Rightarrow> Some (arrow seq0 seq1, ks)))
      else Some (sint c, ks))"

section \<open>Reading numbers\<close>

text \<open>
  \<open>sscanf\<close> with one conversion: the end of the string before the conversion (\<open>EOF\<close>, the value -1),
  no match (the value 0), or a number.
\<close>

datatype scan = ScanEof | ScanFail | Scanned u32

definition is_space :: "char \<Rightarrow> bool" where
  "is_space c = (c \<in> {CHR '' '', CHR 0x09, CHR 0x0A, CHR 0x0B, CHR 0x0C, CHR 0x0D})"

definition digit_val :: "char \<Rightarrow> nat" where
  "digit_val c =
     (let n = of_char c :: nat in
      if 48 \<le> n \<and> n \<le> 57 then n - 48
      else if 97 \<le> n \<and> n \<le> 102 then n - 87
      else if 65 \<le> n \<and> n \<le> 70 then n - 55 else 16)"

definition number :: "nat \<Rightarrow> string \<Rightarrow> nat" where
  "number b ds = foldl (\<lambda>n c. b * n + digit_val c) 0 ds"

text \<open>A sign, and for base 16 the prefix \<open>0x\<close> or \<open>0X\<close>, before the digits.\<close>

definition split_sign :: "string \<Rightarrow> bool \<times> string" where
  "split_sign cs = (case cs of [] \<Rightarrow> (False, []) | c # r \<Rightarrow>
     if c = CHR ''-'' then (True, r) else if c = CHR ''+'' then (False, r) else (False, cs))"

definition drop_0x :: "string \<Rightarrow> string" where
  "drop_0x cs = (if take 2 cs \<in> {''0x'', ''0X''} then drop 2 cs else cs)"

text \<open>The conversion \<open>%08x\<close>: at most 8 characters.\<close>

definition scan_x :: "string \<Rightarrow> scan" where
  "scan_x cs =
     (let cs = dropWhile is_space cs in
      if cs = [] then ScanEof
      else
        (let (neg, r) = split_sign (take 8 cs); ds = takeWhile (\<lambda>c. digit_val c < 16) (drop_0x r) in
         if ds = [] then ScanFail
         else Scanned (if neg then - of_nat (number 16 ds) else of_nat (number 16 ds))))"

text \<open>\<open>sscanf(str, "0x%08x", &dir)\<close>.\<close>

definition scan_hex :: "string \<Rightarrow> scan" where
  "scan_hex cs =
     (case cs of [] \<Rightarrow> ScanEof
      | c # cs \<Rightarrow> if c \<noteq> CHR ''0'' then ScanFail
          else case cs of [] \<Rightarrow> ScanEof
            | c # cs \<Rightarrow> if c \<noteq> CHR ''x'' then ScanFail else scan_x cs)"

text \<open>\<open>sscanf(str, "%d", &dir)\<close>: the number is limited to the range of a \<open>long\<close>.\<close>

definition scan_dec :: "string \<Rightarrow> scan" where
  "scan_dec cs =
     (let cs = dropWhile is_space cs in
      if cs = [] then ScanEof
      else
        (let (neg, r) = split_sign cs; ds = takeWhile (\<lambda>c. digit_val c < 10) r; n = int (number 10 ds) in
         if ds = [] then ScanFail
         else Scanned (word_of_int (if neg then max (- (2 ^ 63)) (- n) else min (2 ^ 63 - 1) n))))"

text \<open>
  The loop \<open>while(!res)\<close> around \<open>get_str\<close> and \<open>sscanf\<close>, over the strings that \<open>fgets\<close> delivers. The
  value -1 ends it too, with a variable that was never assigned.
\<close>

fun ask :: "(string \<Rightarrow> scan) \<Rightarrow> string list \<Rightarrow> (u32 \<times> string list) res option" where
  "ask sc [] = None"
| "ask sc (str # strs) =
     (case sc str of
        ScanEof \<Rightarrow> Some (Inl Uninit)
      | ScanFail \<Rightarrow> ask sc strs
      | Scanned v \<Rightarrow> Some (Inr (v, strs)))"

section \<open>The screen\<close>

record line =
  l_addr :: u32
  l_text :: string
  l_func :: "(u8 list \<times> u32) option"

text \<open>A screen: the changed registers, the values of all, the lines of code, the highlighted line, the first
  word of the stack window and its words.\<close>

datatype shown =
    Screen "gvar list" "gvar \<Rightarrow> u32" "line option list" int int "(u32 \<times> u32) list"
  | Created u32 u32
  | Content u32 u32
  | Text u32 "u8 list"

definition text_of :: "listed \<Rightarrow> string" where
  "text_of x = take 10 (l_mnemonic x) @ '' '' @ take 50 (op_str x)"

definition H_REGS :: int where "H_REGS = 8"

text \<open>The stack window of \<open>draw_screen\<close>: the first argument counts the lines that are left.\<close>

fun stack_loop :: "nat \<Rightarrow> int \<Rightarrow> int \<Rightarrow> cpu \<Rightarrow> (u32 \<times> u32) list res" where
  "stack_loop 0 j ii s = Inr []"
| "stack_loop (Suc k) j ii s =
     (let a = var s ESP + 4 * word_of_int ii in
      bnd (if j > 0 \<and> a < STACK_BOTTOM then bnd (load32 (PMem (unat a)) s) (\<lambda>w. Inr [(a, w)]) else Inr []) (\<lambda>r.
        if a \<ge> STACK_BOTTOM then Inr r
        else if ii + 1 < j then bnd (stack_loop k j (ii + 1) s) (\<lambda>r'. Inr (r @ r'))
        else Inr r))"

definition stack_window :: "nat \<Rightarrow> int \<Rightarrow> cpu \<Rightarrow> (u32 \<times> u32) list res" where
  "stack_window rows scr_s s =
     (let lim = int rows - H_REGS - 2 - 3; j = sint (STACK_BOTTOM - var s ESP) sdiv 4 in
      stack_loop (if lim \<ge> 1 then nat lim else 1) j scr_s s)"

definition old_regs :: "gvar list" where
  "old_regs = [EAX, ECX, ESI, EDX, EBX, EDI, ESP, EBP, EFLAGS]"

text \<open>\<open>draw_screen\<close>, with the registers of the last screen; they are highlighted when changed.\<close>

definition draw_screen :: "nat \<Rightarrow> int \<Rightarrow> line option list \<Rightarrow> int \<Rightarrow> (gvar \<Rightarrow> u32) \<Rightarrow> cpu \<Rightarrow> shown res" where
  "draw_screen rows scr_s lineas eip_ind old s =
     bnd (stack_window rows scr_s s) (\<lambda>w.
       Inr (Screen (filter (\<lambda>v. var s v \<noteq> old v) old_regs) (var s)
         (take (nat (int rows - H_REGS - 5)) lineas) eip_ind scr_s w))"

section \<open>The lines of code\<close>

text \<open>
  The loop that fills the lines runs \<open>MIN(rows, count - scr_c + 1)\<close> times. When it ends before the last
  row, the rows from its last one on are blanked.
\<close>

definition n_lines :: "nat \<Rightarrow> nat \<Rightarrow> int \<Rightarrow> nat" where
  "n_lines rws cnt c = min rws (unat (of_nat cnt - word_of_int c + 1 :: u64))"

definition blank_rest :: "nat \<Rightarrow> line list \<Rightarrow> line option list res" where
  "blank_rest rows ls =
     (let n = length ls in
      if n = rows then Inr (map Some ls)
      else if n = 0 then Inl OutOfBounds
      else Inr (map Some (butlast ls) @ replicate (rows - (n - 1)) None))"

definition eip_row :: "line list \<Rightarrow> u32 \<Rightarrow> int" where
  "eip_row ls a = (case find (\<lambda>i. l_addr (ls ! i) = a) (rev [0..<length ls]) of None \<Rightarrow> - 1 | Some i \<Rightarrow> int i)"

subsection \<open>Raw files\<close>

fun raw_lines :: "listed list \<Rightarrow> int \<Rightarrow> nat list \<Rightarrow> line list res" where
  "raw_lines insn scr_c [] = Inr []"
| "raw_lines insn scr_c (i # is) =
     (let index = unat (of_nat i + word_of_int scr_c :: u32) in
      if index < length insn then
        bnd (raw_lines insn scr_c is) (\<lambda>ls.
          Inr (\<lparr>l_addr = ucast (address (insn ! index)), l_text = text_of (insn ! index), l_func = None\<rparr> # ls))
      else Inl OutOfBounds)"

text \<open>The search for an address runs over as many entries as the file has bytes.\<close>

fun raw_find :: "listed list \<Rightarrow> nat list \<Rightarrow> u32 \<Rightarrow> int \<Rightarrow> int res" where
  "raw_find insn [] a scr_c = Inr scr_c"
| "raw_find insn (i # is) a scr_c =
     (if i < length insn then
        (if ucast a = address (insn ! i) then Inr (if i \<noteq> 0 then int i - 1 else 0)
         else raw_find insn is a scr_c)
      else Inl OutOfBounds)"

subsection \<open>ELF files\<close>

text \<open>The sections: their size, their instructions (\<open>None\<close> for a null pointer), and the number of
  instructions up to the end of each.\<close>

type_synonym insns = "listed list option list"

definition disasm_section :: "capstone \<Rightarrow> cpu \<Rightarrow> u32 \<times> u32 \<Rightarrow> listed list option" where
  "disasm_section cs s = (\<lambda>(addr, siz).
     if addr \<noteq> 0 \<and> siz \<noteq> 0 then
       (let l = cs_disasm_all cs (mem s) addr siz addr in if l = [] then None else Some l)
     else None)"

fun counts_from :: "nat \<Rightarrow> insns \<Rightarrow> nat list" where
  "counts_from n [] = []"
| "counts_from n (x # xs) = (let n = n + (case x of None \<Rightarrow> 0 | Some l \<Rightarrow> length l) in n # counts_from n xs)"

definition section_start :: "nat list \<Rightarrow> nat \<Rightarrow> nat" where
  "section_start counts i = (if i = 0 then 0 else counts ! (i - 1))"

text \<open>\<open>insns[sh][k]\<close>\<close>

definition insn_at :: "insns \<Rightarrow> nat \<Rightarrow> nat \<Rightarrow> listed res" where
  "insn_at insns sh k =
     (if sh < length insns then
        (case insns ! sh of None \<Rightarrow> Inl NullDeref
         | Some l \<Rightarrow> if k < length l then Inr (l ! k) else Inl OutOfBounds)
      else Inl OutOfBounds)"

text \<open>\<open>symbols[k]\<close>: two words for every symbol, then zeros up to the end of the array.\<close>

definition sym_word :: "elf_out \<Rightarrow> u32 \<Rightarrow> u32 res" where
  "sym_word out k =
     (let n = unat k; xs = symbols out in
      if n < 2 * length xs then Inr (if even n then fst (xs ! (n div 2)) else snd (xs ! (n div 2)))
      else if n < 2 * nsyms out + 1 then Inr 0 else Inl OutOfBounds)"

text \<open>The function a line belongs to: its name (an index into the symbols), its first address, the
  first address behind it, and its number.\<close>

record func_state =
  func :: u32
  fbase :: u32
  limit :: u32
  strcount :: u32

definition set_func :: "elf_out \<Rightarrow> u32 \<Rightarrow> func_state res" where
  "set_func out k =
     bnd (sym_word out (2 * k)) (\<lambda>nm. bnd (sym_word out (2 * k + 1)) (\<lambda>b.
     bnd (sym_word out (2 * (k + 1) + 1)) (\<lambda>l.
     Inr \<lparr>func = nm, fbase = b, limit = l, strcount = k\<rparr>)))"

fun find_func :: "elf_out \<Rightarrow> nat list \<Rightarrow> u32 \<Rightarrow> func_state option \<Rightarrow> func_state option res" where
  "find_func out [] addr st = Inr st"
| "find_func out (k # ks) addr st =
     bnd (sym_word out (2 * of_nat k + 1)) (\<lambda>b.
       if b \<le> addr then
         bnd (sym_word out (2 * (of_nat k + 1) + 1)) (\<lambda>l.
           if addr < l then bnd (set_func out (of_nat k)) (\<lambda>f. Inr (Some f))
           else find_func out ks addr st)
       else find_func out ks addr st)"

text \<open>The function of the next line. \<open>strcount - 1 >= 0\<close> holds for every unsigned number.\<close>

definition prev_func :: "elf_out \<Rightarrow> u32 \<Rightarrow> func_state \<Rightarrow> bool res" where
  "prev_func out addr st =
     bnd (sym_word out (2 * strcount st + 1)) (\<lambda>b.
       if addr < b then bnd (sym_word out (2 * (strcount st - 1) + 1)) (\<lambda>a. Inr (addr \<ge> a)) else Inr False)"

definition next_func :: "elf_out \<Rightarrow> u32 \<Rightarrow> func_state \<Rightarrow> bool res" where
  "next_func out addr st =
     bnd (sym_word out (2 * (strcount st + 1) + 1)) (\<lambda>b.
       if b \<le> addr then bnd (sym_word out (2 * (strcount st + 2) + 1)) (\<lambda>l. Inr (addr < l)) else Inr False)"

definition line_func :: "elf_out \<Rightarrow> nat \<Rightarrow> u32 \<Rightarrow> func_state option \<Rightarrow> func_state option res" where
  "line_func out i addr st =
     (if i = 0 then find_func out [0..<length (symbols out)] addr st
      else case st of None \<Rightarrow> Inl Uninit
      | Some f \<Rightarrow>
          if addr < limit f then Inr (Some f)
          else bnd (prev_func out addr f) (\<lambda>p.
            if p then
              (let k = strcount f - 1 in
               bnd (sym_word out (2 * k + 1)) (\<lambda>b. bnd (sym_word out (2 * k)) (\<lambda>nm.
               Inr (Some \<lparr>func = nm, fbase = b, limit = fbase f, strcount = k\<rparr>))))
            else bnd (next_func out addr f) (\<lambda>n.
              if n then
                (let k = strcount f + 1 in
                 bnd (sym_word out (2 * k)) (\<lambda>nm. bnd (sym_word out (2 * (k + 1) + 1)) (\<lambda>l.
                 Inr (Some \<lparr>func = nm, fbase = limit f, limit = l, strcount = k\<rparr>))))
              else find_func out [0..<length (symbols out) - 1] addr st)))"

text \<open>The name of a function and the buffer it is printed to with \<open>sprintf\<close>.\<close>

definition FUNC_TXT_S :: nat where "FUNC_TXT_S = 32"

definition cstring :: "u8 list \<Rightarrow> nat \<Rightarrow> u8 list res" where
  "cstring buf k = (if k < length buf then Inr (takeWhile (\<lambda>b. b \<noteq> 0) (drop k buf)) else Inl OutOfBounds)"

fun decimals :: "nat \<Rightarrow> nat" where
  "decimals n = (if n < 10 then 1 else Suc (decimals (n div 10)))"

declare decimals.simps [simp del]

definition print_func :: "elf_out \<Rightarrow> func_state option \<Rightarrow> u32 \<Rightarrow> (u8 list \<times> u32) res" where
  "print_func out st addr =
     (case st of None \<Rightarrow> Inl Uninit
      | Some f \<Rightarrow>
          bnd (cstring (strtab out) (unat (func f))) (\<lambda>nm.
            if 5 + length nm + 4 + 1 + decimals (unat (addr - fbase f)) + 1 \<le> FUNC_TXT_S
            then Inr (nm, addr - fbase f) else Inl OutOfBounds))"

fun elf_lines :: "elf_out \<Rightarrow> insns \<Rightarrow> nat list \<Rightarrow> int \<Rightarrow> nat list \<Rightarrow> func_state option \<Rightarrow> line list res" where
  "elf_lines out insns counts scr_c [] st = Inr []"
| "elf_lines out insns counts scr_c (i # is) st =
     (let index = unat (of_nat i + word_of_int scr_c :: u32);
          sh = (case find (\<lambda>j. index < counts ! j) [0..<length counts] of None \<Rightarrow> 0 | Some j \<Rightarrow> j) in
      bnd (insn_at insns sh (index - section_start counts sh)) (\<lambda>x.
      let addr = ucast (address x) in
      bnd (line_func out i addr st) (\<lambda>st. bnd (print_func out st addr) (\<lambda>f.
      bnd (elf_lines out insns counts scr_c is st) (\<lambda>ls.
      Inr (\<lparr>l_addr = addr, l_text = text_of x, l_func = Some f\<rparr> # ls))))))"

text \<open>The search for \<open>eip\<close>: in every section, over as many entries as the section has bytes.\<close>

fun section_find :: "insns \<Rightarrow> nat \<Rightarrow> nat list \<Rightarrow> u32 \<Rightarrow> nat option res" where
  "section_find insns i [] a = Inr None"
| "section_find insns i (j # js) a =
     bnd (insn_at insns i j) (\<lambda>x. if ucast a = address x then Inr (Some j) else section_find insns i js a)"

fun elf_find :: "(nat \<Rightarrow> nat) \<Rightarrow> insns \<Rightarrow> nat list \<Rightarrow> nat list \<Rightarrow> u32 \<Rightarrow> nat option res" where
  "elf_find bound insns counts [] a = Inr None"
| "elf_find bound insns counts (i # is) a =
     bnd (section_find insns i [0..<bound i] a) (\<lambda>r.
       case r of Some j \<Rightarrow> Inr (Some (j + section_start counts i)) | None \<Rightarrow> elf_find bound insns counts is a)"

section \<open>Commands\<close>

definition MAX_BRK :: nat where "MAX_BRK = 25"

text \<open>The local variables of the two functions, the machine, the input and what was printed.\<close>

record dbg =
  ch :: int
  old_ch :: int
  scr_c :: int
  scr_s :: int
  focus :: int
  brkpts :: "u32 option list"
  brk_ctr :: u8
  old :: "gvar \<Rightarrow> u32"
  vm :: cpu
  keys :: "u8 option list"
  answers :: "string list"
  shown :: "shown list"

text \<open>What a command does next: draw the screen, only read a key (\<open>goto no_print\<close>), or leave
  (\<open>goto exit1\<close>).\<close>

datatype ctl = Draw | No_print | Exit1

text \<open>Disassemble at most 16 bytes at \<open>eip\<close> and execute: \<open>True\<close> when the program ends.\<close>

definition exec_ins :: "host \<Rightarrow> capstone \<Rightarrow> cpu \<Rightarrow> (bool \<times> cpu) res" where
  "exec_ins h cs s =
     (case cs_disasm cs (mem s) (var s EIP) 16 (var s EIP) of
        None \<Rightarrow> Inr (True, s)
      | Some ins \<Rightarrow>
          bnd (dispatcher h (mnemonic ins) ins s) (\<lambda>(res, s). Inr (word_of_int res = exit_code, s)))"

text \<open>The loops of \<open>c\<close> and \<open>n\<close>: \<open>cond\<close> is the condition of the \<open>while\<close>, and the flag of the state tells
  whether the loop was left because the program ended.\<close>

definition exec_pass :: "host \<Rightarrow> capstone \<Rightarrow> (cpu \<Rightarrow> bool res) \<Rightarrow> bool \<times> cpu \<Rightarrow> (bool \<times> bool \<times> cpu) res" where
  "exec_pass h cs cond = (\<lambda>(e, s).
     bnd (cond s) (\<lambda>go.
       if go then bnd (exec_ins h cs s) (\<lambda>(e, s). Inr (e, e, s)) else Inr (True, False, s)))"

definition exec_while :: "host \<Rightarrow> capstone \<Rightarrow> (cpu \<Rightarrow> bool res) \<Rightarrow> cpu \<Rightarrow> (bool \<times> cpu) res option" where
  "exec_while h cs cond s = iterate (\<lambda>x. Some (exec_pass h cs cond x)) (False, s)"

text \<open>After the execution the window is moved to \<open>eip\<close>; \<open>finder\<close> is the search of the mode.\<close>

definition after_exec :: "(u32 \<Rightarrow> int \<Rightarrow> int res) \<Rightarrow> dbg \<Rightarrow> bool \<times> cpu \<Rightarrow> (ctl \<times> dbg) res" where
  "after_exec finder d = (\<lambda>(e, s).
     if e then Inr (Exit1, d\<lparr>vm := s\<rparr>)
     else bnd (finder (var s EIP) (scr_c d)) (\<lambda>c. Inr (Draw, d\<lparr>vm := s, scr_c := c, scr_s := 0\<rparr>)))"

definition cmd_step :: "host \<Rightarrow> capstone \<Rightarrow> (u32 \<Rightarrow> int \<Rightarrow> int res) \<Rightarrow> dbg \<Rightarrow> (ctl \<times> dbg) res option" where
  "cmd_step h cs finder d = Some (bnd (exec_ins h cs (vm d)) (after_exec finder d))"

definition brk_cond :: "dbg \<Rightarrow> cpu \<Rightarrow> bool res" where
  "brk_cond d s = bnd (contains (brkpts d) (unat (brk_ctr d)) (var s EIP)) (\<lambda>b. Inr (\<not> b))"

definition cmd_continue :: "host \<Rightarrow> capstone \<Rightarrow> (u32 \<Rightarrow> int \<Rightarrow> int res) \<Rightarrow> dbg \<Rightarrow> (ctl \<times> dbg) res option" where
  "cmd_continue h cs finder d =
     map_option (\<lambda>r. bnd r (after_exec finder d)) (exec_while h cs (brk_cond d) (vm d))"

definition cmd_next :: "host \<Rightarrow> capstone \<Rightarrow> (u32 \<Rightarrow> int \<Rightarrow> int res) \<Rightarrow> dbg \<Rightarrow> (ctl \<times> dbg) res option" where
  "cmd_next h cs finder d =
     (let s = vm d in
      case cs_disasm cs (mem s) (var s EIP) 16 (var s EIP) of
        None \<Rightarrow> Some (Inr (Exit1, d))
      | Some ins \<Rightarrow>
          (let stop = var s EIP + ucast (insn_size ins) in
           map_option (\<lambda>r. bnd r (after_exec finder d)) (exec_while h cs (\<lambda>s. Inr (var s EIP \<noteq> stop)) s)))"

definition STACK_TOP :: u32 where "STACK_TOP = STACK_BOTTOM - 0x22000"

definition cmd_down :: "nat \<Rightarrow> dbg \<Rightarrow> ctl \<times> dbg" where
  "cmd_down cnt d =
     (if focus d = 0 then
        (if word_of_int (scr_c d + 1) < (of_nat cnt :: u64) then (Draw, d\<lparr>scr_c := scr_c d + 1\<rparr>) else (No_print, d))
      else
        (if word_of_int (scr_s d + 1) < (STACK_BOTTOM - var (vm d) ESP) div 4
         then (Draw, d\<lparr>scr_s := scr_s d + 1\<rparr>) else (No_print, d)))"

definition cmd_up :: "dbg \<Rightarrow> ctl \<times> dbg" where
  "cmd_up d =
     (if focus d = 0 then
        (if scr_c d > 0 then (Draw, d\<lparr>scr_c := scr_c d - 1\<rparr>) else (No_print, d))
      else
        (if scr_s d > 0 then (Draw, d\<lparr>scr_s := scr_s d - 1\<rparr>) else (No_print, d)))"

text \<open>A command that asks for a number.\<close>

definition asking :: "(string \<Rightarrow> scan) \<Rightarrow> (u32 \<Rightarrow> dbg \<Rightarrow> (ctl \<times> dbg) res) \<Rightarrow> dbg \<Rightarrow> (ctl \<times> dbg) res option" where
  "asking sc act d = map_option (\<lambda>r. bnd r (\<lambda>(dir, strs). act dir (d\<lparr>answers := strs\<rparr>))) (ask sc (answers d))"

definition put_out :: "shown \<Rightarrow> dbg \<Rightarrow> dbg" where
  "put_out x d = d\<lparr>shown := shown d @ [x]\<rparr>"

definition set_brk :: "u32 \<Rightarrow> dbg \<Rightarrow> (ctl \<times> dbg) res" where
  "set_brk dir d =
     (let n = brk_ctr d in
      if unat n < length (brkpts d) then
        Inr (Draw, (put_out (Created (ucast n + 1) dir) d)
          \<lparr>brkpts := (brkpts d)[unat n := Some dir], brk_ctr := (n + 1) mod of_nat MAX_BRK\<rparr>)
      else Inl OutOfBounds)"

definition del_brk :: "u32 \<Rightarrow> dbg \<Rightarrow> (ctl \<times> dbg) res" where
  "del_brk dir d =
     (let k = unat ((dir - 1) mod of_nat MAX_BRK) in Inr (Draw, d\<lparr>brkpts := (brkpts d)[k := Some 0x00000000]\<rparr>))"

definition find_addr :: "(u32 \<Rightarrow> int \<Rightarrow> int res) \<Rightarrow> u32 \<Rightarrow> dbg \<Rightarrow> (ctl \<times> dbg) res" where
  "find_addr finder dir d =
     (if focus d \<noteq> 0 then
        (if dir < STACK_BOTTOM \<and> dir > STACK_TOP
         then Inr (Draw, d\<lparr>scr_s := sint ((dir - var (vm d) ESP) div 4)\<rparr>) else Inr (Draw, d))
      else bnd (finder dir (scr_c d)) (\<lambda>c. Inr (Draw, d\<lparr>scr_c := c\<rparr>)))"

definition show_word :: "u32 \<Rightarrow> dbg \<Rightarrow> (ctl \<times> dbg) res" where
  "show_word dir d = bnd (load32 (PMem (unat dir)) (vm d)) (\<lambda>w. Inr (Draw, put_out (Content dir w) d))"

text \<open>The bytes of guest memory from an address on, up to a 0; running into the end of the memory is a
  fault.\<close>

fun mem_string :: "nat \<Rightarrow> u32 \<Rightarrow> cpu \<Rightarrow> u8 list res" where
  "mem_string 0 a s = Inl OutOfBounds"
| "mem_string (Suc n) a s =
     bnd (load8 (PMem (unat a)) s) (\<lambda>b. if b = 0 then Inr [] else bnd (mem_string n (a + 1) s) (\<lambda>r. Inr (b # r)))"

definition show_text :: "u32 \<Rightarrow> dbg \<Rightarrow> (ctl \<times> dbg) res" where
  "show_text dir d =
     bnd (mem_string (MEM_BYTES - unat dir) dir (vm d)) (\<lambda>bs. Inr (Draw, put_out (Text dir bs) d))"

definition chr :: "char \<Rightarrow> int" where "chr c = of_char c"

text \<open>
  The chain of \<open>if\<close>s on the key: the commands that execute, then those that move the windows, then those
  that ask a question.
\<close>

definition question_keys :: "(u32 \<Rightarrow> int \<Rightarrow> int res) \<Rightarrow> dbg \<Rightarrow> (ctl \<times> dbg) res option" where
  "question_keys find_dir d =
     (let k = ch d in
      if k = chr CHR ''b'' then asking scan_hex set_brk d
      else if k = chr CHR ''f'' then asking scan_hex (find_addr find_dir) d
      else if k = chr CHR ''x'' then asking scan_hex show_word d
      else if k = chr CHR ''t'' then asking scan_hex show_text d
      else if k = chr CHR ''d'' then asking scan_dec del_brk d
      else Some (Inr (Draw, d)))"

definition window_keys :: "nat \<Rightarrow> (u32 \<Rightarrow> int \<Rightarrow> int res) \<Rightarrow> dbg \<Rightarrow> (ctl \<times> dbg) res option" where
  "window_keys cnt find_dir d =
     (let k = ch d in
      if k = KEY_DOWN \<or> k = chr CHR ''2'' then Some (Inr (cmd_down cnt d))
      else if k = KEY_UP \<or> k = chr CHR ''8'' then Some (Inr (cmd_up d))
      else if k = KEY_LEFT \<or> k = chr CHR ''4'' then Some (Inr (No_print, d\<lparr>focus := 0\<rparr>))
      else if k = KEY_RIGHT \<or> k = chr CHR ''6'' then Some (Inr (No_print, d\<lparr>focus := 1\<rparr>))
      else question_keys find_dir d)"

definition command :: "host \<Rightarrow> capstone \<Rightarrow> nat \<Rightarrow> (u32 \<Rightarrow> int \<Rightarrow> int res) \<Rightarrow> (u32 \<Rightarrow> int \<Rightarrow> int res) \<Rightarrow> dbg
    \<Rightarrow> (ctl \<times> dbg) res option" where
  "command h cs cnt find_eip find_dir d =
     (let k = ch d in
      if k = chr CHR ''s'' then cmd_step h cs find_eip d
      else if k = chr CHR ''c'' then cmd_continue h cs find_eip d
      else if k = chr CHR ''n'' then cmd_next h cs find_eip d
      else window_keys cnt find_dir d)"

lemmas command_defs = command_def window_keys_def question_keys_def

text \<open>From the label \<open>no_print\<close> to the end of the body: a key is read, ENTER stands for the last one,
  and \<open>old_ch\<close> is set unless a \<open>goto\<close> leaves the body.\<close>

definition key_pass :: "(dbg \<Rightarrow> (ctl \<times> dbg) res option) \<Rightarrow> dbg \<Rightarrow> (ctl \<times> dbg) res option" where
  "key_pass cmd d =
     (case getch (keys d) of
        None \<Rightarrow> None
      | Some (c, ks) \<Rightarrow>
          (let c = (if c = 10 then old_ch d else c) in
           map_option (\<lambda>r. bnd r (\<lambda>(g, d). Inr (g, if g = Draw then d\<lparr>old_ch := ch d\<rparr> else d)))
             (cmd (d\<lparr>ch := c, keys := ks\<rparr>))))"

text \<open>From the top of the \<open>while\<close> loop to the label \<open>no_print\<close>.\<close>

definition draw_pass :: "nat \<Rightarrow> (dbg \<Rightarrow> line list res) \<Rightarrow> dbg \<Rightarrow> dbg res" where
  "draw_pass rows lines d =
     bnd (lines d) (\<lambda>ls. bnd (blank_rest rows ls) (\<lambda>lineas.
     bnd (draw_screen rows (scr_s d) lineas (eip_row ls (var (vm d) EIP)) (old d) (vm d)) (\<lambda>scr.
     Inr ((put_out scr d)\<lparr>old := var (vm d)\<rparr>))))"

text \<open>The \<open>while\<close> loop: the state has the label to go on at.\<close>

definition dbg_pass :: "nat \<Rightarrow> (dbg \<Rightarrow> line list res) \<Rightarrow> (dbg \<Rightarrow> (ctl \<times> dbg) res option) \<Rightarrow> ctl \<times> dbg
    \<Rightarrow> (bool \<times> ctl \<times> dbg) res option" where
  "dbg_pass rows lines cmd = (\<lambda>(g, d).
     case g of
       Exit1 \<Rightarrow> Some (Inr (True, Exit1, d))
     | No_print \<Rightarrow> map_option (\<lambda>r. bnd r (\<lambda>x. Inr (False, x))) (key_pass cmd d)
     | Draw \<Rightarrow>
         if ch d = chr CHR ''q'' then Some (Inr (True, Draw, d))
         else Some (bnd (draw_pass rows lines d) (\<lambda>d. Inr (False, No_print, d))))"

definition dbg_loop :: "nat \<Rightarrow> (dbg \<Rightarrow> line list res) \<Rightarrow> (dbg \<Rightarrow> (ctl \<times> dbg) res option) \<Rightarrow> dbg
    \<Rightarrow> (ctl \<times> dbg) res option" where
  "dbg_loop rows lines cmd d = iterate (dbg_pass rows lines cmd) (Draw, d)"

section \<open>The two functions\<close>

text \<open>The terminal: its number of rows (0 when \<open>ioctl\<close> fails), whether \<open>malloc\<close> delivers the array of
  lines, the keys and the answers that are typed.\<close>

record terminal =
  rows :: nat
  lineas_ok :: bool
  t_keys :: "u8 option list"
  t_answers :: "string list"

definition dbg_init :: "terminal \<Rightarrow> int \<Rightarrow> cpu \<Rightarrow> dbg" where
  "dbg_init t c s = \<lparr>ch = 0, old_ch = 0, scr_c = c, scr_s = 0, focus = 0, brkpts = replicate MAX_BRK None,
     brk_ctr = 0, old = var s, vm = s, keys = t_keys t, answers = t_answers t, shown = []\<rparr>"

text \<open>\<open>scr_c = j+ini; scr_c = scr_c?scr_c-1:scr_c;\<close> when the address is found.\<close>

definition elf_find_eip :: "elf_out \<Rightarrow> insns \<Rightarrow> u32 \<Rightarrow> int \<Rightarrow> int res" where
  "elf_find_eip out insns a c =
     bnd (elf_find (\<lambda>i. unat (snd (sheader out ! i))) insns (counts_from 0 insns) [0..<length insns] a) (\<lambda>r.
       Inr (case r of None \<Rightarrow> c | Some n \<Rightarrow> if n \<noteq> 0 then int n - 1 else 0))"

definition elf_find_dir :: "insns \<Rightarrow> u32 \<Rightarrow> int \<Rightarrow> int res" where
  "elf_find_dir insns a c =
     (let counts = counts_from 0 insns in
      bnd (elf_find (\<lambda>i. counts ! i - section_start counts i) insns counts [0..<length insns] a) (\<lambda>r.
        Inr (case r of None \<Rightarrow> c | Some n \<Rightarrow> int n)))"

definition elf_count :: "insns \<Rightarrow> nat" where
  "elf_count insns = sum_list (map (\<lambda>x. case x of None \<Rightarrow> 0 | Some l \<Rightarrow> length l) insns)"

definition elf_command :: "host \<Rightarrow> capstone \<Rightarrow> elf_out \<Rightarrow> insns \<Rightarrow> dbg \<Rightarrow> (ctl \<times> dbg) res option" where
  "elf_command h cs out insns = command h cs (elf_count insns) (elf_find_eip out insns) (elf_find_dir insns)"

definition elf_screen :: "nat \<Rightarrow> elf_out \<Rightarrow> insns \<Rightarrow> dbg \<Rightarrow> line list res" where
  "elf_screen rws out insns d =
     elf_lines out insns (counts_from 0 insns) (scr_c d) [0..<n_lines rws (elf_count insns) (scr_c d)] None"

definition interface_elf_main :: "ldenv \<Rightarrow> host \<Rightarrow> capstone \<Rightarrow> terminal \<Rightarrow> int \<Rightarrow> u8 list list \<Rightarrow> u8 list list
    \<Rightarrow> (int \<times> cpu) res option" where
  "interface_elf_main e h cs t argc argv envp =
     (case initialize (mem_ok e) static_init of
        Inl f \<Rightarrow> Some (Inl f)
      | Inr (ok, s) \<Rightarrow>
          if ok = 0 then Some (Inr (1, s))
          else case read_elf_file e True argc argv envp ldr_init s of
            Inl f \<Rightarrow> Some (Inl f)
          | Inr (err, out, l, s) \<Rightarrow>
              if err \<noteq> 0 then Some (Inr (0, s))
              else if \<not> cs_open_ok cs then Some (Inr (1, s))
              else
                (let insns = map (disasm_section cs s) (sheader out) in
                 if elf_count insns = 0 \<or> \<not> lineas_ok t then Some (Inr (1, s))
                 else case elf_find_eip out insns (var s EIP) 0 of
                   Inl f \<Rightarrow> Some (Inl f)
                 | Inr c \<Rightarrow>
                     map_option (\<lambda>r. bnd r (\<lambda>(g, d). Inr (0, vm d)))
                       (dbg_loop (rows t) (elf_screen (rows t) out insns) (elf_command h cs out insns) (dbg_init t c s))))"

definition raw_find_eip :: "listed list \<Rightarrow> u32 \<Rightarrow> u32 \<Rightarrow> int \<Rightarrow> int res" where
  "raw_find_eip insn sz a c = raw_find insn [0..<unat sz] a c"

text \<open>The raw mode has a chain of its own, with the same commands on the listing of the file.\<close>

definition raw_question_keys :: "listed list \<Rightarrow> u32 \<Rightarrow> dbg \<Rightarrow> (ctl \<times> dbg) res option" where
  "raw_question_keys insn sz d =
     (let k = ch d in
      if k = chr CHR ''b'' then asking scan_hex set_brk d
      else if k = chr CHR ''f'' then asking scan_hex (find_addr (raw_find_eip insn sz)) d
      else if k = chr CHR ''x'' then asking scan_hex show_word d
      else if k = chr CHR ''t'' then asking scan_hex show_text d
      else if k = chr CHR ''d'' then asking scan_dec del_brk d
      else Some (Inr (Draw, d)))"

definition raw_window_keys :: "listed list \<Rightarrow> u32 \<Rightarrow> dbg \<Rightarrow> (ctl \<times> dbg) res option" where
  "raw_window_keys insn sz d =
     (let k = ch d in
      if k = KEY_DOWN \<or> k = chr CHR ''2'' then Some (Inr (cmd_down (length insn) d))
      else if k = KEY_UP \<or> k = chr CHR ''8'' then Some (Inr (cmd_up d))
      else if k = KEY_LEFT \<or> k = chr CHR ''4'' then Some (Inr (No_print, d\<lparr>focus := 0\<rparr>))
      else if k = KEY_RIGHT \<or> k = chr CHR ''6'' then Some (Inr (No_print, d\<lparr>focus := 1\<rparr>))
      else raw_question_keys insn sz d)"

definition raw_command :: "host \<Rightarrow> capstone \<Rightarrow> listed list \<Rightarrow> u32 \<Rightarrow> dbg \<Rightarrow> (ctl \<times> dbg) res option" where
  "raw_command h cs insn sz d =
     (let k = ch d in
      if k = chr CHR ''s'' then cmd_step h cs (raw_find_eip insn sz) d
      else if k = chr CHR ''c'' then cmd_continue h cs (raw_find_eip insn sz) d
      else if k = chr CHR ''n'' then cmd_next h cs (raw_find_eip insn sz) d
      else raw_window_keys insn sz d)"

text \<open>It is the chain of the ELF mode, with the searches of the raw mode.\<close>

lemma raw_command_eq: "raw_command h cs insn sz = command h cs (length insn) (raw_find_eip insn sz) (raw_find_eip insn sz)"
  by (rule ext) (simp add: raw_command_def raw_window_keys_def raw_question_keys_def command_defs Let_def)

definition raw_screen :: "nat \<Rightarrow> listed list \<Rightarrow> dbg \<Rightarrow> line list res" where
  "raw_screen rws insn d = raw_lines insn (scr_c d) [0..<n_lines rws (length insn) (scr_c d)]"

definition interface_raw_main :: "ldenv \<Rightarrow> host \<Rightarrow> capstone \<Rightarrow> terminal \<Rightarrow> int \<Rightarrow> u8 list list \<Rightarrow> u8 list list
    \<Rightarrow> (int \<times> cpu) res option" where
  "interface_raw_main e h cs t argc argv envp =
     (case initialize (mem_ok e) static_init of
        Inl f \<Rightarrow> Some (Inl f)
      | Inr (ok, s) \<Rightarrow>
          if ok = 0 then Some (Inr (1, s))
          else case read_raw_file e s of
            Inl f \<Rightarrow> Some (Inl f)
          | Inr (err, sz, s) \<Rightarrow>
              if err \<noteq> 0 then Some (Inr (0, s))
              else if \<not> cs_open_ok cs then Some (Inr (1, s))
              else
                (let insn = cs_disasm_all cs (mem s) 0 (sz - var s EIP) (var s EIP) in
                 if insn = [] \<or> \<not> lineas_ok t then Some (Inr (1, s))
                 else map_option (\<lambda>r. bnd r (\<lambda>(g, d). Inr (0, vm d)))
                   (dbg_loop (rows t) (raw_screen (rows t) insn) (raw_command h cs insn sz) (dbg_init t 0 s))))"

definition main :: "ldenv \<Rightarrow> host \<Rightarrow> capstone \<Rightarrow> terminal \<Rightarrow> u8 list list \<Rightarrow> u8 list list \<Rightarrow> (int \<times> cpu) res option" where
  "main e h cs t argv envp =
     (let argc = int (length argv); mode = argv ! 1 in
      if argc \<ge> 2 \<and> mode = map of_char ''-h'' then Some (Inr (0, static_init))
      else if argc < 3 then Some (Inr (1, static_init))
      else if mode = map of_char ''-ie'' then interface_elf_main e h cs t argc argv envp
      else if mode = map of_char ''-ne'' then blind_elf_main e h cs argc argv envp
      else if mode = map of_char ''-nr'' then blind_raw_main e h cs argc argv envp
      else if mode = map of_char ''-ir'' then interface_raw_main e h cs t argc argv envp
      else Some (Inr (1, static_init)))"

section \<open>Breakpoints and windows\<close>

text \<open>
  The invariant of the debugger: the counter of breakpoints is an index of the array and every
  breakpoint below it was assigned; the code window starts at an instruction, the stack window at
  an offset for which the counter cannot overflow.
\<close>

definition dbg_ok :: "nat \<Rightarrow> dbg \<Rightarrow> bool" where
  "dbg_ok cnt d = (length (brkpts d) = MAX_BRK \<and> unat (brk_ctr d) < MAX_BRK \<and>
     None \<notin> set (take (unat (brk_ctr d)) (brkpts d)) \<and>
     0 \<le> scr_c d \<and> scr_c d < int cnt \<and> 0 \<le> scr_s d \<and> scr_s d < 2 ^ 30 \<and> focus d \<in> {0, 1})"

lemma dbg_ok_simps [simp]:
  "dbg_ok cnt (d\<lparr>vm := s\<rparr>) = dbg_ok cnt d" "dbg_ok cnt (d\<lparr>ch := k\<rparr>) = dbg_ok cnt d"
  "dbg_ok cnt (d\<lparr>old_ch := k\<rparr>) = dbg_ok cnt d" "dbg_ok cnt (d\<lparr>keys := ks\<rparr>) = dbg_ok cnt d"
  "dbg_ok cnt (d\<lparr>answers := as\<rparr>) = dbg_ok cnt d" "dbg_ok cnt (put_out x d) = dbg_ok cnt d"
  "dbg_ok cnt (d\<lparr>old := f\<rparr>) = dbg_ok cnt d"
  by (simp_all add: dbg_ok_def put_out_def)

lemma contains_brk: "dbg_ok cnt d \<Longrightarrow> contains (brkpts d) (unat (brk_ctr d)) a = Inr (Some a \<in> set (take (unat (brk_ctr d)) (brkpts d)))"
  by (rule contains_spec) (simp_all add: dbg_ok_def)

lemma set_take_update: "None \<notin> set (take n xs) \<Longrightarrow> None \<notin> set (take n (xs[k := Some v]))"
  by (induction xs arbitrary: n k) (auto split: nat.splits simp: take_Cons)

lemma set_brk_ok: "set_brk dir d = Inr (g, d') \<Longrightarrow> dbg_ok cnt d \<Longrightarrow> dbg_ok cnt d'"
proof -
  assume r: "set_brk dir d = Inr (g, d')" and ok: "dbg_ok cnt d"
  define n where "n = unat (brk_ctr d)"
  have n: "n < 25" using ok by (simp add: dbg_ok_def n_def MAX_BRK_def)
  have "unat (brk_ctr d + 1) = Suc n" using n by (simp add: n_def unat_word_ariths)
  then have m: "unat ((brk_ctr d + 1) mod 25) = Suc n mod 25" by (simp add: unat_mod)
  have "None \<notin> set (take (Suc n mod 25) ((brkpts d)[n := Some dir]))"
  proof (cases "n = 24")
    case False
    then have "take (Suc n mod 25) ((brkpts d)[n := Some dir]) = take n (brkpts d) @ [Some dir]"
      using n ok by (simp add: take_Suc_conv_app_nth dbg_ok_def MAX_BRK_def)
    then show ?thesis using ok by (simp add: dbg_ok_def n_def)
  qed simp
  moreover have "Suc n mod 25 < 25" by simp
  ultimately show ?thesis
    using r ok m by (auto simp: set_brk_def Let_def dbg_ok_def put_out_def MAX_BRK_def n_def split: if_splits)
qed

lemma del_brk_ok: "del_brk dir d = Inr (g, d') \<Longrightarrow> dbg_ok cnt d \<Longrightarrow> dbg_ok cnt d'"
  by (auto simp: del_brk_def Let_def dbg_ok_def dest: set_take_update)

lemma sint_small:
  assumes "unat (x :: u32) < 2 ^ 30"
  shows "sint x = int (unat x)"
proof -
  have "int (unat x) < int (2 ^ 30)" using assms unfolding of_nat_less_iff .
  then have lt: "uint x < 2 ^ 30" by simp
  have ge: "- (2 ^ 31) \<le> uint x" by (rule order_trans [OF _ uint_ge_0]) simp
  show ?thesis unfolding sint_uint by (subst signed_take_bit_int_eq_self) (use lt ge in simp_all)
qed

lemma scroll_small:
  assumes "0 \<le> x" "x < 2 ^ 30" "word_of_int (x + 1) < (a :: u32)" "unat a < 2 ^ 30"
  shows "x + 1 < 2 ^ 30"
proof -
  have "uint (word_of_int (x + 1) :: u32) = x + 1" unfolding uint_word_of_int using assms(1,2) by simp
  moreover have "int (unat a) < int (2 ^ 30)" using assms(4) unfolding of_nat_less_iff .
  ultimately show ?thesis using assms(3) by (simp add: word_less_alt)
qed

lemma stack_words_bound: "unat ((a :: u32) div 4) < 2 ^ 30" "sint (a div 4) = int (unat (a div 4))"
proof -
  have "unat (a div 4) = unat a div 4" by (simp add: unat_div)
  then show lt: "unat (a div 4) < 2 ^ 30" using unsigned_less [where 'a = nat, of a] by simp
  show "sint (a div 4) = int (unat (a div 4))"
    using sint_small [OF lt] .
qed

lemma sint_stack_words: "0 \<le> sint ((a :: u32) div 4)" "sint (a div 4) < 2 ^ 30"
proof -
  have "int (unat (a div 4)) < int (2 ^ 30)" using stack_words_bound(1) [of a] unfolding of_nat_less_iff .
  then show "0 \<le> sint (a div 4)" "sint (a div 4) < 2 ^ 30" unfolding stack_words_bound(2) by simp_all
qed

lemma cmd_down_ok: "cmd_down cnt d = (g, d') \<Longrightarrow> dbg_ok cnt d \<Longrightarrow> dbg_ok cnt d'"
proof -
  assume r: "cmd_down cnt d = (g, d')" and ok: "dbg_ok cnt d"
  have "scr_c d + 1 < int cnt" if "word_of_int (scr_c d + 1) < (of_nat cnt :: u64)"
    using that ok by (cases "scr_c d + 1 = int cnt") (auto simp: dbg_ok_def)
  moreover have "scr_s d + 1 < 2 ^ 30" if "word_of_int (scr_s d + 1) < (STACK_BOTTOM - var (vm d) ESP) div 4"
    using scroll_small [OF _ _ that stack_words_bound(1)] ok by (simp add: dbg_ok_def)
  ultimately show ?thesis using r ok by (auto simp: cmd_down_def dbg_ok_def split: if_splits)
qed

lemma cmd_up_ok: "cmd_up d = (g, d') \<Longrightarrow> dbg_ok cnt d \<Longrightarrow> dbg_ok cnt d'"
  by (auto simp: cmd_up_def dbg_ok_def split: if_splits)

lemma asking_ok:
  assumes "asking sc act d = Some (Inr (g, d'))" "dbg_ok cnt d"
    "\<And>v e. act v e = Inr (g, d') \<Longrightarrow> dbg_ok cnt e \<Longrightarrow> dbg_ok cnt d'"
  shows "dbg_ok cnt d'"
  using assms by (auto simp: asking_def)

lemma show_word_ok: "show_word dir d = Inr (g, d') \<Longrightarrow> dbg_ok cnt d \<Longrightarrow> dbg_ok cnt d'"
  by (auto simp: show_word_def bnd_eq_Inr simp del: load32.simps)

lemma show_text_ok: "show_text dir d = Inr (g, d') \<Longrightarrow> dbg_ok cnt d \<Longrightarrow> dbg_ok cnt d'"
  by (auto simp: show_text_def bnd_eq_Inr)


section \<open>What a mode promises to the debugger\<close>

text \<open>
  The two searches of a mode keep the window inside the listing; then every command, every pass and
  every run of the loop keeps the invariant.
\<close>

locale code_view =
  fixes cnt :: nat and find_eip find_dir :: "u32 \<Rightarrow> int \<Rightarrow> int res"
  assumes find_eip_in: "find_eip a c = Inr c' \<Longrightarrow> 0 \<le> c \<Longrightarrow> c < int cnt \<Longrightarrow> 0 \<le> c' \<and> c' < int cnt"
    and find_dir_in: "find_dir a c = Inr c' \<Longrightarrow> 0 \<le> c \<Longrightarrow> c < int cnt \<Longrightarrow> 0 \<le> c' \<and> c' < int cnt"
begin

lemma after_exec_ok: "after_exec find_eip d x = Inr (g, d') \<Longrightarrow> dbg_ok cnt d \<Longrightarrow> dbg_ok cnt d'"
  by (auto simp: bnd_eq_Inr after_exec_def dbg_ok_def split: if_splits prod.splits dest: find_eip_in)

lemma find_addr_ok: "find_addr find_dir dir d = Inr (g, d') \<Longrightarrow> dbg_ok cnt d \<Longrightarrow> dbg_ok cnt d'"
  using sint_stack_words [of "dir - var (vm d) ESP"]
  by (auto simp: bnd_eq_Inr find_addr_def dbg_ok_def split: if_splits dest: find_dir_in)

lemma command_ok:
  assumes "command h cs cnt find_eip find_dir d = Some (Inr (g, d'))" "dbg_ok cnt d"
  shows "dbg_ok cnt d'"
proof -
  have "dbg_ok cnt d'" if "cmd_step h cs find_eip d = Some (Inr (g, d'))"
    using that assms(2) by (auto simp: bnd_eq_Inr cmd_step_def dest: after_exec_ok)
  moreover have "dbg_ok cnt d'" if "cmd_continue h cs find_eip d = Some (Inr (g, d'))"
    using that assms(2) by (auto simp: bnd_eq_Inr cmd_continue_def dest: after_exec_ok)
  moreover have "dbg_ok cnt d'" if "cmd_next h cs find_eip d = Some (Inr (g, d'))"
    using that assms(2) by (auto simp: bnd_eq_Inr cmd_next_def Let_def split: option.splits dest: after_exec_ok)
  moreover have "dbg_ok cnt d'" if "asking scan_hex set_brk d = Some (Inr (g, d'))"
    using asking_ok [OF that assms(2)] set_brk_ok by blast
  moreover have "dbg_ok cnt d'" if "asking scan_dec del_brk d = Some (Inr (g, d'))"
    using asking_ok [OF that assms(2)] del_brk_ok by blast
  moreover have "dbg_ok cnt d'" if "asking scan_hex (find_addr find_dir) d = Some (Inr (g, d'))"
    using asking_ok [OF that assms(2)] find_addr_ok by blast
  moreover have "dbg_ok cnt d'" if "asking scan_hex show_word d = Some (Inr (g, d'))"
    using asking_ok [OF that assms(2)] show_word_ok by blast
  moreover have "dbg_ok cnt d'" if "asking scan_hex show_text d = Some (Inr (g, d'))"
    using asking_ok [OF that assms(2)] show_text_ok by blast
  moreover have "dbg_ok cnt (d\<lparr>focus := f\<rparr>)" if "f \<in> {0, 1}" for f
    using that assms(2) by (auto simp: dbg_ok_def)
  ultimately show ?thesis
    using assms cmd_down_ok [of cnt d g d'] cmd_up_ok [of d g d' cnt]
    unfolding command_defs Let_def by (auto split: if_splits)
qed

lemma key_pass_ok:
  "key_pass (command h cs cnt find_eip find_dir) d = Some (Inr (g, d')) \<Longrightarrow> dbg_ok cnt d \<Longrightarrow> dbg_ok cnt d'"
  by (auto simp: bnd_eq_Inr key_pass_def Let_def split: option.splits prod.splits if_splits dest!: command_ok)

lemma dbg_pass_ok:
  assumes "pass (dbg_pass rws lines (command h cs cnt find_eip find_dir)) x y" "dbg_ok cnt (snd x)"
  shows "dbg_ok cnt (snd y)"
proof (cases "fst x")
  case No_print
  then show ?thesis
    using assms key_pass_ok [of h cs "snd x" "fst y" "snd y"]
    by (auto simp: bnd_eq_Inr pass_iff dbg_pass_def split: prod.splits)
qed (use assms in \<open>auto simp: bnd_eq_Inr pass_iff dbg_pass_def draw_pass_def split: prod.splits if_splits\<close>)

lemma dbg_run_ok:
  "(pass (dbg_pass rws lines (command h cs cnt find_eip find_dir)))\<^sup>*\<^sup>* x y \<Longrightarrow> dbg_ok cnt (snd x) \<Longrightarrow> dbg_ok cnt (snd y)"
  by (erule pass_invariant [of _ _ _ "\<lambda>x. dbg_ok cnt (snd x)"]) (auto dest: dbg_pass_ok)

end

lemma dbg_init_ok: "0 \<le> c \<Longrightarrow> c < int cnt \<Longrightarrow> dbg_ok cnt (dbg_init t c s)"
  by (simp add: dbg_ok_def dbg_init_def MAX_BRK_def)

lemma raw_find_in:
  "raw_find insn js a c = Inr c' \<Longrightarrow> 0 \<le> c \<Longrightarrow> c < int (length insn) \<Longrightarrow> 0 \<le> c' \<and> c' < int (length insn)"
  by (induction js) (auto split: if_splits)

interpretation raw: code_view "length insn" "raw_find_eip insn sz" "raw_find_eip insn sz" for insn sz
  by unfold_locales (auto simp: bnd_eq_Inr raw_find_eip_def dest: raw_find_in)

lemma counts_from_nth:
  "i < length xs \<Longrightarrow> counts_from n xs ! i = n + sum_list (map (\<lambda>x. case x of None \<Rightarrow> 0 | Some l \<Rightarrow> length l) (take (Suc i) xs))"
  by (induction xs arbitrary: n i) (auto simp: Let_def nth_Cons' take_Cons' split: nat.splits)

lemma section_find_in: "section_find insns i js a = Inr (Some j) \<Longrightarrow> i < length insns \<and> (\<exists>l. insns ! i = Some l \<and> j < length l)"
  by (induction js) (auto simp: bnd_eq_Inr insn_at_def split: if_splits option.splits)

lemma section_start_in:
  assumes "i < length insns" "insns ! i = Some l" "j < length l"
  shows "j + section_start (counts_from 0 insns) i < elf_count insns"
proof -
  let ?f = "\<lambda>x. case x of None \<Rightarrow> 0 | Some l \<Rightarrow> length l"
  have "section_start (counts_from 0 insns) i = sum_list (map ?f (take i insns))"
    using assms(1) by (auto simp: section_start_def counts_from_nth)
  moreover have "sum_list (map ?f (take (Suc i) insns)) = sum_list (map ?f (take i insns)) + length l"
    using assms(1,2) by (simp add: take_Suc_conv_app_nth)
  moreover have "elf_count insns = sum_list (map ?f (take (Suc i) insns)) + sum_list (map ?f (drop (Suc i) insns))"
    unfolding elf_count_def by (metis append_take_drop_id map_append sum_list_append)
  ultimately show ?thesis using assms(3) by simp
qed

lemma elf_find_in: "elf_find b insns (counts_from 0 insns) js a = Inr (Some n) \<Longrightarrow> n < elf_count insns"
  by (induction js) (auto simp: bnd_eq_Inr split: option.splits dest!: section_find_in intro: section_start_in)

interpretation elf: code_view "elf_count insns" "elf_find_eip out insns" "elf_find_dir insns" for out insns
  by unfold_locales
    (auto simp: bnd_eq_Inr elf_find_eip_def elf_find_dir_def Let_def split: option.splits if_splits dest!: elf_find_in)

text \<open>
  C6 (debugger invariant). In both modes every state that the command loop reaches from a listing
  with at least one instruction keeps the windows in range and the breakpoint counter below
  \<open>MAX_BRK\<close>; the test for a breakpoint then never reads an element that was not assigned, and it
  tells whether the address is among the breakpoints below the counter.
\<close>

theorem debugger_invariant:
  assumes "(pass (dbg_pass rws lines (elf_command h cs out insns)))\<^sup>*\<^sup>* (Draw, dbg_init t c s) (g, d) \<and> n = elf_count insns \<or>
      (pass (dbg_pass rws lines (raw_command h cs insn sz)))\<^sup>*\<^sup>* (Draw, dbg_init t c s) (g, d) \<and> n = length insn"
    "0 \<le> c" "c < int n"
  shows "dbg_ok n d \<and>
    contains (brkpts d) (unat (brk_ctr d)) a = Inr (Some a \<in> set (take (unat (brk_ctr d)) (brkpts d)))"
proof -
  have "dbg_ok n d"
    using assms dbg_init_ok [of c n t s]
      elf.dbg_run_ok [of rws lines h cs insns out "(Draw, dbg_init t c s)" "(g, d)"]
      raw.dbg_run_ok [of rws lines h cs insn sz "(Draw, dbg_init t c s)" "(g, d)"]
    by (auto simp: elf_command_def raw_command_eq)
  then show ?thesis using contains_brk by blast
qed


text \<open>A listing of two instructions, a key \<open>b\<close> and the answer to its question.\<close>

definition demo_insn :: "listed list" where
  "demo_insn = [\<lparr>address = 0, l_mnemonic = ''nop'', op_str = ''''\<rparr>, \<lparr>address = 1, l_mnemonic = ''nop'', op_str = ''''\<rparr>]"

definition demo_term :: terminal where
  "demo_term = \<lparr>rows = 0, lineas_ok = True, t_keys = [Some 98], t_answers = [''nope'', ''0x00000001'']\<rparr>"

definition demo_capstone :: capstone where
  "demo_capstone = \<lparr>cs_open_ok = True, cs_disasm = (\<lambda>m p n a. None), cs_disasm_all = (\<lambda>m p n a. demo_insn)\<rparr>"

lemma scan_demo: "scan_hex ''nope'' = ScanFail" "scan_hex ''0x00000001'' = Scanned 1"
  by code_simp+

theorem debugger_invariant_witness:
  "\<exists>d. (pass (dbg_pass 0 (raw_screen 0 demo_insn) (raw_command idle_host demo_capstone demo_insn 2)))\<^sup>*\<^sup>*
      (Draw, dbg_init demo_term 0 static_init) (Draw, d) \<and> dbg_ok 2 d \<and>
    contains (brkpts d) (unat (brk_ctr d)) 1 = Inr True"
proof -
  let ?p = "dbg_pass 0 (raw_screen 0 demo_insn) (raw_command idle_host demo_capstone demo_insn 2)"
  let ?d0 = "dbg_init demo_term 0 static_init"
  have "?p (Draw, ?d0) = Some (Inr (False, No_print, put_out (Screen [] (var static_init) [] (- 1) 0 []) ?d0))"
    by (simp add: dbg_pass_def dbg_init_def chr_def draw_pass_def raw_screen_def n_lines_def blank_rest_def
        draw_screen_def stack_window_def H_REGS_def STACK_BOTTOM_def static_init_def eip_row_def old_regs_def put_out_def)
  then have "pass ?p (Draw, ?d0) (No_print, put_out (Screen [] (var static_init) [] (- 1) 0 []) ?d0)" by (rule pass.intros)
  moreover obtain d where d: "?p (No_print, put_out (Screen [] (var static_init) [] (- 1) 0 []) ?d0) = Some (Inr (False, Draw, d))"
    "brkpts d = (replicate MAX_BRK None)[0 := Some 1]" "brk_ctr d = 1"
    by (simp add: dbg_pass_def key_pass_def dbg_init_def demo_term_def put_out_def ESC_def raw_command_eq command_defs
        chr_def KEY_UP_def KEY_DOWN_def KEY_LEFT_def KEY_RIGHT_def asking_def scan_demo set_brk_def MAX_BRK_def)
  then have "pass ?p (No_print, put_out (Screen [] (var static_init) [] (- 1) 0 []) ?d0) (Draw, d)" by (intro pass.intros)
  ultimately have run: "(pass ?p)\<^sup>*\<^sup>* (Draw, ?d0) (Draw, d)" by (meson r_into_rtranclp rtranclp_trans)
  have len: "length demo_insn = 2" by (simp add: demo_insn_def)
  have "Some 1 \<in> set (take 1 ((replicate MAX_BRK None)[0 := Some 1]))" by (simp add: MAX_BRK_def numeral_eq_Suc)
  then have "dbg_ok 2 d \<and> contains (brkpts d) (unat (brk_ctr d)) 1 = Inr True"
    using debugger_invariant [where a = 1, OF disjI2, OF conjI, OF run refl] d(2,3) unfolding len by auto
  then show ?thesis using run by blast
qed


section \<open>Continue\<close>

text \<open>One instruction executed by the loop of \<open>c\<close> or \<open>n\<close>, while its condition holds.\<close>

inductive exec_step :: "host \<Rightarrow> capstone \<Rightarrow> (cpu \<Rightarrow> bool res) \<Rightarrow> cpu \<Rightarrow> cpu \<Rightarrow> bool" for h cs cond where
  exec_step: "cond s = Inr True \<Longrightarrow> exec_ins h cs s = Inr (False, s') \<Longrightarrow> exec_step h cs cond s s'"

inductive_simps exec_step_iff: "exec_step h cs cond s s'"

lemma exec_pass_iff:
  "exec_pass h cs cond (e, s) = Inr (False, e', s') \<longleftrightarrow> \<not> e' \<and> exec_step h cs cond s s'"
  "exec_pass h cs cond (e, s) = Inr (True, False, s') \<longleftrightarrow> cond s = Inr False \<and> s' = s"
  "exec_pass h cs cond (e, s) = Inr (True, True, s') \<longleftrightarrow> cond s = Inr True \<and> exec_ins h cs s = Inr (True, s')"
  by (cases "cond s"; cases "exec_ins h cs s"; auto simp: exec_pass_def exec_step_iff)+

lemma exec_passes:
  "(pass (\<lambda>x. Some (exec_pass h cs cond x)))\<^sup>*\<^sup>* (False, s) (e, t) \<longleftrightarrow> \<not> e \<and> (exec_step h cs cond)\<^sup>*\<^sup>* s t"
proof
  assume "(pass (\<lambda>x. Some (exec_pass h cs cond x)))\<^sup>*\<^sup>* (False, s) (e, t)"
  then show "\<not> e \<and> (exec_step h cs cond)\<^sup>*\<^sup>* s t"
    by (induction "(e, t)" arbitrary: e t rule: rtranclp_induct)
      (auto simp: pass_iff exec_pass_iff intro: rtranclp.rtrancl_into_rtrancl)
next
  assume r: "\<not> e \<and> (exec_step h cs cond)\<^sup>*\<^sup>* s t"
  then have "(exec_step h cs cond)\<^sup>*\<^sup>* s t" by simp
  then have "(pass (\<lambda>x. Some (exec_pass h cs cond x)))\<^sup>*\<^sup>* (False, s) (False, t)"
    by (induction rule: rtranclp_induct)
      (auto simp: pass_iff exec_pass_iff intro: rtranclp.rtrancl_into_rtrancl)
  then show "(pass (\<lambda>x. Some (exec_pass h cs cond x)))\<^sup>*\<^sup>* (False, s) (e, t)" using r by simp
qed

lemma exec_while_iff:
  "exec_while h cs cond s = Some (Inr (False, s')) \<longleftrightarrow> (exec_step h cs cond)\<^sup>*\<^sup>* s s' \<and> cond s' = Inr False"
  "exec_while h cs cond s = Some (Inr (True, s')) \<longleftrightarrow>
    (\<exists>t. (exec_step h cs cond)\<^sup>*\<^sup>* s t \<and> cond t = Inr True \<and> exec_ins h cs t = Inr (True, s'))"
  unfolding exec_while_def iterate_iff by (auto simp: exec_passes exec_pass_iff)

text \<open>The addresses at which \<open>c\<close> stops.\<close>

definition active :: "dbg \<Rightarrow> u32 set" where
  "active d = {a. Some a \<in> set (take (unat (brk_ctr d)) (brkpts d))}"

lemma brk_cond_active: "dbg_ok cnt d \<Longrightarrow> brk_cond d s = Inr (var s EIP \<notin> active d)"
  by (simp add: brk_cond_def contains_brk active_def)

text \<open>
  C21 (continue). From a state that satisfies the invariant, the command \<open>c\<close> stops exactly at the first
  state at which \<open>eip\<close> is an active breakpoint, reached by executing instructions none of which
  starts at one; a machine that already is at a breakpoint does not move. It leaves the debugger
  exactly when, before that, nothing can be disassembled or an instruction returns the exit code.
\<close>

theorem continue_runs_to_breakpoint:
  assumes "dbg_ok cnt d"
  shows "(exec_while h cs (brk_cond d) (vm d) = Some (Inr (False, s')) \<longleftrightarrow>
      (exec_step h cs (\<lambda>s. Inr (var s EIP \<notin> active d)))\<^sup>*\<^sup>* (vm d) s' \<and> var s' EIP \<in> active d) \<and>
    (exec_while h cs (brk_cond d) (vm d) = Some (Inr (True, s')) \<longleftrightarrow>
      (\<exists>t. (exec_step h cs (\<lambda>s. Inr (var s EIP \<notin> active d)))\<^sup>*\<^sup>* (vm d) t \<and> var t EIP \<notin> active d \<and>
         exec_ins h cs t = Inr (True, s'))) \<and>
    (var (vm d) EIP \<in> active d \<longrightarrow> exec_while h cs (brk_cond d) (vm d) = Some (Inr (False, vm d)))"
proof -
  have "brk_cond d = (\<lambda>s. Inr (var s EIP \<notin> active d))" using brk_cond_active [OF assms] by blast
  then show ?thesis by (auto simp: exec_while_iff)
qed

text \<open>
  C22 (breakpoint counter). The 25th breakpoint resets the counter, so that no breakpoint is active any
  more: the test fails for every address, and \<open>c\<close> never stops before the program ends.
\<close>

theorem breakpoints_wrap:
  assumes "dbg_ok cnt d" "unat (brk_ctr d) = MAX_BRK - 1"
  shows "\<exists>d'. set_brk dir d = Inr (Draw, d') \<and> length (brkpts d') = MAX_BRK \<and> None \<notin> set (brkpts d') \<and>
    Some dir \<in> set (brkpts d') \<and> active d' = {} \<and> exec_while h cs (brk_cond d') s \<noteq> Some (Inr (False, s'))"
proof -
  have n: "unat (brk_ctr d) = 24" "length (brkpts d) = 25" using assms by (simp_all add: MAX_BRK_def dbg_ok_def)
  then have c: "brk_ctr d = 24" by (simp add: word_unat_eq_iff)
  define d' where "d' = (put_out (Created 25 dir) d)\<lparr>brkpts := (brkpts d)[24 := Some dir], brk_ctr := 0\<rparr>"
  have r: "set_brk dir d = Inr (Draw, d')" using n c by (simp add: set_brk_def d'_def MAX_BRK_def)
  have "(brkpts d)[24 := Some dir] = take 24 (brkpts d) @ [Some dir]"
    using n(2) by (simp add: upd_conv_take_nth_drop)
  then have b: "brkpts d' = take 24 (brkpts d) @ [Some dir]" by (simp add: d'_def)
  have "active d' = {}" by (simp add: active_def d'_def)
  then show ?thesis
    using r b n assms(1) brk_cond_active [OF set_brk_ok [OF r assms(1)]]
    by (auto simp: exec_while_iff MAX_BRK_def dbg_ok_def)
qed


text \<open>Every element of the array is a breakpoint; the last one is not yet assigned.\<close>

definition demo_brk :: dbg where
  "demo_brk = (dbg_init demo_term 0 static_init)\<lparr>brkpts := replicate 24 (Some 0) @ [None], brk_ctr := 24\<rparr>"

lemma demo_brk_ok: "dbg_ok 2 demo_brk"
  by (simp add: dbg_ok_def demo_brk_def dbg_init_def MAX_BRK_def)

theorem continue_runs_to_breakpoint_witness:
  "dbg_ok 2 demo_brk \<and> exec_while idle_host demo_capstone (brk_cond demo_brk) (vm demo_brk) = Some (Inr (False, static_init))"
proof -
  have "var (vm demo_brk) EIP \<in> active demo_brk" "vm demo_brk = static_init"
    by (simp_all add: active_def demo_brk_def dbg_init_def static_init_def)
  then show ?thesis using continue_runs_to_breakpoint [OF demo_brk_ok, of idle_host demo_capstone] demo_brk_ok by simp
qed

theorem breakpoints_wrap_witness:
  "dbg_ok 2 demo_brk \<and> unat (brk_ctr demo_brk) = MAX_BRK - 1 \<and>
   (\<exists>d'. set_brk 0x1000 demo_brk = Inr (Draw, d') \<and> Some 0x1000 \<in> set (brkpts d') \<and> active d' = {})"
proof -
  have "unat (brk_ctr demo_brk) = MAX_BRK - 1" by (simp add: demo_brk_def MAX_BRK_def)
  then show ?thesis using breakpoints_wrap [OF demo_brk_ok, of "0x1000"] demo_brk_ok by blast
qed

section \<open>Addresses\<close>

text \<open>An address printed with \<open>0x%08x\<close>.\<close>

definition hex_digit :: "nat \<Rightarrow> char" where
  "hex_digit n = (if n < 10 then char_of (48 + n) else char_of (87 + n))"

definition addr_text :: "u32 \<Rightarrow> string" where
  "addr_text a = ''0x'' @ map (\<lambda>i. hex_digit (unat a div 16 ^ i mod 16)) (rev [0..<8])"

lemma digit_val_hex_digit: "n < 16 \<Longrightarrow> digit_val (hex_digit n) = n"
  by (auto simp: hex_digit_def digit_val_def Let_def)

text \<open>What is not a digit has the value 16.\<close>

lemma no_digit: "is_space c \<or> c \<in> {CHR ''-'', CHR ''+'', CHR ''x'', CHR ''X''} \<Longrightarrow> digit_val c = 16"
  by (auto simp: is_space_def digit_val_def)

lemma number_append: "number b (cs @ [c]) = b * number b cs + digit_val c"
  by (simp add: number_def)

lemma number_hex: "number 16 (map (\<lambda>i. hex_digit (n div 16 ^ i mod 16)) (rev [0..<k])) = n mod 16 ^ k"
proof (induction k arbitrary: n)
  case (Suc k)
  have "map (\<lambda>i. hex_digit (n div 16 ^ i mod 16)) (rev [0..<Suc k]) =
      map (\<lambda>i. hex_digit (n div 16 div 16 ^ i mod 16)) (rev [0..<k]) @ [hex_digit (n mod 16)]"
    unfolding upt_conv_Cons [OF zero_less_Suc] map_Suc_upt [symmetric] by (simp add: rev_map div_mult2_eq comp_def)
  moreover have "16 * (n div 16 mod 16 ^ k) + n mod 16 = n mod 16 ^ Suc k" by (simp add: mod_mult2_eq)
  ultimately show ?case using Suc.IH [of "n div 16"] by (simp add: number_append digit_val_hex_digit)
qed (simp add: number_def)

text \<open>
  C24 (addresses). An address printed by the debugger, with anything behind it, is read back by the
  questions of its commands as the same address.
\<close>

theorem scan_addr_text: "scan_hex (addr_text a @ rest) = Scanned a"
proof -
  define ds where "ds = map (\<lambda>i. hex_digit (unat a div 16 ^ i mod 16)) (rev [0..<8])"
  have dig: "\<forall>c \<in> set ds. digit_val c < 16 \<and> \<not> is_space c \<and> c \<notin> {CHR ''-'', CHR ''+'', CHR ''x'', CHR ''X''}"
  proof
    fix c assume "c \<in> set ds"
    then have "digit_val c < 16" by (auto simp: ds_def digit_val_hex_digit simp del: upt_Suc)
    then show "digit_val c < 16 \<and> \<not> is_space c \<and> c \<notin> {CHR ''-'', CHR ''+'', CHR ''x'', CHR ''X''}"
      using no_digit [of c] by linarith
  qed
  have len: "length ds = 8" by (simp add: ds_def)
  then obtain c0 c1 r where c: "ds = c0 # c1 # r" by (auto simp: length_Suc_conv numeral_eq_Suc)
  have "unat a < 16 ^ 8" using unsigned_less [where 'a = nat, of a] by simp
  then have num: "number 16 ds = unat a" unfolding ds_def number_hex by simp
  have "scan_x (ds @ rest) = Scanned a"
    using dig len num by (simp add: scan_x_def c split_sign_def drop_0x_def takeWhile_eq_all_conv [THEN iffD2])
  then show ?thesis by (simp add: scan_hex_def addr_text_def ds_def [symmetric] del: upt_Suc)
qed

section \<open>Reads beyond the listing\<close>

lemma raw_find_beyond:
  assumes "\<forall>x \<in> set insn. address x \<noteq> ucast a" "length insn < unat sz"
  shows "raw_find_eip insn sz a c = Inl OutOfBounds"
proof -
  have "raw_find insn [k..<unat sz] a c = Inl OutOfBounds" if "k \<le> length insn" for k
    using that
  proof (induction "length insn - k" arbitrary: k)
    case 0
    then show ?case using assms(2) by (simp add: upt_conv_Cons)
  next
    case (Suc n)
    then have "ucast a \<noteq> address (insn ! k)" using assms(1) by (metis nth_mem Suc_leI le_eq_less_or_eq diff_self_eq_0 nat.distinct(1))
    then show ?case using Suc.hyps(1) [of "Suc k"] Suc.hyps(2) Suc.prems assms(2) by (simp add: upt_conv_Cons)
  qed
  then show ?thesis by (simp add: raw_find_eip_def)
qed

lemma raw_lines_beyond:
  "\<exists>i \<in> set js. length insn \<le> unat (of_nat i + word_of_int c :: u32) \<Longrightarrow> raw_lines insn c js = Inl OutOfBounds"
proof (induction js)
  case (Cons j js)
  then show ?case by (cases "length insn \<le> unat (of_nat j + word_of_int c :: u32)") (auto simp: not_le Let_def)
qed simp

text \<open>A window of which the listing does not fill every row reads one instruction too many.\<close>

lemma raw_screen_beyond:
  assumes "scr_c d = int k" "k < length insn" "length insn < 2 ^ 31" "length insn - k < rws"
  shows "raw_screen rws insn d = Inl OutOfBounds"
proof -
  define m where "m = length insn - k"
  have len: "length insn = m + k" using assms(2) by (simp add: m_def)
  have "(of_nat (length insn) - word_of_int (int k) + 1 :: u64) = of_nat (Suc m)" by (simp add: len)
  moreover have "unat (of_nat (Suc m) :: u64) = Suc m"
    using assms(3) by (simp add: unat_of_nat len del: of_nat_Suc)
  ultimately have "n_lines rws (length insn) (scr_c d) = Suc m"
    using assms(4) unfolding n_lines_def assms(1) by (simp only: m_def [symmetric])
  moreover have "unat (of_nat m + word_of_int (scr_c d) :: u32) = length insn"
    using assms(1,3) by (simp add: unat_of_nat len flip: of_nat_add)
  ultimately show ?thesis unfolding raw_screen_def by (intro raw_lines_beyond bexI [of _ m]) simp_all
qed

text \<open>The answer \<open>0x\<close> followed by ENTER.\<close>

lemma ask_empty_number: "ask scan_hex [''0x'' @ [CHR 0x0A]] = Some (Inl Uninit)"
  by code_simp

end
