(* ===== verification/VM_Interface.thy ===== *)
theory VM_Interface imports VM_Debugger begin

text \<open>
  The terminal side of the debugger (\<open>interface.c\<close>): the terminal modes, the geometry of the screen with
  the heap buffers of the box lines, cursor movement and erasing, and the question that \<open>get_str\<close> puts
  on the screen. The kernel's terminal is part of the state: \<open>tcgetattr\<close> reads its settings, \<open>tcsetattr\<close>
  replaces them, and both fail and change nothing when standard input is not a terminal. What is printed
  is kept byte by byte, as is what is left to read of the stream \<open>stdin\<close>.
\<close>

section \<open>State\<close>

text \<open>\<open>struct termios\<close>, of which the code changes \<open>c_lflag\<close> alone.\<close>

record termios =
  c_iflag :: u32
  c_oflag :: u32
  c_cflag :: u32
  c_lflag :: u32
  c_cc :: "u8 list"

definition ICANON :: u32 where "ICANON = 0x2"
definition ECHO :: u32 where "ECHO = 0x8"

text \<open>A buffer of \<open>calloc\<close>: its size in bytes, and the string that it holds.\<close>

record buffer =
  cap :: nat
  chars :: "u8 list"

text \<open>The global variables of the file, and around them the terminal, the output and the input.\<close>

record ui =
  is_tty :: bool
  tty :: termios
  oldt :: termios
  newt :: termios
  olde :: termios
  newe :: termios
  ui_rows :: int
  ui_cols :: int
  spaces :: int
  w_code :: int
  w_stack :: int
  box_lines :: "buffer option"
  box_code :: "buffer option"
  box_stack :: "buffer option"
  old_values :: "gvar \<Rightarrow> u32"
  printed :: "u8 list"
  stdin :: "u8 list"

section \<open>Terminal modes\<close>

definition tcgetattr :: "ui \<Rightarrow> termios \<Rightarrow> termios" where
  "tcgetattr u t = (if is_tty u then tty u else t)"

definition tcsetattr :: "termios \<Rightarrow> ui \<Rightarrow> ui" where
  "tcsetattr t u = (if is_tty u then u\<lparr>tty := t\<rparr> else u)"

definition clear_lflag :: "u32 \<Rightarrow> termios \<Rightarrow> termios" where
  "clear_lflag m t = t\<lparr>c_lflag := c_lflag t AND NOT m\<rparr>"

definition init_raw_mode :: "ui \<Rightarrow> ui" where
  "init_raw_mode u =
     (let u = u\<lparr>oldt := tcgetattr u (oldt u)\<rparr>;
          u = u\<lparr>newt := clear_lflag ICANON (oldt u)\<rparr> in tcsetattr (newt u) u)"

definition enable_raw_mode :: "ui \<Rightarrow> ui" where
  "enable_raw_mode u = (let u = u\<lparr>newt := clear_lflag ICANON (oldt u)\<rparr> in tcsetattr (newt u) u)"

definition disable_echo :: "ui \<Rightarrow> ui" where
  "disable_echo u =
     (let u = u\<lparr>olde := tcgetattr u (olde u)\<rparr>;
          u = u\<lparr>newe := clear_lflag ECHO (olde u)\<rparr> in tcsetattr (newe u) u)"

text \<open>As \<open>disable_echo\<close>, without reading the settings first: the flag is cleared here too.\<close>

definition enable_echo :: "ui \<Rightarrow> ui" where
  "enable_echo u = (let u = u\<lparr>newe := clear_lflag ECHO (olde u)\<rparr> in tcsetattr (newe u) u)"

definition disable_raw_mode :: "ui \<Rightarrow> ui" where
  "disable_raw_mode u = tcsetattr (oldt u) u"

section \<open>Geometry and the lines of the boxes\<close>

definition W_STACK :: int where "W_STACK = 27"

text \<open>The character of a horizontal line in UTF-8.\<close>

definition hline :: "u8 list" where "hline = [0xE2, 0x94, 0x80]"

text \<open>\<open>strcat\<close> writes the string and its terminator behind the string that the buffer holds.\<close>

definition strcat :: "buffer option \<Rightarrow> u8 list \<Rightarrow> buffer option res" where
  "strcat b t =
     (case b of
        None \<Rightarrow> Inl NullDeref
      | Some b \<Rightarrow> if length (chars b) + length t < cap b then Inr (Some (b\<lparr>chars := chars b @ t\<rparr>)) else Inl OutOfBounds)"

primrec get_lines :: "nat \<Rightarrow> buffer option \<Rightarrow> buffer option res" where
  "get_lines 0 b = Inr b"
| "get_lines (Suc n) b = bnd (strcat b hline) (get_lines n)"

text \<open>An \<open>int\<close> that is passed as \<open>size_t\<close>, and \<open>calloc(3, n)\<close>: null when the product overflows or the
  allocator refuses (an argument).\<close>

definition size_t :: "int \<Rightarrow> nat" where "size_t i = unat (word_of_int i :: u64)"

definition calloc3 :: "(nat \<Rightarrow> bool) \<Rightarrow> int \<Rightarrow> buffer option" where
  "calloc3 heap i = (let n = 3 * size_t i in if n < 2 ^ 64 \<and> heap n then Some \<lparr>cap = n, chars = []\<rparr> else None)"

definition reg_spaces :: "int \<Rightarrow> int" where
  "reg_spaces c =
     (let sp = ((c - 4) - (27 * 3)) sdiv 2;
          sp = (if sp \<noteq> 0 then sp - 1 else sp) in if sp > 15 then 10 else sp)"

text \<open>\<open>init_interface\<close>: the size that \<open>ioctl\<close> delivers is an argument. The value that is returned after a
  success is left open in the source and used by no caller.\<close>

definition init_interface :: "(u16 \<times> u16) option \<Rightarrow> (nat \<Rightarrow> bool) \<Rightarrow> cpu \<Rightarrow> ui \<Rightarrow> ui res" where
  "init_interface ws heap s u =
     (case ws of
        None \<Rightarrow> Inr u
      | Some (ws_row, ws_col) \<Rightarrow>
          (let u = u\<lparr>ui_rows := uint ws_row, ui_cols := uint ws_col\<rparr>;
               u = u\<lparr>spaces := reg_spaces (ui_cols u)\<rparr>;
               u = u\<lparr>w_code := ui_cols u - W_STACK, w_stack := W_STACK\<rparr>;
               u = u\<lparr>box_lines := calloc3 heap (ui_cols u - 1), box_code := calloc3 heap (w_code u - 1),
                     box_stack := calloc3 heap (w_stack u - 1)\<rparr> in
           bnd (get_lines (size_t (ui_cols u - 2)) (box_lines u)) (\<lambda>b1.
           bnd (get_lines (size_t (w_code u - 2)) (box_code u)) (\<lambda>b2.
           bnd (get_lines (size_t (w_stack u - 2)) (box_stack u)) (\<lambda>b3.
           Inr (u\<lparr>box_lines := b1, box_code := b2, box_stack := b3,
                  old_values := override_on (old_values u) (var s) (set old_regs)\<rparr>))))))"

definition exit_interface :: "ui \<Rightarrow> ui" where
  "exit_interface u = u\<lparr>box_lines := None, box_code := None, box_stack := None\<rparr>"

section \<open>Output\<close>

definition bytes :: "string \<Rightarrow> u8 list" where "bytes = map of_char"

definition printf :: "u8 list \<Rightarrow> ui \<Rightarrow> ui" where "printf b u = u\<lparr>printed := printed u @ b\<rparr>"

text \<open>\<open>%d\<close> and the escape sequences.\<close>

fun dec_nat :: "nat \<Rightarrow> string" where
  "dec_nat n = (if n < 10 then [] else dec_nat (n div 10)) @ [char_of (48 + n mod 10)]"

definition dec_int :: "int \<Rightarrow> string" where
  "dec_int i = (if i < 0 then ''-'' @ dec_nat (nat (- i)) else dec_nat (nat i))"

definition goto_row :: "int \<Rightarrow> u8 list" where
  "goto_row r = ESC # bytes (''['' @ dec_int r @ '';1H'')"

definition erase :: "u8 list" where "erase = ESC # bytes ''[K''"

definition move :: "int \<Rightarrow> ui \<Rightarrow> ui" where "move r = printf (goto_row r)"
definition movev :: "int \<Rightarrow> ui \<Rightarrow> ui" where "movev r = printf (goto_row r)"
definition cleann :: "ui \<Rightarrow> ui" where "cleann = printf erase"
definition clean :: "ui \<Rightarrow> ui" where "clean = printf (erase @ [10])"

function cleanv :: "int \<Rightarrow> int \<Rightarrow> ui \<Rightarrow> ui" where
  "cleanv j f u = (if j \<le> f then cleanv (j + 1) f (printf (goto_row j @ erase) u) else u)"
  by auto
termination by (relation "measure (\<lambda>(j, f, u). nat (f + 1 - j))") auto

definition print :: "u8 list \<Rightarrow> ui \<Rightarrow> ui" where
  "print t u = printf t (move (ui_rows u - 1) u)"

text \<open>A system call of the guest goes to the same terminal: the settings that it leaves and the bytes that
  it prints are the kernel's.\<close>

definition guest_io :: "termios \<times> u8 list \<Rightarrow> ui \<Rightarrow> ui" where
  "guest_io = (\<lambda>(t, b) u. printf b (tcsetattr t u))"

section \<open>A question\<close>

text \<open>\<open>fgets\<close>: at most \<open>size - 1\<close> bytes, up to and with the first newline; at the end of the input the
  array keeps its content.\<close>

fun fgets_line :: "nat \<Rightarrow> u8 list \<Rightarrow> u8 list \<times> u8 list" where
  "fgets_line (Suc n) (b # bs) =
     (if b = 10 then ([b], bs) else (let (l, r) = fgets_line n bs in (b # l, r)))"
| "fgets_line _ bs = ([], bs)"

definition fgets :: "u8 list \<Rightarrow> nat \<Rightarrow> ui \<Rightarrow> u8 list \<times> ui" where
  "fgets ret sz u =
     (if stdin u = [] then (ret, u)
      else (let (l, r) = fgets_line (sz - 1) (stdin u) in (l, u\<lparr>stdin := r\<rparr>)))"

definition get_str :: "u8 list \<Rightarrow> u8 list \<Rightarrow> nat \<Rightarrow> bool \<Rightarrow> ui \<Rightarrow> u8 list \<times> ui" where
  "get_str str ret sz c u =
     (let u = cleanv (ui_rows u - 2) (ui_rows u) u;
          u = printf (goto_row (ui_rows u - 2) @ bytes '' '' @ (if c then bytes ''Wrong format, '' else []) @ str @ [10] @ bytes '' '') u;
          u = disable_raw_mode u;
          (l, u) = fgets ret sz u in (l, enable_raw_mode u))"

section \<open>The saved settings\<close>

definition modes :: "ui \<Rightarrow> bool \<times> termios \<times> termios" where
  "modes u = (is_tty u, tty u, oldt u)"

declare cleanv.simps [simp del]

lemma cleanv_printed: "cleanv j f u = printf (concat (map (\<lambda>r. goto_row r @ erase) [j..f])) u"
  by (induction j f u rule: cleanv.induct) (subst cleanv.simps, auto simp: printf_def upto_rec1)

lemma modes_output [simp]:
  "modes (printf b u) = modes u" "modes (move r u) = modes u" "modes (movev r u) = modes u"
  "modes (cleann u) = modes u" "modes (clean u) = modes u" "modes (cleanv i f u) = modes u"
  "modes (print b u) = modes u" "modes (exit_interface u) = modes u"
  by (simp_all add: modes_def printf_def move_def movev_def cleann_def clean_def cleanv_printed print_def exit_interface_def)

lemmas mode_defs = init_raw_mode_def enable_raw_mode_def disable_raw_mode_def disable_echo_def enable_echo_def
  tcgetattr_def tcsetattr_def Let_def

lemma modes_switch:
  "is_tty (enable_raw_mode u) = is_tty u" "oldt (enable_raw_mode u) = oldt u"
  "is_tty (disable_raw_mode u) = is_tty u" "oldt (disable_raw_mode u) = oldt u"
  "is_tty (disable_echo u) = is_tty u" "oldt (disable_echo u) = oldt u"
  "is_tty (enable_echo u) = is_tty u" "oldt (enable_echo u) = oldt u"
  "\<not> is_tty u \<Longrightarrow> tty (enable_raw_mode u) = tty u" "\<not> is_tty u \<Longrightarrow> tty (disable_raw_mode u) = tty u"
  "\<not> is_tty u \<Longrightarrow> tty (disable_echo u) = tty u" "\<not> is_tty u \<Longrightarrow> tty (enable_echo u) = tty u"
  by (simp_all add: mode_defs)

lemma modes_init_interface: "init_interface ws heap s u = Inr u' \<Longrightarrow> modes u' = modes u"
  by (auto simp: init_interface_def modes_def Let_def bnd_eq_Inr split: option.splits prod.splits)

lemma modes_fgets: "fgets ret sz u = (l, u') \<Longrightarrow> modes u' = modes u"
  by (auto simp: fgets_def modes_def split: if_splits prod.splits)

text \<open>What every operation keeps: the saved settings, and the settings themselves without a terminal.\<close>

definition saved :: "termios \<Rightarrow> ui \<Rightarrow> bool" where
  "saved t u \<longleftrightarrow> (if is_tty u then oldt u = t else tty u = t)"

lemma saved_modes: "modes u' = modes u \<Longrightarrow> saved t u' = saved t u"
  by (simp add: saved_def modes_def)

lemma saved_switch [simp]:
  "saved t (enable_raw_mode u) = saved t u" "saved t (disable_raw_mode u) = saved t u"
  "saved t (disable_echo u) = saved t u" "saved t (enable_echo u) = saved t u"
  by (auto simp: saved_def modes_switch)

lemmas saved_output [simp] = modes_output [THEN saved_modes]

lemma saved_guest_io [simp]: "saved t (guest_io x u) = saved t u"
  by (cases x) (simp add: guest_io_def tcsetattr_def saved_def printf_def)

lemma saved_get_str: "get_str q ret sz c u = (l, u') \<Longrightarrow> saved t u' = saved t u"
  by (auto simp: get_str_def Let_def saved_modes [OF modes_fgets] split: prod.splits)

lemma saved_start: "saved (tty u) (init_raw_mode u)"
  by (simp add: saved_def mode_defs)

lemma saved_end: "saved t u \<Longrightarrow> tty (disable_raw_mode (exit_interface u)) = t"
  by (auto simp: saved_def mode_defs exit_interface_def split: if_splits)

section \<open>The boxes\<close>

text \<open>Below 84 columns the gap between the registers is a negative width.\<close>

lemma reg_spaces_narrow: "c < 84 \<Longrightarrow> reg_spaces c < 0"
  by (auto simp: reg_spaces_def Let_def signed_divide_int_def sgn_if)

text \<open>The box line of \<open>n\<close> characters.\<close>

definition hlines :: "nat \<Rightarrow> u8 list" where "hlines n = concat (replicate n hline)"

lemma length_hlines [simp]: "length (hlines n) = 3 * n"
  by (induction n) (simp_all add: hlines_def hline_def)

lemma get_lines_ok: "length (chars b) + 3 * n < cap b \<Longrightarrow> get_lines n (Some b) = Inr (Some (b\<lparr>chars := chars b @ hlines n\<rparr>))"
  by (induction n arbitrary: b) (simp_all add: strcat_def hlines_def hline_def)

lemma get_lines_over: "0 < n \<Longrightarrow> cap b \<le> length (chars b) + 3 * n \<Longrightarrow> get_lines n (Some b) = Inl OutOfBounds"
  by (induction n arbitrary: b) (auto simp: strcat_def hline_def)

lemma size_t_eq: "size_t i = nat (i mod 2 ^ 64)"
  by (simp add: size_t_def unsigned_of_int take_bit_eq_mod)

lemma size_t_pos: "0 \<le> i \<Longrightarrow> i < 2 ^ 18 \<Longrightarrow> size_t i = nat i"
  by (simp add: size_t_eq)

lemma size_t_neg: "- (2 ^ 18) \<le> i \<Longrightarrow> i < 0 \<Longrightarrow> 2 ^ 63 < size_t i"
  using mod_add_self2 [of i "2 ^ 64"] by (simp add: size_t_eq zless_nat_eq_int_zless del: mod_add_self2)

lemma calloc3_ok: "\<forall>n < 2 ^ 20. heap n \<Longrightarrow> 0 \<le> i \<Longrightarrow> i < 2 ^ 18 \<Longrightarrow> calloc3 heap i = Some \<lparr>cap = 3 * nat i, chars = []\<rparr>"
  by (auto simp: calloc3_def Let_def size_t_pos)

lemma calloc3_negative: "- (2 ^ 18) \<le> i \<Longrightarrow> i < 0 \<Longrightarrow> calloc3 heap i = None"
  using size_t_neg [of i] by (simp add: calloc3_def Let_def)

lemma get_lines_none: "0 < n \<Longrightarrow> get_lines n None = Inl NullDeref"
  by (cases n) (simp_all add: strcat_def)

lemma box_lines_ok:
  assumes "\<forall>n < 2 ^ 20. heap n" "2 \<le> i" "i < 2 ^ 18"
  shows "get_lines (size_t (i - 2)) (calloc3 heap (i - 1)) = Inr (Some \<lparr>cap = 3 * (nat i - 1), chars = hlines (nat i - 2)\<rparr>)"
  using assms by (simp add: calloc3_ok size_t_pos get_lines_ok nat_diff_distrib)

lemma box_lines_one: "\<forall>n < 2 ^ 20. heap n \<Longrightarrow> get_lines (size_t (- 1)) (calloc3 heap 0) = Inl OutOfBounds"
  using size_t_neg [of "- 1"] by (simp add: calloc3_ok get_lines_over)

lemma box_lines_negative: "- (2 ^ 17) \<le> i \<Longrightarrow> i \<le> 0 \<Longrightarrow> get_lines (size_t (i - 2)) (calloc3 heap (i - 1)) = Inl NullDeref"
  using size_t_neg [of "i - 2"] by (simp add: calloc3_negative get_lines_none)

lemma init_interface_ok:
  assumes "\<forall>n < 2 ^ 20. heap n" "29 \<le> c"
  shows "init_interface (Some (r, c)) heap s u =
    Inr (u\<lparr>ui_rows := uint r, ui_cols := uint c, spaces := reg_spaces (uint c),
       w_code := uint c - W_STACK, w_stack := W_STACK,
       box_lines := Some \<lparr>cap = 3 * (unat c - 1), chars = hlines (unat c - 2)\<rparr>,
       box_code := Some \<lparr>cap = 3 * (unat c - 28), chars = hlines (unat c - 29)\<rparr>,
       box_stack := Some \<lparr>cap = 78, chars = hlines 25\<rparr>,
       old_values := override_on (old_values u) (var s) (set old_regs)\<rparr>)"
proof -
  define k where "k = unat c"
  have k: "unat c = k" "uint c = int k" by (simp_all add: k_def)
  have "uint c < 2 ^ LENGTH(16)" by (rule unsigned_less)
  then have u: "k < 2 ^ 16" by (simp add: k)
  have c: "29 \<le> k" using assms(2) by (simp add: word_le_def k)
  have s: "get_lines (size_t 25) (calloc3 heap 26) = Inr (Some \<lparr>cap = 78, chars = hlines 25\<rparr>)"
    using box_lines_ok [OF assms(1), of 27] by simp
  show ?thesis
    using box_lines_ok [OF assms(1), of "int k"] box_lines_ok [OF assms(1), of "int k - W_STACK"] u c
    by (simp add: init_interface_def Let_def s k W_STACK_def nat_diff_distrib)
qed

text \<open>
  C25 (the boxes fit their buffers from 29 columns on). With an allocator that grants what a terminal can
  need, \<open>init_interface\<close> succeeds exactly when the terminal has at least 29 columns, and then every box
  line fills its buffer up to one character and the terminator. Below, a width becomes negative and, as a
  \<open>size_t\<close>, huge: the first use of the buffer runs over it, or goes through the null pointer that
  \<open>calloc\<close> returns for the overflowing product.
\<close>

theorem init_interface_width:
  assumes "\<forall>n < 2 ^ 20. heap n"
  shows "init_interface (Some (r, c)) heap s u =
    (if 29 \<le> c then
       Inr (u\<lparr>ui_rows := uint r, ui_cols := uint c, spaces := reg_spaces (uint c),
         w_code := uint c - W_STACK, w_stack := W_STACK,
         box_lines := Some \<lparr>cap = 3 * (unat c - 1), chars = hlines (unat c - 2)\<rparr>,
         box_code := Some \<lparr>cap = 3 * (unat c - 28), chars = hlines (unat c - 29)\<rparr>,
         box_stack := Some \<lparr>cap = 78, chars = hlines 25\<rparr>,
         old_values := override_on (old_values u) (var s) (set old_regs)\<rparr>)
     else Inl (if c = 1 \<or> c = 28 then OutOfBounds else NullDeref))"
proof -
  define k where "k = unat c"
  have k: "unat c = k" "uint c = int k" by (simp_all add: k_def)
  have "uint c < 2 ^ LENGTH(16)" by (rule unsigned_less)
  then have u: "k < 2 ^ 16" by (simp add: k)
  have c: "29 \<le> c \<longleftrightarrow> 29 \<le> k" "c = 1 \<longleftrightarrow> k = 1" "c = 28 \<longleftrightarrow> k = 28"
    by (simp_all add: word_le_def word_uint_eq_iff k)
  have s: "get_lines (size_t 25) (calloc3 heap 26) = Inr (Some \<lparr>cap = 78, chars = hlines 25\<rparr>)"
    using box_lines_ok [OF assms, of 27] by simp
  note d = init_interface_def Let_def s c k
  consider "k = 0" | "k = 1" | "k = 28" | "2 \<le> k" "k \<le> 27" | "29 \<le> k"
    by linarith
  then show ?thesis
  proof cases
    case 1 then show ?thesis using box_lines_negative [of 0 heap] by (simp add: d)
  next
    case 2 then show ?thesis using box_lines_one [OF assms] by (simp add: d)
  next
    case 3 then show ?thesis
      using box_lines_ok [OF assms, of 28] box_lines_one [OF assms] by (simp add: d W_STACK_def)
  next
    case 4 then show ?thesis
      using box_lines_ok [OF assms, of "int k"] box_lines_negative [of "int k - W_STACK" heap]
      by (simp add: d W_STACK_def)
  next
    case 5 then show ?thesis using init_interface_ok [OF assms, of c r s u] c by simp
qed
qed

definition demo_ui :: ui where
  "demo_ui = (let t = \<lparr>c_iflag = 0x500, c_oflag = 5, c_cflag = 0xBF, c_lflag = 0x8A3B, c_cc = [3, 28, 127]\<rparr> in
     \<lparr>is_tty = True, tty = t, oldt = t, newt = t, olde = t, newe = t, ui_rows = 0, ui_cols = 0, spaces = 0, w_code = 0,
      w_stack = 0, box_lines = None, box_code = None, box_stack = None, old_values = (\<lambda>_. 0), printed = [],
      stdin = map of_char ''0x08049000'' @ [10, 115]\<rparr>)"

theorem init_interface_width_witness:
  "init_interface (Some (24, 20)) (\<lambda>n. n < 2 ^ 20) static_init demo_ui = Inl NullDeref"
  using init_interface_width [of "\<lambda>n. n < 2 ^ 20" 24 20 static_init demo_ui] by simp

section \<open>Questions\<close>

lemma fgets_line_append:
  "10 \<notin> set l \<Longrightarrow> fgets_line n (l @ 10 # r) = (if length l < n then (l @ [10], r) else (take n l, drop n l @ 10 # r))"
proof (induction l arbitrary: n)
  case Nil then show ?case by (cases n) simp_all
next
  case (Cons b l) then show ?case by (cases n) simp_all
qed

text \<open>The bytes of the question on the screen.\<close>

definition question :: "int \<Rightarrow> bool \<Rightarrow> u8 list \<Rightarrow> u8 list" where
  "question r c q =
     concat (map (\<lambda>r. goto_row r @ erase) [r - 2, r - 1, r]) @ goto_row (r - 2) @
     bytes '' '' @ (if c then bytes ''Wrong format, '' else []) @ q @ [10] @ bytes '' ''"

text \<open>
  \<open>get_str\<close> erases the three lines of the input, prints the question and reads a typed line whole when it
  fits; of a longer line it takes what the array holds, and the rest is the answer to the next question.
  It returns with the raw mode on and the echo as it was at the start.
\<close>

lemma get_str_answer:
  assumes "stdin u = l @ 10 # r" "10 \<notin> set l" "0 < sz" "is_tty u"
  shows "get_str q ret sz c u =
    (if length l + 1 < sz then l @ [10] else take (sz - 1) l,
     u\<lparr>stdin := (if length l + 1 < sz then r else drop (sz - 1) l @ 10 # r),
       printed := printed u @ question (ui_rows u) c q,
       newt := clear_lflag ICANON (oldt u), tty := clear_lflag ICANON (oldt u)\<rparr>)"
proof -
  have "[ui_rows u - 2..ui_rows u] = [ui_rows u - 2, ui_rows u - 1, ui_rows u]"
    by (simp add: upto_rec1)
  then show ?thesis
    using assms by (simp add: get_str_def fgets_def fgets_line_append cleanv_printed printf_def question_def mode_defs less_diff_conv)
qed

text \<open>\<open>enable_echo\<close> leaves the echo off, against its name and the comments at its calls.\<close>

lemma enable_echo_clears: "is_tty u \<Longrightarrow> c_lflag (tty (enable_echo u)) AND ECHO = 0"
  by (simp add: mode_defs clear_lflag_def and_not_absorb)

text \<open>
  The loop of a command around \<open>get_str\<close> and \<open>sscanf\<close>, with the array that is filled again by every pass.
  It has no result when the input ends first.
\<close>

definition MAX_STR :: nat where "MAX_STR = 75"

definition cstr :: "u8 list \<Rightarrow> string" where
  "cstr b = map (\<lambda>x. char_of (unat x)) (takeWhile (\<lambda>x. x \<noteq> 0) b)"

lemma fgets_line_split: "fgets_line n bs = (l, r) \<Longrightarrow> l @ r = bs \<and> (0 < n \<longrightarrow> bs \<noteq> [] \<longrightarrow> l \<noteq> [])"
  by (induction n bs arbitrary: l r rule: fgets_line.induct) (auto split: if_splits prod.splits)

lemma fgets_line_shorter: "0 < n \<Longrightarrow> bs \<noteq> [] \<Longrightarrow> length (snd (fgets_line n bs)) < length bs"
  by (cases "fgets_line n bs") (auto dest!: fgets_line_split)

lemma stdin_get_str:
  "stdin u \<noteq> [] \<Longrightarrow> fgets_line (sz - 1) (stdin u) = (fst (get_str q ret sz c u), stdin (snd (get_str q ret sz c u)))"
  by (auto simp: get_str_def fgets_def cleanv_printed printf_def mode_defs split: prod.splits if_splits)

lemma stdin_get_str_shorter: "stdin u \<noteq> [] \<Longrightarrow> 1 < sz \<Longrightarrow> length (stdin (snd (get_str q ret sz c u))) < length (stdin u)"
  using fgets_line_shorter [of "sz - 1" "stdin u"] stdin_get_str [of u sz q ret c] by simp

function ask_ui :: "(string \<Rightarrow> scan) \<Rightarrow> u8 list \<Rightarrow> bool \<Rightarrow> u8 list \<Rightarrow> ui \<Rightarrow> (u32 \<times> ui) res option" where
  "ask_ui sc q c str u =
     (if stdin u = [] then None
      else
        (let (str, u') = get_str q str (MAX_STR - 1) c u in
         case sc (cstr str) of
           ScanEof \<Rightarrow> Some (Inl Uninit)
         | ScanFail \<Rightarrow> ask_ui sc q True str u'
         | Scanned v \<Rightarrow> Some (Inr (v, u'))))"
  by auto
termination
  by (relation "measure (\<lambda>x. length (stdin (snd (snd (snd (snd x))))))")
    (simp_all add: stdin_get_str_shorter MAX_STR_def)

declare ask_ui.simps [simp del]

text \<open>The strings that the passes find in the array.\<close>

function answers_of :: "u8 list \<Rightarrow> string list" where
  "answers_of bs =
     (if bs = [] then []
      else cstr (fst (fgets_line (MAX_STR - 2) bs)) # answers_of (snd (fgets_line (MAX_STR - 2) bs)))"
  by auto
termination by (relation "measure length") (simp_all add: fgets_line_shorter MAX_STR_def)

declare answers_of.simps [simp del]

text \<open>
  The questions of the screen are those of the debugger: the loop over the terminal, which draws and
  reads byte by byte, gives the number that the debugger's model finds in the list of answers, and leaves
  the answers that the model leaves.
\<close>

lemma ask_ui_refines:
  "map_option (\<lambda>x. bnd x (\<lambda>(v, u'). Inr (v, answers_of (stdin u')))) (ask_ui sc q c str u) =
     ask sc (answers_of (stdin u))"
proof (induction sc q c str u rule: ask_ui.induct)
  case (1 sc q c str u)
  show ?case
  proof (cases "stdin u = []")
    case True then show ?thesis by (simp add: ask_ui.simps answers_of.simps)
  next
    case False
    obtain l u' where g: "get_str q str (MAX_STR - 1) c u = (l, u')" by fastforce
    with False have f: "fgets_line (MAX_STR - 2) (stdin u) = (l, stdin u')"
      using stdin_get_str [of u "MAX_STR - 1" q str c] by (simp add: MAX_STR_def)
    have "answers_of (stdin u) = cstr l # answers_of (stdin u')"
      using False f by (subst answers_of.simps) simp
    then show ?thesis
      using False g 1 by (subst ask_ui.simps) (simp split: scan.splits)
  qed
qed

end
