(* ===== verification/VM_Screen.thy ===== *)
theory VM_Screen imports VM_Interface begin

text \<open>
  \<open>draw_screen\<close> of \<open>interface.c\<close> byte by byte: the register panel, the box of the code and the box of the
  stack as they are printed, with the escape sequences for colours and positions. The debugger keeps of
  a screen only what it shows (\<open>Screen\<close> in \<open>VM_Debugger\<close>); here it is shown that the program prints that
  value.
\<close>

section \<open>Conversions\<close>

text \<open>\<open>%*s\<close> and \<open>%2s\<close>: a negative width is one to the left; \<open>%10d\<close>, \<open>%010u\<close> and \<open>0x%08x\<close>.\<close>

definition fmt_s :: "int \<Rightarrow> u8 list \<Rightarrow> u8 list" where
  "fmt_s w b =
     (let fill = replicate (nat \<bar>w\<bar> - length b) 32 in if w < 0 then b @ fill else fill @ b)"

definition fmt_d10 :: "u32 \<Rightarrow> u8 list" where
  "fmt_d10 v = fmt_s 10 (bytes (dec_int (sint v)))"

definition fmt_u010 :: "u32 \<Rightarrow> u8 list" where
  "fmt_u010 v = (let ds = bytes (dec_nat (unat v)) in replicate (10 - length ds) 48 @ ds)"

definition fmt_x08 :: "u32 \<Rightarrow> u8 list" where "fmt_x08 v = bytes (addr_text v)"

text \<open>The characters of the boxes in UTF-8, the colours and the cursor.\<close>

definition box_tl :: "u8 list" where "box_tl = [0xE2, 0x94, 0x8C]"
definition box_tr :: "u8 list" where "box_tr = [0xE2, 0x94, 0x90]"
definition box_bl :: "u8 list" where "box_bl = [0xE2, 0x94, 0x94]"
definition box_br :: "u8 list" where "box_br = [0xE2, 0x94, 0x98]"
definition box_v :: "u8 list" where "box_v = [0xE2, 0x94, 0x82]"

definition colour :: "string \<Rightarrow> u8 list" where "colour c = ESC # bytes (''['' @ c @ ''m'')"

definition goto :: "int \<Rightarrow> int \<Rightarrow> u8 list" where
  "goto r c = ESC # bytes (''['' @ dec_int r @ '';'' @ dec_int c @ ''H'')"

definition newline :: "u8 list" where "newline = [10]"

section \<open>Registers\<close>

text \<open>\<open>%sEAX : 0x%08x %10d%s\<close>, the same with \<open>%010u\<close>, and a register that is never highlighted.\<close>

definition hl :: "bool \<Rightarrow> u8 list" where "hl b = (if b then colour ''7'' else [])"

definition reg_d :: "bool \<Rightarrow> string \<Rightarrow> u32 \<Rightarrow> u8 list" where
  "reg_d b nm v = hl b @ bytes (nm @ '' : '') @ fmt_x08 v @ bytes '' '' @ fmt_d10 v @ colour ''0''"

definition reg_u :: "bool \<Rightarrow> string \<Rightarrow> u32 \<Rightarrow> u8 list" where
  "reg_u b nm v = hl b @ bytes (nm @ '' : '') @ fmt_x08 v @ bytes '' '' @ fmt_u010 v @ colour ''0''"

definition reg_n :: "string \<Rightarrow> u32 \<Rightarrow> u8 list" where
  "reg_n nm v = bytes (nm @ '' : '') @ fmt_x08 v @ bytes '' '' @ fmt_u010 v"

text \<open>\<open> %*s\<close> with the width \<open>spaces\<close> and a blank, and the end of a line of the panel.\<close>

definition gap :: "ui \<Rightarrow> u8 list" where "gap u = bytes '' '' @ fmt_s (spaces u) (bytes '' '')"

definition panel_row :: "ui \<Rightarrow> int \<Rightarrow> u8 list \<Rightarrow> u8 list" where
  "panel_row u r b = box_v @ bytes '' '' @ b @ newline @ goto r (ui_cols u) @ box_v @ newline"

definition flag_text :: "cpu \<Rightarrow> u8 list" where
  "flag_text s =
     bytes ''['' @
     concat (map (\<lambda>(f, nm). bytes '' '' @ fmt_s 2 (if test_Flag f s then bytes nm else []))
       [(CF, ''CF''), (PF, ''PF''), (ZF, ''ZF''), (SF, ''SF''), (OF, ''OF''), (AF, ''AF''), (IF, ''IF'')]) @
     bytes '']''"

text \<open>The lines of the panel; the first argument tells which registers have changed.\<close>

definition panel :: "(gvar \<Rightarrow> bool) \<Rightarrow> cpu \<Rightarrow> ui \<Rightarrow> u8 list" where
  "panel c s u =
     panel_row u 2 (reg_d (c EAX) ''EAX'' (var s EAX) @ gap u @ reg_d (c ECX) ''ECX'' (var s ECX) @ gap u @
       reg_u (c ESI) ''ESI'' (var s ESI)) @
     panel_row u 3 (reg_d (c EDX) ''EDX'' (var s EDX) @ gap u @ reg_d (c EBX) ''EBX'' (var s EBX) @ gap u @
       reg_u (c EDI) ''EDI'' (var s EDI)) @
     panel_row u 4 (reg_u (c ESP) ''ESP'' (var s ESP) @ gap u @ reg_n ''EIP'' (var s EIP) @ gap u @
       reg_u (c EBP) ''EBP'' (var s EBP)) @
     panel_row u 5 (reg_n ''DS '' (var s DS) @ gap u @ reg_n ''ES '' (var s ES) @ gap u @
       bytes ''EFLAGS : '' @ fmt_x08 (var s EFLAGS)) @
     panel_row u 6 (reg_n ''SS '' (var s SS) @ gap u @ reg_n ''FS '' (var s FS) @ gap u @
       hl (c EFLAGS) @ flag_text s @ colour ''0'') @
     panel_row u 7 (reg_n ''CS '' (var s CS) @ gap u @ reg_n ''GS '' (var s GS))"

section \<open>Code and stack\<close>

text \<open>The strings \<open>lineas[2*i]\<close>, \<open>lineas[2*i+1]\<close> and \<open>funcs[i]\<close>, and a line of the code box.\<close>

definition line_addr :: "line option \<Rightarrow> u8 list" where
  "line_addr l = (case l of None \<Rightarrow> bytes '' '' | Some l \<Rightarrow> fmt_x08 (l_addr l))"

definition line_text :: "line option \<Rightarrow> u8 list" where
  "line_text l = (case l of None \<Rightarrow> bytes '' '' | Some l \<Rightarrow> bytes (l_text l))"

definition line_name :: "line option \<Rightarrow> u8 list" where
  "line_name l =
     (case l of None \<Rightarrow> bytes '' ''
      | Some l \<Rightarrow> (case l_func l of None \<Rightarrow> []
          | Some (nm, off) \<Rightarrow> colour ''33'' @ nm @ colour ''0'' @ bytes (''+'' @ dec_nat (unat off))))"

definition code_row :: "ui \<Rightarrow> bool \<Rightarrow> int \<Rightarrow> nat \<Rightarrow> line option \<Rightarrow> u8 list" where
  "code_row u funcs eip_ind i l =
     erase @ box_v @
     (if funcs then bytes '' '' @ colour ''34'' @ line_addr l @ colour ''0'' @ bytes '' <'' @ line_name l @ bytes ''>: ''
      else bytes '' <'' @ colour ''34'' @ line_addr l @ colour ''0'' @ bytes ''>: '') @
     (if eip_ind \<ge> 0 \<and> eip_ind = int i then colour ''7'' @ line_text l @ colour ''0'' else line_text l) @
     goto (H_REGS + int i + 2) (w_code u) @ box_v @ newline"

text \<open>The loop over the lines of the code box, up to the number of lines that there are.\<close>

definition code_box :: "ui \<Rightarrow> bool \<Rightarrow> int \<Rightarrow> line option list \<Rightarrow> u8 list" where
  "code_box u funcs eip_ind lineas =
     concat (map (\<lambda>i. if i < length lineas then code_row u funcs eip_ind i (lineas ! i) else [])
       [0..<nat (ui_rows u - H_REGS - 5)])"

definition stack_row :: "ui \<Rightarrow> int \<Rightarrow> u32 \<Rightarrow> u32 \<Rightarrow> u8 list" where
  "stack_row u k a w =
     goto (H_REGS + k + 2) (w_code u + 1) @ box_v @ bytes '' '' @ colour ''32'' @ fmt_x08 a @ colour ''0'' @
     bytes '' : '' @ fmt_x08 w @ bytes '' '' @ goto (H_REGS + k + 2) (ui_cols u) @ box_v @ newline"

definition stack_blank :: "ui \<Rightarrow> int \<Rightarrow> u8 list" where
  "stack_blank u k =
     goto (H_REGS + k + 2) (w_code u + 1) @ erase @ box_v @ fmt_s (w_stack u - 2) [] @ box_v @ newline"

text \<open>The \<open>do while\<close> loop, with the number of passes that are left, and the counter \<open>k\<close> afterwards.\<close>

fun stack_rows :: "nat \<Rightarrow> int \<Rightarrow> int \<Rightarrow> int \<Rightarrow> cpu \<Rightarrow> ui \<Rightarrow> (u8 list \<times> int) res" where
  "stack_rows 0 k j ii s u = Inr ([], k)"
| "stack_rows (Suc n) k j ii s u =
     (let a = var s ESP + 4 * word_of_int ii in
      bnd (if j > 0 \<and> a < STACK_BOTTOM then bnd (load32 (PMem (unat a)) s) (\<lambda>w. Inr (stack_row u k a w)) else Inr [])
        (\<lambda>r.
        if a \<ge> STACK_BOTTOM then Inr (r, k)
        else if ii + 1 < j then bnd (stack_rows n (k + 1) j (ii + 1) s u) (\<lambda>(r', k). Inr (r @ r', k))
        else Inr (r, k + 1)))"

definition stack_box :: "int \<Rightarrow> cpu \<Rightarrow> ui \<Rightarrow> u8 list res" where
  "stack_box from_row s u =
     (let lim = ui_rows u - H_REGS - 2 - 3; j = sint (STACK_BOTTOM - var s ESP) sdiv 4 in
      bnd (stack_rows (if lim \<ge> 1 then nat lim else 1) 0 j from_row s u) (\<lambda>(r, k).
      Inr (r @ concat (map (stack_blank u) [k..lim - 1]))))"

section \<open>The screen\<close>

text \<open>\<open>%*s\<close> with a box line, which must have been allocated.\<close>

definition box_string :: "int \<Rightarrow> buffer option \<Rightarrow> u8 list res" where
  "box_string w b = (case b of None \<Rightarrow> Inl NullDeref | Some b \<Rightarrow> Inr (fmt_s w (chars b)))"

definition draw_screen_ui :: "int \<Rightarrow> line option list \<Rightarrow> int \<Rightarrow> bool \<Rightarrow> cpu \<Rightarrow> ui \<Rightarrow> ui res" where
  "draw_screen_ui from_row lineas eip_ind funcs s u =
     (let u = cleanv 1 (ui_rows u - 3) u; u = move 1 u in
      bnd (box_string (ui_cols u - 2) (box_lines u)) (\<lambda>l.
      let u = printf (box_tl @ l @ box_tr @ newline) u;
          u = printf (panel (\<lambda>v. var s v \<noteq> old_values u v) s u) u;
          u = printf (box_bl @ l @ box_br @ newline) u;
          u = u\<lparr>old_values := override_on (old_values u) (var s) (set old_regs)\<rparr> in
      bnd (box_string (w_code u - 2) (box_code u)) (\<lambda>lc.
      bnd (box_string (w_stack u - 2) (box_stack u)) (\<lambda>ls.
      let u = printf (box_tl @ lc @ box_tr @ box_tl @ ls @ box_tr @ newline) u;
          u = printf (code_box u funcs eip_ind lineas) u in
      bnd (stack_box from_row s u) (\<lambda>st.
      let u = printf st u in
      Inr (printf (box_bl @ lc @ box_br @ box_bl @ ls @ box_br @ newline) u))))))"

section \<open>The printed screen is the shown one\<close>

text \<open>What a value of the debugger's model looks like on the terminal. The panel depends on the registers of
  the machine only.\<close>

definition code_text :: "ui \<Rightarrow> bool \<Rightarrow> int \<Rightarrow> line option list \<Rightarrow> u8 list" where
  "code_text u funcs eip_ind ls = concat (map (\<lambda>(i, l). code_row u funcs eip_ind i l) (enumerate 0 ls))"

definition stack_lines :: "ui \<Rightarrow> int \<Rightarrow> (u32 \<times> u32) list \<Rightarrow> u8 list" where
  "stack_lines u k w = concat (map (\<lambda>(i, a, x). stack_row u (k + int i) a x) (enumerate 0 w))"

text \<open>The first blank row below the stack window.\<close>

definition stack_end :: "int \<Rightarrow> cpu \<Rightarrow> (u32 \<times> u32) list \<Rightarrow> int" where
  "stack_end ii s w = (if w = [] \<and> \<not> var s ESP + 4 * word_of_int ii \<ge> STACK_BOTTOM then 1 else int (length w))"

definition screen_text :: "ui \<Rightarrow> bool \<Rightarrow> shown \<Rightarrow> u8 list" where
  "screen_text u funcs scr =
     (case scr of
        Screen changed f ls eip_ind from_row w \<Rightarrow>
          (let s = static_init\<lparr>var := f\<rparr>; box = (\<lambda>b. case b of Some b \<Rightarrow> chars b | None \<Rightarrow> []) in
           concat (map (\<lambda>r. goto_row r @ erase) [1..ui_rows u - 3]) @ goto_row 1 @
           box_tl @ fmt_s (ui_cols u - 2) (box (box_lines u)) @ box_tr @ newline @
           panel (\<lambda>v. v \<in> set changed) s u @
           box_bl @ fmt_s (ui_cols u - 2) (box (box_lines u)) @ box_br @ newline @
           box_tl @ fmt_s (w_code u - 2) (box (box_code u)) @ box_tr @
           box_tl @ fmt_s (w_stack u - 2) (box (box_stack u)) @ box_tr @ newline @
           code_text u funcs eip_ind ls @
           stack_lines u 0 w @ concat (map (stack_blank u) [stack_end from_row s w..ui_rows u - H_REGS - 6]) @
           box_bl @ fmt_s (w_code u - 2) (box (box_code u)) @ box_br @
           box_bl @ fmt_s (w_stack u - 2) (box (box_stack u)) @ box_br @ newline)
      | _ \<Rightarrow> [])"

lemma code_box_text: "code_box u funcs e ls = code_text u funcs e (take (nat (ui_rows u - H_REGS - 5)) ls)"
proof -
  have "concat (map (\<lambda>i. if i < length ls then f i (ls ! i) else []) [0..<m]) =
      concat (map (\<lambda>(i, l). f i l) (enumerate 0 (take m ls)))" for f :: "nat \<Rightarrow> line option \<Rightarrow> u8 list" and m
    by (induction m) (auto simp: take_Suc_conv_app_nth enumerate_append_eq)
  then show ?thesis by (simp add: code_box_def code_text_def)
qed

lemma stack_lines_Cons [simp]: "stack_lines u k ((a, x) # w) = stack_row u k a x @ stack_lines u (k + 1) w"
  by (simp add: stack_lines_def enumerate_Suc_eq o_def split_def add.assoc)

lemma stack_lines_Nil [simp]: "stack_lines u k [] = []"
  by (simp add: stack_lines_def)

lemma stack_loop_nonempty:
  "0 < j \<Longrightarrow> var s ESP + 4 * word_of_int ii < STACK_BOTTOM \<Longrightarrow> 0 < n \<Longrightarrow> stack_loop n j ii s = Inr w \<Longrightarrow> w \<noteq> []"
  by (cases n) (auto simp: Let_def bnd_eq_Inr split: if_splits)

text \<open>The rows of the stack window and those that the loop has passed.\<close>

lemma stack_rows_loop:
  "0 \<le> ii \<Longrightarrow> stack_rows n k j ii s u =
     bnd (stack_loop n j ii s) (\<lambda>w. Inr (stack_lines u k w, if n = 0 then k else k + stack_end ii s w))"
proof (induction n k j ii s u rule: stack_rows.induct)
  case (2 n k j ii s u)
  let ?a = "var s ESP + 4 * word_of_int ii"
  consider "?a \<ge> STACK_BOTTOM" | "?a < STACK_BOTTOM" "0 < j" | "?a < STACK_BOTTOM" "\<not> 0 < j" by force
  then show ?case
  proof cases
    case 1 then show ?thesis by (auto simp: Let_def not_less stack_end_def)
  next
    case 2
    have "bnd (stack_loop n j (ii + 1) s) (\<lambda>w. Inr (b @ stack_lines u (k + 1) w,
          if n = 0 then k + 1 else k + 1 + stack_end (ii + 1) s w)) =
        bnd (stack_loop n j (ii + 1) s) (\<lambda>w. Inr (b @ stack_lines u (k + 1) w, k + (1 + int (length w))))" for b
      using stack_loop_nonempty [OF 2(2), of s "ii + 1" n]
      by (intro bnd_cong refl) (cases "n = 0"; auto simp: stack_end_def not_le)
    then show ?thesis
      using 2 "2.IH" "2.prems" by (cases "load32 (PMem (unat ?a)) s") (auto simp: Let_def bnd_assoc stack_end_def)
  next
    case 3 then show ?thesis using "2.prems" by (auto simp: Let_def stack_end_def)
  qed
qed simp

lemma stack_box_window:
  assumes "ui_rows u = int n" "0 \<le> r"
  shows "stack_box r s u = bnd (stack_window n r s) (\<lambda>w.
    Inr (stack_lines u 0 w @ concat (map (stack_blank u) [stack_end r s w..ui_rows u - H_REGS - 6])))"
  using assms by (simp add: stack_box_def stack_window_def stack_rows_loop bnd_assoc Let_def)

text \<open>The text depends on the geometry alone.\<close>

lemma geometry [simp]:
  "gap (u\<lparr>printed := b\<rparr>) = gap u" "gap (u\<lparr>old_values := f\<rparr>) = gap u"
  "panel_row (u\<lparr>printed := b\<rparr>) r t = panel_row u r t" "panel_row (u\<lparr>old_values := f\<rparr>) r t = panel_row u r t"
  "code_row (u\<lparr>printed := b\<rparr>) fs e i l = code_row u fs e i l" "code_row (u\<lparr>old_values := f\<rparr>) fs e i l = code_row u fs e i l"
  "stack_row (u\<lparr>printed := b\<rparr>) k a x = stack_row u k a x" "stack_row (u\<lparr>old_values := f\<rparr>) k a x = stack_row u k a x"
  "stack_blank (u\<lparr>printed := b\<rparr>) = stack_blank u" "stack_blank (u\<lparr>old_values := f\<rparr>) = stack_blank u"
  by (simp_all add: gap_def panel_row_def code_row_def stack_row_def stack_blank_def fun_eq_iff)

lemma geometry_text [simp]:
  "panel c s (u\<lparr>printed := b\<rparr>) = panel c s u" "panel c s (u\<lparr>old_values := f\<rparr>) = panel c s u"
  "code_text (u\<lparr>printed := b\<rparr>) fs e ls = code_text u fs e ls" "code_text (u\<lparr>old_values := f\<rparr>) fs e ls = code_text u fs e ls"
  "stack_lines (u\<lparr>printed := b\<rparr>) k w = stack_lines u k w" "stack_lines (u\<lparr>old_values := f\<rparr>) k w = stack_lines u k w"
  by (simp_all add: panel_def code_text_def stack_lines_def)

lemma panel_changed: "panel (\<lambda>v. v \<in> set old_regs \<and> c v) s u = panel c s u"
  by (simp add: panel_def old_regs_def)

lemma panel_regs: "panel c (s'\<lparr>var := var s\<rparr>) u = panel c s u" "stack_end i (s'\<lparr>var := var s\<rparr>) w = stack_end i s w"
  by (simp_all add: panel_def flag_text_def test_Flag_def stack_end_def)

text \<open>
  With the box lines allocated, \<open>draw_screen\<close> prints exactly the text of the value that
  the debugger's model keeps (the changed registers highlighted, the lines of code with the one at
  \<open>eip\<close>, the stack window and blank lines below it), faults exactly when the model does, and remembers
  the registers for the next screen.
\<close>

lemma draw_screen_prints:
  assumes "ui_rows u = int n" "0 \<le> r" "box_lines u = Some b1" "box_code u = Some b2" "box_stack u = Some b3"
  shows "draw_screen_ui r ls e funcs s u =
    bnd (draw_screen n r ls e (old_values u) s) (\<lambda>scr. Inr (u\<lparr>old_values := override_on (old_values u) (var s) (set old_regs),
      printed := printed u @ screen_text u funcs scr\<rparr>))"
  using assms
  by (simp add: draw_screen_ui_def draw_screen_def stack_box_window [where n = n] code_box_text box_string_def
    Let_def bnd_assoc cleanv_printed move_def printf_def screen_text_def panel_changed panel_regs)

end
