(* ===== verification/VM_Terminal.thy ===== *)
theory VM_Terminal imports VM_Screen begin

text \<open>
  The two functions of the debugger on their terminal: \<open>interface_elf_main\<close> and \<open>interface_raw_main\<close> of
  \<open>proc.c\<close> with every call that they make to \<open>interface.c\<close> between two keys, in the order of the code: the cursor
  is moved, lines are erased, the echo is switched off for a key, the raw mode is left for an INT, the
  question of a command is printed and its line read. It is shown that this is a refinement of the model in
  \<open>VM_Debugger\<close>, which keeps values only, and that the terminal's settings are given back.
\<close>

section \<open>Executing under the terminal modes\<close>

text \<open>
  What an instruction does to the terminal through the kernel, as an argument: the settings that it
  leaves and the bytes that it prints. A system call of the guest can change both.
\<close>

type_synonym kernel_io = "cs_insn \<Rightarrow> cpu \<Rightarrow> termios \<Rightarrow> termios \<times> u8 list"

definition is_int :: "cs_insn \<Rightarrow> bool" where "is_int ins \<longleftrightarrow> insn_bytes ins 0 = 0xCD"

definition step_line :: "ui \<Rightarrow> ui" where "step_line u = movev (ui_rows u) (cleann u)"

definition blank_line :: "ui \<Rightarrow> ui" where "blank_line u = movev (ui_rows u) (cleanv (ui_rows u) (ui_rows u) u)"

text \<open>
  One instruction, in the original terminal mode when it is an INT. The line of the input is cleaned by
  \<open>pre\<close> before the instruction or by \<open>post\<close> behind it.
\<close>

definition exec_ins_ui :: "host \<Rightarrow> kernel_io \<Rightarrow> capstone \<Rightarrow> (ui \<Rightarrow> ui) \<Rightarrow> (ui \<Rightarrow> ui) \<Rightarrow> cpu \<times> ui \<Rightarrow> (bool \<times> cpu \<times> ui) res" where
  "exec_ins_ui h io cs pre post = (\<lambda>(s, u).
     case cs_disasm cs (mem s) (var s EIP) 16 (var s EIP) of
       None \<Rightarrow> Inr (True, s, u)
     | Some ins \<Rightarrow>
         (let u = (if is_int ins then disable_raw_mode u else u); u = pre u in
          bnd (dispatcher h (mnemonic ins) ins s) (\<lambda>(res, s').
          let u = guest_io (io ins s (tty u)) u; u = post u;
              u = (if is_int ins then enable_raw_mode u else u) in
          Inr (word_of_int res = exit_code, s', u))))"

definition exec_pass_ui :: "host \<Rightarrow> kernel_io \<Rightarrow> capstone \<Rightarrow> (ui \<Rightarrow> ui) \<Rightarrow> (ui \<Rightarrow> ui) \<Rightarrow> (cpu \<Rightarrow> bool res) \<Rightarrow> bool \<times> cpu \<times> ui
    \<Rightarrow> (bool \<times> bool \<times> cpu \<times> ui) res" where
  "exec_pass_ui h io cs pre post cond = (\<lambda>(e, s, u).
     bnd (cond s) (\<lambda>go.
       if go then bnd (exec_ins_ui h io cs pre post (s, u)) (\<lambda>(e, s, u). Inr (e, e, s, u))
       else Inr (True, False, s, u)))"

definition exec_while_ui :: "host \<Rightarrow> kernel_io \<Rightarrow> capstone \<Rightarrow> (ui \<Rightarrow> ui) \<Rightarrow> (ui \<Rightarrow> ui) \<Rightarrow> (cpu \<Rightarrow> bool res) \<Rightarrow> cpu \<times> ui
    \<Rightarrow> (bool \<times> cpu \<times> ui) res option" where
  "exec_while_ui h io cs pre post cond x = iterate (\<lambda>x. Some (exec_pass_ui h io cs pre post cond x)) (False, x)"

section \<open>Commands\<close>

text \<open>
  The state is the one of the debugger and the terminal. The fields \<open>old\<close>, \<open>answers\<close> and \<open>shown\<close> of the
  first are not used: the registers of the last screen, the typed lines and the output are those of the
  terminal.
\<close>

definition after_exec_ui :: "(u32 \<Rightarrow> int \<Rightarrow> int res) \<Rightarrow> dbg \<Rightarrow> bool \<times> cpu \<times> ui \<Rightarrow> (ctl \<times> dbg \<times> ui) res" where
  "after_exec_ui finder d = (\<lambda>(e, s, u).
     if e then Inr (Exit1, d\<lparr>vm := s\<rparr>, u)
     else bnd (finder (var s EIP) (scr_c d)) (\<lambda>c. Inr (Draw, d\<lparr>vm := s, scr_c := c, scr_s := 0\<rparr>, u)))"

definition cmd_step_ui :: "host \<Rightarrow> kernel_io \<Rightarrow> capstone \<Rightarrow> (u32 \<Rightarrow> int \<Rightarrow> int res) \<Rightarrow> dbg \<times> ui \<Rightarrow> (ctl \<times> dbg \<times> ui) res option" where
  "cmd_step_ui h io cs finder = (\<lambda>(d, u).
     Some (bnd (exec_ins_ui h io cs step_line id (vm d, u)) (after_exec_ui finder d)))"

definition cmd_continue_ui :: "host \<Rightarrow> kernel_io \<Rightarrow> capstone \<Rightarrow> (u32 \<Rightarrow> int \<Rightarrow> int res) \<Rightarrow> dbg \<times> ui \<Rightarrow> (ctl \<times> dbg \<times> ui) res option" where
  "cmd_continue_ui h io cs finder = (\<lambda>(d, u).
     map_option (\<lambda>r. bnd r (after_exec_ui finder d)) (exec_while_ui h io cs id blank_line (brk_cond d) (vm d, u)))"

definition cmd_next_ui :: "host \<Rightarrow> kernel_io \<Rightarrow> capstone \<Rightarrow> (u32 \<Rightarrow> int \<Rightarrow> int res) \<Rightarrow> dbg \<times> ui \<Rightarrow> (ctl \<times> dbg \<times> ui) res option" where
  "cmd_next_ui h io cs finder = (\<lambda>(d, u).
     let s = vm d in
     case cs_disasm cs (mem s) (var s EIP) 16 (var s EIP) of
       None \<Rightarrow> Some (Inr (Exit1, d, u))
     | Some ins \<Rightarrow>
         (let stop = var s EIP + ucast (insn_size ins) in
          map_option (\<lambda>r. bnd r (after_exec_ui finder d))
            (exec_while_ui h io cs blank_line id (\<lambda>s. Inr (var s EIP \<noteq> stop)) (s, u))))"

text \<open>The keys that move a window clean the line of the input first.\<close>

definition cmd_window_ui :: "(dbg \<Rightarrow> ctl \<times> dbg) \<Rightarrow> dbg \<times> ui \<Rightarrow> (ctl \<times> dbg \<times> ui) res option" where
  "cmd_window_ui act = (\<lambda>(d, u). let u = step_line u; (g, d) = act d in Some (Inr (g, d, u)))"

text \<open>A command with a question; the array \<open>str\<close> is filled before it is read. The answer is printed
  where the question was.\<close>

definition asking_ui :: "(string \<Rightarrow> scan) \<Rightarrow> string \<Rightarrow> (u32 \<Rightarrow> dbg \<times> ui \<Rightarrow> (ctl \<times> dbg \<times> ui) res) \<Rightarrow> dbg \<times> ui
    \<Rightarrow> (ctl \<times> dbg \<times> ui) res option" where
  "asking_ui sc q act = (\<lambda>(d, u).
     map_option (\<lambda>r. bnd r (\<lambda>(dir, u). act dir (d, u))) (ask_ui sc (bytes q) False [] u))"

definition answer_line :: "ui \<Rightarrow> ui" where
  "answer_line u = movev (ui_rows u - 2) (cleanv (ui_rows u - 2) (ui_rows u) u)"

text \<open>\<open>Created breakpoint %u at 0x%08x\<close>, \<open>0x%08x : 0x%08x\<close> and \<open>0x%08x : %s\<close>\<close>

definition created_text :: "u32 \<Rightarrow> u32 \<Rightarrow> u8 list" where
  "created_text n dir = bytes (''Created breakpoint '' @ dec_nat (unat n) @ '' at '') @ fmt_x08 dir"

definition content_text :: "u32 \<Rightarrow> u32 \<Rightarrow> u8 list" where
  "content_text dir w = bytes '' '' @ fmt_x08 dir @ bytes '' : '' @ fmt_x08 w"

definition string_text :: "u32 \<Rightarrow> u8 list \<Rightarrow> u8 list" where
  "string_text dir b = bytes '' '' @ fmt_x08 dir @ bytes '' : '' @ b"

definition set_brk_ui :: "u32 \<Rightarrow> dbg \<times> ui \<Rightarrow> (ctl \<times> dbg \<times> ui) res" where
  "set_brk_ui dir = (\<lambda>(d, u).
     let n = brk_ctr d in
     if unat n < length (brkpts d) then
       Inr (Draw, d\<lparr>brkpts := (brkpts d)[unat n := Some dir], brk_ctr := (n + 1) mod of_nat MAX_BRK\<rparr>,
         printf (created_text (ucast n + 1) dir) (answer_line u))
     else Inl OutOfBounds)"

definition find_addr_ui :: "(u32 \<Rightarrow> int \<Rightarrow> int res) \<Rightarrow> u32 \<Rightarrow> dbg \<times> ui \<Rightarrow> (ctl \<times> dbg \<times> ui) res" where
  "find_addr_ui finder dir = (\<lambda>(d, u).
     bnd (find_addr finder dir d) (\<lambda>(g, d). Inr (g, d, cleanv (ui_rows u - 2) (ui_rows u) u)))"

definition show_word_ui :: "u32 \<Rightarrow> dbg \<times> ui \<Rightarrow> (ctl \<times> dbg \<times> ui) res" where
  "show_word_ui dir = (\<lambda>(d, u).
     bnd (load32 (PMem (unat dir)) (vm d)) (\<lambda>w. Inr (Draw, d, printf (content_text dir w) (answer_line u))))"

definition show_text_ui :: "u32 \<Rightarrow> dbg \<times> ui \<Rightarrow> (ctl \<times> dbg \<times> ui) res" where
  "show_text_ui dir = (\<lambda>(d, u).
     bnd (mem_string (MEM_BYTES - unat dir) dir (vm d)) (\<lambda>bs. Inr (Draw, d, printf (string_text dir bs) (answer_line u))))"

definition del_brk_ui :: "u32 \<Rightarrow> dbg \<times> ui \<Rightarrow> (ctl \<times> dbg \<times> ui) res" where
  "del_brk_ui dir = (\<lambda>(d, u). bnd (del_brk dir d) (\<lambda>(g, d). Inr (g, d, answer_line u)))"

definition lookup_text :: "dbg \<Rightarrow> string" where
  "lookup_text d =
     (if focus d \<noteq> 0 then ''Stack address to lookup : (0x00000000 format)''
      else ''Code address to lookup : (0x00000000 format)'')"

definition question_keys_ui :: "(u32 \<Rightarrow> int \<Rightarrow> int res) \<Rightarrow> dbg \<times> ui \<Rightarrow> (ctl \<times> dbg \<times> ui) res option" where
  "question_keys_ui find_dir = (\<lambda>(d, u).
     let k = ch d in
     if k = chr CHR ''b'' then asking_ui scan_hex ''Breakpoint on direction : (0x00000000 format)'' set_brk_ui (d, u)
     else if k = chr CHR ''f'' then asking_ui scan_hex (lookup_text d) (find_addr_ui find_dir) (d, u)
     else if k = chr CHR ''x'' then asking_ui scan_hex ''Address to dump content : (0x00000000 format)'' show_word_ui (d, u)
     else if k = chr CHR ''t'' then asking_ui scan_hex ''Address to dump string : (0x00000000 format)'' show_text_ui (d, u)
     else if k = chr CHR ''d'' then asking_ui scan_dec ''Breakpoint number to remove : (0 format)'' del_brk_ui (d, u)
     else Some (Inr (Draw, d, u)))"

definition window_keys_ui :: "nat \<Rightarrow> (u32 \<Rightarrow> int \<Rightarrow> int res) \<Rightarrow> dbg \<times> ui \<Rightarrow> (ctl \<times> dbg \<times> ui) res option" where
  "window_keys_ui cnt find_dir = (\<lambda>(d, u).
     let k = ch d in
     if k = KEY_DOWN \<or> k = chr CHR ''2'' then cmd_window_ui (cmd_down cnt) (d, u)
     else if k = KEY_UP \<or> k = chr CHR ''8'' then cmd_window_ui cmd_up (d, u)
     else if k = KEY_LEFT \<or> k = chr CHR ''4'' then cmd_window_ui (\<lambda>d. (No_print, d\<lparr>focus := 0\<rparr>)) (d, u)
     else if k = KEY_RIGHT \<or> k = chr CHR ''6'' then cmd_window_ui (\<lambda>d. (No_print, d\<lparr>focus := 1\<rparr>)) (d, u)
     else question_keys_ui find_dir (d, u))"

definition command_ui :: "host \<Rightarrow> kernel_io \<Rightarrow> capstone \<Rightarrow> nat \<Rightarrow> (u32 \<Rightarrow> int \<Rightarrow> int res) \<Rightarrow> (u32 \<Rightarrow> int \<Rightarrow> int res) \<Rightarrow> dbg \<times> ui
    \<Rightarrow> (ctl \<times> dbg \<times> ui) res option" where
  "command_ui h io cs cnt find_eip find_dir = (\<lambda>(d, u).
     let k = ch d in
     if k = chr CHR ''s'' then cmd_step_ui h io cs find_eip (d, u)
     else if k = chr CHR ''c'' then cmd_continue_ui h io cs find_eip (d, u)
     else if k = chr CHR ''n'' then cmd_next_ui h io cs find_eip (d, u)
     else window_keys_ui cnt find_dir (d, u))"

section \<open>The loop\<close>

text \<open>The key is read with the echo off; \<open>getch\<close> moves the cursor once more.\<close>

definition key_pass_ui :: "(dbg \<times> ui \<Rightarrow> (ctl \<times> dbg \<times> ui) res option) \<Rightarrow> dbg \<times> ui \<Rightarrow> (ctl \<times> dbg \<times> ui) res option" where
  "key_pass_ui cmd = (\<lambda>(d, u).
     let u = move (ui_rows u) u; u = disable_echo u; u = move (ui_rows u) u in
     case getch (keys d) of
       None \<Rightarrow> None
     | Some (c, ks) \<Rightarrow>
         (let u = enable_echo u; u = cleanv (ui_rows u - 2) (ui_rows u - 2) u; u = cleanv (ui_rows u) (ui_rows u) u;
              c = (if c = 10 then old_ch d else c) in
          map_option (\<lambda>r. bnd r (\<lambda>(g, d, u). Inr (g, if g = Draw then d\<lparr>old_ch := ch d\<rparr> else d, u)))
            (cmd (d\<lparr>ch := c, keys := ks\<rparr>, u))))"

definition draw_pass_ui :: "bool \<Rightarrow> (dbg \<Rightarrow> line list res) \<Rightarrow> dbg \<times> ui \<Rightarrow> (dbg \<times> ui) res" where
  "draw_pass_ui funcs lines = (\<lambda>(d, u).
     bnd (lines d) (\<lambda>ls. bnd (blank_rest (nat (ui_rows u)) ls) (\<lambda>lineas.
     bnd (draw_screen_ui (scr_s d) lineas (eip_row ls (var (vm d) EIP)) funcs (vm d) u) (\<lambda>u. Inr (d, u)))))"

definition dbg_pass_ui :: "bool \<Rightarrow> (dbg \<Rightarrow> line list res) \<Rightarrow> (dbg \<times> ui \<Rightarrow> (ctl \<times> dbg \<times> ui) res option) \<Rightarrow> ctl \<times> dbg \<times> ui
    \<Rightarrow> (bool \<times> ctl \<times> dbg \<times> ui) res option" where
  "dbg_pass_ui funcs lines cmd = (\<lambda>(g, d, u).
     case g of
       Exit1 \<Rightarrow> Some (Inr (True, Exit1, d, u))
     | No_print \<Rightarrow> map_option (\<lambda>r. bnd r (\<lambda>x. Inr (False, x))) (key_pass_ui cmd (d, u))
     | Draw \<Rightarrow>
         if ch d = chr CHR ''q'' then Some (Inr (True, Draw, d, u))
         else Some (bnd (draw_pass_ui funcs lines (d, u)) (\<lambda>x. Inr (False, No_print, x))))"

definition dbg_loop_ui :: "bool \<Rightarrow> (dbg \<Rightarrow> line list res) \<Rightarrow> (dbg \<times> ui \<Rightarrow> (ctl \<times> dbg \<times> ui) res option) \<Rightarrow> dbg \<times> ui
    \<Rightarrow> (ctl \<times> dbg \<times> ui) res option" where
  "dbg_loop_ui funcs lines cmd x = iterate (dbg_pass_ui funcs lines cmd) (Draw, x)"

section \<open>What the terminal operations leave alone\<close>

text \<open>The sizes of the screen and the box lines.\<close>

definition geo :: "ui \<Rightarrow> ui \<Rightarrow> bool" where
  "geo u u' \<longleftrightarrow> ui_rows u' = ui_rows u \<and> ui_cols u' = ui_cols u \<and> spaces u' = spaces u \<and> w_code u' = w_code u \<and>
     w_stack u' = w_stack u \<and> box_lines u' = box_lines u \<and> box_code u' = box_code u \<and> box_stack u' = box_stack u"

text \<open>An operation that prints and switches modes only.\<close>

definition quiet :: "ui \<Rightarrow> ui \<Rightarrow> bool" where
  "quiet u u' \<longleftrightarrow> geo u u' \<and> stdin u' = stdin u \<and> old_values u' = old_values u \<and> (\<exists>b. printed u' = printed u @ b)"

lemma quiet_refl [simp]: "quiet u u"
  by (simp add: quiet_def geo_def)

lemma quiet_trans [trans]: "quiet u v \<Longrightarrow> quiet v w \<Longrightarrow> quiet u w"
  by (auto simp: quiet_def geo_def)

lemma quiet_printf: "quiet u (printf b u)"
  by (simp add: quiet_def geo_def printf_def)


lemma quiet_output [simp]:
  "quiet u v \<Longrightarrow> quiet u (printf b v)" "quiet u v \<Longrightarrow> quiet u (move r v)" "quiet u v \<Longrightarrow> quiet u (movev r v)"
  "quiet u v \<Longrightarrow> quiet u (cleann v)" "quiet u v \<Longrightarrow> quiet u (cleanv i f v)"
  by (auto elim: quiet_trans intro: quiet_printf simp: move_def movev_def cleann_def cleanv_printed)

lemma quiet_modes [simp]:
  "quiet u v \<Longrightarrow> quiet u (enable_raw_mode v)" "quiet u v \<Longrightarrow> quiet u (disable_raw_mode v)"
  "quiet u v \<Longrightarrow> quiet u (disable_echo v)" "quiet u v \<Longrightarrow> quiet u (enable_echo v)"
  by (auto simp: quiet_def geo_def mode_defs)

lemma quiet_guest_io [simp]: "quiet u v \<Longrightarrow> quiet u (guest_io x v)"
  by (cases x) (auto simp: guest_io_def tcsetattr_def quiet_def geo_def printf_def)

lemma quiet_lines [simp]:
  "quiet u v \<Longrightarrow> quiet u (step_line v)" "quiet u v \<Longrightarrow> quiet u (blank_line v)" "quiet u v \<Longrightarrow> quiet u (answer_line v)"
  by (simp_all add: step_line_def blank_line_def answer_line_def)

lemma rows_geo: "geo u v \<Longrightarrow> ui_rows v = ui_rows u"
  by (simp add: geo_def)

lemma quiet_geo: "quiet u v \<Longrightarrow> geo u v"
  by (simp add: quiet_def)

lemma quiet_get_str: "get_str q ret sz c u = (l, u') \<Longrightarrow> quiet u (u'\<lparr>stdin := stdin u\<rparr>)"
  by (auto simp: get_str_def fgets_def quiet_def geo_def cleanv_printed printf_def mode_defs split: prod.splits if_splits)

lemma quiet_ask_ui: "ask_ui sc q c str u = Some (Inr (v, u')) \<Longrightarrow> quiet u (u'\<lparr>stdin := stdin u\<rparr>)"
proof (induction sc q c str u arbitrary: u' rule: ask_ui.induct)
  case (1 sc q c str u)
  then obtain l u1 where g: "stdin u \<noteq> []" "get_str q str (MAX_STR - 1) c u = (l, u1)"
    by (metis ask_ui.simps option.distinct(1) surj_pair)
  have q: "quiet u (u1\<lparr>stdin := stdin u\<rparr>)" using quiet_get_str [OF g(2)] .
  show ?case
  proof (cases "sc (cstr l)")
    case ScanFail
    then have "quiet u1 (u'\<lparr>stdin := stdin u1\<rparr>)" using 1 g by (subst (asm) (2) ask_ui.simps) simp
    with q show ?thesis by (auto simp: quiet_def geo_def)
  qed (use 1(2) g q in \<open>simp_all add: ask_ui.simps [of sc q c str u]\<close>)
qed

section \<open>The values of the debugger and the terminal\<close>

text \<open>The terminal's bytes show the debugger's values in their order, with anything between them.\<close>

definition shown_text :: "ui \<Rightarrow> bool \<Rightarrow> shown \<Rightarrow> u8 list" where
  "shown_text g funcs x =
     (case x of
        Screen _ _ _ _ _ _ \<Rightarrow> screen_text g funcs x
      | Created n dir \<Rightarrow> created_text n dir
      | Content dir w \<Rightarrow> content_text dir w
      | Text dir b \<Rightarrow> string_text dir b)"

inductive prints :: "ui \<Rightarrow> bool \<Rightarrow> shown list \<Rightarrow> u8 list \<Rightarrow> bool" for g funcs where
  prints_Nil: "prints g funcs [] []"
| prints_shown: "prints g funcs xs b \<Longrightarrow> prints g funcs (xs @ [x]) (b @ shown_text g funcs x)"
| prints_more: "prints g funcs xs b \<Longrightarrow> prints g funcs xs (b @ c)"

text \<open>The debugger's state without the fields that the terminal has instead.\<close>

definition bare :: "dbg \<Rightarrow> dbg" where "bare d = d\<lparr>old := (\<lambda>_. 0), answers := [], shown := []\<rparr>"

definition tracks :: "bool \<Rightarrow> ui \<Rightarrow> dbg \<Rightarrow> dbg \<times> ui \<Rightarrow> bool" where
  "tracks funcs g d = (\<lambda>(d', u).
     d' = bare d \<and> answers d = answers_of (stdin u) \<and> (\<forall>v \<in> set old_regs. old d v = old_values u v) \<and>
     geo g u \<and> prints g funcs (shown d) (printed u))"

lemma bare_sel [simp]:
  "ch (bare d) = ch d" "old_ch (bare d) = old_ch d" "scr_c (bare d) = scr_c d" "scr_s (bare d) = scr_s d"
  "focus (bare d) = focus d" "brkpts (bare d) = brkpts d" "brk_ctr (bare d) = brk_ctr d" "vm (bare d) = vm d"
  "keys (bare d) = keys d"
  by (simp_all add: bare_def)

lemma bare_upd [simp]:
  "bare (d\<lparr>ch := k\<rparr>) = (bare d)\<lparr>ch := k\<rparr>" "bare (d\<lparr>old_ch := k\<rparr>) = (bare d)\<lparr>old_ch := k\<rparr>"
  "bare (d\<lparr>scr_c := i\<rparr>) = (bare d)\<lparr>scr_c := i\<rparr>" "bare (d\<lparr>scr_s := i\<rparr>) = (bare d)\<lparr>scr_s := i\<rparr>"
  "bare (d\<lparr>focus := i\<rparr>) = (bare d)\<lparr>focus := i\<rparr>" "bare (d\<lparr>brkpts := b\<rparr>) = (bare d)\<lparr>brkpts := b\<rparr>"
  "bare (d\<lparr>brk_ctr := n\<rparr>) = (bare d)\<lparr>brk_ctr := n\<rparr>" "bare (d\<lparr>vm := s\<rparr>) = (bare d)\<lparr>vm := s\<rparr>"
  "bare (d\<lparr>keys := ks\<rparr>) = (bare d)\<lparr>keys := ks\<rparr>" "bare (d\<lparr>old := f\<rparr>) = bare d" "bare (d\<lparr>answers := a\<rparr>) = bare d"
  "bare (put_out x d) = bare d"
  by (simp_all add: bare_def put_out_def)

lemma tracks_quiet: "tracks funcs g d (e, u) \<Longrightarrow> quiet u u' \<Longrightarrow> tracks funcs g d (e, u')"
  by (auto simp: tracks_def quiet_def geo_def intro: prints_more)

text \<open>The fields that both have can be changed together.\<close>

lemma tracks_upd:
  assumes "tracks funcs g d (e, u)"
  shows "tracks funcs g (d\<lparr>ch := k\<rparr>) (e\<lparr>ch := k\<rparr>, u)" "tracks funcs g (d\<lparr>old_ch := k\<rparr>) (e\<lparr>old_ch := k\<rparr>, u)"
    "tracks funcs g (d\<lparr>scr_c := i\<rparr>) (e\<lparr>scr_c := i\<rparr>, u)" "tracks funcs g (d\<lparr>scr_s := i\<rparr>) (e\<lparr>scr_s := i\<rparr>, u)"
    "tracks funcs g (d\<lparr>focus := i\<rparr>) (e\<lparr>focus := i\<rparr>, u)" "tracks funcs g (d\<lparr>brkpts := b\<rparr>) (e\<lparr>brkpts := b\<rparr>, u)"
    "tracks funcs g (d\<lparr>brk_ctr := n\<rparr>) (e\<lparr>brk_ctr := n\<rparr>, u)" "tracks funcs g (d\<lparr>vm := s\<rparr>) (e\<lparr>vm := s\<rparr>, u)"
    "tracks funcs g (d\<lparr>keys := ks\<rparr>) (e\<lparr>keys := ks\<rparr>, u)"
  using assms by (simp_all add: tracks_def)

lemma tracks_bare: "tracks funcs g d (e, u) \<Longrightarrow> e = bare d"
  by (simp add: tracks_def)

lemma put_out_sel [simp]: "shown (put_out x d) = shown d @ [x]" "old (put_out x d) = old d" "answers (put_out x d) = answers d"
  by (simp_all add: put_out_def)

lemma tracks_shown:
  assumes "tracks funcs g d (e, u)" "quiet u u'" "b = shown_text g funcs x"
  shows "tracks funcs g (put_out x d) (e, printf b u')"
proof -
  obtain c where c: "printed u' = printed u @ c" using assms(2) by (auto simp: quiet_def)
  have "prints g funcs (shown d @ [x]) ((printed u @ c) @ shown_text g funcs x)"
    using assms(1) by (intro prints_shown prints_more) (simp add: tracks_def)
  then show ?thesis using assms c by (auto simp: tracks_def quiet_def geo_def printf_def)
qed

text \<open>Executing.\<close>

definition same_cpu :: "ui \<Rightarrow> bool \<times> cpu \<Rightarrow> bool \<times> cpu \<times> ui \<Rightarrow> bool" where
  "same_cpu u = (\<lambda>(e, s) (e', s', u'). e' = e \<and> s' = s \<and> quiet u u')"

lemma exec_ins_related:
  assumes "\<And>v. quiet v (pre v)" "\<And>v. quiet v (post v)" "quiet u0 u"
  shows "rel_res (same_cpu u0) (exec_ins h cs s) (exec_ins_ui h io cs pre post (s, u))"
proof -
  have "quiet u0 (pre v)" "quiet u0 (post v)" if "quiet u0 v" for v
    using that assms(1,2) quiet_trans by blast+
  then show ?thesis
    using assms(3) unfolding exec_ins_def exec_ins_ui_def Let_def
    by (auto simp: same_cpu_def split: option.splits intro!: rel_res_bnd [of "(=)"] sum.rel_refl)
qed

lemma exec_while_related:
  assumes "\<And>v. quiet v (pre v)" "\<And>v. quiet v (post v)"
  shows "rel_run (same_cpu u) (exec_while h cs cond s) (exec_while_ui h io cs pre post cond (s, u))"
  unfolding exec_while_def exec_while_ui_def
proof (rule iterate_related)
  fix x y assume "same_cpu u x y"
  then obtain e s v where x: "x = (e, s)" "y = (e, s, v)" "quiet u v" by (cases x; cases y) (auto simp: same_cpu_def)
  have "rel_res (rel_prod (=) (same_cpu u)) (exec_pass h cs cond (e, s)) (exec_pass_ui h io cs pre post cond (e, s, v))"
    unfolding exec_pass_def exec_pass_ui_def prod.case
  proof (rule rel_res_bnd [of "(=)"])
    fix a b :: bool assume "a = b"
    then show "rel_res (rel_prod (=) (same_cpu u))
        (if a then bnd (exec_ins h cs s) (\<lambda>(e, s). Inr (e, e, s)) else Inr (True, False, s))
        (if b then bnd (exec_ins_ui h io cs pre post (s, v)) (\<lambda>(e, s, u). Inr (e, e, s, u)) else Inr (True, False, s, v))"
      using x(3) by (auto simp: same_cpu_def intro!: rel_res_bnd [OF exec_ins_related [OF assms]])
  qed (simp add: sum.rel_refl)
  then show "rel_run (rel_prod (=) (same_cpu u)) (Some (exec_pass h cs cond x)) (Some (exec_pass_ui h io cs pre post cond y))"
    by (simp add: x)
qed (simp add: same_cpu_def)

text \<open>Commands: the same next label and states that are related again.\<close>

abbreviation same_ctl :: "bool \<Rightarrow> ui \<Rightarrow> ctl \<times> dbg \<Rightarrow> ctl \<times> dbg \<times> ui \<Rightarrow> bool" where
  "same_ctl funcs g \<equiv> rel_prod (=) (tracks funcs g)"

lemma after_exec_related:
  assumes "tracks funcs g d (e, u)" "same_cpu u x y"
  shows "rel_res (same_ctl funcs g) (after_exec finder d x) (after_exec_ui finder e y)"
proof -
  obtain b s v where x: "x = (b, s)" "y = (b, s, v)" "quiet u v" using assms(2) by (cases x; cases y) (auto simp: same_cpu_def)
  have "tracks funcs g (d\<lparr>vm := s, scr_c := c, scr_s := i\<rparr>) (e\<lparr>vm := s, scr_c := c, scr_s := i\<rparr>, v)"
    "tracks funcs g (d\<lparr>vm := s\<rparr>) (e\<lparr>vm := s\<rparr>, v)" for c i
    using tracks_quiet [OF assms(1) x(3)] by (auto intro!: tracks_upd)
  then show ?thesis
    using tracks_bare [OF assms(1)] by (auto simp: after_exec_def after_exec_ui_def x intro!: rel_res_bnd [of "(=)"] sum.rel_refl)
qed

lemma brk_cond_bare: "brk_cond (bare d) = brk_cond d"
  by (simp add: brk_cond_def fun_eq_iff)

lemma cmd_exec_related:
  assumes "tracks funcs g d (e, u)"
  shows "rel_run (same_ctl funcs g) (cmd_step h cs finder d) (cmd_step_ui h io cs finder (e, u))"
    "rel_run (same_ctl funcs g) (cmd_continue h cs finder d) (cmd_continue_ui h io cs finder (e, u))"
    "rel_run (same_ctl funcs g) (cmd_next h cs finder d) (cmd_next_ui h io cs finder (e, u))"
proof -
  have vm: "vm e = vm d" "brk_cond e = brk_cond d" using tracks_bare [OF assms] by (simp_all add: brk_cond_bare)
  note go = after_exec_related [OF assms]
  show "rel_run (same_ctl funcs g) (cmd_step h cs finder d) (cmd_step_ui h io cs finder (e, u))"
    by (auto simp: cmd_step_def cmd_step_ui_def vm intro!: rel_res_bnd [OF exec_ins_related] go)
  show "rel_run (same_ctl funcs g) (cmd_continue h cs finder d) (cmd_continue_ui h io cs finder (e, u))"
    by (auto simp: cmd_continue_def cmd_continue_ui_def vm intro!: rel_run_bnd [OF exec_while_related] go)
  show "rel_run (same_ctl funcs g) (cmd_next h cs finder d) (cmd_next_ui h io cs finder (e, u))"
    using assms by (auto simp: cmd_next_def cmd_next_ui_def vm Let_def split: option.splits intro!: rel_run_bnd [OF exec_while_related] go)
qed


lemma tracks_keep:
  assumes "tracks funcs g d (e, u)" "answers d' = answers d" "old d' = old d" "shown d' = shown d"
  shows "tracks funcs g d' (bare d', u)"
  using assms by (simp add: tracks_def)

definition window_act :: "(dbg \<Rightarrow> ctl \<times> dbg) \<Rightarrow> bool" where
  "window_act act \<longleftrightarrow> (\<forall>d. act (bare d) = map_prod id bare (act d) \<and> answers (snd (act d)) = answers d \<and>
     old (snd (act d)) = old d \<and> shown (snd (act d)) = shown d)"

lemma window_acts:
  "window_act (cmd_down cnt)" "window_act cmd_up" "window_act (\<lambda>d. (No_print, d\<lparr>focus := i\<rparr>))"
  by (auto simp: window_act_def cmd_down_def cmd_up_def)

lemma cmd_window_related:
  assumes "tracks funcs g d (e, u)" "window_act act"
  shows "rel_run (same_ctl funcs g) (Some (Inr (act d))) (cmd_window_ui act (e, u))"
proof -
  have "act e = (fst (act d), bare (snd (act d)))"
    using assms(2) tracks_bare [OF assms(1)] by (simp add: window_act_def map_prod_def case_prod_beta)
  moreover have "tracks funcs g (snd (act d)) (bare (snd (act d)), step_line u)"
    using assms(2) tracks_quiet [OF assms(1), of "step_line u"] by (intro tracks_keep) (auto simp: window_act_def)
  ultimately show ?thesis by (cases "act d") (simp add: cmd_window_ui_def)
qed

text \<open>Questions.\<close>

lemma ask_related:
  assumes "answers d = answers_of (stdin u)"
  shows "rel_run (\<lambda>(v, strs) (v', u'). v' = v \<and> strs = answers_of (stdin u') \<and> quiet u (u'\<lparr>stdin := stdin u\<rparr>))
    (ask sc (answers d)) (ask_ui sc q c str u)"
  using ask_ui_refines [of sc q c str u, symmetric] quiet_ask_ui [of sc q c str u] assms
  by (cases "ask_ui sc q c str u"; cases "the (ask_ui sc q c str u)") auto

lemma asking_related:
  assumes "tracks funcs g d (e, u)"
    "\<And>dir d u. tracks funcs g d (bare d, u) \<Longrightarrow> rel_res (same_ctl funcs g) (act dir d) (act_ui dir (bare d, u))"
  shows "rel_run (same_ctl funcs g) (asking sc act d) (asking_ui sc q act_ui (e, u))"
proof -
  have "tracks funcs g (d\<lparr>answers := answers_of (stdin u')\<rparr>) (bare d, u')" if "quiet u (u'\<lparr>stdin := stdin u\<rparr>)" for u'
    using that assms(1) by (auto simp: tracks_def quiet_def geo_def intro: prints_more)
  then have "rel_res (same_ctl funcs g) (act dir (d\<lparr>answers := answers_of (stdin u')\<rparr>)) (act_ui dir (e, u'))"
    if "quiet u (u'\<lparr>stdin := stdin u\<rparr>)" for dir u'
    using assms(2) [of "d\<lparr>answers := answers_of (stdin u')\<rparr>"] that tracks_bare [OF assms(1)] by simp
  moreover have "answers d = answers_of (stdin u)" using assms(1) by (simp add: tracks_def)
  ultimately show ?thesis
    unfolding asking_def asking_ui_def prod.case by (intro rel_run_bnd [OF ask_related]) auto
qed

lemma set_brk_related:
  "tracks funcs g d (bare d, u) \<Longrightarrow> rel_res (same_ctl funcs g) (set_brk dir d) (set_brk_ui dir (bare d, u))"
  by (auto simp: set_brk_def set_brk_ui_def Let_def shown_text_def intro!: tracks_upd tracks_shown)

lemma show_word_related:
  "tracks funcs g d (bare d, u) \<Longrightarrow> rel_res (same_ctl funcs g) (show_word dir d) (show_word_ui dir (bare d, u))"
  by (auto simp: show_word_def show_word_ui_def shown_text_def simp del: load32.simps
    intro!: rel_res_bnd [of "(=)"] sum.rel_refl tracks_shown)

lemma show_text_related:
  "tracks funcs g d (bare d, u) \<Longrightarrow> rel_res (same_ctl funcs g) (show_text dir d) (show_text_ui dir (bare d, u))"
  by (auto simp: show_text_def show_text_ui_def shown_text_def
    intro!: rel_res_bnd [of "(=)"] sum.rel_refl tracks_shown)

lemma del_brk_related:
  "tracks funcs g d (bare d, u) \<Longrightarrow> rel_res (same_ctl funcs g) (del_brk dir d) (del_brk_ui dir (bare d, u))"
  by (auto simp: del_brk_def del_brk_ui_def Let_def intro!: tracks_upd elim: tracks_quiet)

lemma find_addr_related:
  assumes "tracks funcs g d (bare d, u)"
  shows "rel_res (same_ctl funcs g) (find_addr finder dir d) (find_addr_ui finder dir (bare d, u))"
proof -
  have "tracks funcs g d (bare d, cleanv (ui_rows u - 2) (ui_rows u) u)"
    using assms by (rule tracks_quiet) simp
  then show ?thesis
    unfolding find_addr_def find_addr_ui_def by (auto simp: bnd_assoc intro!: rel_res_bnd [of "(=)"] sum.rel_refl tracks_upd)
qed

lemma command_related:
  assumes "tracks funcs g d (e, u)"
  shows "rel_run (same_ctl funcs g) (command h cs cnt find_eip find_dir d) (command_ui h io cs cnt find_eip find_dir (e, u))"
proof -
  have [simp]: "ch e = ch d" using tracks_bare [OF assms] by simp
  note rels = cmd_exec_related [OF assms] cmd_window_related [OF assms window_acts(1)] cmd_window_related [OF assms window_acts(2)]
    cmd_window_related [OF assms window_acts(3)] asking_related [where act = set_brk and act_ui = set_brk_ui, OF assms set_brk_related] asking_related [where act = show_word and act_ui = show_word_ui, OF assms show_word_related]
    asking_related [where act = show_text and act_ui = show_text_ui, OF assms show_text_related] asking_related [where act = del_brk and act_ui = del_brk_ui, OF assms del_brk_related] asking_related [where act = "find_addr find_dir" and act_ui = "find_addr_ui find_dir", OF assms find_addr_related]
  show ?thesis
    unfolding command_def window_keys_def question_keys_def command_ui_def window_keys_ui_def question_keys_ui_def Let_def prod.case
    using rels assms by (simp split del: if_split) (auto simp: rels)
qed

text \<open>Drawing.\<close>

lemma geo_text:
  assumes "geo g u"
  shows "screen_text u funcs x = screen_text g funcs x"
proof -
  have "gap u = gap g" "panel_row u = panel_row g" "code_row u = code_row g" "stack_row u = stack_row g" "stack_blank u = stack_blank g"
    using assms by (simp_all add: geo_def gap_def panel_row_def code_row_def stack_row_def stack_blank_def fun_eq_iff)
  then have "panel c s u = panel c s g" "code_text u = code_text g" "stack_lines u = stack_lines g" for c s
    by (simp_all add: panel_def code_text_def stack_lines_def fun_eq_iff)
  then show ?thesis
    using assms \<open>stack_blank u = stack_blank g\<close> by (simp add: screen_text_def geo_def Let_def split: shown.split)
qed

lemma draw_screen_old: "\<forall>v \<in> set old_regs. f v = f' v \<Longrightarrow> draw_screen n r ls e f s = draw_screen n r ls e f' s"
proof -
  assume "\<forall>v \<in> set old_regs. f v = f' v"
  then have "filter (\<lambda>v. var s v \<noteq> f v) old_regs = filter (\<lambda>v. var s v \<noteq> f' v) old_regs" by (intro filter_cong) auto
  then show ?thesis by (simp add: draw_screen_def)
qed

lemma draw_screen_shown:
  "draw_screen n r ls e f s = Inr x \<Longrightarrow> shown_text g funcs x = screen_text g funcs x"
  by (auto simp: draw_screen_def shown_text_def bnd_eq_Inr)

definition boxed :: "nat \<Rightarrow> ui \<Rightarrow> bool" where
  "boxed n g \<longleftrightarrow> ui_rows g = int n \<and> box_lines g \<noteq> None \<and> box_code g \<noteq> None \<and> box_stack g \<noteq> None"

lemma draw_pass_related:
  assumes t: "tracks funcs g d (e, u)" and "boxed n g" "0 \<le> scr_s d" and lines: "lines (bare d) = lines d"
  shows "rel_res (tracks funcs g) (draw_pass n lines d) (draw_pass_ui funcs lines (e, u))"
proof -
  have geo: "geo g u" and e: "e = bare d" and old: "\<forall>v \<in> set old_regs. old d v = old_values u v" using t by (simp_all add: tracks_def)
  obtain b1 b2 b3 where u: "ui_rows u = int n" "box_lines u = Some b1" "box_code u = Some b2" "box_stack u = Some b3"
    using assms(2) geo by (auto simp: boxed_def geo_def)
  have "tracks funcs g ((put_out x d)\<lparr>old := var (vm d)\<rparr>) (e, u\<lparr>old_values := override_on (old_values u) (var (vm d)) (set old_regs),
      printed := printed u @ screen_text u funcs x\<rparr>)"
    if x: "draw_screen n (scr_s d) ls i (old_values u) (vm d) = Inr x" for x ls i
  proof -
    have "prints g funcs (shown d @ [x]) (printed u @ shown_text g funcs x)"
      using t by (intro prints_shown) (simp add: tracks_def)
    then show ?thesis
      using t by (auto simp: tracks_def geo_text [OF geo] draw_screen_shown [OF x] geo_def override_on_def bare_def put_out_def)
  qed
  then have "rel_res (tracks funcs g)
      (bnd (draw_screen n (scr_s d) ls i (old d) (vm d)) (\<lambda>x. Inr ((put_out x d)\<lparr>old := var (vm d)\<rparr>)))
      (bnd (draw_screen_ui (scr_s d) ls i funcs (vm d) u) (\<lambda>u. Inr (e, u)))" for ls i
    by (cases "draw_screen n (scr_s d) ls i (old_values u) (vm d)")
      (simp_all add: draw_screen_prints [OF u(1) assms(3) u(2-4)] draw_screen_old [OF old])
  then show ?thesis
    unfolding draw_pass_def draw_pass_ui_def prod.case
    by (auto simp: e lines u intro!: rel_res_bnd [of "(=)"] sum.rel_refl)
qed

text \<open>Reading a key.\<close>

lemma tracks_repeat: "tracks funcs g d (e, u) \<Longrightarrow> tracks funcs g (d\<lparr>old_ch := ch d\<rparr>) (e\<lparr>old_ch := ch e\<rparr>, u)"
  by (simp add: tracks_def)

lemma key_pass_related:
  assumes t: "tracks funcs g d (e, u)"
    and cmd: "\<And>d e u. tracks funcs g d (e, u) \<Longrightarrow> rel_run (same_ctl funcs g) (cmd d) (cmd_ui (e, u))"
  shows "rel_run (same_ctl funcs g) (key_pass cmd d) (key_pass_ui cmd_ui (e, u))"
proof -
  have e: "old_ch e = old_ch d" "keys e = keys d" using tracks_bare [OF t] by simp_all
  have "rel_run (same_ctl funcs g)
      (map_option (\<lambda>r. bnd r (\<lambda>(k, d). Inr (k, if k = Draw then d\<lparr>old_ch := ch d\<rparr> else d))) (cmd (d\<lparr>ch := c, keys := ks\<rparr>)))
      (map_option (\<lambda>r. bnd r (\<lambda>(k, d, u). Inr (k, if k = Draw then d\<lparr>old_ch := ch d\<rparr> else d, u)))
        (cmd_ui (e\<lparr>ch := c, keys := ks\<rparr>, v)))" if "quiet u v" for c ks v
  proof (rule rel_run_bnd [OF cmd])
    show "tracks funcs g (d\<lparr>ch := c, keys := ks\<rparr>) (e\<lparr>ch := c, keys := ks\<rparr>, v)"
      using tracks_quiet [OF t that] by (intro tracks_upd)
  next
    fix x y assume "same_ctl funcs g x y"
    then show "rel_res (same_ctl funcs g) (case x of (k, d) \<Rightarrow> Inr (k, if k = Draw then d\<lparr>old_ch := ch d\<rparr> else d))
        (case y of (k, d, u) \<Rightarrow> Inr (k, if k = Draw then d\<lparr>old_ch := ch d\<rparr> else d, u))"
      by (cases x; cases y) (auto intro: tracks_repeat)
  qed
  then show ?thesis
    unfolding key_pass_def key_pass_ui_def Let_def prod.case e by (auto split: option.split)
qed

text \<open>A relation that holds of the results, together with a property of the first.\<close>

lemma rel_run_conj: "rel_run R a b \<Longrightarrow> (\<And>x. a = Some (Inr x) \<Longrightarrow> P x) \<Longrightarrow> rel_run (\<lambda>x y. R x y \<and> P x) a b"
  by (cases a; cases b; cases "the a"; cases "the b") auto

lemma rel_run_Inr: "rel_run R (Some (Inr x)) b \<Longrightarrow> \<exists>y. b = Some (Inr y) \<and> R x y"
  by (cases b; cases "the b") auto

context code_view begin

lemma dbg_loop_related:
  assumes "tracks funcs g d (e, u)" "dbg_ok cnt d" "boxed n g" "\<And>d. lines (bare d) = lines d"
  shows "rel_run (same_ctl funcs g) (dbg_loop n lines (command h cs cnt find_eip find_dir) d)
    (dbg_loop_ui funcs lines (command_ui h io cs cnt find_eip find_dir) (e, u))"
proof -
  let ?R = "\<lambda>x y. same_ctl funcs g x y \<and> dbg_ok cnt (snd x)"
  have "rel_run (rel_prod (=) ?R) (dbg_pass n lines (command h cs cnt find_eip find_dir) x)
      (dbg_pass_ui funcs lines (command_ui h io cs cnt find_eip find_dir) y)" if xy: "?R x y" for x y
  proof -
    obtain k d e u where x: "x = (k, d)" "y = (k, e, u)" "tracks funcs g d (e, u)" "dbg_ok cnt d"
      using xy by (cases x; cases y) auto
    have ch: "ch e = ch d" using tracks_bare [OF x(3)] by simp
    show ?thesis
    proof (cases k)
      case Draw
      have "0 \<le> scr_s d" using x(4) by (simp add: dbg_ok_def)
      from draw_pass_related [where lines = lines, OF x(3) assms(3) this assms(4)] show ?thesis
        using x(3,4) Draw by (auto simp: x dbg_pass_def dbg_pass_ui_def ch draw_pass_def bnd_eq_Inr intro!: rel_res_bnd)
    next
      case No_print
      have "rel_run ?R (key_pass (command h cs cnt find_eip find_dir) d) (key_pass_ui (command_ui h io cs cnt find_eip find_dir) (e, u))"
        using key_pass_ok [of h cs d] x(4) by (intro rel_run_conj key_pass_related [OF x(3)] command_related) (auto simp: split_paired_all)
      then show ?thesis
        by (auto simp: x No_print dbg_pass_def dbg_pass_ui_def intro!: rel_run_bnd)
    qed (use x in \<open>simp add: dbg_pass_def dbg_pass_ui_def\<close>)
  qed
  moreover have "?R (Draw, d) (Draw, e, u)" using assms by simp
  ultimately have "rel_run ?R (iterate (dbg_pass n lines (command h cs cnt find_eip find_dir)) (Draw, d))
      (iterate (dbg_pass_ui funcs lines (command_ui h io cs cnt find_eip find_dir)) (Draw, e, u))"
    by (rule iterate_related)
  then show ?thesis
    unfolding dbg_loop_def dbg_loop_ui_def by (rule option.rel_mono_strong) (auto elim: sum.rel_mono_strong)
qed

end

section \<open>The two functions\<close>

text \<open>
  What the functions meet: the size that \<open>ioctl\<close> delivers, the sizes that the allocator grants, the keys.
  The terminal itself, with what is typed as answers, is the state \<open>ui\<close>, whose global variables are 0.
\<close>

record screen_env =
  winsize :: "(u16 \<times> u16) option"
  grants :: "nat \<Rightarrow> bool"
  typed :: "u8 option list"

definition clear_screen :: "u8 list" where
  "clear_screen = ESC # bytes ''[2J'' @ ESC # bytes ''[H'' @ ESC # bytes ''[3J''"

definition dbg_start :: "u8 option list \<Rightarrow> int \<Rightarrow> cpu \<Rightarrow> dbg" where
  "dbg_start ks c s = \<lparr>ch = 0, old_ch = 0, scr_c = c, scr_s = 0, focus = 0, brkpts = replicate MAX_BRK None,
     brk_ctr = 0, old = (\<lambda>_. 0), vm = s, keys = ks, answers = [], shown = []\<rparr>"

text \<open>From the label \<open>exit1\<close> on: the boxes and the lines are freed, the terminal is given back.\<close>

definition leave_ui :: "ctl \<times> dbg \<times> ui \<Rightarrow> int \<times> cpu \<times> ui" where
  "leave_ui = (\<lambda>(g, d, u). (0, vm d, disable_raw_mode (exit_interface u)))"

definition interface_elf_main_ui :: "ldenv \<Rightarrow> host \<Rightarrow> kernel_io \<Rightarrow> capstone \<Rightarrow> screen_env \<Rightarrow> int \<Rightarrow> u8 list list \<Rightarrow> u8 list list
    \<Rightarrow> ui \<Rightarrow> (int \<times> cpu \<times> ui) res option" where
  "interface_elf_main_ui e h io cs v argc argv envp u =
     (let u = printf clear_screen u in
      case initialize (mem_ok e) static_init of
        Inl f \<Rightarrow> Some (Inl f)
      | Inr (ok, s) \<Rightarrow>
          if ok = 0 then Some (Inr (1, s, u))
          else case read_elf_file e True argc argv envp ldr_init s of
            Inl f \<Rightarrow> Some (Inl f)
          | Inr (err, out, l, s) \<Rightarrow>
              if err \<noteq> 0 then Some (Inr (0, s, disable_raw_mode u))
              else if \<not> cs_open_ok cs then Some (Inr (1, s, u))
              else
                (let insns = map (disasm_section cs s) (sheader out) in
                 if elf_count insns = 0 then Some (Inr (1, s, printf (bytes ''Failed to disassemble code'' @ newline) u))
                 else case init_interface (winsize v) (grants v) s u of
                   Inl f \<Rightarrow> Some (Inl f)
                 | Inr u \<Rightarrow>
                     (let u = init_raw_mode u in
                      if \<not> grants v (size_t (2 * ui_rows u * 8)) then Some (Inr (1, s, u))
                      else case elf_find_eip out insns (var s EIP) 0 of
                        Inl f \<Rightarrow> Some (Inl f)
                      | Inr c \<Rightarrow>
                          map_option (map_sum id leave_ui)
                            (dbg_loop_ui True (elf_screen (nat (ui_rows u)) out insns)
                              (command_ui h io cs (elf_count insns) (elf_find_eip out insns) (elf_find_dir insns))
                              (dbg_start (typed v) c s, u)))))"

definition interface_raw_main_ui :: "ldenv \<Rightarrow> host \<Rightarrow> kernel_io \<Rightarrow> capstone \<Rightarrow> screen_env \<Rightarrow> int \<Rightarrow> u8 list list \<Rightarrow> u8 list list
    \<Rightarrow> ui \<Rightarrow> (int \<times> cpu \<times> ui) res option" where
  "interface_raw_main_ui e h io cs v argc argv envp u =
     (let u = printf clear_screen u in
      case initialize (mem_ok e) static_init of
        Inl f \<Rightarrow> Some (Inl f)
      | Inr (ok, s) \<Rightarrow>
          if ok = 0 then Some (Inr (1, s, u))
          else case read_raw_file e s of
            Inl f \<Rightarrow> Some (Inl f)
          | Inr (err, sz, s) \<Rightarrow>
              if err \<noteq> 0 then Some (Inr (0, s, disable_raw_mode u))
              else if \<not> cs_open_ok cs then Some (Inr (1, s, u))
              else
                (let insn = cs_disasm_all cs (mem s) 0 (sz - var s EIP) (var s EIP) in
                 if insn = [] then Some (Inr (1, s, printf (bytes ''Failed to disassemble code'' @ newline) u))
                 else case init_interface (winsize v) (grants v) s u of
                   Inl f \<Rightarrow> Some (Inl f)
                 | Inr u \<Rightarrow>
                     (let u = init_raw_mode u in
                      if \<not> grants v (size_t (2 * ui_rows u * 8)) then Some (Inr (1, s, u))
                      else
                        map_option (map_sum id leave_ui)
                          (dbg_loop_ui False (raw_screen (nat (ui_rows u)) insn)
                            (command_ui h io cs (length insn) (raw_find_eip insn sz) (raw_find_eip insn sz))
                            (dbg_start (typed v) 0 s, u)))))"

section \<open>The terminal is given back\<close>

lemma saved_lines [simp]: "saved t (step_line u) = saved t u" "saved t (blank_line u) = saved t u" "saved t (answer_line u) = saved t u"
  by (simp_all add: step_line_def blank_line_def answer_line_def)

lemma saved_exec_ins:
  assumes "exec_ins_ui h io cs pre post (s, u) = Inr (e, s', u')" "\<And>v. saved t (pre v) = saved t v" "\<And>v. saved t (post v) = saved t v"
  shows "saved t u' = saved t u"
proof (cases "cs_disasm cs (mem s) (var s EIP) 16 (var s EIP)")
  case (Some ins)
  define v where "v = pre (if is_int ins then disable_raw_mode u else u)"
  define w where "w = post (guest_io (io ins s (tty v)) v)"
  have "u' = (if is_int ins then enable_raw_mode w else w)"
    using assms(1) by (auto simp: exec_ins_ui_def Some Let_def bnd_eq_Inr v_def w_def)
  then show ?thesis by (simp add: w_def v_def assms(2,3))
qed (use assms(1) in \<open>simp add: exec_ins_ui_def\<close>)

lemma saved_exec_while:
  assumes r: "exec_while_ui h io cs pre post cond (s, u) = Some (Inr (e, s', u'))"
    and "\<And>v. saved t (pre v) = saved t v" "\<And>v. saved t (post v) = saved t v"
  shows "saved t u' = saved t u"
proof -
  note ins = saved_exec_ins [OF _ assms(2,3)]
  obtain x where x: "(pass (\<lambda>x. Some (exec_pass_ui h io cs pre post cond x)))\<^sup>*\<^sup>* (False, s, u) x"
    "exec_pass_ui h io cs pre post cond x = Inr (True, e, s', u')"
    using r by (auto simp: exec_while_ui_def iterate_iff)
  have "saved t (snd (snd x)) = saved t u"
    using x(1) by (induction rule: rtranclp_induct) (auto simp: pass_iff exec_pass_ui_def bnd_eq_Inr split: if_splits dest!: ins)
  then show ?thesis using x(2) by (cases x) (auto simp: exec_pass_ui_def bnd_eq_Inr split: if_splits dest!: ins)
qed

lemma saved_ask_ui: "ask_ui sc q c str u = Some (Inr (v, u')) \<Longrightarrow> saved t u' = saved t u"
proof (induction sc q c str u arbitrary: u' rule: ask_ui.induct)
  case (1 sc q c str u)
  obtain l u1 where g: "get_str q str (MAX_STR - 1) c u = (l, u1)" by fastforce
  then show ?case
    using 1 saved_get_str [OF g, of t] by (subst (asm) (2) ask_ui.simps) (auto split: if_splits scan.splits)
qed

lemma saved_asking:
  assumes "asking_ui sc q act (d, u) = Some (Inr (k, d', u'))" "\<And>dir v. act dir (d, v) = Inr (k, d', u') \<Longrightarrow> saved t u' = saved t v"
  shows "saved t u' = saved t u"
  using assms by (auto simp: asking_ui_def bnd_eq_Inr dest!: saved_ask_ui)

lemma saved_command:
  assumes "command_ui h io cs cnt find_eip find_dir (d, u) = Some (Inr (k, d', u'))"
  shows "saved t u' = saved t u"
proof -
  have go: "after_exec_ui f d (e, s, v) = Inr (k, d', u') \<Longrightarrow> u' = v" for f d e s v
    by (auto simp: after_exec_ui_def bnd_eq_Inr split: if_splits)
  have acts: "set_brk_ui dir (d, v) = Inr (k, d', u') \<Longrightarrow> saved t u' = saved t v"
    "show_word_ui dir (d, v) = Inr (k, d', u') \<Longrightarrow> saved t u' = saved t v"
    "show_text_ui dir (d, v) = Inr (k, d', u') \<Longrightarrow> saved t u' = saved t v"
    "del_brk_ui dir (d, v) = Inr (k, d', u') \<Longrightarrow> saved t u' = saved t v"
    "find_addr_ui f dir (d, v) = Inr (k, d', u') \<Longrightarrow> saved t u' = saved t v" for dir d v f
    by (auto simp: set_brk_ui_def show_word_ui_def show_text_ui_def del_brk_ui_def find_addr_ui_def Let_def bnd_eq_Inr
        simp del: load32.simps split: if_splits)
  have "cmd_window_ui act (d, u) = Some (Inr (k, d', u')) \<Longrightarrow> saved t u' = saved t u" for act
    by (auto simp: cmd_window_ui_def split: prod.splits)
  moreover have "cmd_step_ui h io cs f (d, u) = Some (Inr (k, d', u')) \<Longrightarrow> saved t u' = saved t u" for f
    by (auto simp: cmd_step_ui_def bnd_eq_Inr dest!: go saved_exec_ins [where t = t])
  moreover have "cmd_continue_ui h io cs f (d, u) = Some (Inr (k, d', u')) \<Longrightarrow> saved t u' = saved t u" for f
    by (auto simp: cmd_continue_ui_def bnd_eq_Inr dest!: go saved_exec_while [where t = t])
  moreover have "cmd_next_ui h io cs f (d, u) = Some (Inr (k, d', u')) \<Longrightarrow> saved t u' = saved t u" for f
    by (auto simp: cmd_next_ui_def Let_def bnd_eq_Inr split: option.splits dest!: go saved_exec_while [where t = t])
  ultimately show ?thesis
    using assms saved_asking [OF _ acts(1)] saved_asking [OF _ acts(2)] saved_asking [OF _ acts(3)] saved_asking [OF _ acts(4)]
      saved_asking [OF _ acts(5)]
    unfolding command_ui_def window_keys_ui_def question_keys_ui_def Let_def prod.case by (auto split: if_splits)
qed

lemma modes_draw_screen: "draw_screen_ui r ls e funcs s u = Inr u' \<Longrightarrow> modes u' = modes u"
  by (auto simp: draw_screen_ui_def Let_def bnd_eq_Inr) (simp add: modes_def printf_def cleanv_printed move_def)

lemma saved_pass:
  assumes "pass (dbg_pass_ui funcs lines (command_ui h io cs cnt find_eip find_dir)) (k, d, u) (k', d', u')"
  shows "saved t u' = saved t u"
  using assms
  by (auto simp: pass_iff dbg_pass_ui_def draw_pass_ui_def key_pass_ui_def Let_def bnd_eq_Inr
      split: ctl.splits if_splits option.splits dest!: saved_command [where t = t] saved_modes [OF modes_draw_screen, where t = t])

lemma saved_loop:
  assumes "dbg_loop_ui funcs lines (command_ui h io cs cnt find_eip find_dir) (d, u) = Some (Inr (k, d', u'))"
  shows "saved t u' = saved t u"
proof -
  obtain x where x: "(pass (dbg_pass_ui funcs lines (command_ui h io cs cnt find_eip find_dir)))\<^sup>*\<^sup>* (Draw, d, u) x"
    "dbg_pass_ui funcs lines (command_ui h io cs cnt find_eip find_dir) x = Some (Inr (True, k, d', u'))"
    using assms by (auto simp: dbg_loop_ui_def iterate_iff)
  have "saved t (snd (snd x)) = saved t u"
    using x(1) by (induction rule: rtranclp_induct) (auto dest!: saved_pass [where t = t])
  moreover have "u' = snd (snd x)"
    using x(2) by (cases x) (auto simp: dbg_pass_ui_def bnd_eq_Inr split: ctl.splits if_splits)
  ultimately show ?thesis by simp
qed

section \<open>The functions refine those of the debugger\<close>

text \<open>The terminal as the debugger's model sees it.\<close>

definition as_terminal :: "screen_env \<Rightarrow> ui \<Rightarrow> terminal" where
  "as_terminal v u =
     (let n = (case winsize v of None \<Rightarrow> 0 | Some (r, c) \<Rightarrow> unat r) in
      \<lparr>rows = n, lineas_ok = grants v (16 * n), t_keys = typed v, t_answers = answers_of (stdin u)\<rparr>)"

definition on_screen :: "screen_env \<Rightarrow> bool" where
  "on_screen v \<longleftrightarrow> (\<forall>n < 2 ^ 20. grants v n) \<and> (case winsize v of None \<Rightarrow> False | Some (r, c) \<Rightarrow> 29 \<le> c)"

lemma rows_bytes: "size_t (16 * uint (r :: u16)) = 16 * unat r" "16 * unat (r :: u16) < 2 ^ 20"
proof -
  define k where "k = unat r"
  have k: "uint r = int k" by (simp add: k_def)
  have "unat r < 2 ^ LENGTH(16)" by (rule unsigned_less)
  then have lt: "k < 2 ^ 16" by (simp add: k_def)
  then have "(2 * int k * 8) mod 2 ^ 64 = int (16 * k)" by (subst mod_pos_pos_trivial) simp_all
  then show "size_t (16 * uint r) = 16 * unat r" unfolding size_t_eq k by (simp add: k_def nat_mult_distrib)
  show "16 * unat r < 2 ^ 20" using lt by (simp add: k_def)
qed

lemma on_screenE:
  assumes "on_screen v"
  obtains r k where "winsize v = Some (r, k)" "29 \<le> k" "\<forall>n < 2 ^ 20. grants v n" "grants v (16 * unat r)"
proof -
  obtain r k where w: "winsize v = Some (r, k)" "29 \<le> k"
    using assms unfolding on_screen_def by (cases "winsize v") auto
  have all: "\<forall>n < 2 ^ 20. grants v n" using assms unfolding on_screen_def by (rule conjunct1)
  from spec [OF all, of "16 * unat r"] rows_bytes(2) have "grants v (16 * unat r)" by (rule mp)
  with w all that show thesis by blast
qed

lemma start_tracks:
  assumes "on_screen v" "init_interface (winsize v) (grants v) s (printf clear_screen u) = Inr u'"
  shows "tracks funcs (init_raw_mode u') (dbg_init (as_terminal v u) c s) (dbg_start (typed v) c s, init_raw_mode u')"
    "boxed (rows (as_terminal v u)) (init_raw_mode u')" "nat (ui_rows (init_raw_mode u')) = rows (as_terminal v u)"
    "grants v (size_t (2 * ui_rows (init_raw_mode u') * 8))" "lineas_ok (as_terminal v u)"
proof -
  obtain r k where w: "winsize v = Some (r, k)" "29 \<le> k" "\<forall>n < 2 ^ 20. grants v n" "grants v (16 * unat r)"
    using assms(1) by (rule on_screenE)
  define u1 where "u1 = init_raw_mode u'"
  have u1: "ui_rows u1 = uint r" "box_lines u1 \<noteq> None" "box_code u1 \<noteq> None" "box_stack u1 \<noteq> None" "stdin u1 = stdin u"
    "\<forall>v \<in> set old_regs. old_values u1 v = var s v"
    using assms(2) unfolding w(1) init_interface_ok [OF w(3,2)] by (auto simp: u1_def mode_defs printf_def)
  have t: "as_terminal v u = \<lparr>rows = unat r, lineas_ok = True, t_keys = typed v, t_answers = answers_of (stdin u)\<rparr>"
    using w(1,4) by (simp add: as_terminal_def)
  show "tracks funcs (init_raw_mode u') (dbg_init (as_terminal v u) c s) (dbg_start (typed v) c s, init_raw_mode u')"
    using prints_more [OF prints_Nil, of u1 funcs "printed u1"] u1
    by (simp add: u1_def [symmetric] t tracks_def dbg_init_def dbg_start_def bare_def geo_def)
  show "boxed (rows (as_terminal v u)) (init_raw_mode u')" "nat (ui_rows (init_raw_mode u')) = rows (as_terminal v u)"
    "grants v (size_t (2 * ui_rows (init_raw_mode u') * 8))" "lineas_ok (as_terminal v u)"
    using u1 w(4) by (simp_all add: u1_def [symmetric] t boxed_def rows_bytes)
qed

text \<open>The same result, without the terminal.\<close>

definition no_ui :: "int \<times> cpu \<times> ui \<Rightarrow> int \<times> cpu" where "no_ui = (\<lambda>(n, s, u). (n, s))"

lemma loop_result:
  assumes "rel_run (same_ctl funcs g) a b"
  shows "map_option (map_sum id no_ui) (map_option (map_sum id leave_ui) b) = map_option (\<lambda>r. bnd r (\<lambda>(g, d). Inr (0, vm d))) a"
  using assms by (cases a; cases b; cases "the a"; cases "the b") (auto simp: no_ui_def leave_ui_def dest!: tracks_bare)

lemma elf_screen_bare: "elf_screen n out insns (bare d) = elf_screen n out insns d"
  by (simp add: elf_screen_def)

lemma raw_screen_bare: "raw_screen n insn (bare d) = raw_screen n insn d"
  by (simp add: raw_screen_def)

lemma init_on_screen:
  assumes "on_screen v"
  obtains f where "\<And>s. init_interface (winsize v) (grants v) s (printf clear_screen u) = Inr (f s)"
proof -
  obtain r k where w: "winsize v = Some (r, k)" "29 \<le> k" "\<forall>n < 2 ^ 20. grants v n"
    using assms by (rule on_screenE)
  show thesis by (rule that) (unfold w(1) init_interface_ok [OF w(3,2)], rule refl)
qed

lemma raw_main_refines:
  assumes "on_screen v"
  shows "interface_raw_main e h cs (as_terminal v u) argc argv envp =
    map_option (map_sum id no_ui) (interface_raw_main_ui e h io cs v argc argv envp u)"
proof -
  have loop: "map_option (map_sum id no_ui) (map_option (map_sum id leave_ui)
        (dbg_loop_ui False (raw_screen (nat (ui_rows (init_raw_mode u'))) insn)
          (command_ui h io cs (length insn) (raw_find_eip insn sz) (raw_find_eip insn sz)) (dbg_start (typed v) 0 s, init_raw_mode u'))) =
      map_option (\<lambda>r. bnd r (\<lambda>(g, d). Inr (0, vm d)))
        (dbg_loop (rows (as_terminal v u)) (raw_screen (rows (as_terminal v u)) insn) (raw_command h cs insn sz) (dbg_init (as_terminal v u) 0 s))"
    if "insn \<noteq> []" "init_interface (winsize v) (grants v) s (printf clear_screen u) = Inr u'" for insn sz s u'
  proof -
    note st = start_tracks [OF assms that(2)]
    show ?thesis
      unfolding st(3) raw_command_eq using that(1)
      by (intro loop_result [OF raw.dbg_loop_related [OF st(1) dbg_init_ok st(2)]]) (simp_all add: raw_screen_bare)
  qed
  obtain f where f: "\<And>s. init_interface (winsize v) (grants v) s (printf clear_screen u) = Inr (f s)"
    using init_on_screen [OF assms] by blast
  note st = start_tracks [OF assms f]
  show ?thesis
    unfolding interface_raw_main_def interface_raw_main_ui_def Let_def
    using st(4,5) loop [OF _ f] by (auto simp: f no_ui_def split: sum.splits)
qed

text \<open>A run of the raw mode, with what the terminal has received.\<close>

lemma prints_member: "prints g funcs xs b \<Longrightarrow> x \<in> set xs \<Longrightarrow> \<exists>p q. b = p @ shown_text g funcs x @ q"
proof (induction rule: prints.induct)
  case (prints_shown xs b y)
  show ?case
  proof (cases "x = y")
    case False
    then obtain p q where "b = p @ shown_text g funcs x @ q" using prints_shown by auto
    then show ?thesis by (intro exI [of _ p] exI [of _ "q @ shown_text g funcs y"]) simp
  qed (intro exI [of _ b] exI [of _ "[]"], simp)
next
  case (prints_more xs b c)
  then obtain p q where "b = p @ shown_text g funcs x @ q" by auto
  then show ?case by (intro exI [of _ p] exI [of _ "q @ c"]) simp
qed simp

lemma raw_main_run:
  assumes "on_screen v" "mem_ok e" "initialize True static_init = Inr (1, s0)" "read_raw_file e s0 = Inr (0, sz, s)" "cs_open_ok cs"
    and insn: "insn = cs_disasm_all cs (mem s) 0 (sz - var s EIP) (var s EIP)" "insn \<noteq> []" and n: "n = rows (as_terminal v u)"
    and run: "dbg_loop n (raw_screen n insn) (raw_command h cs insn sz) (dbg_init (as_terminal v u) 0 s) = Some (Inr (k, d))"
  shows "\<exists>g w. init_interface (winsize v) (grants v) s (printf clear_screen u) = Inr g \<and>
    interface_raw_main_ui e h io cs v argc argv envp u = Some (Inr (0, vm d, disable_raw_mode (exit_interface w))) \<and>
    prints (init_raw_mode g) False (shown d) (printed w)"
proof -
  obtain g where g: "init_interface (winsize v) (grants v) s (printf clear_screen u) = Inr g"
    using init_on_screen [OF assms(1)] by blast
  note st = start_tracks [OF assms(1) g]
  have rel: "rel_run (same_ctl False (init_raw_mode g)) (Some (Inr (k, d)))
    (dbg_loop_ui False (raw_screen n insn) (command_ui h io cs (length insn) (raw_find_eip insn sz) (raw_find_eip insn sz))
      (dbg_start (typed v) 0 s, init_raw_mode g))"
    unfolding run [symmetric] raw_command_eq n using insn(2)
    by (intro raw.dbg_loop_related [OF st(1) dbg_init_ok st(2)]) (simp_all add: raw_screen_bare)
  then obtain d' w where w: "dbg_loop_ui False (raw_screen n insn)
      (command_ui h io cs (length insn) (raw_find_eip insn sz) (raw_find_eip insn sz)) (dbg_start (typed v) 0 s, init_raw_mode g) =
      Some (Inr (k, d', w))" "vm d' = vm d" "prints (init_raw_mode g) False (shown d) (printed w)"
    using rel_run_Inr [OF rel] by (auto simp: tracks_def)
  have "interface_raw_main_ui e h io cs v argc argv envp u = Some (Inr (0, vm d, disable_raw_mode (exit_interface w)))"
    using assms(2-5) insn(2) st(3,4) w(1,2) g
    by (simp add: interface_raw_main_ui_def Let_def insn(1) [symmetric] n leave_ui_def)
  then show ?thesis using g w(3) by blast
qed

lemma elf_main_refines:
  assumes "on_screen v"
  shows "interface_elf_main e h cs (as_terminal v u) argc argv envp =
    map_option (map_sum id no_ui) (interface_elf_main_ui e h io cs v argc argv envp u)"
proof -
  have loop: "map_option (map_sum id no_ui) (map_option (map_sum id leave_ui)
        (dbg_loop_ui True (elf_screen (nat (ui_rows (init_raw_mode u'))) out insns)
          (command_ui h io cs (elf_count insns) (elf_find_eip out insns) (elf_find_dir insns)) (dbg_start (typed v) c s, init_raw_mode u'))) =
      map_option (\<lambda>r. bnd r (\<lambda>(g, d). Inr (0, vm d)))
        (dbg_loop (rows (as_terminal v u)) (elf_screen (rows (as_terminal v u)) out insns) (elf_command h cs out insns) (dbg_init (as_terminal v u) c s))"
    if "0 < elf_count insns" "elf_find_eip out insns (var s EIP) 0 = Inr c"
      "init_interface (winsize v) (grants v) s (printf clear_screen u) = Inr u'" for out insns s c u'
  proof -
    note st = start_tracks [OF assms that(3)]
    have "0 \<le> c" "c < int (elf_count insns)" using elf.find_eip_in [OF that(2)] that(1) by simp_all
    then show ?thesis
      unfolding st(3) elf_command_def
      by (intro loop_result [OF elf.dbg_loop_related [OF st(1) dbg_init_ok st(2)]]) (simp_all add: elf_screen_bare)
  qed
  obtain f where f: "\<And>s. init_interface (winsize v) (grants v) s (printf clear_screen u) = Inr (f s)"
    using init_on_screen [OF assms] by blast
  note st = start_tracks [OF assms f]
  show ?thesis
    unfolding interface_elf_main_def interface_elf_main_ui_def Let_def
    using st(4,5) loop [OF _ _ f] by (auto simp: f no_ui_def split: sum.splits)
qed

section \<open>Properties\<close>

text \<open>
  C7 (the debugger on its terminal). On a terminal of at least 29 columns, with an allocator that grants what
  it needs, the two functions with every byte read and printed have the result of the debugger's model:
  the same value, the same machine, the same fault, and they run or wait forever together. The model
  sees of the terminal its rows, the keys, and the strings that its questions find in the typed lines.
  This holds whatever the guest's system calls print and whatever they do to the terminal's settings.
\<close>

theorem debugger_on_terminal:
  assumes "on_screen v"
  shows "interface_elf_main e h cs (as_terminal v u) argc argv envp =
      map_option (map_sum id no_ui) (interface_elf_main_ui e h io cs v argc argv envp u)
    \<and> interface_raw_main e h cs (as_terminal v u) argc argv envp =
      map_option (map_sum id no_ui) (interface_raw_main_ui e h io cs v argc argv envp u)"
  using elf_main_refines [OF assms] raw_main_refines [OF assms] by blast

text \<open>
  C19 (the output). What the terminal has received when the loop is left contains, in this order, the exact
  text of everything that the debugger's model has shown: every screen byte by byte, the breakpoints that
  were created, the words and strings that were looked up. The two loops end together, with the same
  machine, fault together and wait together.
\<close>

theorem debugger_prints:
  assumes "on_screen v" "init_interface (winsize v) (grants v) s (printf clear_screen u) = Inr u'"
    and "g = init_raw_mode u'" "n = rows (as_terminal v u)"
  shows "(insn \<noteq> [] \<longrightarrow>
      rel_run (\<lambda>(k, d) (k', d', w). k' = k \<and> vm d' = vm d \<and> prints g False (shown d) (printed w))
        (dbg_loop n (raw_screen n insn) (raw_command h cs insn sz) (dbg_init (as_terminal v u) 0 s))
        (dbg_loop_ui False (raw_screen n insn) (command_ui h io cs (length insn) (raw_find_eip insn sz) (raw_find_eip insn sz))
          (dbg_start (typed v) 0 s, g))) \<and>
    (0 \<le> c \<and> c < int (elf_count insns) \<longrightarrow>
      rel_run (\<lambda>(k, d) (k', d', w). k' = k \<and> vm d' = vm d \<and> prints g True (shown d) (printed w))
        (dbg_loop n (elf_screen n out insns) (elf_command h cs out insns) (dbg_init (as_terminal v u) c s))
        (dbg_loop_ui True (elf_screen n out insns) (command_ui h io cs (elf_count insns) (elf_find_eip out insns) (elf_find_dir insns))
          (dbg_start (typed v) c s, g)))"
proof -
  note st = start_tracks [OF assms(1,2), folded assms(3,4)]
  have weaken: "rel_run (same_ctl funcs g) a b \<Longrightarrow>
    rel_run (\<lambda>(k, d) (k', d', w). k' = k \<and> vm d' = vm d \<and> prints g funcs (shown d) (printed w)) a b" for funcs a b
    by (erule option.rel_mono_strong) (auto elim!: sum.rel_mono_strong simp: tracks_def)
  show ?thesis
    unfolding raw_command_eq elf_command_def
    by (intro conjI impI weaken raw.dbg_loop_related [OF st(1) dbg_init_ok st(2)] elf.dbg_loop_related [OF st(1) dbg_init_ok st(2)])
      (simp_all add: raw_screen_bare elf_screen_bare)
qed

text \<open>The files that cannot be loaded.\<close>

definition elf_refused :: "ldenv \<Rightarrow> int \<Rightarrow> u8 list list \<Rightarrow> u8 list list \<Rightarrow> bool" where
  "elf_refused e argc argv envp \<longleftrightarrow>
     (case initialize (mem_ok e) static_init of Inl _ \<Rightarrow> False
      | Inr (ok, s) \<Rightarrow> ok \<noteq> 0 \<and> (case read_elf_file e True argc argv envp ldr_init s of Inl _ \<Rightarrow> False | Inr (err, _) \<Rightarrow> err \<noteq> 0))"

definition raw_refused :: "ldenv \<Rightarrow> bool" where
  "raw_refused e \<longleftrightarrow>
     (case initialize (mem_ok e) static_init of Inl _ \<Rightarrow> False
      | Inr (ok, s) \<Rightarrow> ok \<noteq> 0 \<and> (case read_raw_file e s of Inl _ \<Rightarrow> False | Inr (err, _) \<Rightarrow> err \<noteq> 0))"

text \<open>For those the settings that were never saved are set: of a terminal the value of the variable \<open>oldt\<close>.\<close>

lemma elf_refused_main:
  assumes "elf_refused e argc argv envp"
  shows "\<exists>s. interface_elf_main_ui e h io cs v argc argv envp u = Some (Inr (0, s, disable_raw_mode (printf clear_screen u)))"
proof -
  obtain ok s err out l s' where "initialize (mem_ok e) static_init = Inr (ok, s)" "ok \<noteq> 0"
    "read_elf_file e True argc argv envp ldr_init s = Inr (err, out, l, s')" "err \<noteq> 0"
    using assms by (cases "initialize (mem_ok e) static_init"; cases "read_elf_file e True argc argv envp ldr_init (snd (projr (initialize (mem_ok e) static_init)))")
      (auto simp: elf_refused_def)
  then show ?thesis by (simp add: interface_elf_main_ui_def)
qed

lemma raw_refused_main:
  assumes "raw_refused e"
  shows "\<exists>s. interface_raw_main_ui e h io cs v argc argv envp u = Some (Inr (0, s, disable_raw_mode (printf clear_screen u)))"
proof -
  obtain ok s err sz s' where "initialize (mem_ok e) static_init = Inr (ok, s)" "ok \<noteq> 0"
    "read_raw_file e s = Inr (err, sz, s')" "err \<noteq> 0"
    using assms by (cases "initialize (mem_ok e) static_init"; cases "read_raw_file e (snd (projr (initialize (mem_ok e) static_init)))")
      (auto simp: raw_refused_def)
  then show ?thesis by (simp add: interface_raw_main_ui_def)
qed

lemma refused_settings: "tty (disable_raw_mode (printf clear_screen u)) = (if is_tty u then oldt u else tty u)"
  by (simp add: mode_defs printf_def)

lemma tty_init_interface: "init_interface ws heap s u = Inr u' \<Longrightarrow> tty u' = tty u \<and> is_tty u' = is_tty u"
  using modes_init_interface [of ws heap s u u'] by (simp add: modes_def)

lemma leave_tty:
  assumes "dbg_loop_ui funcs lines (command_ui h io cs cnt find_eip find_dir) (d, init_raw_mode u) = Some z"
    "map_sum id leave_ui z = Inr (n, s, u')"
  shows "n = 0 \<and> tty u' = tty u"
proof -
  obtain k d' u1 where "dbg_loop_ui funcs lines (command_ui h io cs cnt find_eip find_dir) (d, init_raw_mode u) = Some (Inr (k, d', u1))"
    "n = 0" "u' = disable_raw_mode (exit_interface u1)"
    using assms by (cases z) (auto simp: leave_ui_def)
  then show ?thesis using saved_loop [where t = "tty u"] saved_start [of u] saved_end [of "tty u" u1] by blast
qed

lemma tty_start:
  "tty (printf b w) = tty w" "is_tty (printf b w) = is_tty w"
  "tty (init_raw_mode w) = (if is_tty w then clear_lflag ICANON (tty w) else tty w)"
  by (simp_all add: printf_def mode_defs)

lemma elf_main_tty:
  assumes "\<not> elf_refused e argc argv envp" "interface_elf_main_ui e h io cs v argc argv envp u = Some (Inr (n, s, u'))"
  shows "tty u' = tty u \<or> n = 1 \<and> (\<exists>k. \<not> grants v k) \<and> is_tty u \<and> tty u' = clear_lflag ICANON (tty u)"
  using assms
  by (auto simp: elf_refused_def interface_elf_main_ui_def Let_def tty_start split: sum.splits prod.splits if_splits
    dest!: tty_init_interface leave_tty)

lemma raw_main_tty:
  assumes "\<not> raw_refused e" "interface_raw_main_ui e h io cs v argc argv envp u = Some (Inr (n, s, u'))"
  shows "tty u' = tty u \<or> n = 1 \<and> (\<exists>k. \<not> grants v k) \<and> is_tty u \<and> tty u' = clear_lflag ICANON (tty u)"
  using assms
  by (auto simp: raw_refused_def interface_raw_main_ui_def Let_def tty_start split: sum.splits prod.splits if_splits
    dest!: tty_init_interface leave_tty)

text \<open>The array of the lines is refused, behind the raw mode.\<close>

definition lines_refused :: "screen_env \<Rightarrow> int \<Rightarrow> ui \<Rightarrow> ui \<Rightarrow> bool" where
  "lines_refused v n u u' \<longleftrightarrow> n = 1 \<and> (\<exists>k. \<not> grants v k) \<and> is_tty u \<and> tty u' = clear_lflag ICANON (tty u)"

text \<open>
  C18 (the terminal is given back). Whenever one of the two functions returns, whatever was typed, whether the
  program ended, was left with \<open>q\<close> or could not be disassembled, and whatever the guest's system calls have made
  of the settings, the terminal has its settings as they were, with two exceptions. Behind the return 1 of the
  failed allocation of the array of the lines it stays in raw mode. When the file cannot be
  loaded, the function returns 0 and a terminal gets the settings of the variable \<open>oldt\<close>, which nothing
  has assigned.
\<close>

theorem terminal_given_back:
  "(interface_elf_main_ui e h io cs v argc argv envp u = Some (Inr (n, s, u')) \<longrightarrow>
     (if elf_refused e argc argv envp then n = 0 \<and> tty u' = (if is_tty u then oldt u else tty u)
      else tty u' = tty u \<or> lines_refused v n u u')) \<and>
   (interface_raw_main_ui e h io cs v argc argv envp u = Some (Inr (n, s, u')) \<longrightarrow>
     (if raw_refused e then n = 0 \<and> tty u' = (if is_tty u then oldt u else tty u)
      else tty u' = tty u \<or> lines_refused v n u u'))"
proof -
  have "n = 0 \<and> tty u' = (if is_tty u then oldt u else tty u)"
    if "elf_refused e argc argv envp" "interface_elf_main_ui e h io cs v argc argv envp u = Some (Inr (n, s, u'))"
    using elf_refused_main [OF that(1), of h io cs v u] that(2) refused_settings [of u] by auto
  moreover have "n = 0 \<and> tty u' = (if is_tty u then oldt u else tty u)"
    if "raw_refused e" "interface_raw_main_ui e h io cs v argc argv envp u = Some (Inr (n, s, u'))"
    using raw_refused_main [OF that(1), of h io cs v argc argv envp u] that(2) refused_settings [of u] by auto
  ultimately show ?thesis
    using elf_main_tty [of e argc argv envp h io cs v u n s u'] raw_main_tty [of e h io cs v argc argv envp u n s u']
    unfolding lines_refused_def by presburger
qed

text \<open>A raw file is opened on a terminal of 80 columns, and \<open>q\<close> is typed.\<close>

definition demo_screen :: screen_env where
  "demo_screen = \<lparr>winsize = Some (0, 80), grants = (\<lambda>_. True), typed = [Some 113]\<rparr>"

lemma demo_on_screen: "on_screen demo_screen"
  by (simp add: on_screen_def demo_screen_def)

lemma quit_run:
  assumes "var s ESP = STACK_BOTTOM"
  shows "\<exists>d. dbg_loop (rows (as_terminal demo_screen u)) (raw_screen (rows (as_terminal demo_screen u)) demo_insn)
    (raw_command h cs demo_insn sz) (dbg_init (as_terminal demo_screen u) 0 s) = Some (Inr (Draw, d))"
proof -
  have t: "as_terminal demo_screen u = \<lparr>rows = 0, lineas_ok = True, t_keys = [Some 113], t_answers = answers_of (stdin u)\<rparr>"
    by (simp add: as_terminal_def demo_screen_def)
  have w: "stack_window 0 0 s = Inr []"
    using assms by (simp add: stack_window_def H_REGS_def)
  let ?p = "dbg_pass 0 (raw_screen 0 demo_insn) (raw_command h cs demo_insn sz)"
  let ?d = "dbg_init (as_terminal demo_screen u) 0 s"
  have 1: "?p (Draw, ?d) = Some (Inr (False, No_print, put_out (Screen [] (var s) [] (- 1) 0 []) ?d))"
    by (simp add: dbg_pass_def dbg_init_def chr_def draw_pass_def raw_screen_def n_lines_def blank_rest_def
        draw_screen_def w eip_row_def put_out_def)
  obtain d where 2: "?p (No_print, put_out (Screen [] (var s) [] (- 1) 0 []) ?d) = Some (Inr (False, Draw, d))" "ch d = 113"
    by (simp add: dbg_pass_def key_pass_def dbg_init_def t put_out_def ESC_def raw_command_eq command_defs
        chr_def KEY_UP_def KEY_DOWN_def KEY_LEFT_def KEY_RIGHT_def)
  have 3: "?p (Draw, d) = Some (Inr (True, Draw, d))"
    by (simp add: dbg_pass_def 2(2) chr_def)
  have "iterate ?p (Draw, ?d) = Some (Inr (Draw, d))"
    using 1 2(1) 3 by (rule iterate_three)
  then show ?thesis by (auto simp: dbg_loop_def t)
qed

definition demo_main_ui :: "(int \<times> cpu \<times> ui) res option" where
  "demo_main_ui = interface_raw_main_ui (demo_env\<lparr>in_file := Some [0x90]\<rparr>) idle_host (\<lambda>_ _ t. (t, [])) demo_capstone
     demo_screen 3 [] [] demo_ui"

lemma quit_main:
  "\<exists>s. interface_raw_main (demo_env\<lparr>in_file := Some [0x90]\<rparr>) h demo_capstone (as_terminal demo_screen u) argc argv envp =
    Some (Inr (0, s))"
proof -
  obtain s0 where s0: "initialize True static_init = Inr (1, s0)" "var s0 ESP = STACK_BOTTOM"
    using gdt_after_init [of static_init] by blast
  obtain s1 where s1: "put_bytes (PMem 0) 0 [0x90] s0 = Inr s1" "var s1 = var s0"
    using put_bytes_mem [of 0 0 "[0x90]" s0] by (auto simp: MEM_BYTES_def)
  have rd: "read_raw_file (demo_env\<lparr>in_file := Some [0x90]\<rparr>) s0 = Inr (0, 1, wr EIP 0 s1)"
    using s1(1) by (simp add: read_raw_file_def demo_env_def Let_def)
  have "var (wr EIP 0 s1) ESP = STACK_BOTTOM" using s0(2) s1(2) by simp
  then obtain d where "dbg_loop (rows (as_terminal demo_screen u)) (raw_screen (rows (as_terminal demo_screen u)) demo_insn)
      (raw_command h demo_capstone demo_insn 1) (dbg_init (as_terminal demo_screen u) 0 (wr EIP 0 s1)) = Some (Inr (Draw, d))"
    using quit_run by blast
  moreover have "demo_insn \<noteq> []" "lineas_ok (as_terminal demo_screen u)" "mem_ok demo_env"
    by (simp_all add: demo_insn_def as_terminal_def demo_screen_def demo_env_def)
  ultimately show ?thesis
    using s0(1) rd by (auto simp: interface_raw_main_def demo_capstone_def)
qed

lemma no_ui_eq: "map_option (map_sum id no_ui) r = Some (Inr (n, s)) \<Longrightarrow> \<exists>u'. r = Some (Inr (n, s, u'))"
  by (cases r; cases "the r") (auto simp: no_ui_def)

theorem debugger_on_terminal_witness:
  "\<exists>s u'. interface_raw_main (demo_env\<lparr>in_file := Some [0x90]\<rparr>) idle_host demo_capstone (as_terminal demo_screen demo_ui) 3 [] [] =
      Some (Inr (0, s)) \<and> demo_main_ui = Some (Inr (0, s, u'))"
proof -
  obtain s where s: "interface_raw_main (demo_env\<lparr>in_file := Some [0x90]\<rparr>) idle_host demo_capstone (as_terminal demo_screen demo_ui) 3 [] [] =
      Some (Inr (0, s))" using quit_main by blast
  have "map_option (map_sum id no_ui) demo_main_ui = Some (Inr (0, s))"
    using debugger_on_terminal [OF demo_on_screen, of "demo_env\<lparr>in_file := Some [0x90]\<rparr>" idle_host demo_capstone demo_ui 3 "[]" "[]" "\<lambda>_ _ t. (t, [])"] s
    by (simp add: demo_main_ui_def)
  then show ?thesis using s no_ui_eq by blast
qed

lemma demo_main_runs: "\<exists>s u'. demo_main_ui = Some (Inr (0, s, u'))"
proof -
  obtain s where "map_option (map_sum id no_ui) demo_main_ui = Some (Inr (0, s))"
    using quit_main [of idle_host demo_ui 3 "[]" "[]"]
    unfolding raw_main_refines [OF demo_on_screen, where io = "\<lambda>_ _ t. (t, [])"] demo_main_ui_def by blast
  then show ?thesis using no_ui_eq by blast
qed

lemma demo_not_refused: "\<not> raw_refused (demo_env\<lparr>in_file := Some [0x90]\<rparr>)"
proof -
  obtain s0 where s0: "initialize True static_init = Inr (1, s0)" using gdt_after_init [of static_init] by blast
  obtain s1 where "put_bytes (PMem 0) 0 [0x90] s0 = Inr s1"
    using put_bytes_mem [of 0 0 "[0x90]" s0] by (auto simp: MEM_BYTES_def)
  then show ?thesis using s0 by (simp add: raw_refused_def read_raw_file_def demo_env_def Let_def)
qed

lemma demo_refused: "raw_refused (demo_env\<lparr>in_file := None\<rparr>)"
proof -
  obtain s0 where s0: "initialize True static_init = Inr (1, s0)" using gdt_after_init [of static_init] by blast
  then show ?thesis by (simp add: raw_refused_def read_raw_file_def demo_env_def)
qed

text \<open>A file that can be loaded, and one that does not exist.\<close>

theorem terminal_given_back_witness:
  "(\<exists>s u'. demo_main_ui = Some (Inr (0, s, u')) \<and> tty u' = tty demo_ui) \<and>
   (\<exists>s u'. interface_raw_main_ui (demo_env\<lparr>in_file := None\<rparr>) idle_host (\<lambda>_ _ t. (t, [])) demo_capstone demo_screen 3 [] [] demo_ui =
      Some (Inr (0, s, u')) \<and> tty u' = (if is_tty demo_ui then oldt demo_ui else tty demo_ui))"
proof -
  obtain s u' where r: "demo_main_ui = Some (Inr (0, s, u'))" using demo_main_runs by blast
  have "tty u' = tty demo_ui"
    using terminal_given_back [THEN conjunct2, rule_format, OF r [unfolded demo_main_ui_def]] demo_not_refused
    by (simp add: lines_refused_def)
  moreover obtain s2 u2 where r2: "interface_raw_main_ui (demo_env\<lparr>in_file := None\<rparr>) idle_host (\<lambda>_ _ t. (t, []))
      demo_capstone demo_screen 3 [] [] demo_ui = Some (Inr (0, s2, u2))"
    using raw_refused_main [OF demo_refused] by blast
  moreover have "tty u2 = (if is_tty demo_ui then oldt demo_ui else tty demo_ui)"
    using terminal_given_back [THEN conjunct2, rule_format, OF r2] demo_refused by simp
  ultimately show ?thesis using r by blast
qed

theorem debugger_prints_witness:
  "\<exists>s u' d d' w. init_interface (winsize demo_screen) (grants demo_screen) s (printf clear_screen demo_ui) = Inr u' \<and>
    dbg_loop 0 (raw_screen 0 demo_insn) (raw_command idle_host demo_capstone demo_insn 1)
      (dbg_init (as_terminal demo_screen demo_ui) 0 s) = Some (Inr (Draw, d)) \<and>
    dbg_loop_ui False (raw_screen 0 demo_insn)
      (command_ui idle_host (\<lambda>_ _ t. (t, [])) demo_capstone 2 (raw_find_eip demo_insn 1) (raw_find_eip demo_insn 1))
      (dbg_start (typed demo_screen) 0 s, init_raw_mode u') = Some (Inr (Draw, d', w)) \<and>
    prints (init_raw_mode u') False (shown d) (printed w)"
proof -
  define s where "s = wr ESP STACK_BOTTOM static_init"
  obtain u' where u': "init_interface (winsize demo_screen) (grants demo_screen) s (printf clear_screen demo_ui) = Inr u'"
    using init_on_screen [OF demo_on_screen] by blast
  have t: "rows (as_terminal demo_screen demo_ui) = 0" "length demo_insn = 2" "demo_insn \<noteq> []"
    by (simp_all add: as_terminal_def demo_screen_def demo_insn_def)
  have "var s ESP = STACK_BOTTOM" by (simp add: s_def)
  from quit_run [OF this, of demo_ui idle_host demo_capstone 1]
  obtain d where d: "dbg_loop 0 (raw_screen 0 demo_insn) (raw_command idle_host demo_capstone demo_insn 1)
      (dbg_init (as_terminal demo_screen demo_ui) 0 s) = Some (Inr (Draw, d))"
    unfolding t by blast
  from debugger_prints [OF demo_on_screen u' refl refl, THEN conjunct1, rule_format, OF t(3), where h = idle_host
      and cs = demo_capstone and sz = 1 and io = "\<lambda>_ _ t. (t, [])", unfolded t d]
  obtain d' w where "dbg_loop_ui False (raw_screen 0 demo_insn)
      (command_ui idle_host (\<lambda>_ _ t. (t, [])) demo_capstone 2 (raw_find_eip demo_insn 1) (raw_find_eip demo_insn 1))
      (dbg_start (typed demo_screen) 0 s, init_raw_mode u') = Some (Inr (Draw, d', w))"
    "prints (init_raw_mode u') False (shown d) (printed w)"
    by (auto simp: option_rel_Some1 rel_res_iff)
  then show ?thesis using u' d by blast
qed

end
