(* ===== verification/VM_Frame.thy ===== *)
theory VM_Frame imports VM_Debugger begin

text \<open>
  What the instructions leave alone. The locale \<open>kept\<close> speaks of any part of the machine that neither the
  registers nor the memory determine; inside it every handler and every system call is shown to keep that
  part, one lemma per family, by rules that follow the structure of the definitions. It is interpreted for
  the three descriptor-table registers and for the bytes sent to ports. Together with the values that the
  handlers return this gives the effects of an instruction, of a run, and the only instruction that can
  end a program.
\<close>

section \<open>Computations that keep a part of the machine\<close>

definition after :: "('a \<Rightarrow> bool) \<Rightarrow> 'a res \<Rightarrow> bool" where
  "after P m \<longleftrightarrow> (\<forall>x. m = Inr x \<longrightarrow> P x)"

lemma after_Inl [simp, intro!]: "after P (Inl e)" by (simp add: after_def)
lemma after_Inr [simp]: "after P (Inr x) \<longleftrightarrow> P x" by (simp add: after_def)

lemma after_bnd: "after Q m \<Longrightarrow> (\<And>x. Q x \<Longrightarrow> after P (f x)) \<Longrightarrow> after P (bnd m f)"
  by (cases m) (auto simp: after_def)

lemma after_value: "(\<And>x. after P (f x)) \<Longrightarrow> after P (bnd m f)"
  by (cases m) auto

lemma after_if: "(b \<Longrightarrow> after P m) \<Longrightarrow> (\<not> b \<Longrightarrow> after P m') \<Longrightarrow> after P (if b then m else m')"
  by simp

lemma after_prod: "(\<And>a b. x = (a, b) \<Longrightarrow> after P (f a b)) \<Longrightarrow> after P (case x of (a, b) \<Rightarrow> f a b)"
  by (cases x) simp

lemma after_option: "(x = None \<Longrightarrow> after P m) \<Longrightarrow> (\<And>a. x = Some a \<Longrightarrow> after P (f a)) \<Longrightarrow>
    after P (case x of None \<Rightarrow> m | Some a \<Rightarrow> f a)"
  by (cases x) simp_all

lemma after_type: "(t = X86_OP_INVALID \<Longrightarrow> after P m0) \<Longrightarrow> (t = X86_OP_REG \<Longrightarrow> after P m1) \<Longrightarrow>
    (t = X86_OP_IMM \<Longrightarrow> after P m2) \<Longrightarrow> (t = X86_OP_MEM \<Longrightarrow> after P m3) \<Longrightarrow>
    after P (case t of X86_OP_INVALID \<Rightarrow> m0 | X86_OP_REG \<Rightarrow> m1 | X86_OP_IMM \<Rightarrow> m2 | X86_OP_MEM \<Rightarrow> m3)"
  by (cases t) simp_all

text \<open>The values a handler returns.\<close>

definition codes :: "int set" where "codes = {0, 1, - 1, - 5, - 1000}"

lemma codes_simps [simp]: "0 \<in> codes" "1 \<in> codes" "- 1 \<in> codes" "- 5 \<in> codes" "- 1000 \<in> codes" "of_bool b \<in> codes"
  by (simp_all add: codes_def)

text \<open>The host kernel may write guest memory, and nothing else of the machine.\<close>

definition host_ok :: "host \<Rightarrow> bool" where
  "host_ok h \<longleftrightarrow>
     (\<forall>n as s r s'. h_kernel h n as s = Inr (r, s') \<longrightarrow> (\<exists>m. s' = s\<lparr>mem := m\<rparr>)) \<and>
     (\<forall>n fds as s r rs s'. h_poll h n fds as s = Inr (r, rs, s') \<longrightarrow> (\<exists>m. s' = s\<lparr>mem := m\<rparr>))"

locale kept =
  fixes proj :: "cpu \<Rightarrow> 'c"
  assumes proj_var [simp]: "proj (var_update f s) = proj s"
    and proj_mem [simp]: "proj (mem_update g s) = proj s"
begin

definition keep :: "'c \<Rightarrow> cpu res \<Rightarrow> bool" where "keep c = after (\<lambda>s. proj s = c)"
definition keep2 :: "'c \<Rightarrow> ('a \<times> cpu) res \<Rightarrow> bool" where "keep2 c = after (\<lambda>(_, s). proj s = c)"
definition keep3 :: "'c \<Rightarrow> ('a \<times> 'b \<times> cpu) res \<Rightarrow> bool" where "keep3 c = after (\<lambda>(_, _, s). proj s = c)"
definition ends :: "'c \<Rightarrow> (int \<times> cpu) res \<Rightarrow> bool" where "ends c = after (\<lambda>(r, s). r \<in> codes \<and> proj s = c)"

lemmas keep_defs = keep_def keep2_def keep3_def ends_def

lemma keep_Inr [simp]:
  "keep c (Inr s) \<longleftrightarrow> proj s = c" "keep2 c (Inr (a, s)) \<longleftrightarrow> proj s = c" "keep3 c (Inr (a, b, s)) \<longleftrightarrow> proj s = c"
  "ends c (Inr (r, s)) \<longleftrightarrow> r \<in> codes \<and> proj s = c" "ends c (ret0 s) \<longleftrightarrow> proj s = c"
  by (simp_all add: keep_defs ret0_def)

lemma keep_bnd:
  "keep c m \<Longrightarrow> (\<And>s. proj s = c \<Longrightarrow> keep c (f s)) \<Longrightarrow> keep c (bnd m f)"
  "keep c m \<Longrightarrow> (\<And>s. proj s = c \<Longrightarrow> keep2 c (f2 s)) \<Longrightarrow> keep2 c (bnd m f2)"
  "keep c m \<Longrightarrow> (\<And>s. proj s = c \<Longrightarrow> keep3 c (f3 s)) \<Longrightarrow> keep3 c (bnd m f3)"
  "keep c m \<Longrightarrow> (\<And>s. proj s = c \<Longrightarrow> ends c (f4 s)) \<Longrightarrow> ends c (bnd m f4)"
  "keep2 c m2 \<Longrightarrow> (\<And>a s. proj s = c \<Longrightarrow> keep c (g (a, s))) \<Longrightarrow> keep c (bnd m2 g)"
  "keep2 c m2 \<Longrightarrow> (\<And>a s. proj s = c \<Longrightarrow> keep2 c (g2 (a, s))) \<Longrightarrow> keep2 c (bnd m2 g2)"
  "keep2 c m2 \<Longrightarrow> (\<And>a s. proj s = c \<Longrightarrow> keep3 c (g3 (a, s))) \<Longrightarrow> keep3 c (bnd m2 g3)"
  "keep2 c m2 \<Longrightarrow> (\<And>a s. proj s = c \<Longrightarrow> ends c (g4 (a, s))) \<Longrightarrow> ends c (bnd m2 g4)"
  "keep3 c m3 \<Longrightarrow> (\<And>a b s. proj s = c \<Longrightarrow> keep c (h (a, b, s))) \<Longrightarrow> keep c (bnd m3 h)"
  "keep3 c m3 \<Longrightarrow> (\<And>a b s. proj s = c \<Longrightarrow> keep2 c (h2 (a, b, s))) \<Longrightarrow> keep2 c (bnd m3 h2)"
  "keep3 c m3 \<Longrightarrow> (\<And>a b s. proj s = c \<Longrightarrow> keep3 c (h3 (a, b, s))) \<Longrightarrow> keep3 c (bnd m3 h3)"
  "keep3 c m3 \<Longrightarrow> (\<And>a b s. proj s = c \<Longrightarrow> ends c (h4 (a, b, s))) \<Longrightarrow> ends c (bnd m3 h4)"
  unfolding keep_defs by (erule after_bnd; force)+

lemmas at_values = after_value [where 'a = "'w :: len word"] after_value [where 'a = ptr] after_value [where 'a = bool]
  after_value [where 'a = nat] after_value [where 'a = int] after_value [where 'a = "u32 \<times> u32"]
  after_value [where 'a = "u32 \<times> u8"] after_value [where 'a = "u8 list"] after_value [where 'a = GDTR]
  after_value [where 'a = karg] after_value [where 'a = "karg list"] after_value [where 'a = "(u32 \<times> u16) list"]
  after_value [where 'a = "(u32 \<times> u64) list"] after_value [where 'a = "u64 \<times> u64"]
  after_value [where 'a = "nat option"]

lemmas keep_value =
  at_values [where P = "\<lambda>s. proj s = c" for c, folded keep_def]
  at_values [where P = "\<lambda>(_, s). proj s = c" for c, folded keep2_def]
  at_values [where P = "\<lambda>(_, _, s). proj s = c" for c, folded keep3_def]
  at_values [where P = "\<lambda>(r, s). r \<in> codes \<and> proj s = c" for c, folded ends_def]

lemmas after_branch = after_if after_prod after_option after_type

lemmas keep_branch =
  after_branch [where P = "\<lambda>s. proj s = c" for c, folded keep_def]
  after_branch [where P = "\<lambda>(_, s). proj s = c" for c, folded keep2_def]
  after_branch [where P = "\<lambda>(_, _, s). proj s = c" for c, folded keep3_def]
  after_branch [where P = "\<lambda>(r, s). r \<in> codes \<and> proj s = c" for c, folded ends_def]

lemma keep_Inl [simp]: "keep c (Inl e)" "keep2 c (Inl e)" "keep3 c (Inl e)" "ends c (Inl e)"
  by (simp_all add: keep_defs)

lemmas keep_rules = keep_bnd keep_value keep_branch

lemma proj_state [simp]:
  "proj (adv i s) = proj s" "proj (set_Flag f s) = proj s" "proj (clear_Flag f s) = proj s"
  "proj (complement_Flag f s) = proj s" "proj (put_Flag f b s) = proj s" "proj (set_al x s) = proj s"
  "proj (set_ah x s) = proj s" "proj (set_lo16 v y s) = proj s"
  by (simp_all add: adv_def set_Flag_def clear_Flag_def complement_Flag_def put_Flag_def set_al_def set_ah_def set_lo16_def)

lemma keep_store [intro!]:
  "proj s = c \<Longrightarrow> keep c (store8 p x s)" "proj s = c \<Longrightarrow> keep c (store16 p y s)" "proj s = c \<Longrightarrow> keep c (store32 p z s)"
  "proj s = c \<Longrightarrow> keep c (write16 a y s)" "proj s = c \<Longrightarrow> keep c (write32 a z s)"
  by (cases p; simp add: keep_def after_def write16_def write32_def)+

lemma keep_rmw [intro!]:
  "proj s = c \<Longrightarrow> keep3 c (rmw8 p f8 s)" "proj s = c \<Longrightarrow> keep3 c (rmw16 p f16 s)" "proj s = c \<Longrightarrow> keep3 c (rmw32 p f32 s)"
  by (auto simp: rmw8_def rmw16_def rmw32_def rmw_def intro!: keep_rules)

lemma keep_rmw_op [intro!]:
  "proj s = c \<Longrightarrow> keep3 c (rmw_reg r f8 f16 f32 s)" "proj s = c \<Longrightarrow> keep3 c (rmw_mem oper f8 f16 f32 s)"
  "proj s = c \<Longrightarrow> keep3 c (rmw_op oper f8 f16 f32 s)" "proj s = c \<Longrightarrow> keep3 c (incdec_reg r f8 f16 f32 s)"
  by (auto simp: rmw_reg_def rmw_mem_def rmw_op_def incdec_reg_def intro!: keep_rules)

lemma keep_flags [intro!]:
  "proj s = c \<Longrightarrow> keep c (arith_flags b x y r k s)" "proj s = c \<Longrightarrow> keep c (logic_flags x k s)"
  "proj s = c \<Longrightarrow> keep c (sbb_flags x y r k s)"
  by (auto simp: arith_flags_def logic_flags_def sbb_flags_def Let_def intro!: keep_rules)

lemma ends_ret0 [intro!]: "keep c m \<Longrightarrow> ends c (bnd m ret0)"
  by (auto intro!: keep_rules)

end

context kept begin

lemma ends_arith [intro!]:
  "proj s = c \<Longrightarrow> ends c (adc_i i s)" "proj s = c \<Longrightarrow> ends c (add_i i s)"
  "proj s = c \<Longrightarrow> ends c (cmp_i i s)" "proj s = c \<Longrightarrow> ends c (dec_i i s)"
  "proj s = c \<Longrightarrow> ends c (inc_i i s)" "proj s = c \<Longrightarrow> ends c (neg_i i s)"
  "proj s = c \<Longrightarrow> ends c (sbb_i i s)" "proj s = c \<Longrightarrow> ends c (sub_i i s)"
  by (auto simp: adc_i_def add_i_def cmp_i_def dec_i_def inc_i_def neg_i_def sbb_i_def sub_i_def Let_def intro!: keep_rules)

lemma ends_logic [intro!]:
  "proj s = c \<Longrightarrow> ends c (and_i i s)" "proj s = c \<Longrightarrow> ends c (or_i i s)"
  "proj s = c \<Longrightarrow> ends c (xor_i i s)" "proj s = c \<Longrightarrow> ends c (not_i i s)"
  "proj s = c \<Longrightarrow> ends c (test_i i s)"
  by (auto simp: and_i_def or_i_def xor_i_def not_i_def test_i_def orxor_def Let_def intro!: keep_rules)

lemma ends_muldiv [intro!]:
  "proj s = c \<Longrightarrow> ends c (div_i i s)" "proj s = c \<Longrightarrow> ends c (mul_i i s)"
  "proj s = c \<Longrightarrow> ends c (idiv_i i s)" "proj s = c \<Longrightarrow> ends c (imul_F6 i s)"
  "proj s = c \<Longrightarrow> ends c (imul_F7 i s)" "proj s = c \<Longrightarrow> ends c (imul_0F i s)"
  "proj s = c \<Longrightarrow> ends c (imul_6B i s)" "proj s = c \<Longrightarrow> ends c (imul_69 i s)"
  by (auto simp: div_i_def mul_i_def idiv_i_def imul_F6_def imul_F7_def imul_0F_def imul_6B_def imul_69_def src8_def
      src16_def src32_def cf_of_def range16_def range32_def imul_3op_def Let_def intro!: keep_rules)

lemma ends_imul [intro!]:
  "proj s = c \<Longrightarrow> ends c (imul_i i s)"
  by (auto simp: imul_i_def Let_def intro!: keep_rules)

lemma keep_cells:
  assumes "\<And>x s. proj s = c \<Longrightarrow> keep c (st x s)" "proj s = c"
  shows "keep2 c (shift_cell ld st ext cf sh s)" "ends c (rol_cell ld st k n s)" "ends c (ror_cell ld st k n s)"
    "ends c (rcl_cell ld st k n s)" "ends c (rcr_cell ld st k n s)" "ends c (bt_cell ld st f v b s)" "keep3 c (rmw ld st f8 s)"
  using assms
  by (auto simp: shift_cell_def rol_cell_def ror_cell_def rcl_cell_def rcr_cell_def bt_cell_def rmw_def Let_def intro!: keep_rules)

lemma ends_shift [intro!]:
  "proj s = c \<Longrightarrow> ends c (sal_i i s)" "proj s = c \<Longrightarrow> ends c (shl_i i s)"
  "proj s = c \<Longrightarrow> ends c (sar_i i s)" "proj s = c \<Longrightarrow> ends c (shr_i i s)"
  "proj s = c \<Longrightarrow> ends c (rol_i i s)" "proj s = c \<Longrightarrow> ends c (ror_i i s)"
  "proj s = c \<Longrightarrow> ends c (rcl_i i s)" "proj s = c \<Longrightarrow> ends c (rcr_i i s)"
  "proj s = c \<Longrightarrow> ends c (shld_i i s)" "proj s = c \<Longrightarrow> ends c (shrd_i i s)"
  by (auto simp: sal_i_def shl_i_def sar_i_def shr_i_def rol_i_def ror_i_def rcl_i_def rcr_i_def shld_i_def shrd_i_def
      shift_u_def shift_s_def shift_flags_def shrd_flags_def count_of_def Let_def intro!: keep_rules keep_cells)

lemma keep_scan [intro!]: "proj s = c \<Longrightarrow> keep c (scan_loop d st x t s)"
  by (subst scan_loop.simps) (auto simp: scan_cond_def intro!: keep_rules)

lemma ends_bits [intro!]:
  "proj s = c \<Longrightarrow> ends c (bsf_i i s)" "proj s = c \<Longrightarrow> ends c (bsr_i i s)"
  "proj s = c \<Longrightarrow> ends c (bt_i i s)" "proj s = c \<Longrightarrow> ends c (btc_i i s)"
  "proj s = c \<Longrightarrow> ends c (btr_i i s)" "proj s = c \<Longrightarrow> ends c (bts_i i s)"
  by (auto simp: bsf_i_def bsr_i_def bt_i_def btc_i_def btr_i_def bts_i_def bit_scan_def bt_upd_reg_def
      bt_upd_mem_uninit_def Let_def intro!: keep_rules keep_cells)

lemma ends_bcd [intro!]:
  "proj s = c \<Longrightarrow> ends c (aaa_i i s)" "proj s = c \<Longrightarrow> ends c (aad_i i s)"
  "proj s = c \<Longrightarrow> ends c (aam_i i s)" "proj s = c \<Longrightarrow> ends c (aas_i i s)"
  "proj s = c \<Longrightarrow> ends c (daa_i i s)" "proj s = c \<Longrightarrow> ends c (das_i i s)"
  "proj s = c \<Longrightarrow> ends c (cbw_i i s)" "proj s = c \<Longrightarrow> ends c (cwde_i i s)"
  "proj s = c \<Longrightarrow> ends c (cwd_i i s)" "proj s = c \<Longrightarrow> ends c (cdq_i i s)"
  "proj s = c \<Longrightarrow> ends c (lahf_i i s)" "proj s = c \<Longrightarrow> ends c (sahf_i i s)"
  by (auto simp: aaa_i_def aad_i_def aam_i_def aas_i_def daa_i_def das_i_def cbw_i_def cwde_i_def cwd_i_def cdq_i_def
      lahf_i_def sahf_i_def aad_flags_def al_flags_def Let_def intro!: keep_rules)

lemma ends_jumps [intro!]:
  "proj s = c \<Longrightarrow> ends c (ja_i i s)" "proj s = c \<Longrightarrow> ends c (jae_i i s)"
  "proj s = c \<Longrightarrow> ends c (jb_i i s)" "proj s = c \<Longrightarrow> ends c (jbe_i i s)"
  "proj s = c \<Longrightarrow> ends c (jc_i i s)" "proj s = c \<Longrightarrow> ends c (jcxz_i i s)"
  "proj s = c \<Longrightarrow> ends c (jecxz_i i s)" "proj s = c \<Longrightarrow> ends c (je_i i s)"
  "proj s = c \<Longrightarrow> ends c (jz_i i s)" "proj s = c \<Longrightarrow> ends c (jg_i i s)"
  "proj s = c \<Longrightarrow> ends c (jge_i i s)" "proj s = c \<Longrightarrow> ends c (jl_i i s)"
  "proj s = c \<Longrightarrow> ends c (jle_i i s)" "proj s = c \<Longrightarrow> ends c (jmp_i i s)"
  "proj s = c \<Longrightarrow> ends c (jna_i i s)" "proj s = c \<Longrightarrow> ends c (jnae_i i s)"
  "proj s = c \<Longrightarrow> ends c (jnb_i i s)" "proj s = c \<Longrightarrow> ends c (jnbe_i i s)"
  "proj s = c \<Longrightarrow> ends c (jnc_i i s)" "proj s = c \<Longrightarrow> ends c (jne_i i s)"
  "proj s = c \<Longrightarrow> ends c (jng_i i s)" "proj s = c \<Longrightarrow> ends c (jnge_i i s)"
  "proj s = c \<Longrightarrow> ends c (jnl_i i s)" "proj s = c \<Longrightarrow> ends c (jnle_i i s)"
  "proj s = c \<Longrightarrow> ends c (jno_i i s)" "proj s = c \<Longrightarrow> ends c (jnp_i i s)"
  "proj s = c \<Longrightarrow> ends c (jns_i i s)" "proj s = c \<Longrightarrow> ends c (jnz_i i s)"
  "proj s = c \<Longrightarrow> ends c (jo_i i s)" "proj s = c \<Longrightarrow> ends c (jp_i i s)"
  "proj s = c \<Longrightarrow> ends c (jpe_i i s)" "proj s = c \<Longrightarrow> ends c (jpo_i i s)"
  "proj s = c \<Longrightarrow> ends c (js_i i s)" "proj s = c \<Longrightarrow> ends c (loop_i i s)"
  "proj s = c \<Longrightarrow> ends c (loope_i i s)" "proj s = c \<Longrightarrow> ends c (loopne_i i s)"
  "proj s = c \<Longrightarrow> ends c (loopnz_i i s)" "proj s = c \<Longrightarrow> ends c (loopz_i i s)"
  by (auto simp: ja_i_def jae_i_def jb_i_def jbe_i_def jc_i_def jcxz_i_def jecxz_i_def je_i_def jz_i_def jg_i_def
      jge_i_def jl_i_def jle_i_def jmp_i_def jna_i_def jnae_i_def jnb_i_def jnbe_i_def jnc_i_def jne_i_def jng_i_def
      jnge_i_def jnl_i_def jnle_i_def jno_i_def jnp_i_def jns_i_def jnz_i_def jo_i_def jp_i_def jpe_i_def jpo_i_def
      js_i_def loop_i_def loope_i_def loopne_i_def loopnz_i_def loopz_i_def jcc_def loopcc_def Let_def intro!: keep_rules)

lemma ends_setcc [intro!]:
  "proj s = c \<Longrightarrow> ends c (seta_i i s)" "proj s = c \<Longrightarrow> ends c (setae_i i s)"
  "proj s = c \<Longrightarrow> ends c (setb_i i s)" "proj s = c \<Longrightarrow> ends c (setbe_i i s)"
  "proj s = c \<Longrightarrow> ends c (setc_i i s)" "proj s = c \<Longrightarrow> ends c (sete_i i s)"
  "proj s = c \<Longrightarrow> ends c (setg_i i s)" "proj s = c \<Longrightarrow> ends c (setge_i i s)"
  "proj s = c \<Longrightarrow> ends c (setl_i i s)" "proj s = c \<Longrightarrow> ends c (setle_i i s)"
  "proj s = c \<Longrightarrow> ends c (setna_i i s)" "proj s = c \<Longrightarrow> ends c (setnae_i i s)"
  "proj s = c \<Longrightarrow> ends c (setnb_i i s)" "proj s = c \<Longrightarrow> ends c (setnbe_i i s)"
  "proj s = c \<Longrightarrow> ends c (setnc_i i s)" "proj s = c \<Longrightarrow> ends c (setne_i i s)"
  "proj s = c \<Longrightarrow> ends c (setng_i i s)" "proj s = c \<Longrightarrow> ends c (setnge_i i s)"
  "proj s = c \<Longrightarrow> ends c (setnl_i i s)" "proj s = c \<Longrightarrow> ends c (setnle_i i s)"
  "proj s = c \<Longrightarrow> ends c (setno_i i s)" "proj s = c \<Longrightarrow> ends c (setnp_i i s)"
  "proj s = c \<Longrightarrow> ends c (setns_i i s)" "proj s = c \<Longrightarrow> ends c (seto_i i s)"
  "proj s = c \<Longrightarrow> ends c (setp_i i s)" "proj s = c \<Longrightarrow> ends c (setpe_i i s)"
  "proj s = c \<Longrightarrow> ends c (setpo_i i s)" "proj s = c \<Longrightarrow> ends c (sets_i i s)"
  "proj s = c \<Longrightarrow> ends c (setz_i i s)"
  by (auto simp: seta_i_def setae_i_def setb_i_def setbe_i_def setc_i_def sete_i_def setg_i_def setge_i_def setl_i_def
      setle_i_def setna_i_def setnae_i_def setnb_i_def setnbe_i_def setnc_i_def setne_i_def setng_i_def setnge_i_def
      setnl_i_def setnle_i_def setno_i_def setnp_i_def setns_i_def seto_i_def setp_i_def setpe_i_def setpo_i_def
      sets_i_def setz_i_def setcc_def Let_def intro!: keep_rules)

lemma keep_stack [intro!]:
  "proj s = c \<Longrightarrow> keep c (push32 x s)" "proj s = c \<Longrightarrow> keep c (push16 y s)"
  "proj s = c \<Longrightarrow> keep c (pop32 v s)" "proj s = c \<Longrightarrow> keep c (pop16 v s)"
  by (auto simp: push32_def push16_def pop32_def pop16_def Let_def intro!: keep_rules)

lemma keep_enter [intro!]: "proj s = c \<Longrightarrow> keep c (enter_loop n s)"
  by (induction n arbitrary: s) (auto simp: Let_def intro!: keep_rules)

lemma ends_stack [intro!]:
  "proj s = c \<Longrightarrow> ends c (ret_i i s)" "proj s = c \<Longrightarrow> ends c (call_i i s)"
  "proj s = c \<Longrightarrow> ends c (push_i i s)" "proj s = c \<Longrightarrow> ends c (pop_i i s)"
  "proj s = c \<Longrightarrow> ends c (leave_i i s)" "proj s = c \<Longrightarrow> ends c (enter_i i s)"
  "proj s = c \<Longrightarrow> ends c (popa_i i s)" "proj s = c \<Longrightarrow> ends c (popad_i i s)"
  "proj s = c \<Longrightarrow> ends c (popf_i i s)" "proj s = c \<Longrightarrow> ends c (popfd_i i s)"
  "proj s = c \<Longrightarrow> ends c (pusha_i i s)" "proj s = c \<Longrightarrow> ends c (pushad_i i s)"
  "proj s = c \<Longrightarrow> ends c (pushf_i i s)" "proj s = c \<Longrightarrow> ends c (pushfd_i i s)"
  by (auto simp: ret_i_def call_i_def push_i_def pop_i_def leave_i_def enter_i_def popa_i_def popad_i_def popf_i_def
      popfd_i_def pusha_i_def pushad_i_def pushf_i_def pushfd_i_def Let_def intro!: keep_rules)

lemma keep_swap:
  assumes "\<And>x s. proj s = c \<Longrightarrow> keep c (st1 x s)" "\<And>x s. proj s = c \<Longrightarrow> keep c (st2 x s)" "proj s = c"
  shows "ends c (swap_cells ld1 st1 ld2 st2 s)"
  unfolding swap_cells_def using assms by (intro keep_bnd after_value [where P = "\<lambda>(r, s). r \<in> codes \<and> proj s = c", folded ends_def]) auto

lemma ends_moves [intro!]:
  "proj s = c \<Longrightarrow> ends c (mov_i i s)" "proj s = c \<Longrightarrow> ends c (movsx_i i s)"
  "proj s = c \<Longrightarrow> ends c (movzx_i i s)" "proj s = c \<Longrightarrow> ends c (lea_i i s)"
  "proj s = c \<Longrightarrow> ends c (lds_i i s)" "proj s = c \<Longrightarrow> ends c (les_i i s)"
  "proj s = c \<Longrightarrow> ends c (lfs_i i s)" "proj s = c \<Longrightarrow> ends c (lgs_i i s)"
  "proj s = c \<Longrightarrow> ends c (lss_i i s)" "proj s = c \<Longrightarrow> ends c (lar_i i s)"
  "proj s = c \<Longrightarrow> ends c (lsl_i i s)" "proj s = c \<Longrightarrow> ends c (xchg_i i s)"
  "proj s = c \<Longrightarrow> ends c (xlat_i i s)" "proj s = c \<Longrightarrow> ends c (lods_i i s)"
  "proj s = c \<Longrightarrow> ends c (lodsb_i i s)" "proj s = c \<Longrightarrow> ends c (lodsw_i i s)"
  "proj s = c \<Longrightarrow> ends c (lodsd_i i s)"
  by (auto simp: mov_i_def movsx_i_def movzx_i_def lea_i_def lds_i_def les_i_def lfs_i_def lgs_i_def lss_i_def
      lar_i_def lsl_i_def xchg_i_def xlat_i_def lods_i_def lodsb_i_def lodsw_i_def lodsd_i_def lfar_def src16_def
      src32_def Let_def intro!: keep_rules keep_swap)

lemma keep_strings [intro!]:
  "proj s = c \<Longrightarrow> keep c (movs_copy s1 s)" "proj s = c \<Longrightarrow> keep c (stos_put sz b s)"
  "proj s = c \<Longrightarrow> ends c (cmps_body o1 o2 r base k s)"
  by (auto simp: movs_copy_def stos_put_def cmps_body_def Let_def intro!: keep_rules)

lemma ends_strings [intro!]:
  "proj s = c \<Longrightarrow> ends c (cmpsb_i i s)" "proj s = c \<Longrightarrow> ends c (cmpsw_i i s)"
  "proj s = c \<Longrightarrow> ends c (cmpsd_i i s)" "proj s = c \<Longrightarrow> ends c (scas_i i s)"
  "proj s = c \<Longrightarrow> ends c (movs_i i s)" "proj s = c \<Longrightarrow> ends c (rep_end i s)"
  "proj s = c \<Longrightarrow> ends c (rep_movs_i i s)" "proj s = c \<Longrightarrow> ends c (rep_stos_i i s)"
  by (auto simp: cmpsb_i_def cmpsw_i_def cmpsd_i_def scas_i_def movs_i_def rep_end_def rep_movs_i_def rep_stos_i_def
      Let_def intro!: keep_rules)

lemma ends_system [intro!]:
  "proj s = c \<Longrightarrow> ends c (clc_i i s)" "proj s = c \<Longrightarrow> ends c (cld_i i s)"
  "proj s = c \<Longrightarrow> ends c (cli_i i s)" "proj s = c \<Longrightarrow> ends c (cmc_i i s)"
  "proj s = c \<Longrightarrow> ends c (stc_i i s)" "proj s = c \<Longrightarrow> ends c (std_i i s)"
  "proj s = c \<Longrightarrow> ends c (sti_i i s)" "proj s = c \<Longrightarrow> ends c (nop_i i s)"
  "proj s = c \<Longrightarrow> ends c (clts_i i s)" "proj s = c \<Longrightarrow> ends c (cmpxchg i s)"
  "proj s = c \<Longrightarrow> ends c (hlt_i i s)" "proj s = c \<Longrightarrow> ends c (iret_i i s)"
  "proj s = c \<Longrightarrow> ends c (iretd_i i s)" "proj s = c \<Longrightarrow> ends c (ltr_i i s)"
  "proj s = c \<Longrightarrow> ends c (lock_i i s)" "proj s = c \<Longrightarrow> ends c (wait_i i s)"
  "proj s = c \<Longrightarrow> ends c (rep_ins_i i s)" "proj s = c \<Longrightarrow> ends c (rep_outs_i i s)"
  "proj s = c \<Longrightarrow> ends c (arpl_i i s)" "proj s = c \<Longrightarrow> ends c (bound_i i s)"
  "proj s = c \<Longrightarrow> ends c (verw_i i s)" "proj s = c \<Longrightarrow> ends c (sgdt_i i s)"
  "proj s = c \<Longrightarrow> ends c (sidt_i i s)" "proj s = c \<Longrightarrow> ends c (sldt_i i s)"
  "proj s = c \<Longrightarrow> ends c (lmsw_i i s)" "proj s = c \<Longrightarrow> ends c (smsw_i i s)"
  by (auto simp: clc_i_def cld_i_def cli_i_def cmc_i_def stc_i_def std_i_def sti_i_def nop_i_def clts_i_def cmpxchg_def
      hlt_i_def iret_i_def iretd_i_def ltr_i_def lock_i_def wait_i_def rep_ins_i_def rep_outs_i_def arpl_i_def
      bound_i_def verw_i_def sgdt_i_def sidt_i_def sldt_i_def lmsw_i_def smsw_i_def verify_sel_def store_dtr_def
      load_dtr_def src16_def Let_def intro!: keep_rules)

lemma keep_junk: "proj s = c \<Longrightarrow> keep2 c (stos_i k i s)" "proj s = c \<Longrightarrow> keep2 c (verr_i k i s)"
  "k \<in> codes \<Longrightarrow> proj s = c \<Longrightarrow> ends c (stos_i k i s)" "k \<in> codes \<Longrightarrow> proj s = c \<Longrightarrow> ends c (verr_i k i s)"
  by (auto simp: stos_i_def verr_i_def verify_sel_def src16_def Let_def intro!: keep_rules)

lemma keep_put_bytes [intro!]: "proj s = c \<Longrightarrow> keep c (put_bytes p j bs s)"
  by (induction p j bs s rule: put_bytes.induct) (auto intro!: keep_rules simp: keep_bnd(1) [OF keep_store(1)])

lemma keep_port_in [intro!]: "proj s = c \<Longrightarrow> keep2 c (port_in h p n port s)"
  by (auto simp: port_in_def intro!: keep_rules)

lemma ends_port_in [intro!]:
  "proj s = c \<Longrightarrow> ends c (in_i h i s)" "proj s = c \<Longrightarrow> ends c (ins_i h i s)"
  "proj s = c \<Longrightarrow> ends c (insb_i h i s)" "proj s = c \<Longrightarrow> ends c (insw_i h i s)"
  "proj s = c \<Longrightarrow> ends c (insd_i h i s)"
  by (auto simp: in_i_def ins_i_def insb_i_def insw_i_def insd_i_def ins_edi_def port_of_def Let_def intro!: keep_rules)

lemma keep_kernel:
  "host_ok h \<Longrightarrow> proj s = c \<Longrightarrow> keep2 c (h_kernel h n as s)"
  "host_ok h \<Longrightarrow> proj s = c \<Longrightarrow> keep3 c (h_poll h n fds as s)"
  by (force simp: host_ok_def keep_defs after_def)+

lemma keep_ksys: "host_ok h \<Longrightarrow> proj s = c \<Longrightarrow> keep2 c (ksys h n as s)" "host_ok h \<Longrightarrow> proj s = c \<Longrightarrow> keep2 c (ksys_ptr h n as s)"
  by (auto simp: ksys_def ksys_ptr_def intro!: keep_rules keep_kernel)

lemma keep_revents [intro!]: "proj s = c \<Longrightarrow> keep c (put_revents a rs s)"
  by (induction a rs s rule: put_revents.induct) (auto intro!: keep_bnd(1) [OF keep_store(2)])

lemma keep_poll: "host_ok h \<Longrightarrow> proj s = c \<Longrightarrow> keep2 c (poll_with x rest h s)"
  by (auto simp: poll_with_def Let_def intro!: keep_rules keep_kernel)

lemma keep_tls_fill [intro!]: "proj s = c \<Longrightarrow> keep c (tls_fill d u s)"
  by (auto simp: tls_fill_def intro!: keep_rules)

lemmas one_call_defs =
    no_return_def unimpl_def do_read_def do_write_def do_close_def do_mmap_def do_mprotect_def do_munmap_def do_brk_def
    do_pread64_def do_pwrite64_def do_access_def do_pipe_def do_sched_yield_def do_mremap_def do_msync_def
    do_mincore_def do_madvise_def do_shmget_def do_shmat_def do_dup_def do_dup2_def do_pause_def do_alarm_def
    do_getpid_def do_sendfile_def do_socket_def do_listen_def do_fork_def do_vfork_def do_kill_def do_semget_def
    do_shmdt_def do_msgget_def do_msgsnd_def do_msgrcv_def do_flock_def do_fsync_def do_fdatasync_def do_truncate_def
    do_ftruncate_def do_getcwd_def do_chdir_def do_fchdir_def do_rename_def do_mkdir_def do_rmdir_def do_creat_def
    do_link_def do_unlink_def do_symlink_def do_readlink_def do_chmod_def do_fchmod_def do_chown_def do_fchown_def
    do_lchown_def do_umask_def do_ptrace_def do_getuid_def do_syslog_def do_getgid_def do_setuid_def do_setgid_def
    do_geteuid_def do_getegid_def do_setpgid_def do_getppid_def do_getpgrp_def do_setsid_def do_setreuid_def
    do_setregid_def do_getgroups_def do_setgroups_def do_setresuid_def do_getresuid_def do_setresgid_def
    do_getresgid_def do_getpgid_def do_setfsuid_def do_setfsgid_def do_getsid_def do_mknod_def do_uselib_def
    do_personality_def do_getpriority_def do_setpriority_def do_sched_get_priority_max_def
    do_sched_get_priority_min_def do_mlock_def do_munlock_def do_mlockall_def do_munlockall_def do_vhangup_def
    do_modify_ldt_def do_pivot_root_def do_chroot_def do_sync_def do_acct_def do_mount_def do_umount2_def do_swapon_def
    do_swapoff_def do_reboot_def do_sethostname_def do_setdomainname_def do_iopl_def do_ioperm_def do_gettid_def
    do_readahead_def do_setxattr_def do_lsetxattr_def do_fsetxattr_def do_getxattr_def do_lgetxattr_def
    do_fgetxattr_def do_listxattr_def do_llistxattr_def do_flistxattr_def do_removexattr_def do_lremovexattr_def
    do_fremovexattr_def do_tkill_def do_epoll_create_def do_remap_file_pages_def do_set_tid_address_def
    do_restart_syscall_def do_fadvise64_def do_exit_group_def do_tgkill_def do_mkdirat_def do_mknodat_def
    do_fchownat_def do_unlinkat_def do_renameat_def do_linkat_def do_symlinkat_def do_readlinkat_def do_fchmodat_def
    do_faccessat_def do_unshare_def do_rt_sigprocmask_def do_rt_sigreturn_def do_readv_def do_select_def
    do_nanosleep_def do_getitimer_def do_setitimer_def do_clone_def do_wait4_def do_uname_def do_gettimeofday_def
    do_getrlimit_def do_getrusage_def do_sysinfo_def do_times_def do_capget_def do_capset_def do_rt_sigpending_def
    do_rt_sigtimedwait_def do_rt_sigqueueinfo_def do_rt_sigsuspend_def do_sigaltstack_def do_utime_def do_ustat_def
    do_statfs_def do_fstatfs_def do_sched_setparam_def do_sched_getparam_def do_sched_setscheduler_def
    do_sched_getscheduler_def do_sched_rr_get_interval_def do__sysctl_def do_prctl_def do_adjtimex_def do_setrlimit_def
    do_settimeofday_def do_create_module_def do_init_module_def do_delete_module_def do_get_kernel_syms_def
    do_query_module_def do_quotactl_def do_nfsservctl_def do_getpmsg_def do_putpmsg_def do_afs_syscall_def do_break_def
    do_exit_def do_open_def do_openat_def do_stat_def do_fstat_def do_lstat_def do_lseek_def do_sysfs_def do_time_def
lemma keep_translated:
  "host_ok h \<Longrightarrow> proj s = c \<Longrightarrow> keep2 c (do_poll h s)" "host_ok h \<Longrightarrow> proj s = c \<Longrightarrow> keep2 c (do_execve h s)"
  "host_ok h \<Longrightarrow> proj s = c \<Longrightarrow> keep2 c (do_rt_sigaction h s)" "host_ok h \<Longrightarrow> proj s = c \<Longrightarrow> keep2 c (do_set_thread_area h s)"
  "host_ok h \<Longrightarrow> proj s = c \<Longrightarrow> keep2 c (do_writev h s)" "host_ok h \<Longrightarrow> proj s = c \<Longrightarrow> keep2 c (do_ioctl h s)"
  by (auto simp: do_poll_def do_execve_def do_rt_sigaction_def do_set_thread_area_def do_writev_def do_ioctl_def
    no_return_def Let_def simp del: load32.simps load16.simps load8.simps intro!: keep_rules keep_ksys keep_poll)

lemma keep_syscall:
  assumes "host_ok h" "proj s = c"
  shows "\<forall>f \<in> set syscalls. keep2 c (f h s)"
  unfolding syscalls_def using assms
  by (simp add: keep_translated) (simp add: one_call_defs keep_ksys)

end

context kept begin

lemma ends_keep2: "ends c m \<Longrightarrow> keep2 c m"
  by (auto simp: keep_defs after_def)

lemma keep_int:
  assumes "host_ok h"
  shows "proj s = c \<Longrightarrow> keep2 c (int_i h i s)" "proj s = c \<Longrightarrow> keep2 c (into_i h i s)"
proof -
  have "keep2 c (int80 h s)" if "proj s = c" for c s
    using keep_syscall [OF assms that]
    by (auto simp: int80_def Let_def split_def keep2_def after_def bnd_eq_Inr) (fastforce dest: nth_mem)
  then have v: "keep2 c (int_dispatcher h v s)" if "proj s = c" for c v s
    using that by (auto simp: int_dispatcher_def idt_row unimplemented_def)
  show "proj s = c \<Longrightarrow> keep2 c (int_i h i s)" "proj s = c \<Longrightarrow> keep2 c (into_i h i s)"
    by (auto simp: int_i_def into_i_def Let_def intro!: keep_rules v)
qed

lemmas ends_rows = ends_arith ends_logic ends_muldiv ends_imul ends_shift ends_bits ends_bcd ends_jumps ends_setcc
  ends_stack ends_moves ends_strings ends_system ends_port_in

end

text \<open>The rows whose handlers change more than registers and memory, and those whose result the code
  leaves open.\<close>

definition special :: "string set" where
  "special = {''lgdt'', ''lidt'', ''lldt'', ''out'', ''outs'', ''outsb'', ''outsw'', ''outsd''}"

definition open_result :: "string set" where
  "open_result = {''int'', ''into'', ''stos'', ''stosb'', ''stosw'', ''stosd'', ''verr''}"

lemma dispatcher_cases:
  assumes "dispatcher h mn i s = Inr (r, s')"
  obtains "mn \<notin> set inss" "r = - 1" "s' = s" | g where "(mn, Some g) \<in> set (zip inss (instructions h))" "g i s = Inr (r, s')"
proof (cases "mn \<in> set inss")
  case True
  then obtain k where k: "k < NINS" "inss ! k = mn" by (auto simp: in_set_conv_nth inss_shape)
  with assms obtain g where g: "instructions h ! k = Some g" "g i s = Inr (r, s')"
    using dispatcher_row [OF k(1), of h i s] by (auto split: option.splits)
  have "(mn, Some g) \<in> set (zip inss (instructions h))"
    using k g(1) by (auto simp: in_set_zip inss_shape intro!: exI [of _ k])
  with g that show ?thesis by blast
next
  case False
  with assms that show ?thesis by (simp add: dispatcher_other)
qed

context kept begin

lemma rows:
  assumes "host_ok h"
  shows "\<forall>(mn, f) \<in> set (zip inss (instructions h)). mn \<notin> special \<longrightarrow>
    (case f of None \<Rightarrow> True | Some g \<Rightarrow>
       if mn \<in> open_result then keep2 (proj s) (g i s) else ends (proj s) (g i s))"
  unfolding inss_def instructions_def special_def open_result_def
  by (simp add: keep_int [OF assms] keep_junk ends_rows)

lemma row_result:
  assumes "host_ok h" "(mn, Some g) \<in> set (zip inss (instructions h))" "mn \<notin> special" "g i s = Inr (r, s')"
  shows "proj s' = proj s \<and> (mn \<notin> open_result \<longrightarrow> r \<in> codes)"
  using bspec [OF rows [OF assms(1), of s i] assms(2)] assms(3,4)
  by (auto simp: keep_defs after_def split: if_splits)

end

interpretation kg: kept gdtr by unfold_locales simp_all
interpretation ki: kept idtr by unfold_locales simp_all
interpretation kl: kept ldtr by unfold_locales simp_all
interpretation ko: kept outp by unfold_locales simp_all

section \<open>The instructions with further effects\<close>

definition writes_port :: "string set" where
  "writes_port = {''out'', ''outs'', ''outsb'', ''outsw'', ''outsd''}"

lemma special_rows:
  assumes "(mn, Some g) \<in> set (zip inss (instructions h))" "mn \<in> special"
  shows "(mn, g) \<in> {(''lgdt'', lgdt_i), (''lidt'', lidt_i), (''lldt'', lldt_i), (''out'', out_i h), (''outs'', outs_i h),
    (''outsb'', outsb_i h), (''outsw'', outsw_i h), (''outsd'', outsd_i h)}"
  using assms unfolding special_def by (elim insertE emptyE) (simp_all add: inss_def instructions_def)

text \<open>What the machine may look like afterwards.\<close>

definition effect :: "string \<Rightarrow> cpu \<Rightarrow> cpu \<Rightarrow> bool" where
  "effect mn s s' \<longleftrightarrow>
     (gdtr s' = gdtr s \<or> mn = ''lgdt'') \<and> (idtr s' = idtr s \<or> mn = ''lidt'') \<and> (ldtr s' = ldtr s \<or> mn = ''lldt'') \<and>
     (\<exists>l. outp s' = outp s @ l \<and> (l = [] \<or> mn \<in> writes_port))"

lemma port_out_state: "port_out h p n port s = Inr (r, s') \<Longrightarrow> \<exists>bs. s' = outp_update (\<lambda>l. l @ [(port, bs)]) s"
  by (auto simp: port_out_def bnd_eq_Inr)

lemma special_effect:
  assumes "(mn, g) \<in> {(''lgdt'', lgdt_i), (''lidt'', lidt_i), (''lldt'', lldt_i), (''out'', out_i h), (''outs'', outs_i h),
    (''outsb'', outsb_i h), (''outsw'', outsw_i h), (''outsd'', outsd_i h)}" "g i s = Inr (r, s')"
  shows "r \<in> codes" "effect mn s s'"
  using assms
  by (auto simp: lgdt_i_def lidt_i_def lldt_i_def out_i_def outs_i_def outsb_i_def outsw_i_def outsd_i_def outs_edi_def
    ret0_def Let_def bnd_eq_Inr effect_def writes_port_def split: if_splits dest!: port_out_state)

lemma dispatcher_effect:
  assumes "host_ok h" "dispatcher h mn i s = Inr (r, s')"
  shows "effect mn s s'" "mn \<notin> open_result \<Longrightarrow> r \<in> codes"
proof -
  from assms(2) have "effect mn s s' \<and> (mn \<notin> open_result \<longrightarrow> r \<in> codes)"
  proof (cases rule: dispatcher_cases)
    case 1 then show ?thesis by (simp add: effect_def)
  next
    case (2 g)
    show ?thesis
    proof (cases "mn \<in> special")
      case True then show ?thesis using special_effect [OF special_rows [OF 2(1) True] 2(2)] by simp
    next
      case False
      note k = assms(1) 2(1) False 2(2)
      show ?thesis
        using kg.row_result [OF k] ki.row_result [OF k] kl.row_result [OF k] ko.row_result [OF k]
        by (simp add: effect_def)
    qed
  qed
  then show "effect mn s s'" "mn \<notin> open_result \<Longrightarrow> r \<in> codes" by simp_all
qed

lemma idle_host_ok: "host_ok idle_host"
proof -
  have "\<exists>m. s = s\<lparr>mem := m\<rparr>" for s :: cpu by (rule exI [of _ "mem s"]) simp
  then show ?thesis by (auto simp: host_ok_def idle_host_def)
qed

text \<open>
  C9 (effects of the instructions). Whatever is executed, \<open>gdtr\<close> is changed by LGDT only, \<open>idtr\<close> by LIDT
  only, \<open>ldtr\<close> by LLDT only, and bytes are sent to a port by the OUT family only, behind those sent
  before; this covers the system calls, for a kernel that writes nothing but guest memory. Every
  instruction but the interrupts and the functions without \<open>return\<close> answers one of five values.
\<close>

theorem dispatcher_effects:
  assumes "host_ok h" "dispatcher h mn i s = Inr (r, s')"
  shows "effect mn s s' \<and> (mn \<notin> open_result \<longrightarrow> r \<in> {0, 1, - 1, - 5, - 1000})"
  using dispatcher_effect [OF assms] by (simp add: codes_def)

theorem dispatcher_effects_witness:
  "host_ok idle_host \<and> effect ''cli'' static_init (clear_Flag IF (adv (insn2 (imm_opd 3 1) (reg_opd 0 0)) static_init))"
proof -
  let ?i = "insn2 (imm_opd 3 1) (reg_opd 0 0)"
  have "inss ! 20 = ''cli''" "instructions idle_host ! 20 = Some cli_i" by (simp_all add: inss_def instructions_def)
  then have "dispatcher idle_host ''cli'' ?i static_init = Inr (0, clear_Flag IF (adv ?i static_init))"
    using dispatcher_row [of 20 idle_host ?i static_init] by (simp add: NINS_def cli_i_def ret0_def)
  then show ?thesis using dispatcher_effects [OF idle_host_ok] idle_host_ok by blast
qed

section \<open>Runs\<close>

text \<open>The mnemonics of the instructions that a run from \<open>s\<close> fetches.\<close>

definition fetches :: "host \<Rightarrow> capstone \<Rightarrow> u32 \<Rightarrow> cpu \<Rightarrow> string set" where
  "fetches h cs r s = {mn. \<exists>t ins. (vm_step h cs r)\<^sup>*\<^sup>* s t \<and>
     cs_disasm cs (mem t) (var t EIP) (r - var t EIP) (var t EIP) = Some ins \<and> mnemonic ins = mn}"

text \<open>The effects of a run: as those of one instruction, over all the mnemonics that occur.\<close>

definition run_effect :: "string set \<Rightarrow> cpu \<Rightarrow> cpu \<Rightarrow> bool" where
  "run_effect mns s s' \<longleftrightarrow>
     (gdtr s' = gdtr s \<or> ''lgdt'' \<in> mns) \<and> (idtr s' = idtr s \<or> ''lidt'' \<in> mns) \<and> (ldtr s' = ldtr s \<or> ''lldt'' \<in> mns) \<and>
     (\<exists>l. outp s' = outp s @ l \<and> (l = [] \<or> mns \<inter> writes_port \<noteq> {}))"

lemma run_effect_refl: "run_effect mns s s" by (simp add: run_effect_def)

lemma run_effect_trans: "run_effect mns s t \<Longrightarrow> run_effect mns t u \<Longrightarrow> run_effect mns s u"
  unfolding run_effect_def by (elim conjE exE, intro conjI; force)

lemma effect_run: "effect mn s t \<Longrightarrow> mn \<in> mns \<Longrightarrow> run_effect mns s t"
  unfolding effect_def run_effect_def by blast

lemma vm_step_effect:
  assumes "host_ok h" "(vm_step h cs r)\<^sup>*\<^sup>* s t" "vm_step h cs r t u"
  shows "run_effect (fetches h cs r s) t u"
  using assms(3)
proof cases
  case (vm_step ins res)
  then have "mnemonic ins \<in> fetches h cs r s" using assms(2) by (auto simp: fetches_def)
  then show ?thesis using dispatcher_effect(1) [OF assms(1) vm_step(2)] by (rule effect_run [rotated])
qed

lemma vm_end_effect:
  assumes "host_ok h" "(vm_step h cs r)\<^sup>*\<^sup>* s t" "vm_end h cs r t u"
  shows "run_effect (fetches h cs r s) t u"
  using assms(3)
proof cases
  case (end_int ins res)
  then have "mnemonic ins \<in> fetches h cs r s" using assms(2) by (auto simp: fetches_def)
  then show ?thesis using dispatcher_effect(1) [OF assms(1) end_int(2)] by (rule effect_run [rotated])
qed (simp add: run_effect_refl)

lemma vm_steps_effect:
  "(vm_step h cs r)\<^sup>*\<^sup>* s t \<Longrightarrow> host_ok h \<Longrightarrow> run_effect (fetches h cs r s) s t"
  by (induction rule: rtranclp_induct) (auto intro: run_effect_refl run_effect_trans vm_step_effect)

section \<open>The instruction that ends a program\<close>

lemma open_rows:
  assumes "(mn, Some g) \<in> set (zip inss (instructions h))" "mn \<in> open_result"
  shows "mn = ''int'' \<or> g \<in> {into_i h, stos_i (h_junk h), verr_i (h_junk h)}"
  using assms unfolding open_result_def by (elim insertE emptyE) (simp_all add: inss_def instructions_def)

lemma open_values:
  "into_i h i s = Inr (r, s') \<Longrightarrow> r = 0" "stos_i k i s = Inr (r, s') \<Longrightarrow> r = k" "verr_i k i s = Inr (r, s') \<Longrightarrow> r = k"
  by (auto simp: into_i_def int_dispatcher_def idt_row [of h 4, simplified] unimplemented_def stos_i_def verr_i_def Let_def bnd_eq_Inr)

lemma codes_exit: "r \<in> codes \<Longrightarrow> (word_of_int r :: u32) \<noteq> exit_code"
  by (auto simp: codes_def exit_code_def)

lemma exit_only_int:
  assumes "host_ok h" "word_of_int (h_junk h) \<noteq> exit_code" "dispatcher h mn i s = Inr (r, s')" "word_of_int r = exit_code"
  shows "mn = ''int''"
proof (rule ccontr)
  assume mn: "mn \<noteq> ''int''"
  with assms have o: "mn \<in> open_result" using dispatcher_effect(2) codes_exit by blast
  from assms(3) show False
  proof (cases rule: dispatcher_cases)
    case 1 with assms(4) show False by (simp add: exit_code_def)
  next
    case (2 g)
    then have "r = 0 \<or> r = h_junk h" using open_rows [OF 2(1) o] mn by (auto dest: open_values)
    then show False using assms(2,4) by (auto simp: exit_code_def)
  qed
qed

end
