(* ===== verification/Spec2Isabelle.thy ===== *)
theory Spec2Isabelle
  imports VM_Terminal VM_Frame
begin

text \<open>
  The i386 emulator \<open>Sim-i386-32bit\<close>, verified: a 64-bit program that loads a 32-bit program and
  executes it instruction by instruction, with its system calls handed to the host kernel.

  \<^bold>\<open>How the program works.\<close> \<open>main\<close> (\<open>src/src/proc.c\<close>) selects one of four modes. Each calls \<open>initialize\<close>
  (\<open>instr.c\<close>: registers, guest memory, descriptor table), reads the file (\<open>loader.c\<close>: ELF or raw, initial
  stack), and repeats: disassemble the bytes at \<open>eip\<close> with Capstone, look the mnemonic up (\<open>dispatcher\<close> in
  \<open>instr.c\<close>), call its handler. INT 0x80 (\<open>interrupts.c\<close>) selects a wrapper of \<open>syscall.c\<close> from the table of
  \<open>trad_syscall.c\<close>. The two interface modes put a terminal debugger around the loop (\<open>interface.c\<close>).

  \<^bold>\<open>Conventions.\<close> The machine is the record \<open>cpu\<close>: the global variables, and memory as a function from
  32-bit addresses. Integers are words of their C width. A function of the program returns a
  value of type \<open>res\<close>, a sum: \<open>Inl\<close> is a fault, what C leaves undefined or the host punishes (an index
  outside of the array, a null pointer, a variable used before it is assigned, a shift by too much,
  an overflow of a counter of type \<open>int\<close>, a division trap, a call of a null pointer), \<open>Inr\<close> is its result. Address
  arithmetic on \<open>int32_t\<close> (\<open>eff_addr\<close>, the displacement of LOOP, the byte that \<open>get_gdt_base\<close> shifts into the sign) is
  an exception: it wraps around, as in the program's build without optimisation, so that a guest may address
  across \<open>2 ^ 31\<close>. Pointers that the
  handlers form (into a register or into memory) are the datatype \<open>ptr\<close>. Error codes of the program
  are ordinary results. What a function returns after running off its end is the number
  \<open>h_junk\<close> of the host.

  \<^bold>\<open>Parameters.\<close> The host kernel, the file \<open>/dev/port\<close> and \<open>malloc\<close> are the record \<open>host\<close>; the files, the auxiliary
  vector and the random numbers are \<open>ldenv\<close>; the disassembler is \<open>capstone\<close>; the terminal is \<open>terminal\<close>, or
  \<open>ui\<close> and \<open>screen_env\<close>; what the guest's system calls do to it is \<open>kernel_io\<close>. Nothing is
  assumed of them except where a theorem says so; each such theorem has an instance.

  \<^bold>\<open>The theories.\<close>
  \<^item> \<open>VM_Prelude\<close>: results, words, bytes, lemmas that all theories share.
  \<^item> \<open>VM_Machine\<close>, \<open>VM_Cells\<close>: state, access functions \<open>read16\<close> to \<open>write32\<close>, register tables; the locale
    \<open>cell\<close> states what a load returns after a store and is interpreted for the three widths.
  \<^item> \<open>VM_Flags\<close> (\<open>flags.c\<close>), \<open>VM_Gdt\<close> (\<open>initialize\<close> and the descriptor table), \<open>VM_Operands\<close> (\<open>eff_addr\<close> and the operands).
  \<^item> The handlers of \<open>instr.c\<close>, by family: \<open>VM_Arith\<close>, \<open>VM_Logic\<close>, \<open>VM_MulDiv\<close>, \<open>VM_Shift\<close>, \<open>VM_Bits\<close>, \<open>VM_Bcd\<close>, \<open>VM_Jumps\<close>,
    \<open>VM_Setcc\<close>, \<open>VM_Stack\<close> (with the locale \<open>lifo\<close>), \<open>VM_Moves\<close>, \<open>VM_Strings\<close>, \<open>VM_System\<close>.
  \<^item> \<open>VM_Syscalls\<close>: the wrappers of \<open>syscall.c\<close>, the conversions of \<open>typesi386.c\<close>, the table of \<open>trad_syscall.c\<close>.
  \<^item> \<open>VM_Dispatch\<close>: \<open>interrupts.c\<close>, the instruction tables and \<open>dispatcher\<close>.
  \<^item> \<open>VM_Loader\<close>: \<open>loader.c\<close>.
  \<^item> \<open>VM_Proc\<close>: the main loop of \<open>proc.c\<close>; a loop is \<open>iterate\<close> of its body, and \<open>iterate_iff\<close> says that it returns
    exactly what a sequence of passes leads to.
  \<^item> \<open>VM_Debugger\<close>: the debugger of \<open>proc.c\<close> and \<open>interface.c\<close>, and \<open>main\<close>; the locale \<open>code_view\<close> states what the
    search for an address promises to the commands and is interpreted for the ELF and the raw mode.
  \<^item> \<open>VM_Interface\<close>: the rest of \<open>interface.c\<close> (terminal modes, geometry and buffers, cursor, questions) on a record \<open>ui\<close>
    that holds its global variables, the kernel's terminal settings, the printed bytes and the input. \<open>VM_Screen\<close>:
    \<open>draw_screen\<close> byte by byte. The debugger works on values (a screen, a list of answers); the lemmas
    \<open>draw_screen_prints\<close> and \<open>ask_ui_refines\<close> say that the terminal shows and reads those values.
  \<^item> \<open>VM_Terminal\<close>: the two functions of the debugger with all their calls to the terminal in the order of the code, on
    the pair of a debugger state and a \<open>ui\<close>. The relation \<open>tracks\<close> ties it to the state of \<open>VM_Debugger\<close>, and
    \<open>iterate_related\<close> (\<open>VM_Proc\<close>) lifts it from a pass to the loops.
  \<^item> \<open>VM_Frame\<close>: what every handler and every system call leaves alone; the locale \<open>kept\<close> is for any part of the machine
    that registers and memory do not determine, and is interpreted for \<open>gdtr\<close>, \<open>idtr\<close>, \<open>ldtr\<close> and the port output.
  \<^item> This theory: properties that span components.

  \<^bold>\<open>What is shown.\<close> For the handlers: the result, every flag and the frame of the arithmetic, logic,
  shift and move instructions, also where they differ from the processor (the overflow flag
  of a comparison, the high half of a product, bit scans, LOOP); round trips of the stack,
  rotate and flag instructions; one jump of a pair of opposite ones is taken, and SETcc and Jcc agree. For
  the services: segments are flat after start-up, \<open>set_thread_area\<close> installs a descriptor through which \<open>gs\<close>
  addresses the requested base, \<open>execve\<close> and \<open>writev\<close> translate their vectors, every mnemonic reaches its handler and
  every number its system call. For the loader: what \<open>read_elf_file\<close> makes of a whole
  file (the image of the segments, the executable sections, the initial stack, the entry point), and the sort
  of the symbols. For the program: it ends only where nothing can be disassembled or through an INT 0x80 whose
  system call answers the exit code; it runs from its file, raw or ELF, to its exit, also in the debugger on its terminal,
  which shows its first screen. The debugger keeps its
  invariant, \<open>c\<close> runs to the first active breakpoint, \<open>n\<close> steps over a call, and addresses survive printing and
  reading; without breakpoints \<open>c\<close> is the main loop, with its results, faults and divergence, up to a machine in which
  the two fetch or test differently. The effects of an
  instruction on the descriptor-table registers and the ports are typed by its mnemonic, and with them
  those of a run by the instructions that it fetches. The debugger on its terminal refines the debugger on values: same results, and the
  bytes on the terminal contain what the model shows, in its order. The terminal is given back as it was
  found (the two exceptions are part of the statement), and the boxes fit their buffers exactly from 29 columns on.

  \<^bold>\<open>Bounds.\<close> There is no fuel. Loops of the program that end are recursive functions; the loops that may
  not (main loop, \<open>c\<close>, \<open>n\<close>, the command loop) have the value \<open>None\<close> when they do not return.

  \<^bold>\<open>Not modelled.\<close> Messages on \<open>stderr\<close> and \<open>log.txt\<close>, the release of memory, a failed allocation of
  the debugger's arrays other than the array of the lines and the boxes (the program does not check the others), the other fields of \<open>termios\<close> than those
  named (nothing reads them). The keys, which \<open>read\<close> takes from the descriptor, and the lines, which \<open>fgets\<close> takes from the
  stream, are two inputs, as is what a system call of the guest reads. The wrappers of \<open>syscall.c\<close> that no table entry uses and that have no body are
  left out. What the host kernel does with a system call is a parameter.
\<close>

section \<open>Comparisons and the instructions that read them\<close>


definition branch :: "bool \<Rightarrow> cs_insn \<Rightarrow> cpu \<Rightarrow> (int \<times> cpu) res" where
  "branch c j s = Inr (0, if c then wr EIP (ucast (op_imm (op1 j))) (adv j s) else adv j s)"

lemma jcc_branch:
  "op_type (op1 j) = X86_OP_IMM \<Longrightarrow> jcc cond j s = branch (cond (adv j s)) j s"
  by (simp add: jcc_def branch_def target_val_def ret0_def Let_def)

text \<open>
  C15 (CMP and the unsigned jumps). After a 32-bit CMP of \<open>a\<close> with \<open>b\<close>, the jumps JB, JAE, JBE, JA, JE
  and JNE with an immediate target are taken exactly when the unsigned relation they are named
  after holds between \<open>a\<close> and \<open>b\<close>.
\<close>

theorem cmp_unsigned_branches:
  assumes "opd_wf (op1 i)" "op_size (op1 i) = 4" "rm_ptr (op1 i) (adv i s) = Inr p"
    and "cmp_src (op2 i) 4 (adv i s) = Inr b" "load32 p (adv i s) = Inr a"
    and j: "op_type (op1 j) = X86_OP_IMM"
  shows "\<exists>s1. cmp_i i s = Inr (0, s1) \<and>
    jb_i j s1 = branch (unat a < unat b) j s1 \<and> jae_i j s1 = branch (unat a \<ge> unat b) j s1 \<and>
    jbe_i j s1 = branch (unat a \<le> unat b) j s1 \<and> ja_i j s1 = branch (unat a > unat b) j s1 \<and>
    je_i j s1 = branch (a = b) j s1 \<and> jne_i j s1 = branch (a \<noteq> b) j s1"
proof -
  from cmp_i_32 [OF assms(1-5)] obtain s1 where s1: "cmp_i i s = Inr (0, s1)"
    "test_Flag CF s1 = (unat a < unat b)" "test_Flag ZF s1 = (a - b = 0)"
    by (auto simp: flags_are_def)
  have z: "(a - b = 0) = (unat a = unat b)" "(a = b) = (unat a = unat b)"
    unfolding right_minus_eq by (rule word_unat_eq_iff)+
  show ?thesis
    using s1 by (intro exI [of _ s1]) (auto simp: jcc_defs jcc_branch [OF j] branch_def z)
qed

theorem cmp_unsigned_branches_witness:
  "\<exists>s1. cmp_i (insn2 (reg_opd 19 4) (imm_opd 7 4)) (wr EAX 5 static_init) = Inr (0, s1) \<and>
    jb_i (insn2 (imm_opd 0x400 4) (reg_opd 0 0)) s1 = branch True (insn2 (imm_opd 0x400 4) (reg_opd 0 0)) s1 \<and>
    je_i (insn2 (imm_opd 0x400 4) (reg_opd 0 0)) s1 = branch False (insn2 (imm_opd 0x400 4) (reg_opd 0 0)) s1"
  using cmp_unsigned_branches [of "insn2 (reg_opd 19 4) (imm_opd 7 4)" "wr EAX 5 static_init" "PVar EAX" 7 5
      "insn2 (imm_opd 0x400 4) (reg_opd 0 0)"]
  by (auto simp: sample_defs opd_wf_def rm_ptr_def regs_at_def regs_def regs_size_def cmp_src_def imm_ext_def static_init_def)

text \<open>
  C16 (CMP and the signed jumps). After a 32-bit CMP the overflow flag is that of an addition, so
  the signed jumps do not decide the signed order: with two non-negative operands JL is never
  taken and JGE always, with two negative operands JL is always taken and JGE never, and JLE is
  taken only for two equal negative operands.
\<close>

theorem cmp_signed_branches:
  assumes "opd_wf (op1 i)" "op_size (op1 i) = 4" "rm_ptr (op1 i) (adv i s) = Inr p"
    and "cmp_src (op2 i) 4 (adv i s) = Inr b" "load32 p (adv i s) = Inr a"
    and j: "op_type (op1 j) = X86_OP_IMM"
  shows "\<exists>s1. cmp_i i s = Inr (0, s1) \<and>
    (sint a \<ge> 0 \<and> sint b \<ge> 0 \<longrightarrow> jl_i j s1 = branch False j s1 \<and> jge_i j s1 = branch True j s1 \<and>
       jg_i j s1 = branch (a \<noteq> b) j s1) \<and>
    (sint a < 0 \<and> sint b < 0 \<longrightarrow> jl_i j s1 = branch True j s1 \<and> jge_i j s1 = branch False j s1 \<and>
       jg_i j s1 = branch False j s1) \<and>
    ((sint a < 0) \<noteq> (sint b < 0) \<longrightarrow> jl_i j s1 = branch (sint (a - b) < 0) j s1) \<and>
    jle_i j s1 = branch (a = b \<and> sint a < 0) j s1"
proof -
  from cmp_i_32 [OF assms(1-5)] obtain s1 where s1: "cmp_i i s = Inr (0, s1)"
    "test_Flag SF s1 = (sint (a - b) < 0)" "test_Flag ZF s1 = (a - b = 0)"
    "test_Flag OF s1 = ((sint a < 0 \<longleftrightarrow> sint b < 0) \<and> (sint a < 0 \<longleftrightarrow> sint b \<le> sint a))"
    by (auto simp: flags_are_def)
  have same: "(sint a < 0 \<longleftrightarrow> sint b < 0) \<Longrightarrow> (sint (a - b) < 0) = (sint a < sint b)"
    using sint_sub_same_sign [of a b] by simp
  show ?thesis
    using s1 same by (intro exI [of _ s1]) (auto simp: jcc_defs jcc_branch [OF j])
qed

theorem cmp_signed_branches_witness:
  "\<exists>s1. cmp_i (insn2 (reg_opd 19 4) (imm_opd 7 4)) (wr EAX 5 static_init) = Inr (0, s1) \<and>
    jl_i (insn2 (imm_opd 0x400 4) (reg_opd 0 0)) s1 = branch False (insn2 (imm_opd 0x400 4) (reg_opd 0 0)) s1 \<and>
    jle_i (insn2 (imm_opd 0x400 4) (reg_opd 0 0)) s1 = branch False (insn2 (imm_opd 0x400 4) (reg_opd 0 0)) s1"
  using cmp_signed_branches [of "insn2 (reg_opd 19 4) (imm_opd 7 4)" "wr EAX 5 static_init" "PVar EAX" 7 5
      "insn2 (imm_opd 0x400 4) (reg_opd 0 0)"]
  by (auto simp: sample_defs opd_wf_def rm_ptr_def regs_at_def regs_def regs_size_def cmp_src_def imm_ext_def static_init_def)

text \<open>
  CMP, SETNA and SETNLE. After a 32-bit CMP, SETNA stores 1 exactly when \<open>a\<close> is below \<open>b\<close>, equality
  excluded, and SETNLE stores 1 only for two equal negative operands.
\<close>

lemma cmp_setna_setg:
  assumes "opd_wf (op1 i)" "op_size (op1 i) = 4" "rm_ptr (op1 i) (adv i s) = Inr p"
    and "cmp_src (op2 i) 4 (adv i s) = Inr b" "load32 p (adv i s) = Inr a"
    and j: "op_type (op1 j) = X86_OP_REG" "op_reg (op1 j) < 50" "regs ! op_reg (op1 j) = PVar v"
  shows "\<exists>s1 s2 s3. cmp_i i s = Inr (0, s1) \<and>
    setna_i j s1 = Inr (0, s2) \<and> load8 (PVar v) s2 = Inr (if unat a < unat b then 1 else 0) \<and>
    setnle_i j s1 = Inr (0, s3) \<and> load8 (PVar v) s3 = Inr (if a = b \<and> sint a < 0 then 1 else 0)"
proof -
  from cmp_i_32 [OF assms(1-5)] obtain s1 where s1: "cmp_i i s = Inr (0, s1)" "test_Flag CF s1 = (unat a < unat b)"
    "test_Flag SF s1 = (sint (a - b) < 0)" "test_Flag ZF s1 = (a - b = 0)"
    "test_Flag OF s1 = ((sint a < 0 \<longleftrightarrow> sint b < 0) \<and> (sint a < 0 \<longleftrightarrow> sint b \<le> sint a))"
    by (auto simp: flags_are_def)
  have p: "rm_ptr (op1 j) (adv j s1) = Inr (PVar v)" "load8 (PVar v) (adv j s1) = Inr (ucast (var (adv j s1) v))"
    using j by (simp_all add: rm_ptr_reg)
  have c: "(test_Flag ZF s1 \<and> (test_Flag OF s1 \<noteq> test_Flag SF s1)) = (a = b \<and> sint a < 0)"
    using s1 by auto
  obtain s2 s3 where "setna_i j s1 = Inr (0, s2)" "load8 (PVar v) s2 = Inr (if test_Flag CF s1 then 1 else 0)"
    "setnle_i j s1 = Inr (0, s3)"
    "load8 (PVar v) s3 = Inr (if test_Flag ZF s1 \<and> (test_Flag OF s1 \<noteq> test_Flag SF s1) then 1 else 0)"
    using setcc_store [OF p, of "\<lambda>s. test_Flag CF s"]
      setcc_store [OF p, of "\<lambda>s. test_Flag ZF s \<and> (test_Flag OF s \<noteq> test_Flag SF s)"]
    by (auto simp: setna_i_def setnle_i_def)
  then show ?thesis using s1(1,2) c by auto
qed

section \<open>System calls and segments\<close>

text \<open>
  C10 (thread-local storage). A guest that asks \<open>set_thread_area\<close> through INT 0x80 for any free
  descriptor gets \<open>eax\<close> 0, and a memory operand with a \<open>gs\<close> override, once \<open>gs\<close> holds the selector of
  the descriptor it was given, addresses the base it asked for plus the displacement.
\<close>

theorem tls_through_int80:
  assumes i: "ucast (op_imm (op1 i)) = (0x80 :: u8)" "var s EAX = 243"
    and u: "u = unat (var s EBX)" "u + 16 \<le> MEM_BYTES" and g: "g = unat (dtr_base (gdtr s))" "g + 90 \<le> MEM_BYTES"
    and apart: "u + 16 \<le> g \<or> g + 90 \<le> u"
    and v: "load32 (PMem u) s = Inr (- 1)" "load32 (PMem (u + 4)) s = Inr base" "load32 (PMem (u + 8)) s = Inr lim"
      "load32 (PMem (u + 12)) s = Inr bf" and k: "tls_index (- 1) s = Some k"
  shows "\<exists>s'. int_i h i s = Inr (0, s') \<and> var s' EAX = 0 \<and> load32 (PMem u) s' = Inr (of_nat k) \<and>
    eff_addr \<lparr>m_segment = 33, m_base = 0, m_index = 0, m_scale = 1, m_disp = disp\<rparr>
      (wr GS (of_nat (8 * k + 3)) s') = Inr (base + ucast disp)"
proof -
  have k': "tls_index (- 1) (adv i s) = Some k" using k by (simp add: tls_index_def)
  have m: "load32 (PMem x) (adv i s) = load32 (PMem x) s" for x by simp
  obtain t where t: "do_set_thread_area h (adv i s) = Inr (0, t)" "load32 (PMem u) t = Inr (of_nat k)"
    "\<And>sel. gdt_index sel = k \<Longrightarrow> get_gdt_base sel t = Inr base"
    using set_thread_area_core [of u "adv i s" g "- 1" base lim bf h] u g apart v k' unfolding m
    by (auto simp: arg1_def)
  have "k \<in> {6, 7, 8}" using k by (auto simp: tls_index_def split: if_splits)
  then have "gdt_index (ucast (ucast (ucast (of_nat (8 * k + 3) :: u32) :: u16) :: u32)) = k"
    by (auto simp: gdt_index_def GDT_ENTRIES_def)
  from t(3) [OF this] have "eff_addr \<lparr>m_segment = 33, m_base = 0, m_index = 0, m_scale = 1, m_disp = disp\<rparr>
      (wr GS (of_nat (8 * k + 3)) (wr EAX 0 t)) = Inr (base + ucast disp)"
    by (simp add: eff_addr_def reg_val_def regs_def regs_size_def)
  moreover have "load32 (PMem u) (wr EAX 0 t) = Inr (of_nat k)" using t(2) by (simp split: if_splits)
  moreover have "int_i h i s = Inr (0, wr EAX 0 t)"
    using i t(1) by (simp add: int_i_def int_dispatcher_def idt_row [of h "0x80", simplified] int80_def syscalls_shape)
  ultimately show ?thesis by auto
qed

theorem tls_through_int80_witness:
  "\<exists>s s'. int_i idle_host (insn2 (imm_opd 0x80 1) (reg_opd 0 0)) s = Inr (0, s') \<and> var s' EAX = 0 \<and>
    eff_addr \<lparr>m_segment = 33, m_base = 0, m_index = 0, m_scale = 1, m_disp = 0x10\<rparr> (wr GS 0x33 s') = Inr 0x12345688"
proof -
  let ?s = "wr EAX 243 (wr EBX 0x100 (static_init\<lparr>mem := put32 0x104 0x12345678 (put32 0x100 0xFFFFFFFF (\<lambda>_. 0))\<rparr>))"
  let ?i = "insn2 (imm_opd 0x80 1) (reg_opd 0 0)"
  have "load32 (PMem 0x100) ?s = Inr 0xFFFFFFFF" by (simp add: MEM_BYTES_def le32_def put32_def)
  then have v: "load32 (PMem 0x100) ?s = Inr (- 1)" by simp
  have v': "load32 (PMem (0x100 + 4)) ?s = Inr 0x12345678"
    "load32 (PMem (0x100 + 8)) ?s = Inr 0" "load32 (PMem (0x100 + 12)) ?s = Inr 0"
    by (simp_all add: MEM_BYTES_def le32_def put32_def)
  have k: "tls_index (- 1) ?s = Some 6" by (simp add: tls_index_def static_init_def put32_def)
  have "ucast (op_imm (op1 ?i)) = (0x80 :: u8)" "var ?s EAX = 243" "(0x100 :: nat) = unat (var ?s EBX)"
    "(0x100 :: nat) + 16 \<le> MEM_BYTES" "0 = unat (dtr_base (gdtr ?s))" "0 + 90 \<le> MEM_BYTES"
    "(0x100 :: nat) + 16 \<le> 0 \<or> 0 + 90 \<le> (0x100 :: nat)"
    by (simp_all add: sample_defs MEM_BYTES_def static_init_def)
  from tls_through_int80 [OF this v v' k, of idle_host "0x10"] show ?thesis by auto
qed

section \<open>A program from its file to its exit\<close>

text \<open>The seven bytes of \<open>mov eax, 1; int 0x80\<close>.\<close>

definition exit_prog :: "u8 list" where
  "exit_prog = [0xB8, 1, 0, 0, 0, 0xCD, 0x80]"

text \<open>Memory holds the program at address 0.\<close>

definition holds_prog :: "(u32 \<Rightarrow> u8) \<Rightarrow> bool" where
  "holds_prog m = (\<forall>k < length exit_prog. m (of_nat k) = exit_prog ! k)"

text \<open>What the disassembler makes of the two instructions.\<close>

definition decodes_mov :: "cs_insn \<Rightarrow> bool" where
  "decodes_mov i = (mnemonic i = ''mov'' \<and> insn_size i = 5 \<and> insn_bytes i 0 = 0xB8 \<and>
     op_type (op1 i) = X86_OP_REG \<and> op_reg (op1 i) = 19 \<and> op_type (op2 i) = X86_OP_IMM \<and> op_imm (op2 i) = 1)"

definition decodes_int :: "cs_insn \<Rightarrow> bool" where
  "decodes_int i = (mnemonic i = ''int'' \<and> insn_size i = 2 \<and> insn_bytes i 0 = 0xCD \<and> op_imm (op1 i) = 0x80)"

lemma run_mov:
  "decodes_mov i \<Longrightarrow> dispatcher h (mnemonic i) i s = Inr (0, wr EAX 1 (adv i s))"
  using dispatcher_row [of 103 h i s]
  by (simp add: decodes_mov_def inss_def instructions_def NINS_def mov_i_def src_val32_def regs_at_def regs_size_at_def
      regs_def regs_size_def ret0_def)

lemma run_int:
  "decodes_int i \<Longrightarrow> var s EAX = 1 \<Longrightarrow> dispatcher h (mnemonic i) i s = Inr (sint (0xdeadbeef :: u32), wr EAX 0xdeadbeef (adv i s))"
  using dispatcher_row [of 42 h i s] idt_row [of h "0x80"]
  by (simp add: decodes_int_def inss_def instructions_def NINS_def int_i_def int_dispatcher_def int80_def syscalls_shape do_exit_def)

text \<open>The main loop from the first of the two instructions on, wherever they lie.\<close>

lemma exit_prog_runs:
  assumes "var t EIP = a" "cs_disasm cs (mem t) a (r - a) a = Some i" "decodes_mov i"
    and "cs_disasm cs (mem t) (a + 5) (r - (a + 5)) (a + 5) = Some j" "decodes_int j"
  shows "\<exists>s'. blind_loop h cs r t = Some (Inr s') \<and> var s' EAX = 0xdeadbeef \<and> var s' EIP = a + 7"
proof -
  define u where "u = wr EAX 1 (adv i t)"
  have step: "vm_step h cs r t u"
    using assms(1-3) run_mov [OF assms(3), of h t] by (auto simp: vm_step_iff u_def decodes_mov_def)
  have u: "var u EIP = a + 5" "var u EAX = 1" "mem u = mem t"
    using assms(1,3) by (simp_all add: u_def adv_def decodes_mov_def)
  have "vm_end h cs r u (wr EAX 0xdeadbeef (adv j u))"
    by (rule vm_end.end_int [OF _ run_int [OF assms(5) u(2)]])
      (use assms(4,5) u(1,3) in \<open>simp_all add: decodes_int_def exit_code_def\<close>)
  from blind_loop_vm_end [OF this] have "blind_loop h cs r t = Some (Inr (wr EAX 0xdeadbeef (adv j u)))"
    unfolding blind_loop_vm_step [OF step] .
  then show ?thesis using u(1) assms(5) by (simp add: adv_def decodes_int_def)
qed

text \<open>
  C1 (raw program). The raw file with the seven bytes of \<open>mov eax, 1; int 0x80\<close>, under any disassembler that
  decodes the two instructions, runs to its exit: the emulator returns 0 after the second
  instruction, with the exit code in \<open>eax\<close> and \<open>eip\<close> behind the program.
\<close>

theorem raw_exit_program:
  assumes env: "log_ok e" "mem_ok e" "in_file e = Some exit_prog" "delivered e 7 = 7" "cs_open_ok cs"
    and mov: "\<And>m. holds_prog m \<Longrightarrow> \<exists>i. cs_disasm cs m 0 7 0 = Some i \<and> decodes_mov i"
    and int: "\<And>m. holds_prog m \<Longrightarrow> \<exists>i. cs_disasm cs m 5 2 5 = Some i \<and> decodes_int i"
  shows "\<exists>s'. blind_raw_main e h cs argc argv envp = Some (Inr (0, s')) \<and>
    var s' EAX = 0xdeadbeef \<and> var s' EIP = 7"
proof -
  obtain s0 where s0: "initialize True static_init = Inr (1, s0)" using gdt_after_init [of static_init] by blast
  have len: "length exit_prog = 7" by (simp add: exit_prog_def)
  obtain s1 where s1: "put_bytes (PMem 0) 0 exit_prog s0 = Inr s1" "holds_prog (mem s1)"
    using put_bytes_mem [of 0 0 exit_prog s0] by (auto simp: holds_prog_def len MEM_BYTES_def)
  define t where "t = wr EIP 0 s1"
  have rd: "read_raw_file e s0 = Inr (0, 7, t)"
    using env s1(1) by (simp add: read_raw_file_def len t_def Let_def)
  obtain i j where "cs_disasm cs (mem t) 0 (7 - 0) 0 = Some i" "decodes_mov i"
      "cs_disasm cs (mem t) (0 + 5) (7 - (0 + 5)) (0 + 5) = Some j" "decodes_int j"
    using mov [OF s1(2)] int [OF s1(2)] by (auto simp: t_def)
  then obtain s' where "blind_loop h cs 7 t = Some (Inr s')" "var s' EAX = 0xdeadbeef" "var s' EIP = 0 + 7"
    using exit_prog_runs [of t 0] by (force simp: t_def)
  then show ?thesis using env s0 rd by (simp add: blind_raw_main_def)
qed

text \<open>A disassembler that knows the two instructions.\<close>

definition two_insns :: capstone where
  "two_insns = \<lparr>cs_open_ok = True,
     cs_disasm = (\<lambda>m p n a.
       if a = 0 then Some ((insn2 (reg_opd 19 4) (imm_opd 1 4))\<lparr>mnemonic := ''mov'', insn_size := 5, insn_bytes := (\<lambda>_. 0xB8)\<rparr>)
       else if a = 5 then Some ((insn2 (imm_opd 0x80 1) (imm_opd 0 1))\<lparr>mnemonic := ''int'', insn_size := 2, insn_bytes := (\<lambda>_. 0xCD)\<rparr>)
       else None),
     cs_disasm_all = (\<lambda>m p n a. [])\<rparr>"

theorem raw_exit_program_witness:
  "\<exists>s'. blind_raw_main (demo_env\<lparr>in_file := Some exit_prog\<rparr>) idle_host two_insns 3 [[101], [45, 110, 114], [112]] [] =
      Some (Inr (0, s')) \<and> var s' EAX = 0xdeadbeef \<and> var s' EIP = 7"
  by (rule raw_exit_program)
    (simp_all add: demo_env_def two_insns_def decodes_mov_def decodes_int_def sample_defs)

section \<open>The same program in an ELF file\<close>

text \<open>Memory holds the program at an address.\<close>

definition holds_prog_at :: "u32 \<Rightarrow> (u32 \<Rightarrow> u8) \<Rightarrow> bool" where
  "holds_prog_at a m = (\<forall>k < length exit_prog. m (of_nat (unat a + k)) = exit_prog ! k)"

text \<open>
  C2 (ELF program). An ELF file whose segments put the seven bytes of \<open>mov eax, 1; int 0x80\<close> at its entry point,
  below the initial stack, is loaded and runs to its exit with the same result, with \<open>eip\<close> behind the two
  instructions. The number of bytes that the disassembler may read is the number of executable
  sections less \<open>eip\<close>, which wraps around.
\<close>

theorem elf_exit_program:
  assumes env: "log_ok e" "mem_ok e" "in_file e = Some f" "cs_open_ok cs" and elf: "elf_file f eh"
    and aux: "auxv e = Some es" "list_all (\<lambda>(a, v). unat a < 53) es" "2 \<le> length argv"
    and low: "unat (e_entry eh) + 7 + stack_need es argv envp \<le> unat STACK_BOTTOM"
    and code: "\<And>m k. k < length exit_prog \<Longrightarrow>
      image_byte f (loads f eh [0..<unat (e_phnum eh)]) m (unat (e_entry eh) + k) = exit_prog ! k"
    and r: "r = of_nat (length (exec_sections f eh [0..<unat (e_shnum eh)]))"
    and mov: "\<And>m. holds_prog_at (e_entry eh) m \<Longrightarrow>
      \<exists>i. cs_disasm cs m (e_entry eh) (r - e_entry eh) (e_entry eh) = Some i \<and> decodes_mov i"
    and int: "\<And>m. holds_prog_at (e_entry eh) m \<Longrightarrow>
      \<exists>i. cs_disasm cs m (e_entry eh + 5) (r - (e_entry eh + 5)) (e_entry eh + 5) = Some i \<and> decodes_int i"
  shows "\<exists>s'. blind_elf_main e h cs argc argv envp = Some (Inr (0, s')) \<and>
    var s' EAX = 0xdeadbeef \<and> var s' EIP = e_entry eh + 7"
proof -
  obtain s0 where s0: "initialize True static_init = Inr (1, s0)" "var s0 ESP = STACK_BOTTOM"
    using gdt_after_init [of static_init] by blast
  have "elf_symbols False f eh = Inr ([], 0, [])" by (simp add: elf_symbols_def)
  from read_elf_file_built [OF env(1-3) elf this aux, of envp s0 argc ldr_init] low s0(2)
  obtain out l' t m where t: "read_elf_file e False argc argv envp ldr_init s0 = Inr (0, out, l', t)"
    "sheader out = exec_sections f eh [0..<unat (e_shnum eh)]" "var t EIP = e_entry eh"
    "unat (var t ESP) + m = unat STACK_BOTTOM" "m \<le> stack_need es argv envp"
    "\<forall>a < 2 ^ 32. a < unat (var t ESP) \<or> unat STACK_BOTTOM \<le> a \<longrightarrow> mem t (of_nat a) = elf_image f eh (mem s0) a"
    by fastforce
  have "mem t (of_nat (unat (e_entry eh) + k)) = exit_prog ! k" if "k < length exit_prog" for k
  proof -
    have "unat STACK_BOTTOM < 2 ^ 32" "length exit_prog = 7" by (simp_all add: exit_prog_def STACK_BOTTOM_def)
    then show ?thesis
      using t(6) [rule_format, of "unat (e_entry eh) + k"] code [OF that, of "mem s0"] that low t(4,5)
      by (simp add: elf_image_def)
  qed
  then have p: "holds_prog_at (e_entry eh) (mem t)" by (simp add: holds_prog_at_def)
  obtain s' where "blind_loop h cs r t = Some (Inr s')" "var s' EAX = 0xdeadbeef" "var s' EIP = e_entry eh + 7"
    using exit_prog_runs [OF t(3)] mov [OF p] int [OF p] by blast
  then show ?thesis using env(2,4) s0(1) t(1,2) r by (simp add: blind_elf_main_def)
qed

text \<open>A disassembler that knows the two instructions at the entry point of \<open>demo_elf\<close>.\<close>

definition two_at_entry :: capstone where
  "two_at_entry = two_insns\<lparr>cs_disasm := (\<lambda>m p n a. cs_disasm two_insns m p n (a - 0x1000))\<rparr>"

theorem elf_exit_program_witness:
  "\<exists>s'. blind_elf_main demo_env idle_host two_at_entry 3 [[101], [45, 110, 101], [112]] [[65, 61]] = Some (Inr (0, s')) \<and>
    var s' EAX = 0xdeadbeef \<and> var s' EIP = 0x1007"
proof -
  have entry: "e_entry demo_ehdr = 0x1000" by (simp add: demo_ehdr_def)
  have "image_byte demo_elf (loads demo_elf demo_ehdr [0..<unat (e_phnum demo_ehdr)]) m (unat (e_entry demo_ehdr) + k) = exit_prog ! k"
    if "k < length exit_prog" for m k
    using demo_elf_image [of k m] that by (simp add: exit_prog_def elf_image_def entry)
  from elf_exit_program [OF _ _ _ _ demo_elf_file _ _ _ _ this refl, where e = demo_env and cs = two_at_entry
      and es = "[(3, 0), (33, 7), (6, 4096), (0, 0)]" and argv = "[[101], [45, 110, 101], [112]]" and envp = "[[65, 61]]" and argc = 3 and h = idle_host]
  show ?thesis
    by (simp add: demo_env_def entry stack_need_def strings_room_def STACK_BOTTOM_def two_at_entry_def two_insns_def
        decodes_mov_def decodes_int_def sample_defs)
qed

section \<open>The same program in the debugger\<close>

definition raw_line :: "listed \<Rightarrow> line" where
  "raw_line x = \<lparr>l_addr = ucast (address x), l_text = text_of x, l_func = None\<rparr>"

lemma raw_lines_ok:
  "\<forall>i \<in> set js. i < length insn \<Longrightarrow> length insn < 2 ^ 31 \<Longrightarrow> raw_lines insn 0 js = Inr (map (\<lambda>i. raw_line (insn ! i)) js)"
proof (induction js)
  case (Cons j js)
  then have "unat (of_nat j :: u32) = j" by (simp add: unat_of_nat)
  then show ?case using Cons by (simp add: raw_line_def Let_def)
qed simp

text \<open>The screen of a machine that has just been loaded: the first rows of the listing, no register marked
  as changed, an empty stack.\<close>

definition start_screen :: "nat \<Rightarrow> listed list \<Rightarrow> cpu \<Rightarrow> shown" where
  "start_screen rws insn s =
     (let ls = map raw_line (take rws insn) in
      Screen [] (var s) (take (rws - 13) (map Some ls)) (eip_row ls (var s EIP)) 0 [])"

text \<open>The first pass draws it, when the listing fills the rows.\<close>

lemma first_screen:
  assumes "rws \<le> length insn" "length insn < 2 ^ 31" "var s ESP = STACK_BOTTOM" "ch d = 0" "scr_c d = 0" "scr_s d = 0" "vm d = s"
    and "old d = var s"
  shows "\<exists>f. dbg_pass rws (raw_screen rws insn) cmd (Draw, d) =
    Some (Inr (False, No_print, (put_out (start_screen rws insn s) d)\<lparr>old := f\<rparr>))"
proof -
  have "(of_nat (length insn) + 1 :: u64) = of_nat (Suc (length insn))" by simp
  moreover have "unat (of_nat (Suc (length insn)) :: u64) = Suc (length insn)"
    using assms(2) by (simp add: unat_of_nat del: of_nat_Suc)
  ultimately have "unat (of_nat (length insn) + 1 :: u64) = Suc (length insn)" by (simp only:)
  then have n: "n_lines rws (length insn) 0 = rws" using assms(1) by (simp add: n_lines_def)
  have "map (\<lambda>i. raw_line (insn ! i)) [0..<rws] = map raw_line (take rws insn)"
    using assms(1) by (intro nth_equalityI) simp_all
  then have ls: "raw_lines insn 0 [0..<rws] = Inr (map raw_line (take rws insn))"
    using raw_lines_ok [of "[0..<rws]" insn] assms(1,2) by simp
  have w: "stack_window rws 0 s = Inr []"
    using assms(3) by (cases "nat (int rws - H_REGS - 2 - 3)") (auto simp: stack_window_def Let_def)
  have h: "nat (int rws - H_REGS - 5) = rws - 13" by (simp add: H_REGS_def)
  show ?thesis
    using assms(1) by (intro exI [of _ "var s"])
      (simp add: dbg_pass_def assms(4-8) chr_def draw_pass_def raw_screen_def n ls blank_rest_def draw_screen_def w h
        start_screen_def Let_def min_absorb2)
qed

text \<open>The loop of \<open>c\<close> over the two instructions.\<close>

lemma exit_prog_continue:
  assumes "var s EIP = 0" "holds_prog (mem s)" "brk_ctr d = 0"
    and mov: "\<And>m. holds_prog m \<Longrightarrow> \<exists>i. cs_disasm cs m 0 16 0 = Some i \<and> decodes_mov i"
    and int: "\<And>m. holds_prog m \<Longrightarrow> \<exists>i. cs_disasm cs m 5 16 5 = Some i \<and> decodes_int i"
  shows "\<exists>s'. exec_while h cs (brk_cond d) s = Some (Inr (True, s')) \<and> var s' EAX = 0xdeadbeef \<and> var s' EIP = 7"
proof -
  have c: "brk_cond d t = Inr True" for t by (simp add: brk_cond_def contains_spec assms(3))
  obtain i where i: "cs_disasm cs (mem s) 0 16 0 = Some i" "decodes_mov i" using mov [OF assms(2)] by blast
  define u where "u = wr EAX 1 (adv i s)"
  have u: "var u EIP = 5" "var u EAX = 1" "mem u = mem s"
    using i(2) assms(1) by (simp_all add: u_def adv_def decodes_mov_def)
  have step: "exec_step h cs (brk_cond d) s u"
    using i run_mov [OF i(2), of h s] assms(1) by (auto simp: exec_step_iff c exec_ins_def u_def exit_code_def)
  obtain j where j: "cs_disasm cs (mem u) 5 16 5 = Some j" "decodes_int j" using int [OF assms(2)] u(3) by auto
  have "exec_ins h cs u = Inr (True, wr EAX 0xdeadbeef (adv j u))"
    using run_int [OF j(2) u(2), of h] j u(1) by (simp add: exec_ins_def exit_code_def)
  then show ?thesis
    unfolding exec_while_iff using step c u(1) j(2)
    by (intro exI [of _ "wr EAX 0xdeadbeef (adv j u)"]) (auto simp: adv_def decodes_int_def)
qed

text \<open>
  C3 (raw program in the debugger). A raw file that begins with the seven bytes of \<open>mov eax, 1; int 0x80\<close>
  is opened in the debugger, on a terminal of at least 29 columns whose rows are no more than the
  instructions of its listing (with fewer instructions the screen would be drawn from behind the listing), and \<open>c\<close> is
  typed. The function returns 0 with the exit code in \<open>eax\<close> and \<open>eip\<close> behind the two instructions, the
  terminal has its settings again, and it has received, byte by byte, the screen of the loaded machine with
  the first instructions of the listing.
\<close>

theorem raw_exit_debugger:
  assumes env: "log_ok e" "mem_ok e" "in_file e = Some (exit_prog @ pad)" "delivered e (7 + length pad) = 7 + length pad"
      "7 + length pad \<le> MEM_BYTES" "cs_open_ok cs"
    and scr: "on_screen v" "winsize v = Some (r, c)" "typed v = Some 99 # ks"
    and all: "\<And>m. holds_prog m \<Longrightarrow> (let l = cs_disasm_all cs m 0 (7 + of_nat (length pad)) 0 in
      l \<noteq> [] \<and> unat r \<le> length l \<and> length l < 2 ^ 31)"
    and mov: "\<And>m. holds_prog m \<Longrightarrow> \<exists>i. cs_disasm cs m 0 16 0 = Some i \<and> decodes_mov i"
    and int: "\<And>m. holds_prog m \<Longrightarrow> \<exists>i. cs_disasm cs m 5 16 5 = Some i \<and> decodes_int i"
  shows "\<exists>s' u' s0 t g p q. interface_raw_main_ui e h io cs v argc argv envp u = Some (Inr (0, s', u')) \<and>
    var s' EAX = 0xdeadbeef \<and> var s' EIP = 7 \<and> tty u' = tty u \<and>
    initialize True static_init = Inr (1, s0) \<and> read_raw_file e s0 = Inr (0, 7 + of_nat (length pad), t) \<and>
    init_interface (winsize v) (grants v) t (printf clear_screen u) = Inr g \<and>
    printed u' = p @ screen_text (init_raw_mode g) False
      (start_screen (unat r) (cs_disasm_all cs (mem t) 0 (7 + of_nat (length pad)) 0) t) @ q"
proof -
  obtain s0 where s0: "initialize True static_init = Inr (1, s0)" "var s0 ESP = STACK_BOTTOM"
    using gdt_after_init [of static_init] by blast
  have len: "length exit_prog = 7" by (simp add: exit_prog_def)
  obtain s1 where s1: "put_bytes (PMem 0) 0 (exit_prog @ pad) s0 = Inr s1" "var s1 = var s0" "holds_prog (mem s1)"
    using put_bytes_mem [of 0 0 "exit_prog @ pad" s0] env(5) by (auto simp: holds_prog_def len nth_append)
  define t where "t = wr EIP 0 s1"
  have t: "var t EIP = 0" "var t ESP = STACK_BOTTOM" "holds_prog (mem t)" using s0(2) s1(2,3) by (simp_all add: t_def)
  have rd: "read_raw_file e s0 = Inr (0, 7 + of_nat (length pad), t)"
    using env s1(1) by (simp add: read_raw_file_def len t_def Let_def)
  define insn where "insn = cs_disasm_all cs (mem t) 0 (7 + of_nat (length pad)) 0"
  have insn: "insn \<noteq> []" "unat r \<le> length insn" "length insn < 2 ^ 31" using all [OF t(3)] by (simp_all add: insn_def Let_def)
  define d where "d = dbg_init (as_terminal v u) 0 t"
  have d: "ch d = 0" "scr_c d = 0" "scr_s d = 0" "vm d = t" "old d = var t" "brk_ctr d = 0" "shown d = []" "keys d = Some 99 # ks"
    by (simp_all add: d_def dbg_init_def as_terminal_def scr(3) Let_def)
  have rows: "rows (as_terminal v u) = unat r" by (simp add: as_terminal_def scr(2) Let_def)
  let ?cmd = "raw_command h cs insn (7 + of_nat (length pad))"
  let ?p = "dbg_pass (unat r) (raw_screen (unat r) insn) ?cmd"
  define x where "x = start_screen (unat r) insn t"
  obtain f where 1: "?p (Draw, d) = Some (Inr (False, No_print, (put_out x d)\<lparr>old := f\<rparr>))"
    using first_screen [OF insn(2,3) t(2) d(1-5)] by (auto simp: x_def)
  define d1 where "d1 = (put_out x d)\<lparr>old := f, ch := 99, keys := ks\<rparr>"
  have d1: "brk_ctr d1 = 0" "vm d1 = t" "ch d1 = 99" by (simp_all add: d1_def put_out_def d)
  obtain s' where s': "exec_while h cs (brk_cond d1) t = Some (Inr (True, s'))" "var s' EAX = 0xdeadbeef" "var s' EIP = 7"
    using exit_prog_continue [OF t(1,3) d1(1) mov int] by blast
  have "?cmd d1 = Some (Inr (Exit1, d1\<lparr>vm := s'\<rparr>))"
    using s'(1) d1(2) by (simp add: raw_command_def d1(3) chr_def cmd_continue_def after_exec_def)
  then have 2: "?p (No_print, (put_out x d)\<lparr>old := f\<rparr>) = Some (Inr (False, Exit1, d1\<lparr>vm := s'\<rparr>))"
    by (simp add: dbg_pass_def key_pass_def put_out_def d ESC_def d1_def)
  have "?p (Exit1, d1\<lparr>vm := s'\<rparr>) = Some (Inr (True, Exit1, d1\<lparr>vm := s'\<rparr>))" by (simp add: dbg_pass_def)
  with 1 2 have "dbg_loop (unat r) (raw_screen (unat r) insn) ?cmd d = Some (Inr (Exit1, d1\<lparr>vm := s'\<rparr>))"
    unfolding dbg_loop_def by (rule iterate_three)
  then have loop: "dbg_loop (unat r) (raw_screen (unat r) insn) ?cmd (dbg_init (as_terminal v u) 0 t) = Some (Inr (Exit1, d1\<lparr>vm := s'\<rparr>))"
    by (simp add: d_def)
  have i: "insn = cs_disasm_all cs (mem t) 0 (7 + of_nat (length pad) - var t EIP) (var t EIP)" by (simp add: insn_def t(1))
  obtain g w where g: "init_interface (winsize v) (grants v) t (printf clear_screen u) = Inr g"
    "interface_raw_main_ui e h io cs v argc argv envp u = Some (Inr (0, s', disable_raw_mode (exit_interface w)))"
    "prints (init_raw_mode g) False [x] (printed w)"
    using raw_main_run [OF scr(1) env(2) s0(1) rd env(6) i insn(1) rows [symmetric] loop, where io = io and argc = argc and argv = argv and envp = envp]
    by (auto simp: d1_def put_out_def d)
  obtain p q where "printed w = p @ screen_text (init_raw_mode g) False x @ q"
    using prints_member [OF g(3), of x] by (auto simp: shown_text_def x_def start_screen_def Let_def)
  moreover have "printed (disable_raw_mode (exit_interface w)) = printed w" by (simp add: mode_defs exit_interface_def)
  moreover have "\<not> raw_refused e" using env(2) s0(1) rd by (simp add: raw_refused_def)
  then have "tty (disable_raw_mode (exit_interface w)) = tty u" using raw_main_tty [OF _ g(2)] by auto
  ultimately show ?thesis
    using g(1,2) s'(2,3) s0(1) rd unfolding x_def insn_def
    by (intro exI [of _ s'] exI [of _ "disable_raw_mode (exit_interface w)"] exI [of _ s0] exI [of _ t] exI [of _ g] exI [of _ p] exI [of _ q]) simp
qed

text \<open>Its listing fills the two rows of the terminal.\<close>

definition two_listed :: capstone where
  "two_listed = two_insns\<lparr>cs_disasm_all := (\<lambda>m p n a. demo_insn)\<rparr>"

definition two_rows :: screen_env where
  "two_rows = \<lparr>winsize = Some (2, 80), grants = (\<lambda>_. True), typed = [Some 99]\<rparr>"

theorem raw_exit_debugger_witness:
  "\<exists>s' u' s0 t g p q. interface_raw_main_ui (demo_env\<lparr>in_file := Some exit_prog\<rparr>) idle_host (\<lambda>_ _ t. (t, [])) two_listed two_rows 3 [] [] demo_ui =
      Some (Inr (0, s', u')) \<and> var s' EAX = 0xdeadbeef \<and> var s' EIP = 7 \<and> tty u' = tty demo_ui \<and>
    initialize True static_init = Inr (1, s0) \<and> read_raw_file (demo_env\<lparr>in_file := Some exit_prog\<rparr>) s0 = Inr (0, 7, t) \<and>
    init_interface (winsize two_rows) (grants two_rows) t (printf clear_screen demo_ui) = Inr g \<and>
    printed u' = p @ screen_text (init_raw_mode g) False (start_screen 2 demo_insn t) @ q"
  using raw_exit_debugger [where e = "demo_env\<lparr>in_file := Some exit_prog\<rparr>" and pad = "[]" and r = 2 and c = 80 and ks = "[]"
      and v = two_rows and cs = two_listed and u = demo_ui and argc = 3 and argv = "[]" and envp = "[]" and h = idle_host
      and io = "\<lambda>_ _ t. (t, [])"]
  by (simp add: demo_env_def two_listed_def two_insns_def two_rows_def on_screen_def demo_insn_def decodes_mov_def decodes_int_def
      sample_defs exit_prog_def MEM_BYTES_def)

section \<open>The effects of a program\<close>

text \<open>
  C20 (effects of a program). A program that runs to its end in the main loop leaves \<open>gdtr\<close>, \<open>idtr\<close> and
  \<open>ldtr\<close> as they were unless its run fetches LGDT, LIDT or LLDT, and sends nothing to a port unless it
  fetches an instruction of the OUT family; what was sent before stays. The instructions that count are
  those fetched at \<open>eip\<close> in a machine that the run reaches.
\<close>

theorem blind_loop_effects:
  assumes "host_ok h" "blind_loop h cs r s = Some (Inr s')"
  shows "(gdtr s' = gdtr s \<or> ''lgdt'' \<in> fetches h cs r s) \<and> (idtr s' = idtr s \<or> ''lidt'' \<in> fetches h cs r s) \<and>
    (ldtr s' = ldtr s \<or> ''lldt'' \<in> fetches h cs r s) \<and>
    (\<exists>l. outp s' = outp s @ l \<and> (l = [] \<or> fetches h cs r s \<inter> {''out'', ''outs'', ''outsb'', ''outsw'', ''outsd''} \<noteq> {}))"
proof -
  from assms(2) obtain t where t: "(vm_step h cs r)\<^sup>*\<^sup>* s t" "vm_end h cs r t s'"
    by (auto simp: blind_loop_outcome)
  then have "run_effect (fetches h cs r s) s s'"
    using vm_steps_effect [OF t(1)] vm_end_effect [OF _ t] run_effect_trans assms(1) by blast
  then show ?thesis unfolding run_effect_def writes_port_def .
qed

section \<open>The end of a program\<close>

text \<open>The numbers that do no more than clear \<open>eax\<close>, and \<open>set_thread_area\<close>, do not stop the machine.\<close>

lemma quiet_numbers:
  assumes "(syscalls ! n) h s = Inr (0xdeadbeef, s')" "n < 452"
  shows "n < 191 \<or> n = 258"
proof (rule ccontr)
  assume n: "\<not> ?thesis"
  consider "n = 243" | "syscalls ! n = unimpl" using n assms(2) syscalls_tail [of "n - 191"] by force
  then show False
  proof cases
    case 1
    then have "do_set_thread_area h s = Inr (0xdeadbeef, s')" using assms(1) by (simp add: syscalls_shape)
    then show False
      by (auto simp: do_set_thread_area_def Let_def bnd_eq_Inr simp del: load32.simps store32.simps split: option.splits if_splits)
  next
    case 2 then show False using assms(1) by (simp add: unimpl_def)
  qed
qed

lemma int_exit:
  assumes "int_i h i s = Inr (res, s')" "word_of_int res = exit_code"
  shows "\<exists>s1. (ucast (op_imm (op1 i)) :: u8) = 0x80 \<and> unat (var s EAX) < 452 \<and>
    (syscalls ! unat (var s EAX)) h (adv i s) = Inr (0xdeadbeef, s1) \<and> s' = wr EAX 0xdeadbeef s1"
proof -
  have m: "exit_code \<noteq> 0" "exit_code \<noteq> - 1" "exit_code = 0xdeadbeef" by (simp_all add: exit_code_def)
  define v :: u8 where "v = ucast (op_imm (op1 i))"
  have v: "v = 0x80" using assms m by (auto simp: int_i_def v_def [symmetric] int_dispatcher_def idt_row unimplemented_def Let_def split: if_splits)
  moreover have "idt h ! 128 = int80 h" using idt_row [of h "0x80"] by simp
  ultimately show ?thesis
    using assms m by (auto simp: int_i_def v_def [symmetric] int_dispatcher_def int80_def syscalls_shape Let_def
      bnd_eq_Inr split: if_splits)
qed

text \<open>
  C4 (what ends a program). When the main loop returns, either nothing can be disassembled at the \<open>eip\<close> of the
  machine it returns, or the last instruction was INT 0x80 with the opcode byte 0xCD, executed in a machine that the
  run reaches, and the function that the table of system calls has for \<open>eax\<close> answered 0xdeadbeef, which is in \<open>eax\<close>
  afterwards. The number of the call is below 191 (1 is exit) or 258. No other instruction, no other vector and
  no system call beyond those numbers ends a program, whatever is executed.
\<close>

theorem main_loop_ends:
  assumes "host_ok h" "word_of_int (h_junk h) \<noteq> exit_code" "blind_loop h cs r s = Some (Inr s')"
  shows "cs_disasm cs (mem s') (var s' EIP) (r - var s' EIP) (var s' EIP) = None \<or>
    var s' EAX = 0xdeadbeef \<and> (\<exists>t ins s1. (vm_step h cs r)\<^sup>*\<^sup>* s t \<and>
      cs_disasm cs (mem t) (var t EIP) (r - var t EIP) (var t EIP) = Some ins \<and>
      mnemonic ins = ''int'' \<and> insn_bytes ins 0 = 0xCD \<and> (ucast (op_imm (op1 ins)) :: u8) = 0x80 \<and>
      (unat (var t EAX) < 191 \<or> unat (var t EAX) = 258) \<and>
      (syscalls ! unat (var t EAX)) h (adv ins t) = Inr (0xdeadbeef, s1) \<and> s' = wr EAX 0xdeadbeef s1)"
proof -
  obtain t where t: "(vm_step h cs r)\<^sup>*\<^sup>* s t" "vm_end h cs r t s'"
    using assms(3) by (auto simp: blind_loop_outcome)
  from t(2) show ?thesis
  proof cases
    case (end_int ins res)
    have mn: "mnemonic ins = ''int''" by (rule exit_only_int [OF assms(1,2) end_int(2,4)])
    have "dispatcher h ''int'' ins t = int_i h ins t"
      using dispatcher_row [of 42 h ins t] by (simp add: inss_def instructions_def NINS_def)
    with end_int(2) mn have "int_i h ins t = Inr (res, s')" by simp
    from int_exit [OF this end_int(4)] obtain s1 where s1: "(ucast (op_imm (op1 ins)) :: u8) = 0x80"
      "unat (var t EAX) < 452" "(syscalls ! unat (var t EAX)) h (adv ins t) = Inr (0xdeadbeef, s1)" "s' = wr EAX 0xdeadbeef s1"
      by blast
    moreover have "var s' EAX = 0xdeadbeef" using s1(4) by simp
    ultimately show ?thesis using t(1) end_int(1,3) mn quiet_numbers [OF s1(3,2)] by blast
  qed simp
qed

section \<open>The debugger and the main loop\<close>






text \<open>The two instructions, run by both.\<close>

lemma vm_step_unique: "vm_step h cs r s t \<Longrightarrow> vm_step h cs r s u \<Longrightarrow> t = u"
  by (auto simp: vm_step_iff)

lemma vm_end_last: "vm_end h cs r s t \<Longrightarrow> \<not> vm_step h cs r s u"
  by (auto simp: vm_step_iff vm_end_iff)

lemma two_insns_run:
  assumes "var s EIP = 0"
  shows "\<exists>s'. blind_loop h two_insns r s = Some (Inr s') \<and> var s' EAX = 0xdeadbeef \<and>
    (\<forall>t. (vm_step h two_insns r)\<^sup>*\<^sup>* s t \<longrightarrow> var t EIP = 0 \<or> var t EIP = 5)"
proof -
  obtain i where i: "\<And>m n. cs_disasm two_insns m 0 n 0 = Some i" "decodes_mov i"
    by (simp add: two_insns_def decodes_mov_def sample_defs)
  obtain j where j: "\<And>m n. cs_disasm two_insns m 5 n 5 = Some j" "decodes_int j"
    by (simp add: two_insns_def decodes_int_def sample_defs)
  define u where "u = wr EAX 1 (adv i s)"
  have step: "vm_step h two_insns r s u"
    using i run_mov [OF i(2), of h s] assms by (auto simp: vm_step_iff u_def decodes_mov_def)
  have u: "var u EIP = 5" "var u EAX = 1" using i(2) assms by (simp_all add: u_def adv_def decodes_mov_def)
  have e: "vm_end h two_insns r u (wr EAX 0xdeadbeef (adv j u))"
    by (rule vm_end.end_int [OF _ run_int [OF j(2) u(2)]]) (use j u(1) in \<open>simp_all add: decodes_int_def exit_code_def\<close>)
  have "t = s \<or> t = u" if "(vm_step h two_insns r)\<^sup>*\<^sup>* s t" for t
    using that by (induction rule: rtranclp_induct) (auto simp: vm_end_last [OF e] dest: vm_step_unique [OF step])
  then show ?thesis
    using assms u(1) blind_loop_vm_end [OF e] unfolding blind_loop_vm_step [OF step, symmetric] by auto
qed

theorem blind_loop_effects_witness:
  "\<exists>s'. blind_loop idle_host two_insns 7 static_init = Some (Inr s') \<and> gdtr s' = gdtr static_init \<and> outp s' = []"
proof -
  obtain s' where s': "blind_loop idle_host two_insns 7 static_init = Some (Inr s')"
    using two_insns_run [of static_init idle_host 7] by (auto simp: static_init_def)
  have "mn \<notin> fetches idle_host two_insns 7 static_init" if "mn \<in> {''lgdt'', ''out'', ''outs'', ''outsb'', ''outsw'', ''outsd''}" for mn
    using that by (auto simp: fetches_def two_insns_def sample_defs split: if_splits)
  then show ?thesis using blind_loop_effects [OF idle_host_ok s'] s' by (auto simp: static_init_def)
qed


text \<open>A disassembler that finds INT 0x80 everywhere.\<close>

definition always_int :: capstone where
  "always_int = two_insns\<lparr>cs_disasm := (\<lambda>m p n a. cs_disasm two_insns m p n 5)\<rparr>"

theorem main_loop_ends_witness:
  "\<exists>s'. blind_loop idle_host always_int 7 (wr EAX 1 static_init) = Some (Inr s') \<and> var s' EAX = 0xdeadbeef"
proof -
  let ?s = "wr EAX 1 static_init"
  obtain j where j: "\<And>m p n a. cs_disasm always_int m p n a = Some j" "decodes_int j"
    by (simp add: always_int_def two_insns_def decodes_int_def sample_defs)
  have "vm_end idle_host always_int 7 ?s (wr EAX 0xdeadbeef (adv j ?s))"
    by (rule vm_end.end_int [OF _ run_int [OF j(2)]]) (use j in \<open>simp_all add: decodes_int_def exit_code_def\<close>)
  then have run: "blind_loop idle_host always_int 7 ?s = Some (Inr (wr EAX 0xdeadbeef (adv j ?s)))" by (rule blind_loop_vm_end)
  have "word_of_int (h_junk idle_host) \<noteq> exit_code" by (simp add: idle_host_def exit_code_def)
  from main_loop_ends [OF idle_host_ok this run] show ?thesis using run j(1) by auto
qed

section \<open>Stepping over a call\<close>

text \<open>
  C13 (\<open>n\<close> steps over a call). At a CALL the command \<open>n\<close> executes the call, the callee and its return,
  and shows the caller again at the instruction behind the call, with the caller's stack pointer and everything
  else as the callee left it, when the callee reaches a RET with \<open>esp\<close> and the return address as at its entry and
  does not pass the address behind the call before.
\<close>

theorem next_over_call:
  assumes call: "cs_disasm cs (mem s) (var s EIP) 16 (var s EIP) = Some i" "mnemonic i = ''call''"
      "call_i i s = Inr (0, s1)"
    and stop: "stop = var s EIP + ucast (insn_size i)" "stop \<noteq> var s EIP"
    and body: "(exec_step h cs (\<lambda>t. Inr (var t EIP \<noteq> stop)))\<^sup>*\<^sup>* s1 s2" "var s2 ESP = var s1 ESP"
      "read32 (var s1 ESP) s2 = read32 (var s1 ESP) s1"
    and ret: "cs_disasm cs (mem s2) (var s2 EIP) 16 (var s2 EIP) = Some j" "mnemonic j = ''ret''" "op_count j \<noteq> 1"
      "var s2 EIP \<noteq> stop"
    and d: "vm d = s"
  shows "\<exists>s3. cmd_next h cs finder d =
      Some (bnd (finder stop (scr_c d)) (\<lambda>c. Inr (Draw, d\<lparr>vm := s3, scr_c := c, scr_s := 0\<rparr>))) \<and>
    var s3 EIP = stop \<and> var s3 ESP = var s ESP \<and> (\<forall>v. v \<notin> {EIP, ESP} \<longrightarrow> var s3 v = var s2 v) \<and> mem s3 = mem s2"
proof -
  let ?cond = "\<lambda>t. Inr (var t EIP \<noteq> stop)"
  obtain s3 where s3: "ret_i j s2 = Inr (0, s3)" "var s3 EIP = stop" "var s3 ESP = var s ESP"
    "\<forall>v. v \<notin> {EIP, ESP} \<longrightarrow> var s3 v = var s2 v" "mem s3 = mem s2"
    using call_ret [OF call(3) body(2,3) ret(3)] stop(1) by blast
  have "dispatcher h (mnemonic i) i s = Inr (0, s1)"
    using dispatcher_row [of 15 h i s] call(2,3) by (simp add: inss_def instructions_def NINS_def)
  then have "exec_step h cs ?cond s s1"
    using call(1) stop(2) by (simp add: exec_step_iff exec_ins_def exit_code_def)
  moreover have "dispatcher h (mnemonic j) j s2 = Inr (0, s3)"
    using dispatcher_row [of 134 h j s2] ret(2) s3(1) by (simp add: inss_def instructions_def NINS_def)
  then have "exec_step h cs ?cond s2 s3"
    using ret(1,4) by (simp add: exec_step_iff exec_ins_def exit_code_def)
  ultimately have "(exec_step h cs ?cond)\<^sup>*\<^sup>* s s3"
    using body(1) by (meson converse_rtranclp_into_rtranclp rtranclp.rtrancl_into_rtrancl)
  then have "exec_while h cs ?cond s = Some (Inr (False, s3))" unfolding exec_while_iff using s3(2) by simp
  then show ?thesis using call(1) d s3 stop by (auto simp: cmd_next_def Let_def after_exec_def)
qed

text \<open>A call at address 0 of a function at 0x10 that returns at once.\<close>

definition call_insns :: capstone where
  "call_insns = \<lparr>cs_open_ok = True,
     cs_disasm = (\<lambda>m p n a.
       if a = 0 then Some ((insn2 (imm_opd 0x10 4) (imm_opd 0 4))\<lparr>mnemonic := ''call'', insn_size := 5\<rparr>)
       else Some ((insn2 (imm_opd 0 4) (imm_opd 0 4))\<lparr>mnemonic := ''ret'', insn_size := 1\<rparr>)),
     cs_disasm_all = (\<lambda>m p n a. [])\<rparr>"

theorem next_over_call_witness:
  "\<exists>s3. cmd_next idle_host call_insns (\<lambda>a c. Inr 0) ((dbg_init demo_term 0 static_init)\<lparr>vm := wr ESP 0x1000 static_init\<rparr>) =
      Some (Inr (Draw, (dbg_init demo_term 0 static_init)\<lparr>vm := s3, scr_c := 0, scr_s := 0\<rparr>)) \<and>
    var s3 EIP = 5 \<and> var s3 ESP = 0x1000"
proof -
  define s where "s = wr ESP 0x1000 static_init"
  define i where "i = (insn2 (imm_opd 0x10 4) (imm_opd 0 4))\<lparr>mnemonic := ''call'', insn_size := 5\<rparr>"
  define j where "j = (insn2 (imm_opd 0 4) (imm_opd 0 4))\<lparr>mnemonic := ''ret'', insn_size := 1\<rparr>"
  have s: "var s EIP = 0" "var s ESP = 0x1000" by (simp_all add: s_def static_init_def)
  have i: "mnemonic i = ''call''" "insn_size i = 5" "mnemonic j = ''ret''" "op_count j \<noteq> 1"
    by (simp_all add: i_def j_def sample_defs)
  have cs: "cs_disasm call_insns m 0 n 0 = Some i" "a \<noteq> 0 \<Longrightarrow> cs_disasm call_insns m a n a = Some j" for m n a
    by (simp_all add: call_insns_def i_def j_def)
  obtain s1 where s1: "call_i i s = Inr (0, s1)"
    by (simp add: call_i_def target_val_def sample_defs push32_def write32_def idx_ok_def static_init_def ret0_def Let_def s_def i_def)
  then have e: "var s1 EIP = 0x10" by (auto simp: call_i_def ret0_def bnd_eq_Inr Let_def target_val_def i_def sample_defs)
  show ?thesis
    using next_over_call [of call_insns s i s1 5 idle_host s1 j "(dbg_init demo_term 0 static_init)\<lparr>vm := s\<rparr>" "\<lambda>a c. Inr 0"] s1 e s i cs
    by (auto simp: s_def [symmetric])
qed

end
